(* ===== verification/Prelude.thy ===== *)
theory Prelude
  imports Main "HOL-Library.Word" "HOL-Library.Char_ord" "HOL-Library.List_Lexorder"
begin

text \<open>
  What every component shares: the names of the machine types, fallible
  results with the propagation of the Rust operator \<open>?\<close>, Rust strings as
  byte lists in UTF-8, checked and saturating arithmetic, and the
  interface locales that several components provide.
\<close>

section \<open>Types\<close>

type_synonym u64 = "64 word"
type_synonym u32 = "32 word"
type_synonym u16 = "16 word"
type_synonym uuid = "128 word"
type_synonym timestamp = int

abbreviation i64_max :: int where
  "i64_max \<equiv> 9223372036854775807"

named_theorems result_simps \<open>inversion of fallible computations\<close>

section \<open>Fallible results\<close>

definition rbind :: "'e + 'a \<Rightarrow> ('a \<Rightarrow> 'e + 'b) \<Rightarrow> 'e + 'b" where
  "rbind m f = (case m of Inl e \<Rightarrow> Inl e | Inr a \<Rightarrow> f a)"

definition ensure :: "bool \<Rightarrow> 'e \<Rightarrow> 'e + unit" where
  "ensure b e = (if b then Inr () else Inl e)"

definition map_err :: "('e \<Rightarrow> 'f) \<Rightarrow> 'e + 'a \<Rightarrow> 'f + 'a" where
  "map_err g m = (case m of Inl e \<Rightarrow> Inl (g e) | Inr a \<Rightarrow> Inr a)"

definition ok_or :: "'a option \<Rightarrow> 'e \<Rightarrow> 'e + 'a" where
  "ok_or m e = (case m of None \<Rightarrow> Inl e | Some a \<Rightarrow> Inr a)"

primrec try_each :: "('a \<Rightarrow> 'e + unit) \<Rightarrow> 'a list \<Rightarrow> 'e + unit" where
  "try_each f [] = Inr ()"
| "try_each f (x # xs) = rbind (f x) (\<lambda>_. try_each f xs)"

primrec map_result :: "('a \<Rightarrow> 'e + 'b) \<Rightarrow> 'a list \<Rightarrow> 'e + 'b list" where
  "map_result f [] = Inr []"
| "map_result f (x # xs) =
     rbind (f x) (\<lambda>y. rbind (map_result f xs) (\<lambda>ys. Inr (y # ys)))"

abbreviation is_ok :: "'e + 'a \<Rightarrow> bool" where
  "is_ok r \<equiv> \<not> isl r"

lemma rbind_simps [simp]:
  "rbind (Inl e) f = Inl e"
  "rbind (Inr a) f = f a"
  by (simp_all add: rbind_def)

lemma rbind_eq_Inr [result_simps]:
  "rbind m f = Inr b \<longleftrightarrow> (\<exists>a. m = Inr a \<and> f a = Inr b)"
  by (cases m) simp_all

lemma rbind_eq_Inl [result_simps]:
  "rbind m f = Inl e \<longleftrightarrow> m = Inl e \<or> (\<exists>a. m = Inr a \<and> f a = Inl e)"
  by (cases m) simp_all

lemma ensure_simps [simp]:
  "ensure True e = Inr ()"
  "ensure False e = Inl e"
  by (simp_all add: ensure_def)

lemma ensure_eq_Inr [result_simps]: "ensure b e = Inr u \<longleftrightarrow> b"
  by (simp add: ensure_def)

lemma ensure_eq_Inl [result_simps]: "ensure b e = Inl e' \<longleftrightarrow> \<not> b \<and> e' = e"
  by (auto simp: ensure_def)

lemma map_err_simps [simp]:
  "map_err g (Inl e) = Inl (g e)"
  "map_err g (Inr a) = Inr a"
  by (simp_all add: map_err_def)

lemma map_err_eq_Inr [result_simps]: "map_err g m = Inr a \<longleftrightarrow> m = Inr a"
  by (cases m) simp_all

lemma map_err_eq_Inl [result_simps]: "map_err g m = Inl e \<longleftrightarrow> (\<exists>e'. m = Inl e' \<and> e = g e')"
  by (cases m) auto

lemma ok_or_simps [simp]:
  "ok_or None e = Inl e"
  "ok_or (Some a) e = Inr a"
  by (simp_all add: ok_or_def)

lemma ok_or_eq_Inr [result_simps]: "ok_or m e = Inr a \<longleftrightarrow> m = Some a"
  by (cases m) simp_all

lemma ok_or_eq_Inl [result_simps]: "ok_or m e = Inl e' \<longleftrightarrow> m = None \<and> e' = e"
  by (cases m) auto

lemma try_each_eq_Inr [result_simps]:
  "try_each f xs = Inr u \<longleftrightarrow> (\<forall>x \<in> set xs. f x = Inr ())"
  by (induction xs) (auto simp: result_simps)

lemma map_result_eq_Inr [result_simps]:
  "map_result f xs = Inr ys \<longleftrightarrow> list_all2 (\<lambda>x y. f x = Inr y) xs ys"
proof (induction xs arbitrary: ys)
  case Nil
  then show ?case by auto
next
  case (Cons x xs)
  then show ?case by (cases ys) (auto simp: result_simps)
qed

lemma map_result_Inr_map:
  "(\<And>x. x \<in> set xs \<Longrightarrow> f x = Inr (g x)) \<Longrightarrow> map_result f xs = Inr (map g xs)"
  by (induction xs) simp_all

section \<open>Stateful fallible operations\<close>

text \<open>
  An operation on a state returns the state it leaves also when it fails:
  effects that precede an error stay. A transaction either commits or
  leaves the state as it was.
\<close>

type_synonym ('s, 'e, 'a) action = "'s \<Rightarrow> 's \<times> ('e + 'a)"

definition abind :: "('s, 'e, 'a) action \<Rightarrow> ('a \<Rightarrow> ('s, 'e, 'b) action) \<Rightarrow> ('s, 'e, 'b) action" where
  "abind m k s = (case m s of (s', Inl e) \<Rightarrow> (s', Inl e) | (s', Inr a) \<Rightarrow> k a s')"

definition areturn :: "'a \<Rightarrow> ('s, 'e, 'a) action" where
  "areturn a s = (s, Inr a)"

definition afail :: "'e \<Rightarrow> ('s, 'e, 'a) action" where
  "afail e s = (s, Inl e)"

definition alift :: "'e + 'a \<Rightarrow> ('s, 'e, 'a) action" where
  "alift r s = (s, r)"

definition query :: "('s \<Rightarrow> 'e + 'a) \<Rightarrow> ('s, 'e, 'a) action" where
  "query q s = (s, q s)"

definition transaction :: "('s \<Rightarrow> 'e + ('s \<times> 'a)) \<Rightarrow> ('s, 'e, 'a) action" where
  "transaction t s = (case t s of Inl e \<Rightarrow> (s, Inl e) | Inr (s', a) \<Rightarrow> (s', Inr a))"

definition amap_err :: "('e \<Rightarrow> 'f) \<Rightarrow> ('s, 'e, 'a) action \<Rightarrow> ('s, 'f, 'a) action" where
  "amap_err g m s = (case m s of (s', r) \<Rightarrow> (s', map_err g r))"

text \<open>Handling an error where it arises, and dropping a result that is only logged.\<close>

definition acatch :: "('s, 'e, 'a) action \<Rightarrow> ('e \<Rightarrow> ('s, 'f, 'a) action) \<Rightarrow> ('s, 'f, 'a) action" where
  "acatch m h s = (case m s of (s', Inl e) \<Rightarrow> h e s' | (s', Inr a) \<Rightarrow> (s', Inr a))"

definition attempt :: "('s, 'e, 'a) action \<Rightarrow> ('s, 'f, 'e + 'a) action" where
  "attempt m s = (case m s of (s', r) \<Rightarrow> (s', Inr r))"

lemmas action_defs = abind_def areturn_def afail_def alift_def query_def transaction_def amap_err_def

text \<open>
  What an operation keeps: the predicate holds after it, whether it
  succeeds or fails, if it held before.
\<close>

definition keeps :: "('s \<Rightarrow> bool) \<Rightarrow> ('s, 'e, 'a) action \<Rightarrow> bool" where
  "keeps P m \<longleftrightarrow> (\<forall>s. P s \<longrightarrow> P (fst (m s)))"

named_theorems keeps_intros \<open>operations that keep an invariant\<close>

lemma keepsD: "keeps P m \<Longrightarrow> P s \<Longrightarrow> m s = (s', r) \<Longrightarrow> P s'"
  by (fastforce simp: keeps_def)

lemma keeps_abind [keeps_intros]:
  "keeps P m \<Longrightarrow> (\<And>a. keeps P (k a)) \<Longrightarrow> keeps P (abind m k)"
  by (fastforce simp: keeps_def abind_def split: prod.splits sum.splits)

lemma keeps_pure [keeps_intros]:
  "keeps P (areturn a)" "keeps P (afail e)" "keeps P (alift r)" "keeps P (query q)"
  by (simp_all add: keeps_def action_defs)

lemma keeps_transaction [keeps_intros]:
  "(\<And>s s' a. P s \<Longrightarrow> t s = Inr (s', a) \<Longrightarrow> P s') \<Longrightarrow> keeps P (transaction t)"
  by (auto simp: keeps_def transaction_def split: sum.splits prod.splits)

lemma keeps_amap_err [keeps_intros]: "keeps P m \<Longrightarrow> keeps P (amap_err g m)"
  by (auto simp: keeps_def amap_err_def split: prod.splits)

lemma keeps_if [keeps_intros]:
  "(b \<Longrightarrow> keeps P m) \<Longrightarrow> (\<not> b \<Longrightarrow> keeps P n) \<Longrightarrow> keeps P (if b then m else n)"
  by simp

lemma keeps_case_option [keeps_intros]:
  "(x = None \<Longrightarrow> keeps P m) \<Longrightarrow> (\<And>a. x = Some a \<Longrightarrow> keeps P (k a))
   \<Longrightarrow> keeps P (case x of None \<Rightarrow> m | Some a \<Rightarrow> k a)"
  by (cases x) simp_all

lemma keeps_attempt [keeps_intros]: "keeps P m \<Longrightarrow> keeps P (attempt m)"
  by (simp add: keeps_def attempt_def case_prod_unfold)

lemma keeps_case_sum [keeps_intros]:
  "(\<And>a. x = Inl a \<Longrightarrow> keeps P (m a)) \<Longrightarrow> (\<And>a. x = Inr a \<Longrightarrow> keeps P (k a))
   \<Longrightarrow> keeps P (case x of Inl a \<Rightarrow> m a | Inr a \<Rightarrow> k a)"
  by (cases x) simp_all

text \<open>
  Triples: from a state that satisfies the precondition, the operation
  either returns a value that satisfies the normal postcondition or fails
  in a state that satisfies the exceptional one.
\<close>

definition triple ::
    "('s \<Rightarrow> bool) \<Rightarrow> ('s, 'e, 'a) action \<Rightarrow> ('a \<Rightarrow> 's \<Rightarrow> bool) \<Rightarrow> ('e \<Rightarrow> 's \<Rightarrow> bool) \<Rightarrow> bool" where
  "triple P m N E \<longleftrightarrow> (\<forall>s. P s \<longrightarrow> (case m s of (s', Inl e) \<Rightarrow> E e s' | (s', Inr a) \<Rightarrow> N a s'))"

named_theorems triple_intros \<open>triples of the operations\<close>

lemma triple_InrD: "triple P m N E \<Longrightarrow> P s \<Longrightarrow> m s = (s', Inr a) \<Longrightarrow> N a s'"
  by (auto simp: triple_def dest: spec [of _ s])

lemma triple_InlD: "triple P m N E \<Longrightarrow> P s \<Longrightarrow> m s = (s', Inl e) \<Longrightarrow> E e s'"
  by (auto simp: triple_def dest: spec [of _ s])

lemma tripleI:
  "(\<And>s s' a. P s \<Longrightarrow> m s = (s', Inr a) \<Longrightarrow> N a s') \<Longrightarrow> (\<And>s s' e. P s \<Longrightarrow> m s = (s', Inl e) \<Longrightarrow> E e s')
   \<Longrightarrow> triple P m N E"
  by (auto simp: triple_def split: prod.split sum.split)

lemma triple_weaken:
  "triple P m N E \<Longrightarrow> (\<And>s. P' s \<Longrightarrow> P s) \<Longrightarrow> (\<And>a s. N a s \<Longrightarrow> N' a s) \<Longrightarrow> (\<And>e s. E e s \<Longrightarrow> E' e s)
   \<Longrightarrow> triple P' m N' E'"
  by (fastforce simp: triple_def split: prod.splits sum.splits)

lemma triple_abind:
  "triple P m R E \<Longrightarrow> (\<And>a. triple (R a) (k a) N E) \<Longrightarrow> triple P (abind m k) N E"
  by (fastforce simp: triple_def abind_def split: prod.splits sum.splits)

lemma triple_areturn: "(\<And>s. P s \<Longrightarrow> N a s) \<Longrightarrow> triple P (areturn a) N E"
  by (simp add: triple_def areturn_def)

lemma triple_afail: "(\<And>s. P s \<Longrightarrow> E e s) \<Longrightarrow> triple P (afail e) N E"
  by (simp add: triple_def afail_def)

lemma triple_alift:
  "(\<And>s a. P s \<Longrightarrow> r = Inr a \<Longrightarrow> N a s) \<Longrightarrow> (\<And>s e. P s \<Longrightarrow> r = Inl e \<Longrightarrow> E e s) \<Longrightarrow> triple P (alift r) N E"
  by (auto simp: triple_def alift_def split: sum.split)

lemma triple_bind_alift:
  "(\<And>a. r = Inr a \<Longrightarrow> triple P (k a) N E) \<Longrightarrow> (\<And>s e. P s \<Longrightarrow> r = Inl e \<Longrightarrow> E e s)
   \<Longrightarrow> triple P (abind (alift r) k) N E"
  by (cases r) (auto simp: triple_def abind_def alift_def)

lemma triple_if:
  "(b \<Longrightarrow> triple P m N E) \<Longrightarrow> (\<not> b \<Longrightarrow> triple P n N E) \<Longrightarrow> triple P (if b then m else n) N E"
  by simp

lemma triple_case_option:
  "(x = None \<Longrightarrow> triple P m N E) \<Longrightarrow> (\<And>a. x = Some a \<Longrightarrow> triple P (k a) N E)
   \<Longrightarrow> triple P (case x of None \<Rightarrow> m | Some a \<Rightarrow> k a) N E"
  by (cases x) simp_all

lemma triple_case_prod:
  "(\<And>a b. x = (a, b) \<Longrightarrow> triple P (k a b) N E) \<Longrightarrow> triple P (case x of (a, b) \<Rightarrow> k a b) N E"
  by (cases x) simp

lemma triple_pre: "(\<And>s. P s \<Longrightarrow> C) \<Longrightarrow> (C \<Longrightarrow> triple P m N E) \<Longrightarrow> triple P m N E"
  by (auto simp: triple_def)

section \<open>Strings\<close>

text \<open>
  A Rust \<open>str\<close> is its UTF-8 byte list: \<open>len\<close> is \<open>length\<close>, \<open>chars().count()\<close> counts
  the bytes that start a character, and \<open>trim().is_empty()\<close> recognises the
  code points with the Unicode property White Space by their encodings.
\<close>

definition code :: "char \<Rightarrow> nat" where
  "code c = of_char c"

definition is_ascii_lowercase :: "char \<Rightarrow> bool" where
  "is_ascii_lowercase c \<longleftrightarrow> 97 \<le> code c \<and> code c \<le> 122"

definition is_ascii_uppercase :: "char \<Rightarrow> bool" where
  "is_ascii_uppercase c \<longleftrightarrow> 65 \<le> code c \<and> code c \<le> 90"

definition is_ascii_digit :: "char \<Rightarrow> bool" where
  "is_ascii_digit c \<longleftrightarrow> 48 \<le> code c \<and> code c \<le> 57"

definition is_ascii_alphabetic :: "char \<Rightarrow> bool" where
  "is_ascii_alphabetic c \<longleftrightarrow> is_ascii_lowercase c \<or> is_ascii_uppercase c"

definition is_ascii_alphanumeric :: "char \<Rightarrow> bool" where
  "is_ascii_alphanumeric c \<longleftrightarrow> is_ascii_alphabetic c \<or> is_ascii_digit c"

lemmas ascii_defs = is_ascii_lowercase_def is_ascii_uppercase_def is_ascii_digit_def
  is_ascii_alphabetic_def is_ascii_alphanumeric_def code_def

definition is_continuation :: "char \<Rightarrow> bool" where
  "is_continuation c \<longleftrightarrow> 128 \<le> code c \<and> code c < 192"

definition char_count :: "string \<Rightarrow> nat" where
  "char_count s = length (filter (\<lambda>c. \<not> is_continuation c) s)"

definition white1 :: "nat \<Rightarrow> bool" where
  "white1 a \<longleftrightarrow> 9 \<le> a \<and> a \<le> 13 \<or> a = 32"

definition white2 :: "nat \<Rightarrow> nat \<Rightarrow> bool" where
  "white2 a b \<longleftrightarrow> a = 194 \<and> (b = 133 \<or> b = 160)"

definition white3 :: "nat \<Rightarrow> nat \<Rightarrow> nat \<Rightarrow> bool" where
  "white3 a b c \<longleftrightarrow>
     a = 225 \<and> b = 154 \<and> c = 128
   \<or> a = 226 \<and> b = 128 \<and> (128 \<le> c \<and> c \<le> 138 \<or> c = 168 \<or> c = 169 \<or> c = 175)
   \<or> a = 226 \<and> b = 129 \<and> c = 159
   \<or> a = 227 \<and> b = 128 \<and> c = 128"

fun blank_bytes :: "nat list \<Rightarrow> bool" where
  "blank_bytes [] \<longleftrightarrow> True"
| "blank_bytes [a] \<longleftrightarrow> white1 a"
| "blank_bytes [a, b] \<longleftrightarrow> white1 a \<and> white1 b \<or> white2 a b"
| "blank_bytes (a # b # c # s) \<longleftrightarrow>
     (if white1 a then blank_bytes (b # c # s)
      else if white2 a b then blank_bytes (c # s)
      else white3 a b c \<and> blank_bytes s)"

definition is_blank :: "string \<Rightarrow> bool" where
  "is_blank s \<longleftrightarrow> blank_bytes (map code s)"

definition contains_nul :: "string \<Rightarrow> bool" where
  "contains_nul s \<longleftrightarrow> CHR 0x00 \<in> set s"

definition text_ok :: "nat \<Rightarrow> string \<Rightarrow> bool" where
  "text_ok maximum v \<longleftrightarrow> \<not> is_blank v \<and> char_count v \<le> maximum \<and> \<not> contains_nul v"

fun truncate_chars :: "nat \<Rightarrow> string \<Rightarrow> string" where
  "truncate_chars n [] = []"
| "truncate_chars n (c # cs) =
     (if is_continuation c then c # truncate_chars n cs
      else case n of 0 \<Rightarrow> [] | Suc m \<Rightarrow> c # truncate_chars m cs)"

fun split_on :: "char \<Rightarrow> string \<Rightarrow> string list" where
  "split_on d [] = [[]]"
| "split_on d (c # cs) =
     (if c = d then [] # split_on d cs
      else case split_on d cs of [] \<Rightarrow> [[c]] | p # ps \<Rightarrow> (c # p) # ps)"

lemma char_count_simps [simp]:
  "char_count [] = 0"
  "char_count (c # s) = (if is_continuation c then char_count s else Suc (char_count s))"
  by (simp_all add: char_count_def)

lemma char_count_le_length: "char_count s \<le> length s"
  by (simp add: char_count_def)

lemma truncate_chars_count: "char_count (truncate_chars n s) \<le> n"
  by (induction n s rule: truncate_chars.induct) (auto split: nat.split)

lemma truncate_chars_prefix: "\<exists>t. s = truncate_chars n s @ t"
  by (induction n s rule: truncate_chars.induct) (auto split: nat.split)

lemma truncate_chars_id: "char_count s \<le> n \<Longrightarrow> truncate_chars n s = s"
  by (induction n s rule: truncate_chars.induct) (auto split: nat.split if_splits)

lemma set_truncate_chars: "set (truncate_chars n s) \<subseteq> set s"
  by (induction n s rule: truncate_chars.induct) (auto split: nat.split)

lemma is_blank_Nil [simp]: "is_blank []"
  by (simp add: is_blank_def)

lemma blank_bytes_Cons_ascii: "a < 128 \<Longrightarrow> \<not> white1 a \<Longrightarrow> \<not> blank_bytes (a # s)"
  by (cases s rule: blank_bytes.cases; cases "tl s")
     (auto simp: white1_def white2_def white3_def neq_Nil_conv)

lemma is_blank_Cons_ascii: "code c < 128 \<Longrightarrow> \<not> white1 (code c) \<Longrightarrow> \<not> is_blank (c # s)"
  by (simp add: is_blank_def blank_bytes_Cons_ascii)

section \<open>Optional values\<close>

definition is_some_and :: "'a option \<Rightarrow> ('a \<Rightarrow> bool) \<Rightarrow> bool" where
  "is_some_and x p \<longleftrightarrow> (case x of None \<Rightarrow> False | Some a \<Rightarrow> p a)"

primrec flatten :: "'a option list \<Rightarrow> 'a list" where
  "flatten [] = []"
| "flatten (x # xs) = (case x of None \<Rightarrow> flatten xs | Some a \<Rightarrow> a # flatten xs)"

definition within :: "timestamp \<Rightarrow> timestamp \<Rightarrow> timestamp option \<Rightarrow> bool" where
  "within lo hi x \<longleftrightarrow> (\<forall>t. x = Some t \<longrightarrow> lo \<le> t \<and> t \<le> hi)"

definition optional_text_ok :: "nat \<Rightarrow> string option \<Rightarrow> bool" where
  "optional_text_ok m x \<longleftrightarrow> (\<forall>v. x = Some v \<longrightarrow> text_ok m v)"

lemma within_simps [simp]:
  "within lo hi None"
  "within lo hi (Some t) \<longleftrightarrow> lo \<le> t \<and> t \<le> hi"
  by (simp_all add: within_def)

lemma within_mono: "within lo hi x \<Longrightarrow> hi \<le> hi' \<Longrightarrow> within lo hi' x"
  by (auto simp: within_def)

lemma optional_text_ok_simps [simp]:
  "optional_text_ok m None"
  "optional_text_ok m (Some v) \<longleftrightarrow> text_ok m v"
  by (simp_all add: optional_text_ok_def)

lemma flatten_iff [simp]: "a \<in> set (flatten xs) \<longleftrightarrow> Some a \<in> set xs"
  by (induction xs) (auto split: option.split)

lemma not_is_some_and: "\<not> is_some_and x p \<longleftrightarrow> (\<forall>a. x = Some a \<longrightarrow> \<not> p a)"
  by (auto simp: is_some_and_def split: option.splits)

section \<open>Checked and saturating integer arithmetic\<close>

definition checked_succ :: "u64 \<Rightarrow> u64 option" where
  "checked_succ n = (if n = - 1 then None else Some (n + 1))"

lemma word_neq_minus_one: "n \<noteq> (- 1 :: u64) \<Longrightarrow> unat (n + 1) = unat n + 1"
  by (metis add.commute eq_neg_iff_add_eq_0 plus_1_eq_Suc unatSuc)

lemma unat_minus_one_u64: "unat (- 1 :: u64) = 18446744073709551615"
  by (simp add: unsigned_minus_1_eq_mask mask_eq_exp_minus_1)

lemma checked_succ_SomeD: "checked_succ n = Some m \<Longrightarrow> unat m = unat n + 1"
  by (auto simp: checked_succ_def word_neq_minus_one split: if_splits)

lemma checked_succ_None: "checked_succ n = None \<longleftrightarrow> unat n = 18446744073709551615"
  by (metis checked_succ_def option.distinct(1) unat_minus_one_u64 word_unat_eq_iff)

text \<open>Evaluation: the words of the examples are small, so their truncation is the identity.\<close>

lemma take_bit_small [code]:
  "take_bit n (k :: int) = (if 64 \<le> n \<and> 0 \<le> k \<and> k < 18446744073709551616 then k else k mod 2 ^ n)"
proof -
  have "k < 2 ^ n" if "64 \<le> n" "k < 18446744073709551616"
  proof -
    have "(2 :: int) ^ 64 \<le> 2 ^ n" using that(1) by (intro power_increasing) auto
    then show ?thesis using that(2) by simp
  qed
  then show ?thesis by (simp add: take_bit_eq_mod)
qed

section \<open>Interfaces\<close>

text \<open>
  Textual columns: an enumeration is stored by its name and read back by
  parsing it. A provider promises that parsing inverts printing and that
  nothing else parses.
\<close>

locale text_codec =
  fixes as_str :: "'a \<Rightarrow> string"
    and parse :: "string \<Rightarrow> 'e + 'a"
  assumes parse_as_str: "parse (as_str a) = Inr a"
    and as_str_parse: "parse s = Inr a \<Longrightarrow> as_str a = s"
begin

lemma parse_iff: "parse s = Inr a \<longleftrightarrow> s = as_str a"
  using parse_as_str as_str_parse by auto

lemma as_str_inject: "as_str a = as_str b \<longleftrightarrow> a = b"
  using parse_as_str by (metis sum.inject(2))

lemma parse_ok_iff: "(\<exists>a. parse s = Inr a) \<longleftrightarrow> s \<in> range as_str"
  by (auto simp: parse_iff)

end

text \<open>
  Reachability under a step relation, and the contract of an inductive
  invariant.
\<close>

inductive reach :: "('s \<Rightarrow> bool) \<Rightarrow> ('s \<Rightarrow> 's \<Rightarrow> bool) \<Rightarrow> 's \<Rightarrow> bool"
  for init :: "'s \<Rightarrow> bool" and step :: "'s \<Rightarrow> 's \<Rightarrow> bool"
where
  reach_init: "init s \<Longrightarrow> reach init step s"
| reach_step: "reach init step s \<Longrightarrow> step s t \<Longrightarrow> reach init step t"

locale invariant_system =
  fixes init :: "'s \<Rightarrow> bool"
    and step :: "'s \<Rightarrow> 's \<Rightarrow> bool"
    and inv :: "'s \<Rightarrow> bool"
  assumes inv_init: "init s \<Longrightarrow> inv s"
    and inv_step: "inv s \<Longrightarrow> step s t \<Longrightarrow> inv t"
begin

lemma inv_reach: "reach init step s \<Longrightarrow> inv s"
  by (induction rule: reach.induct) (auto intro: inv_init inv_step)

lemma inv_steps: "step\<^sup>*\<^sup>* s t \<Longrightarrow> inv s \<Longrightarrow> inv t"
  by (induction rule: rtranclp_induct) (auto intro: inv_step)

end

end
