(* ===== verification/Server_Domain.thy ===== *)
theory Server_Domain
  imports Prelude
begin

text \<open>
  The control plane's domain layer for servers (\<open>domain/server.rs\<close> and
  \<open>domain/time.rs\<close>): names, specifications and their validation, the
  resolution of a client's definition against stored data, and the
  transitions of a server aggregate.
\<close>

section \<open>Time\<close>

datatype timestamp_error = BeforeUnixEpoch | TimestampOutOfRange | SystemTimeFailed

definition from_millis :: "int \<Rightarrow> timestamp_error + timestamp" where
  "from_millis value = (if value < 0 then Inl BeforeUnixEpoch else Inr value)"

text \<open>
  \<open>SystemClock::now\<close>: the elapsed milliseconds since the epoch as the
  platform reports them, or nothing when the platform clock precedes it.
\<close>

definition system_clock_now :: "nat option \<Rightarrow> timestamp_error + timestamp" where
  "system_clock_now elapsed =
     rbind (ok_or elapsed SystemTimeFailed) (\<lambda>ms.
     rbind (ensure (int ms \<le> i64_max) TimestampOutOfRange) (\<lambda>_.
     from_millis (int ms)))"

lemma from_millis_Inr [result_simps]: "from_millis v = Inr t \<longleftrightarrow> 0 \<le> v \<and> t = v"
  by (auto simp: from_millis_def)

section \<open>Validation errors\<close>

datatype validation_error =
    BlankField string
  | FieldTooLong string nat
  | ControlCharacter string
  | InvalidServerName string
  | NulByte string
  | ZeroValue string
  | EulaNotAccepted
  | TooManyEnvironmentVariables nat
  | InvalidEnvironmentKey string
  | ReservedEnvironmentKey string
  | ZeroGeneration
  | GenerationOverflow
  | ServerMustBeStopped
  | ArchivedServerMustBeStopped
  | ServerArchived
  | DataBackendImmutable
  | DataRepositoryImmutable
  | R2Unavailable
  | InvalidTimestampOrder
  | InvalidPersistedValue string string
  | InvalidComputeIdentifier string string

definition require_non_blank :: "string \<Rightarrow> string \<Rightarrow> validation_error + unit" where
  "require_non_blank field value = ensure (\<not> is_blank value) (BlankField field)"

definition require_maximum_length :: "string \<Rightarrow> string \<Rightarrow> nat \<Rightarrow> validation_error + unit" where
  "require_maximum_length field value maximum =
     ensure (char_count value \<le> maximum) (FieldTooLong field maximum)"

definition reject_nul :: "string \<Rightarrow> string \<Rightarrow> validation_error + unit" where
  "reject_nul field value = ensure (\<not> contains_nul value) (NulByte field)"

fun is_valid_environment_key :: "string \<Rightarrow> bool" where
  "is_valid_environment_key [] \<longleftrightarrow> False"
| "is_valid_environment_key (first # rest) \<longleftrightarrow>
     (first = CHR ''_'' \<or> is_ascii_alphabetic first)
   \<and> list_all (\<lambda>b. b = CHR ''_'' \<or> is_ascii_alphanumeric b) rest"

section \<open>Server names\<close>

definition MAX_SERVER_NAME_CHARS :: nat where "MAX_SERVER_NAME_CHARS = 63"

definition name_edge :: "char \<Rightarrow> bool" where
  "name_edge b \<longleftrightarrow> is_ascii_lowercase b \<or> is_ascii_digit b"

definition server_name_new :: "string \<Rightarrow> validation_error + string" where
  "server_name_new value =
     (if value = [] then Inl (BlankField ''name'')
      else if length value > MAX_SERVER_NAME_CHARS
      then Inl (FieldTooLong ''name'' MAX_SERVER_NAME_CHARS)
      else if \<not> name_edge (hd value) \<or> \<not> name_edge (last value)
           \<or> \<not> list_all (\<lambda>b. name_edge b \<or> b = CHR ''-'') value
      then Inl (InvalidServerName value)
      else Inr value)"

section \<open>Desired state\<close>

datatype desired_state = Running | Stopped

fun desired_state_as_str :: "desired_state \<Rightarrow> string" where
  "desired_state_as_str Running = ''running''"
| "desired_state_as_str Stopped = ''stopped''"

definition desired_state_parse :: "string \<Rightarrow> validation_error + desired_state" where
  "desired_state_parse value =
     (if value = ''running'' then Inr Running
      else if value = ''stopped'' then Inr Stopped
      else Inl (InvalidPersistedValue ''desired_state'' value))"

interpretation desired_state: text_codec desired_state_as_str desired_state_parse
proof
  show "desired_state_parse (desired_state_as_str a) = Inr a" for a
    by (cases a) (simp_all add: desired_state_parse_def)
  show "desired_state_parse s = Inr a \<Longrightarrow> desired_state_as_str a = s" for s a
    by (auto simp: desired_state_parse_def split: if_splits)
qed

section \<open>Specifications\<close>

datatype compute_spec =
    ComputeLocal
  | ComputeAkamai (akamai_region: string) (akamai_type: string) (akamai_image: string)
      (akamai_firewall_id: u64)

record process_spec =
  container_image :: string
  server_type :: string
  version :: string
  host_port :: u16
  stop_timeout_seconds :: u64
  accept_eula :: bool
  environment :: "(string \<times> string) list"

datatype desired_data_spec = DesiredLocalRestic string | DesiredR2Restic

datatype data_backend = LocalRestic | R2Restic

record data_spec =
  backend :: data_backend
  repository :: string

record desired_server_spec =
  desired_compute :: compute_spec
  desired_process :: process_spec
  desired_data :: desired_data_spec

record server_spec =
  compute :: compute_spec
  process :: process_spec
  data :: data_spec

definition RESERVED_ENVIRONMENT_KEYS :: "string list" where
  "RESERVED_ENVIRONMENT_KEYS = [''EULA'', ''TYPE'', ''VERSION'', ''SKIP_SERVER_PROPERTIES'']"

definition is_identifier_byte :: "char \<Rightarrow> bool" where
  "is_identifier_byte b \<longleftrightarrow> is_ascii_alphanumeric b
     \<or> b = CHR ''-'' \<or> b = CHR ''_'' \<or> b = CHR ''/'' \<or> b = CHR ''.''"

fun compute_spec_validate :: "compute_spec \<Rightarrow> validation_error + unit" where
  "compute_spec_validate ComputeLocal = Inr ()"
| "compute_spec_validate (ComputeAkamai r t i f) =
     rbind (try_each (\<lambda>(field, value, maximum).
         rbind (require_non_blank field value) (\<lambda>_.
         rbind (require_maximum_length field value maximum) (\<lambda>_.
         rbind (reject_nul field value) (\<lambda>_.
         ensure (list_all is_identifier_byte value) (InvalidComputeIdentifier field value)))))
       [(''compute.region'', r, 64), (''compute.instance_type'', t, 128), (''compute.image'', i, 256)])
     (\<lambda>_. ensure (f \<noteq> 0) (ZeroValue ''compute.firewall_id''))"

definition validate_text :: "string \<times> string \<times> nat \<Rightarrow> validation_error + unit" where
  "validate_text = (\<lambda>(field, value, maximum).
     rbind (require_non_blank field value) (\<lambda>_.
     rbind (require_maximum_length field value maximum) (\<lambda>_.
     reject_nul field value)))"

definition validate_environment_entry :: "string \<times> string \<Rightarrow> validation_error + unit" where
  "validate_environment_entry = (\<lambda>(key, value).
     rbind (require_non_blank ''process.environment key'' key) (\<lambda>_.
     rbind (require_maximum_length ''process.environment key'' key 128) (\<lambda>_.
     rbind (require_maximum_length ''process.environment value'' value 8192) (\<lambda>_.
     rbind (reject_nul ''process.environment key'' key) (\<lambda>_.
     rbind (reject_nul ''process.environment value'' value) (\<lambda>_.
     rbind (ensure (is_valid_environment_key key) (InvalidEnvironmentKey key)) (\<lambda>_.
     ensure (key \<notin> set RESERVED_ENVIRONMENT_KEYS) (ReservedEnvironmentKey key))))))))"

definition server_spec_validate :: "server_spec \<Rightarrow> validation_error + unit" where
  "server_spec_validate spec = (let p = process spec in
     rbind (compute_spec_validate (compute spec)) (\<lambda>_.
     rbind (try_each validate_text
       [(''process.container_image'', container_image p, 512),
        (''process.server_type'', server_type p, 128),
        (''process.version'', version p, 128),
        (''data.repository'', repository (data spec), 4096)]) (\<lambda>_.
     rbind (ensure (host_port p \<noteq> 0) (ZeroValue ''process.host_port'')) (\<lambda>_.
     rbind (ensure (stop_timeout_seconds p \<noteq> 0) (ZeroValue ''process.stop_timeout_seconds'')) (\<lambda>_.
     rbind (ensure (accept_eula p) EulaNotAccepted) (\<lambda>_.
     rbind (ensure (length (environment p) \<le> 128) (TooManyEnvironmentVariables 128)) (\<lambda>_.
     try_each validate_environment_entry (environment p))))))))"

definition resolve :: "desired_server_spec \<Rightarrow> data_spec option \<Rightarrow> string option
    \<Rightarrow> validation_error + server_spec" where
  "resolve d existing_data r2_repository =
     rbind (case desired_data d of
         DesiredLocalRestic repo \<Rightarrow>
           (case existing_data of
              Some e \<Rightarrow> if backend e \<noteq> LocalRestic then Inl DataBackendImmutable
                        else if repository e \<noteq> repo then Inl DataRepositoryImmutable
                        else Inr e
            | None \<Rightarrow> Inr \<lparr> backend = LocalRestic, repository = repo \<rparr>)
       | DesiredR2Restic \<Rightarrow>
           rbind (case existing_data of
                Some e \<Rightarrow> if backend e = R2Restic then Inr (repository e)
                          else Inl DataBackendImmutable
              | None \<Rightarrow> ok_or r2_repository R2Unavailable)
           (\<lambda>repo. Inr \<lparr> backend = R2Restic, repository = repo \<rparr>))
     (\<lambda>dat. let spec = \<lparr> compute = desired_compute d, process = desired_process d, data = dat \<rparr> in
       rbind (server_spec_validate spec) (\<lambda>_. Inr spec))"

section \<open>The server aggregate\<close>

record server =
  sv_id :: uuid
  sv_name :: string
  sv_generation :: u64
  sv_desired_state :: desired_state
  sv_spec :: server_spec
  sv_current_snapshot_id :: "string option"
  sv_archived_at :: "timestamp option"
  sv_created_at :: timestamp
  sv_updated_at :: timestamp

definition server_new :: "uuid \<Rightarrow> string \<Rightarrow> server_spec \<Rightarrow> timestamp \<Rightarrow> validation_error + server" where
  "server_new ident name spec now =
     rbind (server_spec_validate spec) (\<lambda>_.
     Inr \<lparr> sv_id = ident, sv_name = name, sv_generation = 1, sv_desired_state = Stopped,
           sv_spec = spec, sv_current_snapshot_id = None, sv_archived_at = None,
           sv_created_at = now, sv_updated_at = now \<rparr>)"

definition server_rehydrate :: "server \<Rightarrow> validation_error + server" where
  "server_rehydrate s =
     rbind (ensure (sv_generation s \<noteq> 0) ZeroGeneration) (\<lambda>_.
     rbind (ensure (\<not> sv_updated_at s < sv_created_at s) InvalidTimestampOrder) (\<lambda>_.
     rbind (ensure (case sv_archived_at s of None \<Rightarrow> True
              | Some a \<Rightarrow> \<not> (a < sv_created_at s \<or> a > sv_updated_at s)) InvalidTimestampOrder) (\<lambda>_.
     rbind (ensure (\<not> (sv_archived_at s \<noteq> None \<and> sv_desired_state s \<noteq> Stopped))
              ArchivedServerMustBeStopped) (\<lambda>_.
     rbind (case sv_current_snapshot_id s of None \<Rightarrow> Inr ()
              | Some snapshot_id \<Rightarrow> validate_text (''current_snapshot_id'', snapshot_id, 256)) (\<lambda>_.
     rbind (server_spec_validate (sv_spec s)) (\<lambda>_.
     Inr s))))))"

text \<open>
  The mutating methods take \<open>&mut self\<close> and may fail after a first
  assignment; they return the receiver as they leave it next to the result.
\<close>

definition server_set_desired_state ::
    "desired_state \<Rightarrow> timestamp \<Rightarrow> server \<Rightarrow> server \<times> (validation_error + bool)" where
  "server_set_desired_state ds now s =
     (if sv_archived_at s \<noteq> None then (s, Inl ServerArchived)
      else if sv_desired_state s = ds then (s, Inr False)
      else let s1 = s\<lparr> sv_desired_state := ds \<rparr> in
        (case checked_succ (sv_generation s1) of
           None \<Rightarrow> (s1, Inl GenerationOverflow)
         | Some g \<Rightarrow> (s1\<lparr> sv_generation := g, sv_updated_at := max (sv_updated_at s1) now \<rparr>, Inr True)))"

definition server_update_spec ::
    "server_spec \<Rightarrow> timestamp \<Rightarrow> server \<Rightarrow> server \<times> (validation_error + bool)" where
  "server_update_spec spec now s =
     (case server_spec_validate spec of
        Inl e \<Rightarrow> (s, Inl e)
      | Inr _ \<Rightarrow>
        if sv_archived_at s \<noteq> None then (s, Inl ServerArchived)
        else if sv_spec s = spec then (s, Inr False)
        else if sv_desired_state s \<noteq> Stopped then (s, Inl ServerMustBeStopped)
        else let s1 = s\<lparr> sv_spec := spec \<rparr> in
          (case checked_succ (sv_generation s1) of
             None \<Rightarrow> (s1, Inl GenerationOverflow)
           | Some g \<Rightarrow> (s1\<lparr> sv_generation := g, sv_updated_at := max (sv_updated_at s1) now \<rparr>, Inr True)))"

definition server_archive :: "timestamp \<Rightarrow> server \<Rightarrow> server \<times> (validation_error + bool)" where
  "server_archive now s =
     (if sv_archived_at s \<noteq> None then (s, Inr False)
      else if sv_desired_state s \<noteq> Stopped then (s, Inl ServerMustBeStopped)
      else (case checked_succ (sv_generation s) of
              None \<Rightarrow> (s, Inl GenerationOverflow)
            | Some g \<Rightarrow>
                let updated = max (sv_updated_at s) now in
                (s\<lparr> sv_generation := g, sv_updated_at := updated,
                   sv_archived_at := Some updated \<rparr>, Inr True)))"

section \<open>What validation accepts\<close>

definition dns_label :: "string \<Rightarrow> bool" where
  "dns_label v \<longleftrightarrow> length v \<le> 63 \<and>
     ((\<exists>a. v = [a] \<and> name_edge a)
    \<or> (\<exists>a m z. v = a # m @ [z] \<and> name_edge a \<and> name_edge z
         \<and> (\<forall>b \<in> set m. name_edge b \<or> b = CHR ''-'')))"

lemma name_edge_list_all:
  assumes "v \<noteq> []"
  shows "name_edge (hd v) \<and> name_edge (last v) \<and> list_all (\<lambda>b. name_edge b \<or> b = CHR ''-'') v
     \<longleftrightarrow> (\<exists>a. v = [a] \<and> name_edge a)
       \<or> (\<exists>a m z. v = a # m @ [z] \<and> name_edge a \<and> name_edge z
            \<and> (\<forall>b \<in> set m. name_edge b \<or> b = CHR ''-''))"
proof (cases v)
  case Nil
  with assms show ?thesis by simp
next
  case (Cons a t)
  then show ?thesis by (cases t rule: rev_cases) (auto simp: list_all_iff)
qed

lemma server_name_new_Inr [result_simps]:
  "server_name_new v = Inr n \<longleftrightarrow> n = v \<and> dns_label v"
  using name_edge_list_all [of v]
  by (auto simp: server_name_new_def dns_label_def MAX_SERVER_NAME_CHARS_def)

lemma require_Inr [result_simps]:
  "require_non_blank f v = Inr u \<longleftrightarrow> \<not> is_blank v"
  "require_maximum_length f v m = Inr u \<longleftrightarrow> char_count v \<le> m"
  "reject_nul f v = Inr u \<longleftrightarrow> \<not> contains_nul v"
  by (auto simp: require_non_blank_def require_maximum_length_def reject_nul_def result_simps)

lemma validate_text_Inr [result_simps]: "validate_text (f, v, m) = Inr u \<longleftrightarrow> text_ok m v"
  by (auto simp: validate_text_def text_ok_def result_simps)

definition environment_entry_ok :: "string \<times> string \<Rightarrow> bool" where
  "environment_entry_ok kv \<longleftrightarrow>
     char_count (fst kv) \<le> 128 \<and> char_count (snd kv) \<le> 8192 \<and> \<not> contains_nul (snd kv)
   \<and> is_valid_environment_key (fst kv) \<and> fst kv \<notin> set RESERVED_ENVIRONMENT_KEYS"

fun compute_spec_ok :: "compute_spec \<Rightarrow> bool" where
  "compute_spec_ok ComputeLocal \<longleftrightarrow> True"
| "compute_spec_ok (ComputeAkamai r t i f) \<longleftrightarrow>
     (\<forall>(v, m) \<in> {(r, 64), (t, 128), (i, 256)}.
        v \<noteq> [] \<and> length v \<le> m \<and> list_all is_identifier_byte v) \<and> f \<noteq> 0"

definition server_spec_ok :: "server_spec \<Rightarrow> bool" where
  "server_spec_ok spec \<longleftrightarrow> compute_spec_ok (compute spec)
   \<and> text_ok 512 (container_image (process spec))
   \<and> text_ok 128 (server_type (process spec))
   \<and> text_ok 128 (version (process spec))
   \<and> text_ok 4096 (repository (data spec))
   \<and> host_port (process spec) \<noteq> 0 \<and> stop_timeout_seconds (process spec) \<noteq> 0
   \<and> accept_eula (process spec)
   \<and> length (environment (process spec)) \<le> 128
   \<and> list_all environment_entry_ok (environment (process spec))"

lemma printable_ascii:
  "is_ascii_alphanumeric b \<Longrightarrow> code b < 128 \<and> \<not> white1 (code b) \<and> code b \<noteq> 0"
  "is_identifier_byte b \<Longrightarrow> code b < 128 \<and> \<not> white1 (code b) \<and> code b \<noteq> 0"
  "name_edge b \<Longrightarrow> code b < 128 \<and> \<not> white1 (code b) \<and> code b \<noteq> 0"
  "b = CHR ''_'' \<Longrightarrow> code b < 128 \<and> \<not> white1 (code b) \<and> code b \<noteq> 0"
  by (auto simp: ascii_defs white1_def is_identifier_byte_def name_edge_def)

lemma ascii_text:
  assumes "list_all (\<lambda>b. code b < 128 \<and> \<not> white1 (code b) \<and> code b \<noteq> 0) v"
  shows "char_count v = length v" "\<not> contains_nul v" "is_blank v \<longleftrightarrow> v = []"
proof -
  show "char_count v = length v"
    using assms by (induction v) (auto simp: is_continuation_def)
  show "\<not> contains_nul v"
    using assms by (induction v) (auto simp: contains_nul_def code_def)
  show "is_blank v \<longleftrightarrow> v = []"
    using assms by (cases v) (auto simp: is_blank_Cons_ascii)
qed

lemma identifier_text:
  "list_all is_identifier_byte v \<Longrightarrow> char_count v = length v \<and> \<not> contains_nul v \<and> (is_blank v \<longleftrightarrow> v = [])"
  using ascii_text [of v] printable_ascii(2) by (auto simp: list_all_iff)

lemma valid_key_bytes:
  "is_valid_environment_key k \<Longrightarrow> k \<noteq> [] \<and> (\<forall>b \<in> set k. b = CHR ''_'' \<or> is_ascii_alphanumeric b)"
  by (cases k) (auto simp: list_all_iff is_ascii_alphanumeric_def)

lemma valid_key_text:
  assumes "is_valid_environment_key k"
  shows "\<not> contains_nul k" "\<not> is_blank k"
proof -
  have "code b < 128 \<and> \<not> white1 (code b) \<and> code b \<noteq> 0" if "b \<in> set k" for b
    using valid_key_bytes [OF assms] printable_ascii(1,4) [of b] that by blast
  then have "list_all (\<lambda>b. code b < 128 \<and> \<not> white1 (code b) \<and> code b \<noteq> 0) k"
    by (simp add: list_all_iff)
  then show "\<not> contains_nul k" "\<not> is_blank k"
    using ascii_text valid_key_bytes [OF assms] by auto
qed

lemma compute_spec_validate_Inr [result_simps]:
  "compute_spec_validate c = Inr u \<longleftrightarrow> compute_spec_ok c"
  by (cases c) (auto simp: result_simps identifier_text)

lemma validate_environment_entry_Inr [result_simps]:
  "validate_environment_entry kv = Inr u \<longleftrightarrow> environment_entry_ok kv"
  by (cases kv) (auto simp: validate_environment_entry_def environment_entry_ok_def
      result_simps valid_key_text)

lemma server_spec_validate_Inr [result_simps]:
  "server_spec_validate spec = Inr u \<longleftrightarrow> server_spec_ok spec"
  by (auto simp: server_spec_validate_def server_spec_ok_def Let_def result_simps list_all_iff)

section \<open>Aggregate transitions\<close>

definition server_consistent :: "server \<Rightarrow> bool" where
  "server_consistent s \<longleftrightarrow> sv_generation s \<noteq> 0 \<and> sv_created_at s \<le> sv_updated_at s
   \<and> (\<forall>a. sv_archived_at s = Some a \<longrightarrow>
        sv_created_at s \<le> a \<and> a \<le> sv_updated_at s \<and> sv_desired_state s = Stopped)
   \<and> (\<forall>i. sv_current_snapshot_id s = Some i \<longrightarrow> text_ok 256 i)
   \<and> server_spec_ok (sv_spec s)"

definition server_wf :: "server \<Rightarrow> bool" where
  "server_wf s \<longleftrightarrow> server_consistent s \<and> dns_label (sv_name s) \<and> 0 \<le> sv_created_at s"

lemma server_rehydrate_Inr [result_simps]:
  "server_rehydrate s = Inr s' \<longleftrightarrow> s' = s \<and> server_consistent s"
  by (cases "sv_archived_at s"; cases "sv_current_snapshot_id s")
     (auto simp: server_rehydrate_def server_consistent_def result_simps)

lemma server_new_Inr [result_simps]:
  "server_new i n spec now = Inr s \<longleftrightarrow> server_spec_ok spec \<and>
     s = \<lparr> sv_id = i, sv_name = n, sv_generation = 1, sv_desired_state = Stopped,
           sv_spec = spec, sv_current_snapshot_id = None, sv_archived_at = None,
           sv_created_at = now, sv_updated_at = now \<rparr>"
  by (auto simp: server_new_def result_simps)

lemma server_new_wf:
  "server_new i n spec now = Inr s \<Longrightarrow> dns_label n \<Longrightarrow> 0 \<le> now \<Longrightarrow> server_wf s"
  by (auto simp: result_simps server_wf_def server_consistent_def)

datatype server_command =
    SetDesiredState desired_state
  | UpdateSpec server_spec
  | Archive

fun run_command ::
    "server_command \<Rightarrow> timestamp \<Rightarrow> server \<Rightarrow> server \<times> (validation_error + bool)" where
  "run_command (SetDesiredState ds) now s = server_set_desired_state ds now s"
| "run_command (UpdateSpec spec) now s = server_update_spec spec now s"
| "run_command Archive now s = server_archive now s"

text \<open>
  The contract of the three mutating methods: a reported change is one new
  version of a server that was not archived, and it may only touch the
  desired state, the specification and the archive mark.
\<close>

definition next_version :: "timestamp \<Rightarrow> server \<Rightarrow> server \<Rightarrow> bool" where
  "next_version now s s' \<longleftrightarrow>
     sv_archived_at s = None
   \<and> unat (sv_generation s') = unat (sv_generation s) + 1
   \<and> sv_updated_at s' = max (sv_updated_at s) now
   \<and> sv_id s' = sv_id s \<and> sv_name s' = sv_name s \<and> sv_created_at s' = sv_created_at s
   \<and> sv_current_snapshot_id s' = sv_current_snapshot_id s"

lemma run_command_versions:
  assumes "run_command c now s = (s', Inr True)"
  shows "next_version now s s'"
  using assms
  by (cases c)
     (auto simp: server_set_desired_state_def server_update_spec_def server_archive_def Let_def
        next_version_def split: if_splits option.splits sum.splits dest: checked_succ_SomeD)

lemma run_command_unchanged:
  "run_command c now s = (s', Inr False) \<Longrightarrow> s' = s"
  by (cases c)
     (auto simp: server_set_desired_state_def server_update_spec_def server_archive_def Let_def
        split: if_splits option.splits sum.splits)

lemma checked_succ_neq_0: "checked_succ n = Some m \<Longrightarrow> m \<noteq> 0"
  by (metis checked_succ_SomeD add_is_0 one_neq_zero unat_0)

lemma run_command_wf:
  assumes "server_wf s" "run_command c now s = (s', Inr b)"
  shows "server_wf s'"
  using assms
  by (cases c)
     (auto simp: server_set_desired_state_def server_update_spec_def server_archive_def Let_def
        server_wf_def server_consistent_def result_simps le_max_iff_disj
        split: if_splits option.splits sum.splits dest: checked_succ_neq_0)

section \<open>Resolution of a definition\<close>

lemma resolve_Inr:
  assumes "resolve desired existing r2 = Inr spec"
  shows "server_spec_ok spec" "compute spec = desired_compute desired" "process spec = desired_process desired"
    "existing = Some d \<Longrightarrow> data spec = d"
    "desired_data desired = DesiredLocalRestic repo \<Longrightarrow> data spec = \<lparr> backend = LocalRestic, repository = repo \<rparr>"
    "desired_data desired = DesiredR2Restic \<Longrightarrow> backend (data spec) = R2Restic"
    "existing = None \<Longrightarrow> desired_data desired = DesiredR2Restic \<Longrightarrow> Some (repository (data spec)) = r2"
  using assms
  by (auto simp: resolve_def Let_def result_simps split: desired_data_spec.splits option.splits if_splits)

section \<open>Properties\<close>

text \<open>
  C23. The outcome of parsing a server name, on every input: the empty name
  is blank, a name of more than 63 bytes is too long, and of the remaining
  ones exactly the DNS labels (lower-case letters and digits, with inner
  hyphens) are accepted, unchanged.
\<close>

theorem server_name_outcome:
  "server_name_new v =
     (if v = [] then Inl (BlankField ''name'')
      else if 63 < length v then Inl (FieldTooLong ''name'' 63)
      else if dns_label v then Inr v else Inl (InvalidServerName v))"
proof (cases "dns_label v")
  case True
  then show ?thesis using server_name_new_Inr [of v v] by (auto simp: dns_label_def)
next
  case False
  then show ?thesis
    using server_name_new_Inr [of v v]
    by (auto simp: server_name_new_def MAX_SERVER_NAME_CHARS_def split: if_splits)
qed

text \<open>
  C24. The contract of the aggregate's commands (set the desired state,
  update the specification, archive) on a well-formed server: a command
  that succeeds leaves a well-formed server; a reported change is exactly
  one new version of a server that was not archived, which touches neither
  the identity, the name, the creation time nor the current snapshot; a
  command that reports no change leaves the server as it was. An archived
  server rejects every change.
\<close>

theorem server_commands_versioned:
  assumes "server_wf s" "run_command c now s = (s', r)"
  shows "(\<forall>b. r = Inr b \<longrightarrow> server_wf s' \<and> (if b then next_version now s s' else s' = s))
    \<and> (sv_archived_at s \<noteq> None \<longrightarrow> s' = s \<and> r \<noteq> Inr True)"
proof -
  have "s' = s \<and> r \<noteq> Inr True" if "sv_archived_at s \<noteq> None"
    using assms(2) that
    by (cases c) (auto simp: server_set_desired_state_def server_update_spec_def server_archive_def
        split: sum.splits)
  then show ?thesis
    using run_command_wf [OF assms(1)] run_command_versions run_command_unchanged assms(2) by auto
qed

definition sample_server :: server where
  "sample_server = \<lparr> sv_id = 1, sv_name = ''lobby'', sv_generation = 1, sv_desired_state = Stopped,
     sv_spec = \<lparr> compute = ComputeLocal,
       process = \<lparr> container_image = ''itzg/minecraft-server'', server_type = ''VANILLA'',
         version = ''LATEST'', host_port = 25565, stop_timeout_seconds = 30, accept_eula = True,
         environment = [(''MEMORY'', ''2G'')] \<rparr>,
       data = \<lparr> backend = LocalRestic, repository = ''/srv/restic'' \<rparr> \<rparr>,
     sv_current_snapshot_id = None, sv_archived_at = None, sv_created_at = 1000, sv_updated_at = 1000 \<rparr>"

lemma sample_server_wf: "server_wf sample_server"
proof -
  have "server_name_new ''lobby'' = Inr ''lobby''" by code_simp
  then have "dns_label ''lobby''" by (simp add: result_simps)
  moreover have "server_rehydrate sample_server = Inr sample_server" by code_simp
  ultimately show ?thesis by (simp add: result_simps server_wf_def sample_server_def)
qed

theorem server_commands_versioned_witness:
  "next_version 5000 sample_server (fst (run_command (SetDesiredState Running) 5000 sample_server))"
proof -
  have "snd (run_command (SetDesiredState Running) 5000 sample_server) = Inr True" by code_simp
  then show ?thesis
    using server_commands_versioned [OF sample_server_wf prod.collapse [symmetric],
        of "SetDesiredState Running" 5000] by auto
qed

text \<open>
  C25. Resolving a definition against the data of an existing server never
  moves its data: if it succeeds, the resolved specification is valid, keeps
  the stored backend and repository, and takes compute and process from the
  definition. A new server that asks for R2 gets the repository derived for
  it.
\<close>

theorem resolve_keeps_data:
  assumes "resolve desired existing r2 = Inr spec"
  shows "server_spec_ok spec \<and> compute spec = desired_compute desired \<and> process spec = desired_process desired
    \<and> (\<forall>d. existing = Some d \<longrightarrow> data spec = d)
    \<and> (\<forall>repo. desired_data desired = DesiredLocalRestic repo \<longrightarrow>
         data spec = \<lparr> backend = LocalRestic, repository = repo \<rparr>)
    \<and> (existing = None \<and> desired_data desired = DesiredR2Restic \<longrightarrow>
         backend (data spec) = R2Restic \<and> Some (repository (data spec)) = r2)"
  using resolve_Inr [OF assms] by blast

theorem resolve_keeps_data_witness:
  "\<exists>spec. resolve \<lparr> desired_compute = ComputeLocal, desired_process = process (sv_spec sample_server),
        desired_data = DesiredR2Restic \<rparr> None (Some ''s3:https://r2.example/b/servers/lobby/restic'') = Inr spec
     \<and> repository (data spec) = ''s3:https://r2.example/b/servers/lobby/restic''"
proof -
  let ?d = "\<lparr> desired_compute = ComputeLocal, desired_process = process (sv_spec sample_server),
        desired_data = DesiredR2Restic \<rparr>"
  let ?r = "resolve ?d None (Some ''s3:https://r2.example/b/servers/lobby/restic'')"
  have "\<not> isl ?r" by code_simp
  then obtain spec where "?r = Inr spec" by (metis sum.collapse(2))
  then show ?thesis using resolve_keeps_data [OF \<open>?r = Inr spec\<close>] by auto
qed

end
