(* ===== verification/Instance_Domain.thy ===== *)
theory Instance_Domain
  imports Server_Domain
begin

text \<open>
  Server instances (\<open>domain/server_instance.rs\<close>): one attempt to run a
  server, identified by a fencing token, and the consistency every stored
  instance is checked for when it is read back.
\<close>

datatype terminal_result = Completed | Failed

datatype instance_validation_error =
    SI_ZeroServerGeneration
  | SI_ZeroFencingToken
  | SI_InvalidResolvedSpec validation_error
  | SI_IncompleteTerminalState
  | SI_MissingProcessObservation
  | SI_InvalidTimestampOrder
  | SI_BlankField string
  | SI_NulByte string
  | SI_FieldTooLong string nat
  | SI_BlankLastError
  | SI_InvalidPersistedValue string string

fun terminal_result_as_str :: "terminal_result \<Rightarrow> string" where
  "terminal_result_as_str Completed = ''completed''"
| "terminal_result_as_str Failed = ''failed''"

definition terminal_result_parse :: "string \<Rightarrow> instance_validation_error + terminal_result" where
  "terminal_result_parse value =
     (if value = ''completed'' then Inr Completed
      else if value = ''failed'' then Inr Failed
      else Inl (SI_InvalidPersistedValue ''terminal_result'' value))"

interpretation terminal_result: text_codec terminal_result_as_str terminal_result_parse
proof
  show "terminal_result_parse (terminal_result_as_str a) = Inr a" for a
    by (cases a) (simp_all add: terminal_result_parse_def)
  show "terminal_result_parse s = Inr a \<Longrightarrow> terminal_result_as_str a = s" for s a
    by (auto simp: terminal_result_parse_def split: if_splits)
qed

record server_instance =
  si_id :: uuid
  si_server_id :: uuid
  si_server_generation :: u64
  si_resolved_spec :: server_spec
  si_fencing_token :: u64
  si_source_snapshot_id :: "string option"
  si_data_prepared_at :: "timestamp option"
  si_process_running :: bool
  si_process_observed_at :: "timestamp option"
  si_result_snapshot_id :: "string option"
  si_stop_requested_at :: "timestamp option"
  si_terminated_at :: "timestamp option"
  si_terminal_result :: "terminal_result option"
  si_last_error :: "string option"
  si_created_at :: timestamp
  si_updated_at :: timestamp

definition si_is_active :: "server_instance \<Rightarrow> bool" where
  "si_is_active i \<longleftrightarrow> si_terminated_at i = None"

definition validate_instance_snapshot ::
    "string \<times> string option \<Rightarrow> instance_validation_error + unit" where
  "validate_instance_snapshot = (\<lambda>(field, value).
     rbind (ensure (\<not> is_some_and value is_blank) (SI_BlankField field)) (\<lambda>_.
     rbind (ensure (\<not> is_some_and value contains_nul) (SI_NulByte field)) (\<lambda>_.
     ensure (\<not> is_some_and value (\<lambda>v. char_count v > 256)) (SI_FieldTooLong field 256))))"

definition instance_rehydrate :: "server_instance \<Rightarrow> instance_validation_error + server_instance" where
  "instance_rehydrate i =
     rbind (ensure (si_server_generation i \<noteq> 0) SI_ZeroServerGeneration) (\<lambda>_.
     rbind (ensure (si_fencing_token i \<noteq> 0) SI_ZeroFencingToken) (\<lambda>_.
     rbind (map_err SI_InvalidResolvedSpec (server_spec_validate (si_resolved_spec i))) (\<lambda>_.
     rbind (ensure ((si_terminated_at i \<noteq> None) = (si_terminal_result i \<noteq> None))
              SI_IncompleteTerminalState) (\<lambda>_.
     rbind (ensure (\<not> (si_process_running i \<and> si_process_observed_at i = None))
              SI_MissingProcessObservation) (\<lambda>_.
     rbind (ensure (\<not> is_some_and (si_last_error i) is_blank) SI_BlankLastError) (\<lambda>_.
     rbind (ensure (\<not> is_some_and (si_last_error i) contains_nul) (SI_NulByte ''last_error'')) (\<lambda>_.
     rbind (ensure (\<not> is_some_and (si_last_error i) (\<lambda>m. char_count m > 8192))
              (SI_FieldTooLong ''last_error'' 8192)) (\<lambda>_.
     rbind (try_each (\<lambda>value. ensure (\<not> (value < si_created_at i \<or> value > si_updated_at i))
                SI_InvalidTimestampOrder)
              (flatten [si_data_prepared_at i, si_process_observed_at i,
                        si_stop_requested_at i, si_terminated_at i])) (\<lambda>_.
     rbind (ensure (\<not> si_updated_at i < si_created_at i) SI_InvalidTimestampOrder) (\<lambda>_.
     rbind (case si_terminated_at i of None \<Rightarrow> Inr ()
              | Some terminated \<Rightarrow>
                  try_each (\<lambda>prior. ensure (\<not> terminated < prior) SI_InvalidTimestampOrder)
                    (flatten [si_data_prepared_at i, si_process_observed_at i,
                              si_stop_requested_at i])) (\<lambda>_.
     rbind (try_each validate_instance_snapshot
              [(''source_snapshot_id'', si_source_snapshot_id i),
               (''result_snapshot_id'', si_result_snapshot_id i)]) (\<lambda>_.
     Inr i))))))))))))"

section \<open>What rehydration accepts\<close>

definition instance_consistent :: "server_instance \<Rightarrow> bool" where
  "instance_consistent i \<longleftrightarrow>
     si_server_generation i \<noteq> 0 \<and> si_fencing_token i \<noteq> 0
   \<and> server_spec_ok (si_resolved_spec i)
   \<and> (si_terminated_at i = None \<longleftrightarrow> si_terminal_result i = None)
   \<and> (si_process_running i \<longrightarrow> si_process_observed_at i \<noteq> None)
   \<and> optional_text_ok 8192 (si_last_error i)
   \<and> si_created_at i \<le> si_updated_at i
   \<and> within (si_created_at i) (si_updated_at i) (si_terminated_at i)
   \<and> (let latest = (case si_terminated_at i of None \<Rightarrow> si_updated_at i | Some t \<Rightarrow> t) in
        within (si_created_at i) latest (si_data_prepared_at i)
      \<and> within (si_created_at i) latest (si_process_observed_at i)
      \<and> within (si_created_at i) latest (si_stop_requested_at i))
   \<and> optional_text_ok 256 (si_source_snapshot_id i)
   \<and> optional_text_ok 256 (si_result_snapshot_id i)"

lemma validate_instance_snapshot_Inr [result_simps]:
  "validate_instance_snapshot (f, x) = Inr u \<longleftrightarrow> optional_text_ok 256 x"
  by (cases x) (auto simp: validate_instance_snapshot_def is_some_and_def text_ok_def result_simps)

lemma instance_rehydrate_Inr [result_simps]:
  "instance_rehydrate i = Inr i' \<longleftrightarrow> i' = i \<and> instance_consistent i"
proof -
  have le: "optional_text_ok 8192 (si_last_error i) \<longleftrightarrow>
      \<not> is_some_and (si_last_error i) is_blank \<and> \<not> is_some_and (si_last_error i) contains_nul
    \<and> \<not> is_some_and (si_last_error i) (\<lambda>m. char_count m > 8192)"
    by (auto simp: optional_text_ok_def not_is_some_and text_ok_def)
  show ?thesis
    by (cases "si_terminated_at i"; cases "si_data_prepared_at i";
        cases "si_process_observed_at i"; cases "si_stop_requested_at i")
       (auto simp: instance_rehydrate_def instance_consistent_def result_simps le not_less Let_def
          simp del: flatten_iff)
qed

end
