(* ===== verification/Compute_Domain.thy ===== *)
theory Compute_Domain
  imports Server_Domain
begin

text \<open>
  Compute instances (\<open>domain/compute_instance.rs\<close>): the node a server
  instance runs on, the two providers, and the checks on reading one back.
  \<open>Ipv4Addr::from_str\<close> of the standard library is modelled for the public
  address.
\<close>

datatype compute_provider = LocalProcess | Akamai

datatype compute_terminal_result = ComputeDeleted | ComputeFailed

datatype compute_validation_error =
    CI_BlankField string
  | CI_InvalidProviderFields compute_provider
  | CI_InvalidPublicIpv4 string
  | CI_IncompleteTerminalState
  | CI_InvalidTimestampOrder
  | CI_NulByte string
  | CI_FieldTooLong string nat
  | CI_InvalidPersistedValue string string

fun compute_provider_as_str :: "compute_provider \<Rightarrow> string" where
  "compute_provider_as_str LocalProcess = ''local_process''"
| "compute_provider_as_str Akamai = ''akamai''"

definition compute_provider_parse :: "string \<Rightarrow> compute_validation_error + compute_provider" where
  "compute_provider_parse value =
     (if value = ''local_process'' then Inr LocalProcess
      else if value = ''akamai'' then Inr Akamai
      else Inl (CI_InvalidPersistedValue ''provider'' value))"

fun compute_terminal_result_as_str :: "compute_terminal_result \<Rightarrow> string" where
  "compute_terminal_result_as_str ComputeDeleted = ''deleted''"
| "compute_terminal_result_as_str ComputeFailed = ''failed''"

definition compute_terminal_result_parse ::
    "string \<Rightarrow> compute_validation_error + compute_terminal_result" where
  "compute_terminal_result_parse value =
     (if value = ''deleted'' then Inr ComputeDeleted
      else if value = ''failed'' then Inr ComputeFailed
      else Inl (CI_InvalidPersistedValue ''terminal_result'' value))"

interpretation compute_provider: text_codec compute_provider_as_str compute_provider_parse
proof
  show "compute_provider_parse (compute_provider_as_str a) = Inr a" for a
    by (cases a) (simp_all add: compute_provider_parse_def)
  show "compute_provider_parse s = Inr a \<Longrightarrow> compute_provider_as_str a = s" for s a
    by (auto simp: compute_provider_parse_def split: if_splits)
qed

interpretation compute_terminal: text_codec compute_terminal_result_as_str compute_terminal_result_parse
proof
  show "compute_terminal_result_parse (compute_terminal_result_as_str a) = Inr a" for a
    by (cases a) (simp_all add: compute_terminal_result_parse_def)
  show "compute_terminal_result_parse s = Inr a \<Longrightarrow> compute_terminal_result_as_str a = s" for s a
    by (auto simp: compute_terminal_result_parse_def split: if_splits)
qed

section \<open>Public addresses\<close>

fun digits_value :: "nat \<Rightarrow> string \<Rightarrow> nat" where
  "digits_value acc [] = acc"
| "digits_value acc (c # cs) = digits_value (acc * 10 + (code c - 48)) cs"

definition ipv4_octet :: "string \<Rightarrow> bool" where
  "ipv4_octet s \<longleftrightarrow> s \<noteq> [] \<and> length s \<le> 3 \<and> list_all is_ascii_digit s
     \<and> (length s > 1 \<longrightarrow> hd s \<noteq> CHR ''0'') \<and> digits_value 0 s \<le> 255"

definition ipv4_parses :: "string \<Rightarrow> bool" where
  "ipv4_parses s \<longleftrightarrow> (let parts = split_on CHR ''.'' s in
     length parts = 4 \<and> list_all ipv4_octet parts)"

section \<open>The aggregate\<close>

record compute_instance =
  ci_id :: uuid
  ci_server_instance_id :: uuid
  ci_provider :: compute_provider
  ci_provider_instance_id :: "string option"
  ci_public_ipv4 :: "string option"
  ci_connection_token :: string
  ci_enrollment_token :: "string option"
  ci_process_id :: "u32 option"
  ci_agent_connected_at :: "timestamp option"
  ci_shutdown_requested_at :: "timestamp option"
  ci_terminated_at :: "timestamp option"
  ci_terminal_result :: "compute_terminal_result option"
  ci_failure_message :: "string option"
  ci_created_at :: timestamp
  ci_updated_at :: timestamp

definition ci_is_active :: "compute_instance \<Rightarrow> bool" where
  "ci_is_active c \<longleftrightarrow> ci_terminated_at c = None"

definition validate_required :: "string \<Rightarrow> string \<Rightarrow> nat \<Rightarrow> compute_validation_error + unit" where
  "validate_required field value maximum =
     rbind (ensure (\<not> is_blank value) (CI_BlankField field)) (\<lambda>_.
     rbind (ensure (\<not> contains_nul value) (CI_NulByte field)) (\<lambda>_.
     ensure (char_count value \<le> maximum) (CI_FieldTooLong field maximum)))"

definition validate_optional ::
    "string \<Rightarrow> string option \<Rightarrow> nat \<Rightarrow> compute_validation_error + unit" where
  "validate_optional field value maximum =
     (case value of None \<Rightarrow> Inr () | Some v \<Rightarrow> validate_required field v maximum)"

definition validate_provider_fields :: "compute_instance \<Rightarrow> compute_validation_error + unit" where
  "validate_provider_fields c =
     (case ci_provider c of
        LocalProcess \<Rightarrow>
          ensure (\<not> (ci_provider_instance_id c \<noteq> None \<or> ci_public_ipv4 c \<noteq> None
                    \<or> ci_enrollment_token c \<noteq> None)) (CI_InvalidProviderFields LocalProcess)
      | Akamai \<Rightarrow>
          rbind (ensure (ci_process_id c = None) (CI_InvalidProviderFields Akamai)) (\<lambda>_.
          case ci_public_ipv4 c of None \<Rightarrow> Inr ()
          | Some address \<Rightarrow> ensure (ipv4_parses address) (CI_InvalidPublicIpv4 address)))"

definition compute_rehydrate :: "compute_instance \<Rightarrow> compute_validation_error + compute_instance" where
  "compute_rehydrate c =
     rbind (validate_required ''connection_token'' (ci_connection_token c) 256) (\<lambda>_.
     rbind (validate_optional ''enrollment_token'' (ci_enrollment_token c) 256) (\<lambda>_.
     rbind (validate_optional ''provider_instance_id'' (ci_provider_instance_id c) 256) (\<lambda>_.
     rbind (validate_optional ''public_ipv4'' (ci_public_ipv4 c) 64) (\<lambda>_.
     rbind (validate_provider_fields c) (\<lambda>_.
     rbind (ensure ((ci_terminated_at c \<noteq> None) = (ci_terminal_result c \<noteq> None))
              CI_IncompleteTerminalState) (\<lambda>_.
     rbind (try_each (\<lambda>t. ensure (\<not> (t < ci_created_at c \<or> t > ci_updated_at c))
                CI_InvalidTimestampOrder)
              (flatten [ci_agent_connected_at c, ci_shutdown_requested_at c, ci_terminated_at c])) (\<lambda>_.
     rbind (ensure (\<not> ci_updated_at c < ci_created_at c) CI_InvalidTimestampOrder) (\<lambda>_.
     rbind (case ci_terminated_at c of None \<Rightarrow> Inr ()
              | Some terminated \<Rightarrow>
                  try_each (\<lambda>prior. ensure (\<not> terminated < prior) CI_InvalidTimestampOrder)
                    (flatten [ci_agent_connected_at c, ci_shutdown_requested_at c])) (\<lambda>_.
     rbind (validate_optional ''failure_message'' (ci_failure_message c) 8192) (\<lambda>_.
     Inr c))))))))))"

section \<open>What rehydration accepts\<close>

definition provider_fields_ok :: "compute_instance \<Rightarrow> bool" where
  "provider_fields_ok c \<longleftrightarrow>
     (case ci_provider c of
        LocalProcess \<Rightarrow> ci_provider_instance_id c = None \<and> ci_public_ipv4 c = None
          \<and> ci_enrollment_token c = None
      | Akamai \<Rightarrow> ci_process_id c = None \<and> (\<forall>a. ci_public_ipv4 c = Some a \<longrightarrow> ipv4_parses a))"

definition compute_consistent :: "compute_instance \<Rightarrow> bool" where
  "compute_consistent c \<longleftrightarrow>
     text_ok 256 (ci_connection_token c) \<and> optional_text_ok 256 (ci_enrollment_token c)
   \<and> optional_text_ok 256 (ci_provider_instance_id c) \<and> optional_text_ok 64 (ci_public_ipv4 c)
   \<and> provider_fields_ok c
   \<and> (ci_terminated_at c = None \<longleftrightarrow> ci_terminal_result c = None)
   \<and> ci_created_at c \<le> ci_updated_at c
   \<and> within (ci_created_at c) (ci_updated_at c) (ci_terminated_at c)
   \<and> (let latest = (case ci_terminated_at c of None \<Rightarrow> ci_updated_at c | Some t \<Rightarrow> t) in
        within (ci_created_at c) latest (ci_agent_connected_at c)
      \<and> within (ci_created_at c) latest (ci_shutdown_requested_at c))
   \<and> optional_text_ok 8192 (ci_failure_message c)"

lemma validate_required_Inr [result_simps]:
  "validate_required f v m = Inr u \<longleftrightarrow> text_ok m v"
  by (auto simp: validate_required_def text_ok_def result_simps)

lemma validate_optional_Inr [result_simps]:
  "validate_optional f x m = Inr u \<longleftrightarrow> optional_text_ok m x"
  by (cases x) (auto simp: validate_optional_def result_simps)

lemma validate_provider_fields_Inr [result_simps]:
  "validate_provider_fields c = Inr u \<longleftrightarrow> provider_fields_ok c"
  by (cases "ci_provider c"; cases "ci_public_ipv4 c")
     (auto simp: validate_provider_fields_def provider_fields_ok_def result_simps)

lemma compute_rehydrate_Inr [result_simps]:
  "compute_rehydrate c = Inr c' \<longleftrightarrow> c' = c \<and> compute_consistent c"
  by (cases "ci_terminated_at c"; cases "ci_agent_connected_at c"; cases "ci_shutdown_requested_at c")
     (auto simp: compute_rehydrate_def compute_consistent_def result_simps not_less Let_def
        simp del: flatten_iff)

end
