(* ===== verification/Database.thy ===== *)
theory Database
  imports Instance_Domain Compute_Domain
begin

text \<open>
  The SQLite database (\<open>migrations/*.sql\<close>): its four tables as lists of rows
  in insertion order, the schema's constraints, and the execution of a
  write. A write whose outcome violates the schema fails and leaves the
  database as it was; a transaction is one such write. Columns keep their
  storage types: 64-bit integers are \<open>int\<close>, enumerations are text. JSON
  columns hold the specification they encode, and identifiers the UUID
  their text denotes.
\<close>

section \<open>Rows\<close>

record server_row =
  s_id :: uuid
  s_name :: string
  s_generation :: int
  s_desired_state :: string
  s_spec :: server_spec
  s_current_snapshot_id :: "string option"
  s_next_fencing_token :: int
  s_archived_at_ms :: "int option"
  s_created_at_ms :: int
  s_updated_at_ms :: int

record instance_row =
  i_id :: uuid
  i_server_id :: uuid
  i_server_generation :: int
  i_resolved_spec :: server_spec
  i_fencing_token :: int
  i_source_snapshot_id :: "string option"
  i_data_prepared_at_ms :: "int option"
  i_process_running :: bool
  i_process_observed_at_ms :: "int option"
  i_result_snapshot_id :: "string option"
  i_stop_requested_at_ms :: "int option"
  i_terminated_at_ms :: "int option"
  i_terminal_result :: "string option"
  i_last_error :: "string option"
  i_created_at_ms :: int
  i_updated_at_ms :: int

record compute_row =
  c_id :: uuid
  c_server_instance_id :: uuid
  c_provider :: string
  c_provider_instance_id :: "string option"
  c_public_ipv4 :: "string option"
  c_connection_token :: string
  c_enrollment_token :: "string option"
  c_agent_csr_pem :: "string option"
  c_agent_certificate_chain_pem :: "string option"
  c_agent_certificate_der :: "string option"
  c_agent_certificate_expires_at_ms :: "int option"
  c_process_id :: "int option"
  c_agent_connected_at_ms :: "int option"
  c_shutdown_requested_at_ms :: "int option"
  c_terminated_at_ms :: "int option"
  c_terminal_result :: "string option"
  c_failure_message :: "string option"
  c_created_at_ms :: int
  c_updated_at_ms :: int

record snapshot_row =
  n_id :: string
  n_server_id :: uuid
  n_server_instance_id :: uuid
  n_fencing_token :: int
  n_created_at_ms :: int

record database =
  servers :: "server_row list"
  server_instances :: "instance_row list"
  compute_instances :: "compute_row list"
  snapshots :: "snapshot_row list"

definition empty_database :: database where
  "empty_database = \<lparr> servers = [], server_instances = [], compute_instances = [], snapshots = [] \<rparr>"

section \<open>Schema constraints\<close>

text \<open>SQL \<open>trim\<close> strips spaces only, and \<open>length\<close> counts characters.\<close>

definition sql_text :: "nat \<Rightarrow> string \<Rightarrow> bool" where
  "sql_text m v \<longleftrightarrow> \<not> list_all (\<lambda>c. c = CHR '' '') v \<and> char_count v \<le> m \<and> \<not> contains_nul v"

definition null_or :: "('a \<Rightarrow> bool) \<Rightarrow> 'a option \<Rightarrow> bool" where
  "null_or p x \<longleftrightarrow> (case x of None \<Rightarrow> True | Some a \<Rightarrow> p a)"

definition coalesce :: "'a option \<Rightarrow> 'a \<Rightarrow> 'a" where
  "coalesce x d = (case x of None \<Rightarrow> d | Some a \<Rightarrow> a)"

definition sql_int :: "int \<Rightarrow> bool" where
  "sql_int v \<longleftrightarrow> - i64_max - 1 \<le> v \<and> v \<le> i64_max"

lemma null_or_simps [simp]:
  "null_or p None"
  "null_or p (Some a) \<longleftrightarrow> p a"
  by (simp_all add: null_or_def)

lemma coalesce_simps [simp]:
  "coalesce None d = d"
  "coalesce (Some a) d = a"
  by (simp_all add: coalesce_def)

definition server_row_check :: "server_row \<Rightarrow> bool" where
  "server_row_check r \<longleftrightarrow> sql_text 128 (s_name r) \<and> s_generation r > 0
   \<and> s_desired_state r \<in> {''running'', ''stopped''}
   \<and> null_or (sql_text 256) (s_current_snapshot_id r)
   \<and> s_next_fencing_token r > 0 \<and> sql_int (s_next_fencing_token r)
   \<and> s_created_at_ms r \<ge> 0 \<and> s_updated_at_ms r \<ge> s_created_at_ms r
   \<and> null_or (\<lambda>a. a \<ge> s_created_at_ms r \<and> a \<le> s_updated_at_ms r \<and> s_desired_state r = ''stopped'')
       (s_archived_at_ms r)"

definition instance_row_check :: "instance_row \<Rightarrow> bool" where
  "instance_row_check r \<longleftrightarrow> (let between = null_or (\<lambda>t. i_created_at_ms r \<le> t \<and> t \<le> i_updated_at_ms r) in
     i_server_generation r > 0 \<and> i_fencing_token r > 0
   \<and> null_or (sql_text 256) (i_source_snapshot_id r)
   \<and> null_or (sql_text 256) (i_result_snapshot_id r)
   \<and> null_or (\<lambda>t. t \<in> {''completed'', ''failed''}) (i_terminal_result r)
   \<and> null_or (sql_text 8192) (i_last_error r)
   \<and> i_created_at_ms r \<ge> 0 \<and> i_updated_at_ms r \<ge> i_created_at_ms r
   \<and> (i_terminated_at_ms r = None \<longleftrightarrow> i_terminal_result r = None)
   \<and> (i_process_running r \<longrightarrow> i_process_observed_at_ms r \<noteq> None)
   \<and> (i_terminated_at_ms r = None \<or> \<not> i_process_running r)
   \<and> between (i_data_prepared_at_ms r) \<and> between (i_process_observed_at_ms r)
   \<and> between (i_stop_requested_at_ms r) \<and> between (i_terminated_at_ms r)
   \<and> null_or (\<lambda>t. t \<ge> max (max (coalesce (i_data_prepared_at_ms r) 0)
         (coalesce (i_process_observed_at_ms r) 0)) (coalesce (i_stop_requested_at_ms r) 0))
       (i_terminated_at_ms r))"

definition compute_row_check :: "compute_row \<Rightarrow> bool" where
  "compute_row_check r \<longleftrightarrow> (let between = null_or (\<lambda>t. c_created_at_ms r \<le> t \<and> t \<le> c_updated_at_ms r) in
     c_provider r \<in> {''local_process'', ''akamai''}
   \<and> null_or (sql_text 256) (c_provider_instance_id r)
   \<and> null_or (sql_text 64) (c_public_ipv4 r)
   \<and> sql_text 256 (c_connection_token r)
   \<and> null_or (sql_text 256) (c_enrollment_token r)
   \<and> null_or (\<lambda>v. v \<noteq> [] \<and> char_count v \<le> 32768 \<and> \<not> contains_nul v) (c_agent_csr_pem r)
   \<and> null_or (\<lambda>v. v \<noteq> [] \<and> char_count v \<le> 65536 \<and> \<not> contains_nul v) (c_agent_certificate_chain_pem r)
   \<and> null_or (\<lambda>v. 1 \<le> length v \<and> length v \<le> 65536) (c_agent_certificate_der r)
   \<and> null_or (\<lambda>t. t \<ge> 0) (c_agent_certificate_expires_at_ms r)
   \<and> null_or (\<lambda>p. p > 0) (c_process_id r)
   \<and> null_or (\<lambda>t. t \<in> {''deleted'', ''failed''}) (c_terminal_result r)
   \<and> null_or (sql_text 8192) (c_failure_message r)
   \<and> c_created_at_ms r \<ge> 0 \<and> c_updated_at_ms r \<ge> c_created_at_ms r
   \<and> (c_terminated_at_ms r = None \<longleftrightarrow> c_terminal_result r = None)
   \<and> (c_provider r = ''local_process'' \<and> c_provider_instance_id r = None \<and> c_public_ipv4 r = None
        \<and> c_enrollment_token r = None \<and> c_agent_csr_pem r = None
        \<and> c_agent_certificate_chain_pem r = None \<and> c_agent_certificate_der r = None
        \<and> c_agent_certificate_expires_at_ms r = None
      \<or> c_provider r = ''akamai'' \<and> c_process_id r = None)
   \<and> (c_agent_csr_pem r = None \<and> c_agent_certificate_chain_pem r = None
        \<and> c_agent_certificate_der r = None \<and> c_agent_certificate_expires_at_ms r = None
      \<or> c_agent_csr_pem r \<noteq> None \<and> c_agent_certificate_chain_pem r \<noteq> None
        \<and> c_agent_certificate_der r \<noteq> None \<and> c_agent_certificate_expires_at_ms r \<noteq> None)
   \<and> null_or (\<lambda>t. t \<ge> c_created_at_ms r) (c_agent_certificate_expires_at_ms r)
   \<and> between (c_agent_connected_at_ms r) \<and> between (c_shutdown_requested_at_ms r)
   \<and> between (c_terminated_at_ms r)
   \<and> null_or (\<lambda>t. t \<ge> max (coalesce (c_agent_connected_at_ms r) 0)
         (coalesce (c_shutdown_requested_at_ms r) 0)) (c_terminated_at_ms r))"

definition snapshot_row_check :: "snapshot_row \<Rightarrow> bool" where
  "snapshot_row_check r \<longleftrightarrow> sql_text 256 (n_id r) \<and> n_fencing_token r > 0 \<and> n_created_at_ms r \<ge> 0"

definition check_constraints :: "database \<Rightarrow> bool" where
  "check_constraints db \<longleftrightarrow>
     list_all server_row_check (servers db)
   \<and> list_all instance_row_check (server_instances db)
   \<and> list_all compute_row_check (compute_instances db)
   \<and> list_all snapshot_row_check (snapshots db)"

definition foreign_keys :: "database \<Rightarrow> bool" where
  "foreign_keys db \<longleftrightarrow>
     list_all (\<lambda>r. i_server_id r \<in> s_id ` set (servers db)) (server_instances db)
   \<and> list_all (\<lambda>r. c_server_instance_id r \<in> i_id ` set (server_instances db)) (compute_instances db)
   \<and> list_all (\<lambda>r. n_server_id r \<in> s_id ` set (servers db)
        \<and> n_server_instance_id r \<in> i_id ` set (server_instances db)) (snapshots db)"

definition i_active :: "instance_row \<Rightarrow> bool" where
  "i_active r \<longleftrightarrow> i_terminated_at_ms r = None"

definition c_active :: "compute_row \<Rightarrow> bool" where
  "c_active r \<longleftrightarrow> c_terminated_at_ms r = None"

definition unique_constraints :: "database \<Rightarrow> bool" where
  "unique_constraints db \<longleftrightarrow>
     distinct (map s_id (servers db)) \<and> distinct (map s_name (servers db))
   \<and> distinct (map i_id (server_instances db))
   \<and> distinct (map (\<lambda>r. (i_server_id r, i_fencing_token r)) (server_instances db))
   \<and> distinct (map i_server_id (filter i_active (server_instances db)))
   \<and> distinct (map c_id (compute_instances db))
   \<and> distinct (map c_server_instance_id (filter c_active (compute_instances db)))
   \<and> distinct (map (\<lambda>r. (n_server_id r, n_id r)) (snapshots db))
   \<and> distinct (map (\<lambda>r. (n_server_id r, n_fencing_token r)) (snapshots db))"

datatype database_failure = CheckViolation | UniqueViolation | ForeignKeyViolation

datatype repository_error =
    RDatabase database_failure
  | RMigration
  | RSerialization
  | RValidation validation_error
  | RTimestamp timestamp_error
  | RInstanceValidation instance_validation_error
  | RComputeValidation compute_validation_error
  | RCorruptData string
  | RIntegerOutOfRange
  | RConflict string
  | RInvalidArchiveState

definition is_unique_violation :: "database_failure \<Rightarrow> bool" where
  "is_unique_violation e \<longleftrightarrow> e = UniqueViolation"

definition execute :: "database \<Rightarrow> database_failure + database" where
  "execute db =
     rbind (ensure (check_constraints db) CheckViolation) (\<lambda>_.
     rbind (ensure (unique_constraints db) UniqueViolation) (\<lambda>_.
     rbind (ensure (foreign_keys db) ForeignKeyViolation) (\<lambda>_.
     Inr db)))"

definition schema :: "database \<Rightarrow> bool" where
  "schema db \<longleftrightarrow> check_constraints db \<and> unique_constraints db \<and> foreign_keys db"

lemma execute_Inr [result_simps]: "execute db = Inr db' \<longleftrightarrow> db' = db \<and> schema db"
  by (auto simp: execute_def schema_def result_simps)

section \<open>Statements\<close>

definition select_one :: "('r \<Rightarrow> bool) \<Rightarrow> 'r list \<Rightarrow> 'r option" where
  "select_one p rows = find p rows"

definition sql_update :: "('r \<Rightarrow> bool) \<Rightarrow> ('r \<Rightarrow> 'r) \<Rightarrow> 'r list \<Rightarrow> 'r list" where
  "sql_update p f rows = map (\<lambda>r. if p r then f r else r) rows"

definition rows_affected :: "('r \<Rightarrow> bool) \<Rightarrow> 'r list \<Rightarrow> nat" where
  "rows_affected p rows = length (filter p rows)"

text \<open>
  The contract of an \<open>UPDATE\<close> whose \<open>WHERE\<close> clause fixes the primary key and
  whose \<open>SET\<close> clause keeps it.
\<close>

locale row_update =
  fixes key :: "'r \<Rightarrow> 'k"
    and cond :: "'r \<Rightarrow> bool"
    and assign :: "'r \<Rightarrow> 'r"
  assumes pinned: "cond r \<Longrightarrow> cond r' \<Longrightarrow> key r = key r'"
    and keeps_key: "cond r \<Longrightarrow> key (assign r) = key r"
begin

lemma map_key: "map key (sql_update cond assign rows) = map key rows"
  by (simp add: sql_update_def keeps_key)

lemma affected_le: "distinct (map key rows) \<Longrightarrow> rows_affected cond rows \<le> 1"
proof (induction rows)
  case (Cons r rows)
  then show ?case
    by (cases "cond r")
       (auto simp: rows_affected_def filter_empty_conv dest: pinned intro: image_eqI)
qed (simp add: rows_affected_def)

lemma affected_one:
  "distinct (map key rows) \<Longrightarrow> rows_affected cond rows = 1 \<longleftrightarrow> (\<exists>r \<in> set rows. cond r)"
  using affected_le [of rows]
  by (metis One_nat_def filter_empty_conv le_less_Suc_eq length_0_conv less_one
      linorder_not_less not_less_eq rows_affected_def nat_less_le)

lemma select_update:
  "select_one (\<lambda>r. key r = k) (sql_update cond assign rows) =
   map_option (\<lambda>r. if cond r then assign r else r) (select_one (\<lambda>r. key r = k) rows)"
  by (induction rows) (auto simp: select_one_def sql_update_def keeps_key)

lemma set_update:
  "set (sql_update cond assign rows) =
     (\<lambda>r. assign r) ` {r \<in> set rows. cond r} \<union> {r \<in> set rows. \<not> cond r}"
  by (auto simp: sql_update_def)

end

lemma sql_update_id: "(\<And>r. r \<in> set rows \<Longrightarrow> \<not> p r) \<Longrightarrow> sql_update p f rows = rows"
  by (induction rows) (auto simp: sql_update_def)

lemma list_all_sql_update:
  "(\<And>r. r \<in> set rows \<Longrightarrow> q r \<Longrightarrow> p r \<Longrightarrow> q (f r)) \<Longrightarrow> list_all q rows \<Longrightarrow> list_all q (sql_update p f rows)"
  by (auto simp: sql_update_def list_all_iff)

lemma map_sql_update_cong:
  "(\<And>r. p r \<Longrightarrow> g (f r) = g r) \<Longrightarrow> map g (sql_update p f rows) = map g rows"
  by (simp add: sql_update_def)

lemma select_one_SomeD: "select_one p rows = Some r \<Longrightarrow> r \<in> set rows \<and> p r"
  by (auto simp: select_one_def find_Some_iff)

lemma select_one_key:
  "distinct (map key rows) \<Longrightarrow> select_one (\<lambda>r. key r = k) rows = Some r \<longleftrightarrow> r \<in> set rows \<and> key r = k"
  by (induction rows) (auto simp: select_one_def intro: rev_image_eqI)

lemma select_one_None: "select_one p rows = None \<longleftrightarrow> (\<forall>r \<in> set rows. \<not> p r)"
  by (auto simp: select_one_def find_None_iff)

end
