(* ===== verification/Server_Repository.thy ===== *)
theory Server_Repository
  imports Database
begin

text \<open>
  \<open>infrastructure/server_repository.rs\<close>: the \<open>servers\<close> table behind the server
  aggregate. Every operation takes the database and returns the database
  it leaves with its result; an error leaves it unchanged.
\<close>

section \<open>Integers and decoding\<close>

definition positive_u64_to_i64 :: "u64 \<Rightarrow> repository_error + int" where
  "positive_u64_to_i64 value =
     (if value = 0 then Inl RIntegerOutOfRange
      else if uint value \<le> i64_max then Inr (uint value) else Inl RIntegerOutOfRange)"

definition i64_to_positive_u64 :: "int \<Rightarrow> repository_error + u64" where
  "i64_to_positive_u64 value =
     (if value < 0 then Inl RIntegerOutOfRange
      else let v = word_of_int value :: u64 in
        if v = 0 then Inl RIntegerOutOfRange else Inr v)"

definition generation_to_i64 :: "u64 \<Rightarrow> repository_error + int" where
  "generation_to_i64 generation = positive_u64_to_i64 generation"

definition decode_timestamp :: "int \<Rightarrow> repository_error + timestamp" where
  "decode_timestamp value = map_err RTimestamp (from_millis value)"

definition optional_timestamp :: "int option \<Rightarrow> repository_error + timestamp option" where
  "optional_timestamp value =
     (case value of None \<Rightarrow> Inr None | Some v \<Rightarrow> rbind (decode_timestamp v) (\<lambda>t. Inr (Some t)))"

definition decode_server :: "server_row \<Rightarrow> repository_error + server" where
  "decode_server r =
     rbind (map_err RValidation (server_name_new (s_name r))) (\<lambda>name.
     rbind (i64_to_positive_u64 (s_generation r)) (\<lambda>generation.
     rbind (map_err RValidation (desired_state_parse (s_desired_state r))) (\<lambda>desired.
     rbind (optional_timestamp (s_archived_at_ms r)) (\<lambda>archived_at.
     rbind (decode_timestamp (s_created_at_ms r)) (\<lambda>created_at.
     rbind (decode_timestamp (s_updated_at_ms r)) (\<lambda>updated_at.
     map_err RValidation (server_rehydrate
       \<lparr> sv_id = s_id r, sv_name = name, sv_generation = generation, sv_desired_state = desired,
         sv_spec = s_spec r, sv_current_snapshot_id = s_current_snapshot_id r,
         sv_archived_at = archived_at, sv_created_at = created_at,
         sv_updated_at = updated_at \<rparr>)))))))"

definition decode_optional :: "('r \<Rightarrow> repository_error + 'a) \<Rightarrow> 'r option \<Rightarrow> repository_error + 'a option" where
  "decode_optional decode row =
     (case row of None \<Rightarrow> Inr None | Some r \<Rightarrow> rbind (decode r) (\<lambda>a. Inr (Some a)))"

section \<open>Operations\<close>

definition insert_server :: "server \<Rightarrow> int \<Rightarrow> database \<Rightarrow> database" where
  "insert_server s generation db = db\<lparr> servers := servers db @
     [\<lparr> s_id = sv_id s, s_name = sv_name s, s_generation = generation,
        s_desired_state = desired_state_as_str (sv_desired_state s), s_spec = sv_spec s,
        s_current_snapshot_id = sv_current_snapshot_id s, s_next_fencing_token = 1,
        s_archived_at_ms = sv_archived_at s, s_created_at_ms = sv_created_at s,
        s_updated_at_ms = sv_updated_at s \<rparr>] \<rparr>"

definition server_create :: "server \<Rightarrow> database \<Rightarrow> repository_error + database" where
  "server_create s db =
     rbind (generation_to_i64 (sv_generation s)) (\<lambda>generation.
     case execute (insert_server s generation db) of
       Inr db' \<Rightarrow> Inr db'
     | Inl e \<Rightarrow> if is_unique_violation e then Inl (RConflict ''server name already exists'')
               else Inl (RDatabase e))"

definition server_get :: "uuid \<Rightarrow> database \<Rightarrow> repository_error + server option" where
  "server_get ident db = decode_optional decode_server (select_one (\<lambda>r. s_id r = ident) (servers db))"

definition server_get_by_name :: "string \<Rightarrow> database \<Rightarrow> repository_error + server option" where
  "server_get_by_name name db =
     decode_optional decode_server (select_one (\<lambda>r. s_name r = name) (servers db))"

definition server_list :: "bool \<Rightarrow> database \<Rightarrow> repository_error + server list" where
  "server_list include_archived db =
     map_result decode_server
       (sort_key (\<lambda>r. s_name r) (sort_key (\<lambda>r. s_id r)
         (filter (\<lambda>r. s_archived_at_ms r = None \<or> include_archived) (servers db))))"

definition list_for_reconciliation :: "database \<Rightarrow> repository_error + server list" where
  "list_for_reconciliation db = server_list False db"

definition has_active_instance :: "uuid \<Rightarrow> database \<Rightarrow> bool" where
  "has_active_instance ident db \<longleftrightarrow>
     list_ex (\<lambda>r. i_server_id r = ident \<and> i_terminated_at_ms r = None) (server_instances db)"

definition update_desired_state_where :: "uuid \<Rightarrow> int \<Rightarrow> server_row \<Rightarrow> bool" where
  "update_desired_state_where ident previous r \<longleftrightarrow>
     s_id r = ident \<and> s_generation r = previous \<and> s_archived_at_ms r = None"

definition update_desired_state_set :: "desired_state \<Rightarrow> int \<Rightarrow> int \<Rightarrow> server_row \<Rightarrow> server_row" where
  "update_desired_state_set ds generation updated r =
     r\<lparr> s_desired_state := desired_state_as_str ds, s_generation := generation,
        s_updated_at_ms := updated \<rparr>"

definition update_desired_state :: "server \<Rightarrow> u64 \<Rightarrow> database \<Rightarrow> repository_error + (database \<times> bool)" where
  "update_desired_state s previous_generation db =
     rbind (generation_to_i64 (sv_generation s)) (\<lambda>generation.
     rbind (generation_to_i64 previous_generation) (\<lambda>previous.
     let p = update_desired_state_where (sv_id s) previous;
         f = update_desired_state_set (sv_desired_state s) generation (sv_updated_at s) in
     rbind (map_err RDatabase (execute (db\<lparr> servers := sql_update p f (servers db) \<rparr>))) (\<lambda>db'.
     Inr (db', rows_affected p (servers db) = 1))))"

definition update_spec_where :: "uuid \<Rightarrow> int \<Rightarrow> server_row \<Rightarrow> bool" where
  "update_spec_where ident previous r \<longleftrightarrow>
     s_id r = ident \<and> s_generation r = previous \<and> s_desired_state r = ''stopped''
   \<and> s_archived_at_ms r = None"

definition update_spec_set :: "server_spec \<Rightarrow> int \<Rightarrow> int \<Rightarrow> server_row \<Rightarrow> server_row" where
  "update_spec_set spec generation updated r =
     r\<lparr> s_spec := spec, s_generation := generation, s_updated_at_ms := updated \<rparr>"

definition update_spec :: "server \<Rightarrow> u64 \<Rightarrow> database \<Rightarrow> repository_error + (database \<times> bool)" where
  "update_spec s previous_generation db =
     rbind (generation_to_i64 (sv_generation s)) (\<lambda>generation.
     rbind (generation_to_i64 previous_generation) (\<lambda>previous.
     let p = update_spec_where (sv_id s) previous;
         f = update_spec_set (sv_spec s) generation (sv_updated_at s) in
     rbind (map_err RDatabase (execute (db\<lparr> servers := sql_update p f (servers db) \<rparr>))) (\<lambda>db'.
     Inr (db', rows_affected p (servers db) = 1))))"

definition archive_where :: "uuid \<Rightarrow> int \<Rightarrow> instance_row list \<Rightarrow> server_row \<Rightarrow> bool" where
  "archive_where ident previous instances r \<longleftrightarrow>
     s_id r = ident \<and> s_generation r = previous \<and> s_desired_state r = ''stopped''
   \<and> s_archived_at_ms r = None
   \<and> \<not> list_ex (\<lambda>i. i_server_id i = s_id r \<and> i_terminated_at_ms i = None) instances"

definition archive_set :: "int \<Rightarrow> int \<Rightarrow> int \<Rightarrow> server_row \<Rightarrow> server_row" where
  "archive_set archived generation updated r =
     r\<lparr> s_archived_at_ms := Some archived, s_generation := generation, s_updated_at_ms := updated \<rparr>"

definition archive :: "server \<Rightarrow> u64 \<Rightarrow> database \<Rightarrow> repository_error + (database \<times> bool)" where
  "archive s previous_generation db =
     rbind (ok_or (sv_archived_at s) RInvalidArchiveState) (\<lambda>archived_at.
     rbind (generation_to_i64 (sv_generation s)) (\<lambda>generation.
     rbind (generation_to_i64 previous_generation) (\<lambda>previous.
     let p = archive_where (sv_id s) previous (server_instances db);
         f = archive_set archived_at generation (sv_updated_at s) in
     rbind (map_err RDatabase (execute (db\<lparr> servers := sql_update p f (servers db) \<rparr>))) (\<lambda>db'.
     Inr (db', rows_affected p (servers db) = 1)))))"

interpretation update_desired_state: row_update s_id
    "update_desired_state_where i g" "update_desired_state_set ds g' t"
  by unfold_locales (auto simp: update_desired_state_where_def update_desired_state_set_def)

interpretation update_spec: row_update s_id "update_spec_where i g" "update_spec_set spec g' t"
  by unfold_locales (auto simp: update_spec_where_def update_spec_set_def)

interpretation archive: row_update s_id "archive_where i g insts" "archive_set a g' t"
  by unfold_locales (auto simp: archive_where_def archive_set_def)

section \<open>Decoding is defined on every row the schema and the aggregate allow\<close>

definition server_row_ok :: "server_row \<Rightarrow> bool" where
  "server_row_ok r \<longleftrightarrow>
     dns_label (s_name r) \<and> 0 < s_generation r \<and> s_generation r \<le> i64_max
   \<and> s_desired_state r \<in> range desired_state_as_str
   \<and> server_spec_ok (s_spec r) \<and> optional_text_ok 256 (s_current_snapshot_id r)
   \<and> 0 < s_next_fencing_token r \<and> s_next_fencing_token r \<le> i64_max
   \<and> 0 \<le> s_created_at_ms r \<and> s_created_at_ms r \<le> s_updated_at_ms r
   \<and> within (s_created_at_ms r) (s_updated_at_ms r) (s_archived_at_ms r)
   \<and> (s_archived_at_ms r \<noteq> None \<longrightarrow> s_desired_state r = desired_state_as_str Stopped)"

lemma positive_u64_to_i64_Inr [result_simps]:
  "positive_u64_to_i64 v = Inr i \<longleftrightarrow> v \<noteq> 0 \<and> uint v \<le> i64_max \<and> i = uint v"
  by (auto simp: positive_u64_to_i64_def)

lemma uint_word_of_int_i64: "0 \<le> v \<Longrightarrow> v \<le> i64_max \<Longrightarrow> uint (word_of_int v :: u64) = v"
  by (simp add: uint_word_of_int_eq take_bit_int_eq_self)

lemma i64_to_positive_u64_Inr:
  "0 < v \<Longrightarrow> v \<le> i64_max \<Longrightarrow> i64_to_positive_u64 v = Inr (word_of_int v)"
  using uint_word_of_int_i64 [of v] by (auto simp: i64_to_positive_u64_def Let_def)

lemma i64_u64_roundtrip:
  "i64_to_positive_u64 v = Inr w \<Longrightarrow> v \<le> i64_max \<Longrightarrow> positive_u64_to_i64 w = Inr v"
  using uint_word_of_int_i64 [of v]
  by (auto simp: i64_to_positive_u64_def positive_u64_to_i64_def Let_def split: if_splits)

lemma decode_timestamp_Inr [result_simps]: "decode_timestamp v = Inr t \<longleftrightarrow> 0 \<le> v \<and> t = v"
  by (simp add: decode_timestamp_def result_simps)

lemma optional_timestamp_Inr [result_simps]:
  "optional_timestamp x = Inr y \<longleftrightarrow> y = x \<and> (\<forall>t. x = Some t \<longrightarrow> 0 \<le> t)"
  by (cases x) (auto simp: optional_timestamp_def result_simps)

definition server_of_row :: "server_row \<Rightarrow> server" where
  "server_of_row r =
     \<lparr> sv_id = s_id r, sv_name = s_name r, sv_generation = word_of_int (s_generation r),
       sv_desired_state = (if s_desired_state r = ''running'' then Running else Stopped),
       sv_spec = s_spec r, sv_current_snapshot_id = s_current_snapshot_id r,
       sv_archived_at = s_archived_at_ms r, sv_created_at = s_created_at_ms r,
       sv_updated_at = s_updated_at_ms r \<rparr>"

lemma desired_state_parse_row:
  "s \<in> range desired_state_as_str \<Longrightarrow>
   desired_state_parse s = Inr (if s = ''running'' then Running else Stopped)"
  by (auto simp: desired_state_parse_def) (metis desired_state_as_str.simps desired_state.exhaust)

lemma decode_server_ok:
  assumes "server_row_ok r"
  shows "decode_server r = Inr (server_of_row r)"
proof -
  have "word_of_int (s_generation r) \<noteq> (0 :: u64)"
    using assms uint_word_of_int_i64 [of "s_generation r"] by (auto simp: server_row_ok_def)
  then have "server_consistent (server_of_row r)"
    using assms by (auto simp: server_row_ok_def server_consistent_def server_of_row_def)
  then show ?thesis
    using assms i64_to_positive_u64_Inr [of "s_generation r"]
      desired_state_parse_row [of "s_desired_state r"]
    by (auto simp: decode_server_def server_row_ok_def result_simps server_of_row_def)
qed

lemma server_of_row_wf: "server_row_ok r \<Longrightarrow> server_wf (server_of_row r)"
  using decode_server_ok [of r]
  by (auto simp: decode_server_def result_simps server_wf_def server_row_ok_def server_of_row_def)

end
