(* ===== verification/Instance_Repository.thy ===== *)
theory Instance_Repository
  imports Server_Repository
begin

text \<open>
  \<open>infrastructure/server_instance_repository.rs\<close>: the \<open>server_instances\<close>
  table. A new instance takes the server's next fencing token; from then
  on every write is conditional on the instance not being terminated.
\<close>

section \<open>Decoding\<close>

definition decode_instance :: "instance_row \<Rightarrow> repository_error + server_instance" where
  "decode_instance r =
     rbind (i64_to_positive_u64 (i_server_generation r)) (\<lambda>server_generation.
     rbind (i64_to_positive_u64 (i_fencing_token r)) (\<lambda>fencing_token.
     rbind (optional_timestamp (i_data_prepared_at_ms r)) (\<lambda>data_prepared_at.
     rbind (optional_timestamp (i_process_observed_at_ms r)) (\<lambda>process_observed_at.
     rbind (optional_timestamp (i_stop_requested_at_ms r)) (\<lambda>stop_requested_at.
     rbind (optional_timestamp (i_terminated_at_ms r)) (\<lambda>terminated_at.
     rbind (case i_terminal_result r of None \<Rightarrow> Inr None
              | Some v \<Rightarrow> rbind (map_err RInstanceValidation (terminal_result_parse v))
                  (\<lambda>t. Inr (Some t))) (\<lambda>terminal.
     rbind (decode_timestamp (i_created_at_ms r)) (\<lambda>created_at.
     rbind (decode_timestamp (i_updated_at_ms r)) (\<lambda>updated_at.
     map_err RInstanceValidation (instance_rehydrate
       \<lparr> si_id = i_id r, si_server_id = i_server_id r, si_server_generation = server_generation,
         si_resolved_spec = i_resolved_spec r, si_fencing_token = fencing_token,
         si_source_snapshot_id = i_source_snapshot_id r, si_data_prepared_at = data_prepared_at,
         si_process_running = i_process_running r, si_process_observed_at = process_observed_at,
         si_result_snapshot_id = i_result_snapshot_id r, si_stop_requested_at = stop_requested_at,
         si_terminated_at = terminated_at, si_terminal_result = terminal,
         si_last_error = i_last_error r, si_created_at = created_at,
         si_updated_at = updated_at \<rparr>))))))))))"

section \<open>Operations\<close>

definition instance_get :: "uuid \<Rightarrow> database \<Rightarrow> repository_error + server_instance option" where
  "instance_get ident db =
     decode_optional decode_instance (select_one (\<lambda>r. i_id r = ident) (server_instances db))"

definition get_active_for_server :: "uuid \<Rightarrow> database \<Rightarrow> repository_error + server_instance option" where
  "get_active_for_server server_id db =
     decode_optional decode_instance
       (select_one (\<lambda>r. i_server_id r = server_id \<and> i_terminated_at_ms r = None) (server_instances db))"

definition list_for_server :: "uuid \<Rightarrow> database \<Rightarrow> repository_error + server_instance list" where
  "list_for_server server_id db =
     map_result decode_instance
       (sort_key (\<lambda>r. - i_fencing_token r) (sort_key (\<lambda>r. i_id r)
         (filter (\<lambda>r. i_server_id r = server_id) (server_instances db))))"

definition instance_time :: "timestamp \<Rightarrow> server_row \<Rightarrow> instance_row list \<Rightarrow> int" where
  "instance_time now server instances =
     max (max now (s_updated_at_ms server))
       (fold max (map i_updated_at_ms (filter (\<lambda>i. i_server_id i = s_id server) instances)) 0)"

definition new_instance_row :: "uuid \<Rightarrow> int \<Rightarrow> server_row \<Rightarrow> instance_row" where
  "new_instance_row instance_id t source =
     \<lparr> i_id = instance_id, i_server_id = s_id source, i_server_generation = s_generation source,
       i_resolved_spec = s_spec source, i_fencing_token = s_next_fencing_token source,
       i_source_snapshot_id = s_current_snapshot_id source, i_data_prepared_at_ms = None,
       i_process_running = False, i_process_observed_at_ms = None, i_result_snapshot_id = None,
       i_stop_requested_at_ms = None, i_terminated_at_ms = None, i_terminal_result = None,
       i_last_error = None, i_created_at_ms = t, i_updated_at_ms = t \<rparr>"

definition next_token_set :: "server_row \<Rightarrow> server_row" where
  "next_token_set r = r\<lparr> s_next_fencing_token := s_next_fencing_token r + 1 \<rparr>"

definition insert_for_running_server ::
    "uuid \<Rightarrow> uuid \<Rightarrow> timestamp \<Rightarrow> database \<Rightarrow> repository_error + (database \<times> bool)" where
  "insert_for_running_server instance_id server_id now db =
     (case select_one (\<lambda>s. s_id s = server_id \<and> s_desired_state s = ''running''
             \<and> \<not> list_ex (\<lambda>i. i_server_id i = s_id s \<and> i_terminated_at_ms i = None) (server_instances db))
           (servers db) of
        None \<Rightarrow> Inr (db, False)
      | Some source \<Rightarrow>
          let t = instance_time now source (server_instances db) in
          rbind (map_err RDatabase (execute (db\<lparr>
              server_instances := server_instances db @ [new_instance_row instance_id t source],
              servers := sql_update (\<lambda>s. s_id s = server_id) next_token_set (servers db) \<rparr>))) (\<lambda>db'.
          Inr (db', True)))"

definition create_for_running_server ::
    "uuid \<Rightarrow> uuid \<Rightarrow> timestamp \<Rightarrow> (database, repository_error, server_instance option) action" where
  "create_for_running_server instance_id server_id now =
     abind (transaction (insert_for_running_server instance_id server_id now)) (\<lambda>inserted.
     if \<not> inserted then areturn None else query (instance_get instance_id))"

definition active_where :: "uuid \<Rightarrow> instance_row \<Rightarrow> bool" where
  "active_where ident r \<longleftrightarrow> i_id r = ident \<and> i_terminated_at_ms r = None"

definition update_instance ::
    "(instance_row \<Rightarrow> bool) \<Rightarrow> (instance_row \<Rightarrow> instance_row) \<Rightarrow> database
     \<Rightarrow> repository_error + (database \<times> bool)" where
  "update_instance p f db =
     rbind (map_err RDatabase (execute (db\<lparr> server_instances := sql_update p f (server_instances db) \<rparr>)))
       (\<lambda>db'. Inr (db', rows_affected p (server_instances db) = 1))"

definition request_stop_where :: "uuid \<Rightarrow> instance_row \<Rightarrow> bool" where
  "request_stop_where ident r \<longleftrightarrow> i_id r = ident \<and> i_terminated_at_ms r = None
     \<and> i_stop_requested_at_ms r = None"

definition request_stop_set :: "timestamp \<Rightarrow> instance_row \<Rightarrow> instance_row" where
  "request_stop_set now r =
     r\<lparr> i_stop_requested_at_ms := Some (max (max now (i_created_at_ms r)) (i_updated_at_ms r)),
        i_updated_at_ms := max (max now (i_created_at_ms r)) (i_updated_at_ms r) \<rparr>"

definition request_stop :: "uuid \<Rightarrow> timestamp \<Rightarrow> database \<Rightarrow> repository_error + (database \<times> bool)" where
  "request_stop ident now db = update_instance (request_stop_where ident) (request_stop_set now) db"

definition mark_data_prepared_set :: "timestamp \<Rightarrow> instance_row \<Rightarrow> instance_row" where
  "mark_data_prepared_set now r =
     r\<lparr> i_data_prepared_at_ms := Some (coalesce (i_data_prepared_at_ms r) (max now (i_created_at_ms r))),
        i_last_error := None,
        i_updated_at_ms := max (max now (i_updated_at_ms r)) (i_created_at_ms r) \<rparr>"

definition mark_data_prepared :: "uuid \<Rightarrow> timestamp \<Rightarrow> database \<Rightarrow> repository_error + (database \<times> bool)" where
  "mark_data_prepared ident now db = update_instance (active_where ident) (mark_data_prepared_set now) db"

definition observe_process_set :: "bool \<Rightarrow> timestamp \<Rightarrow> instance_row \<Rightarrow> instance_row" where
  "observe_process_set running now r =
     r\<lparr> i_process_running := running,
        i_process_observed_at_ms := Some (max (max (max (coalesce (i_process_observed_at_ms r) 0) now)
            (i_updated_at_ms r)) (i_created_at_ms r)),
        i_last_error := None,
        i_updated_at_ms := max (max now (i_updated_at_ms r)) (i_created_at_ms r) \<rparr>"

definition observe_process ::
    "uuid \<Rightarrow> bool \<Rightarrow> timestamp \<Rightarrow> database \<Rightarrow> repository_error + (database \<times> bool)" where
  "observe_process ident running now db =
     update_instance (active_where ident) (observe_process_set running now) db"

definition record_error_set :: "string \<Rightarrow> timestamp \<Rightarrow> instance_row \<Rightarrow> instance_row" where
  "record_error_set message now r =
     r\<lparr> i_last_error := Some message,
        i_updated_at_ms := max (max now (i_updated_at_ms r)) (i_created_at_ms r) \<rparr>"

definition record_error ::
    "uuid \<Rightarrow> string \<Rightarrow> timestamp \<Rightarrow> database \<Rightarrow> repository_error + (database \<times> unit)" where
  "record_error ident message now db =
     rbind (update_instance (active_where ident)
        (record_error_set (truncate_chars 8192 message) now) db) (\<lambda>(db', _). Inr (db', ()))"

definition complete_set :: "terminal_result \<Rightarrow> timestamp \<Rightarrow> instance_row \<Rightarrow> instance_row" where
  "complete_set result now r =
     r\<lparr> i_process_running := False,
        i_process_observed_at_ms := Some (max (max (max (coalesce (i_process_observed_at_ms r) 0) now)
            (i_updated_at_ms r)) (i_created_at_ms r)),
        i_terminated_at_ms := Some (max (max (max now (i_updated_at_ms r)) (i_created_at_ms r))
            (coalesce (i_stop_requested_at_ms r) 0)),
        i_terminal_result := Some (terminal_result_as_str result),
        i_updated_at_ms := max (max now (i_updated_at_ms r)) (i_created_at_ms r) \<rparr>"

definition complete ::
    "uuid \<Rightarrow> terminal_result \<Rightarrow> timestamp \<Rightarrow> database \<Rightarrow> repository_error + (database \<times> bool)" where
  "complete ident result now db = update_instance (active_where ident) (complete_set result now) db"

interpretation next_token: row_update s_id "\<lambda>s. s_id s = i" next_token_set
  by unfold_locales (auto simp: next_token_set_def)

interpretation request_stop: row_update i_id "request_stop_where i" "request_stop_set now"
  by unfold_locales (auto simp: request_stop_where_def request_stop_set_def)

interpretation mark_data_prepared: row_update i_id "active_where i" "mark_data_prepared_set now"
  by unfold_locales (auto simp: active_where_def mark_data_prepared_set_def)

interpretation observe_process: row_update i_id "active_where i" "observe_process_set b now"
  by unfold_locales (auto simp: active_where_def observe_process_set_def)

interpretation record_error: row_update i_id "active_where i" "record_error_set m now"
  by unfold_locales (auto simp: active_where_def record_error_set_def)

interpretation complete: row_update i_id "active_where i" "complete_set t now"
  by unfold_locales (auto simp: active_where_def complete_set_def)

section \<open>Decoding is defined on consistent rows\<close>

definition latest_ms :: "instance_row \<Rightarrow> int" where
  "latest_ms r = (case i_terminated_at_ms r of None \<Rightarrow> i_updated_at_ms r | Some t \<Rightarrow> t)"

definition instance_row_ok :: "instance_row \<Rightarrow> bool" where
  "instance_row_ok r \<longleftrightarrow>
     0 < i_server_generation r \<and> i_server_generation r \<le> i64_max
   \<and> 0 < i_fencing_token r \<and> i_fencing_token r \<le> i64_max
   \<and> server_spec_ok (i_resolved_spec r)
   \<and> (i_terminated_at_ms r = None \<longleftrightarrow> i_terminal_result r = None)
   \<and> (\<forall>t. i_terminal_result r = Some t \<longrightarrow> t \<in> range terminal_result_as_str)
   \<and> (i_process_running r \<longrightarrow> i_process_observed_at_ms r \<noteq> None)
   \<and> (i_terminated_at_ms r \<noteq> None \<longrightarrow> \<not> i_process_running r)
   \<and> optional_text_ok 8192 (i_last_error r)
   \<and> 0 \<le> i_created_at_ms r \<and> i_created_at_ms r \<le> i_updated_at_ms r
   \<and> within (i_created_at_ms r) (i_updated_at_ms r) (i_terminated_at_ms r)
   \<and> within (i_created_at_ms r) (latest_ms r) (i_data_prepared_at_ms r)
   \<and> within (i_created_at_ms r) (latest_ms r) (i_process_observed_at_ms r)
   \<and> within (i_created_at_ms r) (latest_ms r) (i_stop_requested_at_ms r)
   \<and> optional_text_ok 256 (i_source_snapshot_id r)
   \<and> optional_text_ok 256 (i_result_snapshot_id r)"

definition instance_of_row :: "instance_row \<Rightarrow> server_instance" where
  "instance_of_row r =
     \<lparr> si_id = i_id r, si_server_id = i_server_id r,
       si_server_generation = word_of_int (i_server_generation r),
       si_resolved_spec = i_resolved_spec r, si_fencing_token = word_of_int (i_fencing_token r),
       si_source_snapshot_id = i_source_snapshot_id r, si_data_prepared_at = i_data_prepared_at_ms r,
       si_process_running = i_process_running r,
       si_process_observed_at = i_process_observed_at_ms r,
       si_result_snapshot_id = i_result_snapshot_id r,
       si_stop_requested_at = i_stop_requested_at_ms r, si_terminated_at = i_terminated_at_ms r,
       si_terminal_result = map_option (\<lambda>t. if t = ''completed'' then Completed else Failed)
         (i_terminal_result r),
       si_last_error = i_last_error r, si_created_at = i_created_at_ms r,
       si_updated_at = i_updated_at_ms r \<rparr>"

lemma word_of_int_positive: "0 < v \<Longrightarrow> v \<le> i64_max \<Longrightarrow> word_of_int v \<noteq> (0 :: u64)"
  using uint_word_of_int_i64 [of v] by auto

lemma terminal_result_parse_row:
  "s \<in> range terminal_result_as_str \<Longrightarrow>
   terminal_result_parse s = Inr (if s = ''completed'' then Completed else Failed)"
  by (auto simp: terminal_result_parse_def) (metis terminal_result_as_str.simps terminal_result.exhaust)

lemma within_nonneg: "within lo hi x \<Longrightarrow> 0 \<le> lo \<Longrightarrow> x = Some t \<Longrightarrow> 0 \<le> t"
  by auto

lemma decode_instance_ok:
  assumes "instance_row_ok r"
  shows "decode_instance r = Inr (instance_of_row r)"
proof -
  have ok: "instance_consistent (instance_of_row r)"
    using assms word_of_int_positive [of "i_server_generation r"]
      word_of_int_positive [of "i_fencing_token r"]
    by (auto simp: instance_row_ok_def instance_consistent_def instance_of_row_def latest_ms_def Let_def)
  have ts: "\<forall>t. i_data_prepared_at_ms r = Some t \<longrightarrow> 0 \<le> t"
      "\<forall>t. i_process_observed_at_ms r = Some t \<longrightarrow> 0 \<le> t"
      "\<forall>t. i_stop_requested_at_ms r = Some t \<longrightarrow> 0 \<le> t"
      "\<forall>t. i_terminated_at_ms r = Some t \<longrightarrow> 0 \<le> t"
    using assms by (auto simp: instance_row_ok_def)
  have tr: "(case i_terminal_result r of None \<Rightarrow> Inr None
      | Some v \<Rightarrow> rbind (map_err RInstanceValidation (terminal_result_parse v)) (\<lambda>t. Inr (Some t)))
     = Inr (map_option (\<lambda>t. if t = ''completed'' then Completed else Failed) (i_terminal_result r))"
    using assms terminal_result_parse_row
    by (auto simp: instance_row_ok_def result_simps split: option.split)
  show ?thesis
    using assms ok ts tr i64_to_positive_u64_Inr [of "i_server_generation r"]
      i64_to_positive_u64_Inr [of "i_fencing_token r"]
    by (simp add: decode_instance_def instance_row_ok_def result_simps instance_of_row_def)
qed

end
