(* ===== verification/Compute_Repository.thy ===== *)
theory Compute_Repository
  imports Instance_Repository
begin

text \<open>
  \<open>infrastructure/compute_instance_repository.rs\<close>: the \<open>compute_instances\<close>
  table, the one-time enrolment of an agent and its authentication.
\<close>

section \<open>Decoding\<close>

definition decode_process_id :: "int option \<Rightarrow> repository_error + u32 option" where
  "decode_process_id value =
     (case value of None \<Rightarrow> Inr None
      | Some v \<Rightarrow> if 0 \<le> v \<and> v \<le> 4294967295 then Inr (Some (word_of_int v))
                  else Inl RIntegerOutOfRange)"

definition decode_compute_instance :: "compute_row \<Rightarrow> repository_error + compute_instance" where
  "decode_compute_instance r =
     rbind (map_err RComputeValidation (compute_provider_parse (c_provider r))) (\<lambda>provider.
     rbind (decode_process_id (c_process_id r)) (\<lambda>process_id.
     rbind (optional_timestamp (c_agent_connected_at_ms r)) (\<lambda>agent_connected_at.
     rbind (optional_timestamp (c_shutdown_requested_at_ms r)) (\<lambda>shutdown_requested_at.
     rbind (optional_timestamp (c_terminated_at_ms r)) (\<lambda>terminated_at.
     rbind (case c_terminal_result r of None \<Rightarrow> Inr None
              | Some v \<Rightarrow> rbind (map_err RComputeValidation (compute_terminal_result_parse v))
                  (\<lambda>t. Inr (Some t))) (\<lambda>terminal.
     rbind (decode_timestamp (c_created_at_ms r)) (\<lambda>created_at.
     rbind (decode_timestamp (c_updated_at_ms r)) (\<lambda>updated_at.
     map_err RComputeValidation (compute_rehydrate
       \<lparr> ci_id = c_id r, ci_server_instance_id = c_server_instance_id r, ci_provider = provider,
         ci_provider_instance_id = c_provider_instance_id r, ci_public_ipv4 = c_public_ipv4 r,
         ci_connection_token = c_connection_token r, ci_enrollment_token = c_enrollment_token r,
         ci_process_id = process_id, ci_agent_connected_at = agent_connected_at,
         ci_shutdown_requested_at = shutdown_requested_at, ci_terminated_at = terminated_at,
         ci_terminal_result = terminal, ci_failure_message = c_failure_message r,
         ci_created_at = created_at, ci_updated_at = updated_at \<rparr>)))))))))"

section \<open>Queries\<close>

definition compute_get :: "uuid \<Rightarrow> database \<Rightarrow> repository_error + compute_instance option" where
  "compute_get ident db =
     decode_optional decode_compute_instance (select_one (\<lambda>r. c_id r = ident) (compute_instances db))"

definition get_active_for_instance :: "uuid \<Rightarrow> database \<Rightarrow> repository_error + compute_instance option" where
  "get_active_for_instance instance_id db =
     decode_optional decode_compute_instance
       (select_one (\<lambda>r. c_server_instance_id r = instance_id \<and> c_terminated_at_ms r = None)
         (compute_instances db))"

definition list_active_local_ownership :: "database \<Rightarrow> (uuid \<times> uuid) list" where
  "list_active_local_ownership db =
     map (\<lambda>r. (c_id r, c_server_instance_id r))
       (sort_key (\<lambda>r. c_id r)
         (filter (\<lambda>r. c_terminated_at_ms r = None \<and> c_provider r = ''local_process'')
           (compute_instances db)))"

definition list_active_akamai :: "database \<Rightarrow> repository_error + compute_instance list" where
  "list_active_akamai db =
     map_result decode_compute_instance
       (sort_key (\<lambda>r. c_id r)
         (filter (\<lambda>r. c_terminated_at_ms r = None \<and> c_provider r = ''akamai'')
           (compute_instances db)))"

section \<open>Creation\<close>

definition new_compute_row ::
    "uuid \<Rightarrow> uuid \<Rightarrow> compute_provider \<Rightarrow> string \<Rightarrow> string option \<Rightarrow> timestamp \<Rightarrow> compute_row" where
  "new_compute_row ident instance_id provider connection_token enrollment_token now =
     \<lparr> c_id = ident, c_server_instance_id = instance_id,
       c_provider = compute_provider_as_str provider, c_provider_instance_id = None,
       c_public_ipv4 = None, c_connection_token = connection_token,
       c_enrollment_token = enrollment_token, c_agent_csr_pem = None,
       c_agent_certificate_chain_pem = None, c_agent_certificate_der = None,
       c_agent_certificate_expires_at_ms = None, c_process_id = None,
       c_agent_connected_at_ms = None, c_shutdown_requested_at_ms = None,
       c_terminated_at_ms = None, c_terminal_result = None, c_failure_message = None,
       c_created_at_ms = now, c_updated_at_ms = now \<rparr>"

definition insert_for_instance ::
    "uuid \<Rightarrow> uuid \<Rightarrow> compute_provider \<Rightarrow> string \<Rightarrow> string option \<Rightarrow> timestamp
     \<Rightarrow> database \<Rightarrow> repository_error + (database \<times> bool)" where
  "insert_for_instance ident instance_id provider connection_token enrollment_token now db =
     (if list_ex (\<lambda>r. i_id r = instance_id \<and> i_terminated_at_ms r = None) (server_instances db)
       \<and> \<not> list_ex (\<lambda>r. c_server_instance_id r = instance_id \<and> c_terminated_at_ms r = None)
            (compute_instances db)
      then (case execute (db\<lparr> compute_instances := compute_instances db @
                [new_compute_row ident instance_id provider connection_token enrollment_token now] \<rparr>) of
              Inr db' \<Rightarrow> Inr (db', True)
            | Inl e \<Rightarrow> if is_unique_violation e then Inr (db, False) else Inl (RDatabase e))
      else Inr (db, False))"

definition create_for_instance ::
    "uuid \<Rightarrow> uuid \<Rightarrow> compute_provider \<Rightarrow> string \<Rightarrow> string option \<Rightarrow> timestamp
     \<Rightarrow> (database, repository_error, compute_instance option) action" where
  "create_for_instance ident instance_id provider connection_token enrollment_token now =
     abind (transaction
       (insert_for_instance ident instance_id provider connection_token enrollment_token now)) (\<lambda>inserted.
     if inserted then query (compute_get ident) else areturn None)"

section \<open>Updates\<close>

definition touched :: "timestamp \<Rightarrow> compute_row \<Rightarrow> int" where
  "touched now r = max (max now (c_updated_at_ms r)) (c_created_at_ms r)"

definition update_compute ::
    "(compute_row \<Rightarrow> bool) \<Rightarrow> (compute_row \<Rightarrow> compute_row) \<Rightarrow> database
     \<Rightarrow> repository_error + (database \<times> bool)" where
  "update_compute p f db =
     rbind (map_err RDatabase (execute (db\<lparr> compute_instances := sql_update p f (compute_instances db) \<rparr>)))
       (\<lambda>db'. Inr (db', rows_affected p (compute_instances db) = 1))"

definition compute_active_where :: "uuid \<Rightarrow> compute_row \<Rightarrow> bool" where
  "compute_active_where ident r \<longleftrightarrow> c_id r = ident \<and> c_terminated_at_ms r = None"

definition provider_active_where :: "uuid \<Rightarrow> string \<Rightarrow> compute_row \<Rightarrow> bool" where
  "provider_active_where ident provider r \<longleftrightarrow>
     c_id r = ident \<and> c_terminated_at_ms r = None \<and> c_provider r = provider"

definition record_process_id_set :: "u32 \<Rightarrow> timestamp \<Rightarrow> compute_row \<Rightarrow> compute_row" where
  "record_process_id_set process_id now r =
     r\<lparr> c_process_id := Some (uint process_id), c_failure_message := None,
        c_updated_at_ms := touched now r \<rparr>"

definition record_process_id ::
    "uuid \<Rightarrow> u32 \<Rightarrow> timestamp \<Rightarrow> database \<Rightarrow> repository_error + (database \<times> bool)" where
  "record_process_id ident process_id now db =
     update_compute (provider_active_where ident ''local_process'')
       (record_process_id_set process_id now) db"

definition record_provider_instance_set ::
    "string \<Rightarrow> string option \<Rightarrow> timestamp \<Rightarrow> compute_row \<Rightarrow> compute_row" where
  "record_provider_instance_set provider_instance_id public_ipv4 now r =
     r\<lparr> c_provider_instance_id := Some provider_instance_id, c_public_ipv4 := public_ipv4,
        c_failure_message := None, c_updated_at_ms := touched now r \<rparr>"

definition record_provider_instance ::
    "uuid \<Rightarrow> string \<Rightarrow> string option \<Rightarrow> timestamp \<Rightarrow> database
     \<Rightarrow> repository_error + (database \<times> bool)" where
  "record_provider_instance ident provider_instance_id public_ipv4 now db =
     update_compute (provider_active_where ident ''akamai'')
       (record_provider_instance_set provider_instance_id public_ipv4 now) db"

record agent_enrollment =
  en_connection_token :: string
  en_csr_pem :: "string option"
  en_certificate_chain_pem :: "string option"
  en_certificate_der :: "string option"
  en_certificate_expires_at :: "timestamp option"

record agent_certificate_record =
  cert_csr_pem :: string
  cert_chain_pem :: string
  cert_der :: string
  cert_expires_at :: timestamp
  cert_recorded_at :: timestamp

definition get_agent_enrollment ::
    "uuid \<Rightarrow> string \<Rightarrow> database \<Rightarrow> repository_error + agent_enrollment option" where
  "get_agent_enrollment ident enrollment_token db =
     decode_optional (\<lambda>r.
         rbind (optional_timestamp (c_agent_certificate_expires_at_ms r)) (\<lambda>expires.
         Inr \<lparr> en_connection_token = c_connection_token r, en_csr_pem = c_agent_csr_pem r,
               en_certificate_chain_pem = c_agent_certificate_chain_pem r,
               en_certificate_der = c_agent_certificate_der r,
               en_certificate_expires_at = expires \<rparr>))
       (select_one (\<lambda>r. c_id r = ident \<and> c_provider r = ''akamai''
            \<and> c_enrollment_token r = Some enrollment_token \<and> c_terminated_at_ms r = None)
         (compute_instances db))"

definition record_agent_certificate_where :: "uuid \<Rightarrow> string \<Rightarrow> compute_row \<Rightarrow> bool" where
  "record_agent_certificate_where ident enrollment_token r \<longleftrightarrow>
     c_id r = ident \<and> c_provider r = ''akamai'' \<and> c_enrollment_token r = Some enrollment_token
   \<and> c_agent_csr_pem r = None \<and> c_terminated_at_ms r = None"

definition record_agent_certificate_set :: "agent_certificate_record \<Rightarrow> compute_row \<Rightarrow> compute_row" where
  "record_agent_certificate_set certificate r =
     r\<lparr> c_agent_csr_pem := Some (cert_csr_pem certificate),
        c_agent_certificate_chain_pem := Some (cert_chain_pem certificate),
        c_agent_certificate_der := Some (cert_der certificate),
        c_agent_certificate_expires_at_ms := Some (cert_expires_at certificate),
        c_failure_message := None,
        c_updated_at_ms := touched (cert_recorded_at certificate) r \<rparr>"

definition record_agent_certificate ::
    "uuid \<Rightarrow> string \<Rightarrow> agent_certificate_record \<Rightarrow> database \<Rightarrow> repository_error + (database \<times> bool)" where
  "record_agent_certificate ident enrollment_token certificate db =
     update_compute (record_agent_certificate_where ident enrollment_token)
       (record_agent_certificate_set certificate) db"

datatype agent_authentication = Accepted | Rejected

definition connected_at :: "timestamp \<Rightarrow> compute_row \<Rightarrow> int" where
  "connected_at now r =
     max (max (max (coalesce (c_agent_connected_at_ms r) 0) now) (c_updated_at_ms r)) (c_created_at_ms r)"

definition authenticate_local_where :: "uuid \<Rightarrow> string \<Rightarrow> compute_row \<Rightarrow> bool" where
  "authenticate_local_where ident token r \<longleftrightarrow>
     c_id r = ident \<and> c_provider r = ''local_process'' \<and> c_connection_token r = token
   \<and> c_terminated_at_ms r = None"

definition authenticate_local_set :: "timestamp \<Rightarrow> compute_row \<Rightarrow> compute_row" where
  "authenticate_local_set now r =
     r\<lparr> c_agent_connected_at_ms := Some (connected_at now r), c_failure_message := None,
        c_updated_at_ms := touched now r \<rparr>"

definition authenticate_akamai_where ::
    "uuid \<Rightarrow> string \<Rightarrow> string \<Rightarrow> timestamp \<Rightarrow> compute_row \<Rightarrow> bool" where
  "authenticate_akamai_where ident token der now r \<longleftrightarrow>
     c_id r = ident \<and> c_provider r = ''akamai'' \<and> c_connection_token r = token
   \<and> c_agent_certificate_der r = Some der
   \<and> (case c_agent_certificate_expires_at_ms r of None \<Rightarrow> False | Some t \<Rightarrow> t > now)
   \<and> c_terminated_at_ms r = None"

definition authenticate_akamai_set :: "timestamp \<Rightarrow> compute_row \<Rightarrow> compute_row" where
  "authenticate_akamai_set now r =
     r\<lparr> c_enrollment_token := None, c_agent_connected_at_ms := Some (connected_at now r),
        c_failure_message := None, c_updated_at_ms := touched now r \<rparr>"

definition authenticate_agent ::
    "uuid \<Rightarrow> compute_provider \<Rightarrow> string \<Rightarrow> string option \<Rightarrow> timestamp \<Rightarrow> database
     \<Rightarrow> repository_error + (database \<times> agent_authentication)" where
  "authenticate_agent ident expected_provider presented_token presented_certificate_der now db =
     rbind (case expected_provider of
         LocalProcess \<Rightarrow>
           update_compute (authenticate_local_where ident presented_token)
             (authenticate_local_set now) db
       | Akamai \<Rightarrow>
           (case presented_certificate_der of
              None \<Rightarrow> Inr (db, False)
            | Some der \<Rightarrow>
                update_compute (authenticate_akamai_where ident presented_token der now)
                  (authenticate_akamai_set now) db))
     (\<lambda>(db', accepted). Inr (db', if accepted then Accepted else Rejected))"

definition request_shutdown_set :: "timestamp \<Rightarrow> compute_row \<Rightarrow> compute_row" where
  "request_shutdown_set now r =
     r\<lparr> c_shutdown_requested_at_ms :=
          Some (coalesce (c_shutdown_requested_at_ms r) (max now (c_created_at_ms r))),
        c_updated_at_ms := touched now r \<rparr>"

definition request_shutdown :: "uuid \<Rightarrow> timestamp \<Rightarrow> database \<Rightarrow> repository_error + (database \<times> bool)" where
  "request_shutdown ident now db = update_compute (compute_active_where ident) (request_shutdown_set now) db"

definition terminate_set ::
    "compute_terminal_result \<Rightarrow> string option \<Rightarrow> timestamp \<Rightarrow> compute_row \<Rightarrow> compute_row" where
  "terminate_set result failure_message now r =
     r\<lparr> c_terminated_at_ms := Some (touched now r),
        c_terminal_result := Some (compute_terminal_result_as_str result),
        c_failure_message := failure_message, c_updated_at_ms := touched now r \<rparr>"

definition terminate ::
    "uuid \<Rightarrow> compute_terminal_result \<Rightarrow> string option \<Rightarrow> timestamp \<Rightarrow> database
     \<Rightarrow> repository_error + (database \<times> bool)" where
  "terminate ident result failure_message now db =
     update_compute (compute_active_where ident) (terminate_set result failure_message now) db"

definition record_failure_set :: "string \<Rightarrow> timestamp \<Rightarrow> compute_row \<Rightarrow> compute_row" where
  "record_failure_set message now r =
     r\<lparr> c_failure_message := Some message, c_updated_at_ms := touched now r \<rparr>"

definition record_failure ::
    "uuid \<Rightarrow> string \<Rightarrow> timestamp \<Rightarrow> database \<Rightarrow> repository_error + (database \<times> unit)" where
  "record_failure ident message now db =
     rbind (update_compute (compute_active_where ident)
        (record_failure_set (truncate_chars 8192 message) now) db) (\<lambda>(db', _). Inr (db', ()))"

interpretation record_process_id: row_update c_id
    "provider_active_where i ''local_process''" "record_process_id_set p now"
  by unfold_locales (auto simp: provider_active_where_def record_process_id_set_def)

interpretation record_provider_instance: row_update c_id
    "provider_active_where i ''akamai''" "record_provider_instance_set p a now"
  by unfold_locales (auto simp: provider_active_where_def record_provider_instance_set_def)

interpretation record_agent_certificate: row_update c_id
    "record_agent_certificate_where i t" "record_agent_certificate_set c"
  by unfold_locales (auto simp: record_agent_certificate_where_def record_agent_certificate_set_def)

interpretation authenticate_local: row_update c_id
    "authenticate_local_where i t" "authenticate_local_set now"
  by unfold_locales (auto simp: authenticate_local_where_def authenticate_local_set_def)

interpretation authenticate_akamai: row_update c_id
    "authenticate_akamai_where i t d now" "authenticate_akamai_set now"
  by unfold_locales (auto simp: authenticate_akamai_where_def authenticate_akamai_set_def)

interpretation request_shutdown: row_update c_id "compute_active_where i" "request_shutdown_set now"
  by unfold_locales (auto simp: compute_active_where_def request_shutdown_set_def)

interpretation terminate: row_update c_id "compute_active_where i" "terminate_set t m now"
  by unfold_locales (auto simp: compute_active_where_def terminate_set_def)

interpretation record_failure: row_update c_id "compute_active_where i" "record_failure_set m now"
  by unfold_locales (auto simp: compute_active_where_def record_failure_set_def)

end
