(* ===== verification/Snapshot_Repository.thy ===== *)
theory Snapshot_Repository
  imports Compute_Repository
begin

text \<open>
  \<open>infrastructure/snapshot_repository.rs\<close>: publishing the snapshot an
  instance leaves behind. The three writes (the snapshot, the instance's
  result, the server's current snapshot) are one transaction, and only the
  holder of the fencing token of a live instance passes.
\<close>

definition publish_instance_where :: "uuid \<Rightarrow> int \<Rightarrow> instance_row \<Rightarrow> bool" where
  "publish_instance_where ident token r \<longleftrightarrow>
     i_id r = ident \<and> i_terminated_at_ms r = None \<and> i_fencing_token r = token"

definition publish_instance_set :: "string \<Rightarrow> int \<Rightarrow> instance_row \<Rightarrow> instance_row" where
  "publish_instance_set snapshot_id committed_at r =
     r\<lparr> i_result_snapshot_id := Some snapshot_id,
        i_updated_at_ms := max (max committed_at (i_updated_at_ms r)) (i_created_at_ms r) \<rparr>"

definition publish_server_where :: "uuid \<Rightarrow> uuid \<Rightarrow> int \<Rightarrow> instance_row list \<Rightarrow> server_row \<Rightarrow> bool" where
  "publish_server_where server_id ident token instances r \<longleftrightarrow>
     s_id r = server_id
   \<and> list_ex (\<lambda>i. i_id i = ident \<and> i_server_id i = s_id r \<and> i_fencing_token i = token
        \<and> i_terminated_at_ms i = None) instances"

definition publish_server_set :: "string \<Rightarrow> int \<Rightarrow> server_row \<Rightarrow> server_row" where
  "publish_server_set snapshot_id committed_at r =
     r\<lparr> s_current_snapshot_id := Some snapshot_id,
        s_updated_at_ms := max (max committed_at (s_updated_at_ms r)) (s_created_at_ms r) \<rparr>"

definition new_snapshot_row :: "string \<Rightarrow> uuid \<Rightarrow> uuid \<Rightarrow> int \<Rightarrow> int \<Rightarrow> snapshot_row" where
  "new_snapshot_row snapshot_id server_id ident token committed_at =
     \<lparr> n_id = snapshot_id, n_server_id = server_id, n_server_instance_id = ident,
       n_fencing_token = token, n_created_at_ms = committed_at \<rparr>"

definition publish ::
    "string \<Rightarrow> uuid \<Rightarrow> uuid \<Rightarrow> int \<Rightarrow> int \<Rightarrow> database \<Rightarrow> repository_error + (database \<times> bool)" where
  "publish snapshot_id server_id ident token committed_at db =
     rbind (map_err RDatabase (execute (db\<lparr> snapshots := snapshots db @
        [new_snapshot_row snapshot_id server_id ident token committed_at] \<rparr>))) (\<lambda>db1.
     let p = publish_instance_where ident token in
     rbind (map_err RDatabase (execute (db1\<lparr> server_instances :=
        sql_update p (publish_instance_set snapshot_id committed_at) (server_instances db1) \<rparr>))) (\<lambda>db2.
     rbind (ensure (rows_affected p (server_instances db1) = 1)
        (RConflict ''server instance stopped before its snapshot could be published'')) (\<lambda>_.
     let q = publish_server_where server_id ident token (server_instances db2) in
     rbind (map_err RDatabase (execute (db2\<lparr> servers :=
        sql_update q (publish_server_set snapshot_id committed_at) (servers db2) \<rparr>))) (\<lambda>db3.
     rbind (ensure (rows_affected q (servers db2) = 1)
        (RConflict ''stale server instance cannot publish a snapshot'')) (\<lambda>_.
     Inr (db3, True))))))"

definition commit ::
    "uuid \<Rightarrow> u64 \<Rightarrow> string \<Rightarrow> timestamp \<Rightarrow> database \<Rightarrow> repository_error + (database \<times> bool)" where
  "commit ident fencing_token snapshot_id now db =
     (if is_blank snapshot_id \<or> contains_nul snapshot_id \<or> char_count snapshot_id > 256
      then Inl (RCorruptData ''snapshot id must be non-blank, bounded, and contain no NUL byte'')
      else
        rbind (ok_or (Option.bind (select_one (\<lambda>r. i_id r = ident) (server_instances db)) (\<lambda>i.
                 Option.bind (select_one (\<lambda>s. s_id s = i_server_id i) (servers db)) (\<lambda>s. Some (i, s))))
               (RConflict ''server instance does not exist'')) (\<lambda>(i, s).
        rbind (positive_u64_to_i64 fencing_token) (\<lambda>token.
        if i_fencing_token i \<noteq> token \<or> i_terminated_at_ms i \<noteq> None
        then Inl (RConflict ''stale server instance cannot publish a snapshot'')
        else case i_result_snapshot_id i of
               Some existing \<Rightarrow>
                 if existing = snapshot_id then Inr (db, False)
                 else Inl (RConflict ''server instance already published another snapshot'')
             | None \<Rightarrow>
                 publish snapshot_id (i_server_id i) ident token
                   (max (max now (i_updated_at_ms i)) (s_updated_at_ms s)) db)))"

interpretation publish_instance: row_update i_id "publish_instance_where i t" "publish_instance_set n c"
  by unfold_locales (auto simp: publish_instance_where_def publish_instance_set_def)

interpretation publish_server: row_update s_id "publish_server_where s i t insts" "publish_server_set n c"
  by unfold_locales (auto simp: publish_server_where_def publish_server_set_def)

end
