(* ===== verification/Ledger.thy ===== *)
theory Ledger
  imports Snapshot_Repository
begin

text \<open>
  What the three tables say together about a server's history. The ledger
  projects each row to the columns that carry that history: the server's
  generation, fencing counter, current snapshot and archive mark; the
  instance's token, source and result snapshot and whether it is live.
  The lemmas show which changes of those columns keep the history sound.
\<close>

record server_core =
  k_id :: uuid
  k_generation :: int
  k_next_token :: int
  k_current :: "string option"
  k_archived :: bool
  k_desired :: string

record instance_core =
  h_id :: uuid
  h_server :: uuid
  h_generation :: int
  h_token :: int
  h_source :: "string option"
  h_result :: "string option"
  h_active :: bool

definition server_core :: "server_row \<Rightarrow> server_core" where
  "server_core r = \<lparr> k_id = s_id r, k_generation = s_generation r,
     k_next_token = s_next_fencing_token r, k_current = s_current_snapshot_id r,
     k_archived = (s_archived_at_ms r \<noteq> None), k_desired = s_desired_state r \<rparr>"

definition instance_core :: "instance_row \<Rightarrow> instance_core" where
  "instance_core r = \<lparr> h_id = i_id r, h_server = i_server_id r,
     h_generation = i_server_generation r, h_token = i_fencing_token r,
     h_source = i_source_snapshot_id r, h_result = i_result_snapshot_id r,
     h_active = (i_terminated_at_ms r = None) \<rparr>"

lemma server_core_simps [simp]:
  "k_id (server_core r) = s_id r" "k_generation (server_core r) = s_generation r"
  "k_next_token (server_core r) = s_next_fencing_token r"
  "k_current (server_core r) = s_current_snapshot_id r"
  "k_archived (server_core r) \<longleftrightarrow> s_archived_at_ms r \<noteq> None"
  "k_desired (server_core r) = s_desired_state r"
  by (simp_all add: server_core_def)

lemma instance_core_simps [simp]:
  "h_id (instance_core r) = i_id r" "h_server (instance_core r) = i_server_id r"
  "h_generation (instance_core r) = i_server_generation r"
  "h_token (instance_core r) = i_fencing_token r"
  "h_source (instance_core r) = i_source_snapshot_id r"
  "h_result (instance_core r) = i_result_snapshot_id r"
  "h_active (instance_core r) \<longleftrightarrow> i_terminated_at_ms r = None"
  by (simp_all add: instance_core_def)

text \<open>The snapshot a server would be restored from, given what was published.\<close>

definition newest :: "uuid \<Rightarrow> string option \<Rightarrow> snapshot_row set \<Rightarrow> bool" where
  "newest server x N \<longleftrightarrow>
     (case x of
        None \<Rightarrow> \<forall>n \<in> N. n_server_id n \<noteq> server
      | Some y \<Rightarrow> \<exists>n \<in> N. n_server_id n = server \<and> n_id n = y
          \<and> (\<forall>m \<in> N. n_server_id m = server \<longrightarrow> n_fencing_token m \<le> n_fencing_token n))"

definition tokens_bounded :: "server_core set \<Rightarrow> instance_core set \<Rightarrow> bool" where
  "tokens_bounded S I \<longleftrightarrow> (\<forall>i \<in> I. \<exists>s \<in> S. k_id s = h_server i
     \<and> h_token i < k_next_token s \<and> h_generation i \<le> k_generation s)"

definition live_is_newest :: "server_core set \<Rightarrow> instance_core set \<Rightarrow> bool" where
  "live_is_newest S I \<longleftrightarrow> (\<forall>i \<in> I. \<forall>s \<in> S. h_active i \<and> k_id s = h_server i \<longrightarrow>
     k_next_token s = h_token i + 1 \<and> \<not> k_archived s)"

definition published_by :: "instance_core \<Rightarrow> snapshot_row \<Rightarrow> bool" where
  "published_by i n \<longleftrightarrow> n_server_instance_id n = h_id i \<and> n_server_id n = h_server i
     \<and> n_fencing_token n = h_token i \<and> h_result i = Some (n_id n)"

definition results_published :: "instance_core set \<Rightarrow> snapshot_row set \<Rightarrow> bool" where
  "results_published I N \<longleftrightarrow>
     (\<forall>n \<in> N. \<exists>i \<in> I. published_by i n)
   \<and> (\<forall>i \<in> I. h_result i \<noteq> None \<longrightarrow> (\<exists>n \<in> N. published_by i n))"

definition current_is_newest :: "server_core set \<Rightarrow> snapshot_row set \<Rightarrow> bool" where
  "current_is_newest S N \<longleftrightarrow> (\<forall>s \<in> S. newest (k_id s) (k_current s) N)"

definition lineage :: "instance_core set \<Rightarrow> snapshot_row set \<Rightarrow> bool" where
  "lineage I N \<longleftrightarrow>
     (\<forall>i \<in> I. newest (h_server i) (h_source i) {n \<in> N. n_fencing_token n < h_token i})"

definition ledger :: "server_core set \<Rightarrow> instance_core set \<Rightarrow> snapshot_row set \<Rightarrow> bool" where
  "ledger S I N \<longleftrightarrow>
     inj_on k_id S \<and> inj_on h_id I \<and> inj_on (\<lambda>i. (h_server i, h_token i)) I
   \<and> tokens_bounded S I \<and> live_is_newest S I \<and> results_published I N
   \<and> current_is_newest S N \<and> lineage I N"

lemmas ledger_defs = ledger_def tokens_bounded_def live_is_newest_def results_published_def
  published_by_def current_is_newest_def lineage_def

lemma ledger_empty: "ledger {} {} {}"
  by (simp add: ledger_defs)

lemma snapshot_server:
  "ledger S I N \<Longrightarrow> n \<in> N \<Longrightarrow> \<exists>s \<in> S. k_id s = n_server_id n \<and> n_fencing_token n < k_next_token s"
  unfolding ledger_defs by metis

lemma inj_on_image_key:
  "inj_on key A \<Longrightarrow> (\<And>x. x \<in> A \<Longrightarrow> key (f x) = key x) \<Longrightarrow> inj_on key (f ` A)"
  by (auto simp: inj_on_def)

section \<open>Changes of the server table\<close>

lemma ledger_new_server:
  assumes "ledger S I N" "k_id k \<notin> k_id ` S" "k_current k = None"
  shows "ledger (insert k S) I N"
proof -
  have fresh: "n_server_id n \<noteq> k_id k" if "n \<in> N" for n
    using snapshot_server [OF assms(1) that] assms(2) by (metis imageI)
  have I: "h_server i \<noteq> k_id k" if "i \<in> I" for i
    using assms(1,2) that unfolding ledger_def tokens_bounded_def by (metis imageI)
  have "tokens_bounded (insert k S) I"
    using assms(1) unfolding ledger_def tokens_bounded_def by blast
  moreover have "live_is_newest (insert k S) I"
    using assms(1) I unfolding ledger_def live_is_newest_def by (metis insert_iff)
  moreover have "current_is_newest (insert k S) N"
    using assms(1,3) fresh unfolding ledger_def current_is_newest_def newest_def by auto
  ultimately show ?thesis
    using assms(1,2) by (auto simp: ledger_def)
qed

lemma ledger_update_servers:
  assumes "ledger S I N"
    and upd: "\<And>s. s \<in> S \<Longrightarrow> k_id (g s) = k_id s \<and> k_next_token (g s) = k_next_token s
          \<and> k_current (g s) = k_current s \<and> k_generation s \<le> k_generation (g s)"
    and arch: "\<And>s i. s \<in> S \<Longrightarrow> i \<in> I \<Longrightarrow> k_archived (g s) \<Longrightarrow> h_active i \<Longrightarrow> k_id s = h_server i
          \<Longrightarrow> k_archived s"
  shows "ledger (g ` S) I N"
proof -
  have "inj_on k_id (g ` S)"
    using assms(1) upd by (intro inj_on_image_key) (auto simp: ledger_def)
  moreover have "tokens_bounded (g ` S) I"
    using assms(1) upd unfolding ledger_def tokens_bounded_def by (fastforce intro: order_trans)
  moreover have "live_is_newest (g ` S) I"
    using assms(1) upd arch unfolding ledger_def live_is_newest_def by auto
  moreover have "current_is_newest (g ` S) N"
    using assms(1) upd by (simp add: ledger_def current_is_newest_def)
  ultimately show ?thesis
    using assms(1) by (simp add: ledger_def)
qed

section \<open>Changes of the instance table\<close>

lemma newest_cong:
  "(\<And>n. n_server_id n = s \<Longrightarrow> n \<in> N \<longleftrightarrow> n \<in> N') \<Longrightarrow> newest s x N \<longleftrightarrow> newest s x N'"
  by (auto simp: newest_def split: option.splits)

definition bump_token :: "uuid \<Rightarrow> server_core \<Rightarrow> server_core" where
  "bump_token ident t = (if k_id t = ident then t\<lparr> k_next_token := k_next_token t + 1 \<rparr> else t)"

lemma bump_token_simps [simp]:
  "k_id (bump_token x t) = k_id t" "k_current (bump_token x t) = k_current t"
  "k_archived (bump_token x t) = k_archived t" "k_generation (bump_token x t) = k_generation t"
  "k_next_token (bump_token x t) = (if k_id t = x then k_next_token t + 1 else k_next_token t)"
  by (simp_all add: bump_token_def)

lemma tokens_bounded_bump: "tokens_bounded S I \<Longrightarrow> tokens_bounded (bump_token x ` S) I"
  unfolding tokens_bounded_def by fastforce

lemma live_is_newest_start:
  assumes "live_is_newest S I" "inj_on k_id S" "s \<in> S" "\<not> k_archived s"
    and "\<And>i. i \<in> I \<Longrightarrow> h_active i \<Longrightarrow> h_server i \<noteq> k_id s"
    and "h_server j = k_id s" "h_token j = k_next_token s"
  shows "live_is_newest (bump_token (k_id s) ` S) (insert j I)"
proof -
  have "k_next_token (bump_token (k_id s) t) = h_token i + 1 \<and> \<not> k_archived t"
    if "i \<in> insert j I" "t \<in> S" "h_active i" "k_id t = h_server i" for i t
  proof (cases "k_id t = k_id s")
    case True
    then have "t = s" "i = j" using assms(5) [of i] inj_onD [OF assms(2)] that assms(3) by auto
    then show ?thesis using assms by simp
  next
    case False
    then have "i \<in> I" using that assms by auto
    then show ?thesis using assms(1) that False unfolding live_is_newest_def by simp
  qed
  then show ?thesis by (simp add: live_is_newest_def)
qed

lemma ledger_new_instance:
  assumes L: "ledger S I N" and s: "s \<in> S" "\<not> k_archived s"
    and no_live: "\<And>i. i \<in> I \<Longrightarrow> h_active i \<Longrightarrow> h_server i \<noteq> k_id s"
    and new: "h_id j \<notin> h_id ` I" "h_server j = k_id s" "h_token j = k_next_token s"
      "h_generation j \<le> k_generation s" "h_source j = k_current s" "h_result j = None"
  shows "ledger (bump_token (k_id s) ` S) (insert j I) N"
proof -
  have same: "t = s" if "t \<in> S" "k_id t = k_id s" for t
    using L s inj_onD [of k_id S t s] that by (simp add: ledger_def)
  have less: "h_token i < k_next_token s" if "i \<in> I" "h_server i = k_id s" for i
    using L that same unfolding ledger_def tokens_bounded_def by metis
  have less_n: "n_fencing_token n < k_next_token s" if "n \<in> N" "n_server_id n = k_id s" for n
    using snapshot_server [OF L that(1)] that(2) same by metis
  have "inj_on k_id (bump_token (k_id s) ` S)"
    using L inj_on_image_key [of k_id S "bump_token (k_id s)"] by (simp add: ledger_def)
  moreover have "inj_on h_id (insert j I)"
    using L new(1) by (auto simp: ledger_def)
  moreover have "inj_on (\<lambda>i. (h_server i, h_token i)) (insert j I)"
    using L new(2,3) less by (fastforce simp: ledger_def)
  moreover have "tokens_bounded (bump_token (k_id s) ` S) (insert j I)"
    using L s new tokens_bounded_bump [of S I "k_id s"]
    unfolding ledger_def by (auto simp: tokens_bounded_def)
  moreover have "live_is_newest (bump_token (k_id s) ` S) (insert j I)"
    using L s no_live new by (intro live_is_newest_start) (auto simp: ledger_def)
  moreover have "results_published (insert j I) N"
    using L new unfolding ledger_def results_published_def published_by_def by auto
  moreover have cur: "current_is_newest (bump_token (k_id s) ` S) N" "newest (k_id s) (k_current s) N"
    using L s by (simp_all add: ledger_def current_is_newest_def)
  moreover have "newest (k_id s) (k_current s) {n \<in> N. n_fencing_token n < k_next_token s}"
    using cur(2) less_n by (subst newest_cong [of _ _ N]) auto
  then have "lineage (insert j I) N"
    using L new by (simp add: ledger_def lineage_def)
  ultimately show ?thesis by (simp add: ledger_def)
qed

lemma ledger_update_instances:
  assumes L: "ledger S I N"
    and upd: "\<And>i. i \<in> I \<Longrightarrow> h_id (f i) = h_id i \<and> h_server (f i) = h_server i \<and> h_token (f i) = h_token i
        \<and> h_generation (f i) = h_generation i \<and> h_source (f i) = h_source i
        \<and> h_result (f i) = h_result i \<and> (h_active (f i) \<longrightarrow> h_active i)"
  shows "ledger S (f ` I) N"
proof -
  have "inj_on h_id (f ` I)" "inj_on (\<lambda>i. (h_server i, h_token i)) (f ` I)"
    using L upd by (intro inj_on_image_key; simp add: ledger_def)+
  moreover have "tokens_bounded S (f ` I)"
    using L upd by (simp add: ledger_def tokens_bounded_def)
  moreover have "live_is_newest S (f ` I)"
    using L upd by (auto simp: ledger_def live_is_newest_def)
  moreover have "results_published (f ` I) N"
    using L upd by (simp add: ledger_def results_published_def published_by_def)
  moreover have "lineage (f ` I) N"
    using L upd by (simp add: ledger_def lineage_def)
  ultimately show ?thesis using L by (simp add: ledger_def)
qed

section \<open>Publication\<close>

lemma newest_insert:
  assumes "n_server_id n = s" "\<And>m. m \<in> N \<Longrightarrow> n_server_id m = s \<Longrightarrow> n_fencing_token m \<le> n_fencing_token n"
  shows "newest s (Some (n_id n)) (insert n N)"
  using assms by (auto simp: newest_def)

lemma live_tops_instances:
  assumes L: "ledger S I N" and i: "i \<in> I" "h_active i" and j: "j \<in> I" "h_server j = h_server i"
  shows "h_token j \<le> h_token i"
proof -
  obtain s t where s: "s \<in> S" "k_id s = h_server i" and t: "t \<in> S" "k_id t = h_server j"
      "h_token j < k_next_token t"
    using L i j unfolding ledger_def tokens_bounded_def by blast
  moreover have "t = s"
    using L inj_onD [of k_id S t s] s t j by (simp add: ledger_def)
  moreover have "k_next_token s = h_token i + 1"
    using L i s unfolding ledger_def live_is_newest_def by blast
  ultimately show ?thesis by simp
qed

lemma live_tops_snapshots:
  assumes L: "ledger S I N" and i: "i \<in> I" "h_active i" and n: "n \<in> N" "n_server_id n = h_server i"
  shows "n_fencing_token n \<le> h_token i"
proof -
  obtain j where "j \<in> I" "published_by j n"
    using L n unfolding ledger_def results_published_def by blast
  then show ?thesis using live_tops_instances [OF L i, of j] n by (simp add: published_by_def)
qed

lemma results_published_publish:
  assumes R: "results_published I N" and inj: "inj_on h_id I"
    and i: "i \<in> I" "h_result i = None"
    and n: "n_server_instance_id n = h_id i" "n_server_id n = h_server i" "n_fencing_token n = h_token i"
    and f: "\<And>j. f j = (if h_id j = h_id i then j\<lparr> h_result := Some (n_id n) \<rparr> else j)"
  shows "results_published (f ` I) (insert n N)"
proof -
  have old: "published_by (f j) m \<longleftrightarrow> published_by j m" "h_result (f j) = h_result j"
    if "j \<in> I" "j \<noteq> i" for j m
    using that inj_onD [OF inj, of j i] i by (auto simp: f)
  have ne: "\<not> published_by i m" for m using i by (simp add: published_by_def)
  have new: "published_by (f i) n" using i n by (simp add: f published_by_def)
  have "\<exists>j \<in> I. published_by (f j) m" if "m \<in> insert n N" for m
    using that new i R old(1) ne unfolding results_published_def by (metis insertE)
  moreover have "\<exists>m \<in> insert n N. published_by (f j) m" if "j \<in> I" "h_result (f j) \<noteq> None" for j
    using that new R old unfolding results_published_def by (metis insertCI)
  ultimately show ?thesis by (auto simp: results_published_def)
qed

lemma current_is_newest_publish:
  assumes C: "current_is_newest S N"
    and top: "\<And>m. m \<in> N \<Longrightarrow> n_server_id m = n_server_id n \<Longrightarrow> n_fencing_token m \<le> n_fencing_token n"
    and g: "\<And>t. g t = (if k_id t = n_server_id n then t\<lparr> k_current := Some (n_id n) \<rparr> else t)"
  shows "current_is_newest (g ` S) (insert n N)"
proof -
  have "newest (k_id t) (k_current (g t)) (insert n N)" if "t \<in> S" for t
  proof (cases "k_id t = n_server_id n")
    case True
    then show ?thesis using newest_insert [of n "k_id t" N] top by (simp add: g)
  next
    case False
    then have "newest (k_id t) (k_current t) N"
      using C that by (simp add: current_is_newest_def)
    then show ?thesis using False by (subst newest_cong [of _ _ N]) (auto simp: g)
  qed
  moreover have "k_id (g t) = k_id t" for t by (simp add: g)
  ultimately show ?thesis by (simp add: current_is_newest_def)
qed

lemma lineage_publish:
  assumes "lineage I N"
    and top: "\<And>j. j \<in> I \<Longrightarrow> h_server j = n_server_id n \<Longrightarrow> h_token j \<le> n_fencing_token n"
  shows "lineage I (insert n N)"
proof -
  have "newest (h_server j) (h_source j) {m \<in> insert n N. n_fencing_token m < h_token j}"
    if "j \<in> I" for j
    using assms(1) that top [OF that]
    by (subst newest_cong [of _ _ "{m \<in> N. n_fencing_token m < h_token j}"])
       (auto simp: lineage_def not_le [symmetric])
  then show ?thesis by (simp add: lineage_def)
qed

lemma ledger_publish:
  assumes L: "ledger S I N"
    and i: "i \<in> I" "h_active i" "h_result i = None"
    and n: "n_server_instance_id n = h_id i" "n_server_id n = h_server i" "n_fencing_token n = h_token i"
    and f: "\<And>j. f j = (if h_id j = h_id i then j\<lparr> h_result := Some (n_id n) \<rparr> else j)"
    and g: "\<And>t. g t = (if k_id t = h_server i then t\<lparr> k_current := Some (n_id n) \<rparr> else t)"
  shows "ledger (g ` S) (f ` I) (insert n N)"
proof -
  have fk: "h_id (f j) = h_id j" "h_server (f j) = h_server j" "h_token (f j) = h_token j"
    "h_generation (f j) = h_generation j" "h_source (f j) = h_source j"
    "h_active (f j) = h_active j" for j
    by (simp_all add: f)
  have gk: "k_id (g t) = k_id t" "k_next_token (g t) = k_next_token t"
    "k_archived (g t) = k_archived t" "k_generation (g t) = k_generation t" for t
    by (simp_all add: g)
  have "inj_on k_id (g ` S)" "inj_on h_id (f ` I)" "inj_on (\<lambda>i. (h_server i, h_token i)) (f ` I)"
    using L by (intro inj_on_image_key; simp add: ledger_def gk fk)+
  moreover have "tokens_bounded (g ` S) (f ` I)" "live_is_newest (g ` S) (f ` I)"
    using L by (simp_all add: ledger_def tokens_bounded_def live_is_newest_def gk fk)
  moreover have "results_published (f ` I) (insert n N)"
    using L i n f by (intro results_published_publish) (auto simp: ledger_def)
  moreover have "current_is_newest (g ` S) (insert n N)"
    using L live_tops_snapshots [OF L i(1,2)] n g
    by (intro current_is_newest_publish) (auto simp: ledger_def)
  moreover have "lineage I (insert n N)"
    using L live_tops_instances [OF L i(1,2)] n by (intro lineage_publish) (auto simp: ledger_def)
  then have "lineage (f ` I) (insert n N)" by (simp add: lineage_def fk)
  ultimately show ?thesis by (simp add: ledger_def)
qed

section \<open>What a live instance knows about the current snapshot\<close>

lemma token_inj:
  assumes "ledger S I N" "i \<in> I" "j \<in> I" "(h_server i, h_token i) = (h_server j, h_token j)"
  shows "i = j"
proof -
  have "inj_on (\<lambda>i. (h_server i, h_token i)) I" using assms(1) by (simp add: ledger_def)
  from inj_onD [OF this assms(4) assms(2,3)] show ?thesis .
qed

lemma live_result_is_current:
  assumes L: "ledger S I N" and i: "i \<in> I" "h_active i" "h_result i = Some x"
    and s: "s \<in> S" "k_id s = h_server i"
  shows "k_current s = Some x"
proof -
  obtain n where n: "n \<in> N" "published_by i n"
    using L i unfolding ledger_def results_published_def by blast
  have cur: "newest (h_server i) (k_current s) N"
    using L s(1) unfolding s(2) [symmetric] by (simp add: ledger_def current_is_newest_def)
  then obtain m where m: "m \<in> N" "n_server_id m = h_server i" "k_current s = Some (n_id m)"
      "n_fencing_token n \<le> n_fencing_token m"
    using n by (auto simp: newest_def published_by_def split: option.splits)
  then have tok: "n_fencing_token m = h_token i"
    using live_tops_snapshots [OF L i(1,2) m(1,2)] n by (simp add: published_by_def)
  obtain j where j: "j \<in> I" "published_by j m"
    using L m unfolding ledger_def results_published_def by blast
  have "(h_server j, h_token j) = (h_server i, h_token i)"
    using j(2) m(2) tok unfolding published_by_def by metis
  then have "j = i" using token_inj [OF L j(1) i(1)] by blast
  then show ?thesis using j i m by (simp add: published_by_def)
qed

lemma live_source_is_current:
  assumes L: "ledger S I N" and i: "i \<in> I" "h_active i" "h_result i = None"
  shows "newest (h_server i) (h_source i) N"
proof -
  have "n_fencing_token n < h_token i" if n: "n \<in> N" "n_server_id n = h_server i" for n
  proof -
    obtain j where j: "j \<in> I" "published_by j n"
      using L n unfolding ledger_def results_published_def by blast
    then have "j \<noteq> i" using i by (auto simp: published_by_def)
    then have "(h_server j, h_token j) \<noteq> (h_server i, h_token i)"
      using token_inj [OF L j(1) i(1)] by blast
    then have "h_token j \<noteq> h_token i"
      using j(2) n(2) unfolding published_by_def by metis
    then show ?thesis
      using live_tops_snapshots [OF L i(1,2) n] j by (simp add: published_by_def)
  qed
  moreover have "newest (h_server i) (h_source i) {n \<in> N. n_fencing_token n < h_token i}"
    using L i by (simp add: ledger_def lineage_def)
  ultimately show ?thesis by (subst newest_cong [of _ _ "{n \<in> N. n_fencing_token n < h_token i}"]) auto
qed

end
