(* ===== verification/Database_Invariant.thy ===== *)
theory Database_Invariant
  imports Ledger
begin

text \<open>
  The invariant of the database: the schema's constraints, the consistency
  every row is checked for when it is read, and the ledger. One lemma per
  write of the repositories shows that it is kept; the step relation at the
  end collects the writes.
\<close>

section \<open>Compute rows\<close>

definition compute_latest_ms :: "compute_row \<Rightarrow> int" where
  "compute_latest_ms r = (case c_terminated_at_ms r of None \<Rightarrow> c_updated_at_ms r | Some t \<Rightarrow> t)"

definition compute_row_ok :: "compute_row \<Rightarrow> bool" where
  "compute_row_ok r \<longleftrightarrow>
     text_ok 256 (c_connection_token r) \<and> optional_text_ok 256 (c_enrollment_token r)
   \<and> optional_text_ok 256 (c_provider_instance_id r) \<and> optional_text_ok 64 (c_public_ipv4 r)
   \<and> (c_provider r = ''local_process'' \<and> c_provider_instance_id r = None
        \<and> c_public_ipv4 r = None \<and> c_enrollment_token r = None
      \<or> c_provider r = ''akamai'' \<and> c_process_id r = None
        \<and> (\<forall>a. c_public_ipv4 r = Some a \<longrightarrow> ipv4_parses a))
   \<and> (\<forall>p. c_process_id r = Some p \<longrightarrow> 0 \<le> p \<and> p \<le> 4294967295)
   \<and> (c_terminated_at_ms r = None \<longleftrightarrow> c_terminal_result r = None)
   \<and> (\<forall>t. c_terminal_result r = Some t \<longrightarrow> t \<in> range compute_terminal_result_as_str)
   \<and> 0 \<le> c_created_at_ms r \<and> c_created_at_ms r \<le> c_updated_at_ms r
   \<and> within (c_created_at_ms r) (c_updated_at_ms r) (c_terminated_at_ms r)
   \<and> within (c_created_at_ms r) (compute_latest_ms r) (c_agent_connected_at_ms r)
   \<and> within (c_created_at_ms r) (compute_latest_ms r) (c_shutdown_requested_at_ms r)
   \<and> optional_text_ok 8192 (c_failure_message r)"

definition compute_of_row :: "compute_row \<Rightarrow> compute_instance" where
  "compute_of_row r =
     \<lparr> ci_id = c_id r, ci_server_instance_id = c_server_instance_id r,
       ci_provider = (if c_provider r = ''local_process'' then LocalProcess else Akamai),
       ci_provider_instance_id = c_provider_instance_id r, ci_public_ipv4 = c_public_ipv4 r,
       ci_connection_token = c_connection_token r, ci_enrollment_token = c_enrollment_token r,
       ci_process_id = map_option word_of_int (c_process_id r),
       ci_agent_connected_at = c_agent_connected_at_ms r,
       ci_shutdown_requested_at = c_shutdown_requested_at_ms r,
       ci_terminated_at = c_terminated_at_ms r,
       ci_terminal_result = map_option (\<lambda>t. if t = ''deleted'' then ComputeDeleted else ComputeFailed)
         (c_terminal_result r),
       ci_failure_message = c_failure_message r,
       ci_created_at = c_created_at_ms r, ci_updated_at = c_updated_at_ms r \<rparr>"

lemma compute_terminal_result_parse_row:
  "s \<in> range compute_terminal_result_as_str \<Longrightarrow>
   compute_terminal_result_parse s = Inr (if s = ''deleted'' then ComputeDeleted else ComputeFailed)"
  by (auto simp: compute_terminal_result_parse_def)
     (metis compute_terminal_result_as_str.simps compute_terminal_result.exhaust)

lemma decode_compute_ok:
  assumes "compute_row_ok r"
  shows "decode_compute_instance r = Inr (compute_of_row r)"
proof -
  have ok: "compute_consistent (compute_of_row r)"
    using assms
    by (auto simp: compute_row_ok_def compute_consistent_def compute_of_row_def Let_def
        compute_latest_ms_def provider_fields_ok_def)
  have ts: "\<forall>t. c_agent_connected_at_ms r = Some t \<longrightarrow> 0 \<le> t"
      "\<forall>t. c_shutdown_requested_at_ms r = Some t \<longrightarrow> 0 \<le> t"
      "\<forall>t. c_terminated_at_ms r = Some t \<longrightarrow> 0 \<le> t"
    using assms by (auto simp: compute_row_ok_def)
  have tr: "(case c_terminal_result r of None \<Rightarrow> Inr None
      | Some v \<Rightarrow> rbind (map_err RComputeValidation (compute_terminal_result_parse v)) (\<lambda>t. Inr (Some t)))
     = Inr (map_option (\<lambda>t. if t = ''deleted'' then ComputeDeleted else ComputeFailed) (c_terminal_result r))"
    using assms compute_terminal_result_parse_row
    by (auto simp: compute_row_ok_def split: option.split)
  have pid: "decode_process_id (c_process_id r) = Inr (map_option word_of_int (c_process_id r))"
    using assms by (auto simp: compute_row_ok_def decode_process_id_def split: option.split)
  have prov: "compute_provider_parse (c_provider r) =
      Inr (if c_provider r = ''local_process'' then LocalProcess else Akamai)"
    using assms by (auto simp: compute_row_ok_def compute_provider_parse_def)
  show ?thesis
    using assms ok ts tr pid prov
    by (simp add: decode_compute_instance_def compute_row_ok_def result_simps compute_of_row_def)
qed

section \<open>The invariant\<close>

definition rows_ok :: "database \<Rightarrow> bool" where
  "rows_ok db \<longleftrightarrow> list_all server_row_ok (servers db) \<and> list_all instance_row_ok (server_instances db)
     \<and> list_all compute_row_ok (compute_instances db)"

definition db_ledger :: "database \<Rightarrow> bool" where
  "db_ledger db \<longleftrightarrow> ledger (server_core ` set (servers db))
     (instance_core ` set (server_instances db)) (set (snapshots db))"

definition db_inv :: "database \<Rightarrow> bool" where
  "db_inv db \<longleftrightarrow> schema db \<and> rows_ok db \<and> db_ledger db"

lemma db_inv_empty: "db_inv empty_database"
  by (simp add: db_inv_def empty_database_def schema_def check_constraints_def foreign_keys_def
      unique_constraints_def rows_ok_def db_ledger_def ledger_empty)

lemma image_sql_update:
  assumes "\<And>r. r \<in> set rows \<Longrightarrow> h (if p r then f r else r) = g (h r)"
  shows "h ` set (sql_update p f rows) = g ` h ` set rows"
proof -
  have "map (h \<circ> (\<lambda>r. if p r then f r else r)) rows = map (g \<circ> h) rows"
    using assms by simp
  then show ?thesis
    unfolding sql_update_def by (metis image_comp list.set_map)
qed

lemma db_inv_update_servers:
  assumes inv: "db_inv db" and ex: "schema (db\<lparr> servers := sql_update p f (servers db) \<rparr>)"
    and ok: "\<And>r. r \<in> set (servers db) \<Longrightarrow> p r \<Longrightarrow> server_row_ok r \<Longrightarrow> server_row_check (f r)
       \<Longrightarrow> server_row_ok (f r)"
    and core: "\<And>r. server_core (if p r then f r else r) = g (server_core r)"
    and led: "ledger (g ` server_core ` set (servers db))
       (instance_core ` set (server_instances db)) (set (snapshots db))"
  shows "db_inv (db\<lparr> servers := sql_update p f (servers db) \<rparr>)"
proof -
  have "server_row_check (f r)" if "r \<in> set (servers db)" "p r" for r
    using ex that by (auto simp: schema_def check_constraints_def list_all_iff sql_update_def)
  then have "list_all server_row_ok (sql_update p f (servers db))"
    using inv ok by (intro list_all_sql_update) (auto simp: db_inv_def rows_ok_def list_all_iff)
  then show ?thesis
    using inv ex led image_sql_update [of "servers db" server_core p f g] core
    by (simp add: db_inv_def rows_ok_def db_ledger_def)
qed

lemma db_inv_update_instance:
  assumes inv: "db_inv db" and op: "update_instance p f db = Inr (db', b)"
    and ok: "\<And>r. p r \<Longrightarrow> instance_row_ok r \<Longrightarrow> instance_row_ok (f r)"
    and core: "\<And>r. instance_core (if p r then f r else r) = g (instance_core r)"
    and g: "\<And>i. h_id (g i) = h_id i \<and> h_server (g i) = h_server i \<and> h_token (g i) = h_token i
        \<and> h_generation (g i) = h_generation i \<and> h_source (g i) = h_source i
        \<and> h_result (g i) = h_result i \<and> (h_active (g i) \<longrightarrow> h_active i)"
  shows "db_inv db'"
proof -
  have db': "db' = db\<lparr> server_instances := sql_update p f (server_instances db) \<rparr>" "schema db'"
    using op by (auto simp: update_instance_def result_simps)
  have "list_all instance_row_ok (sql_update p f (server_instances db))"
    using inv ok by (intro list_all_sql_update) (auto simp: db_inv_def rows_ok_def list_all_iff)
  moreover have "ledger (server_core ` set (servers db))
      (g ` instance_core ` set (server_instances db)) (set (snapshots db))"
    using inv g by (intro ledger_update_instances) (auto simp: db_inv_def db_ledger_def)
  ultimately show ?thesis
    using inv db' image_sql_update [of "server_instances db" instance_core p f g] core
    by (simp add: db_inv_def rows_ok_def db_ledger_def)
qed

lemma db_inv_update_compute:
  assumes inv: "db_inv db" and op: "update_compute p f db = Inr (db', b)"
    and ok: "\<And>r. p r \<Longrightarrow> compute_row_ok r \<Longrightarrow> compute_row_check (f r) \<Longrightarrow> compute_row_ok (f r)"
  shows "db_inv db'"
proof -
  have db': "db' = db\<lparr> compute_instances := sql_update p f (compute_instances db) \<rparr>" "schema db'"
    using op by (auto simp: update_compute_def result_simps)
  have "compute_row_check (f r)" if "r \<in> set (compute_instances db)" "p r" for r
    using db' that by (auto simp: schema_def check_constraints_def list_all_iff sql_update_def)
  then have "list_all compute_row_ok (sql_update p f (compute_instances db))"
    using inv ok by (intro list_all_sql_update) (auto simp: db_inv_def rows_ok_def list_all_iff)
  then show ?thesis
    using inv db' by (simp add: db_inv_def rows_ok_def db_ledger_def)
qed

section \<open>Writes to the instance table\<close>

lemma request_stop_row:
  "request_stop_where ident r \<Longrightarrow> instance_row_ok r \<Longrightarrow> instance_row_ok (request_stop_set now r)"
  by (auto simp: request_stop_where_def request_stop_set_def instance_row_ok_def latest_ms_def
      le_max_iff_disj elim: within_mono)

lemma mark_data_prepared_row:
  "active_where ident r \<Longrightarrow> instance_row_ok r \<Longrightarrow> instance_row_ok (mark_data_prepared_set now r)"
  by (auto simp: active_where_def mark_data_prepared_set_def instance_row_ok_def latest_ms_def
      coalesce_def le_max_iff_disj elim: within_mono split: option.splits)

lemma observe_process_row:
  "active_where ident r \<Longrightarrow> instance_row_ok r \<Longrightarrow> instance_row_ok (observe_process_set running now r)"
  by (auto simp: active_where_def observe_process_set_def instance_row_ok_def latest_ms_def
      coalesce_def le_max_iff_disj elim: within_mono split: option.splits)

lemma record_error_row:
  "active_where ident r \<Longrightarrow> instance_row_ok r \<Longrightarrow> text_ok 8192 message
   \<Longrightarrow> instance_row_ok (record_error_set message now r)"
  by (auto simp: active_where_def record_error_set_def instance_row_ok_def latest_ms_def
      le_max_iff_disj elim: within_mono)

lemma complete_row:
  "active_where ident r \<Longrightarrow> instance_row_ok r \<Longrightarrow> instance_row_ok (complete_set result now r)"
  by (auto simp: active_where_def complete_set_def instance_row_ok_def latest_ms_def
      coalesce_def le_max_iff_disj elim: within_mono split: option.splits)

lemmas instance_rows = request_stop_row mark_data_prepared_row observe_process_row complete_row

lemmas instance_set_defs = request_stop_set_def mark_data_prepared_set_def observe_process_set_def
  record_error_set_def complete_set_def

lemma request_stop_inv:
  "db_inv db \<Longrightarrow> request_stop ident now db = Inr (db', b) \<Longrightarrow> db_inv db'"
  unfolding request_stop_def
  by (erule (1) db_inv_update_instance [where g = "\<lambda>i. i"], erule (1) request_stop_row)
     (auto simp: instance_core_def request_stop_set_def)

lemma mark_data_prepared_inv:
  "db_inv db \<Longrightarrow> mark_data_prepared ident now db = Inr (db', b) \<Longrightarrow> db_inv db'"
  unfolding mark_data_prepared_def
  by (erule (1) db_inv_update_instance [where g = "\<lambda>i. i"], erule (1) mark_data_prepared_row)
     (auto simp: instance_core_def mark_data_prepared_set_def)

lemma observe_process_inv:
  "db_inv db \<Longrightarrow> observe_process ident running now db = Inr (db', b) \<Longrightarrow> db_inv db'"
  unfolding observe_process_def
  by (erule (1) db_inv_update_instance [where g = "\<lambda>i. i"], erule (1) observe_process_row)
     (auto simp: instance_core_def observe_process_set_def)

lemma record_error_inv:
  assumes "db_inv db" "record_error ident message now db = Inr (db', b)"
    and "text_ok 8192 (truncate_chars 8192 message)"
  shows "db_inv db'"
proof -
  obtain x where "update_instance (active_where ident)
      (record_error_set (truncate_chars 8192 message) now) db = Inr (db', x)"
    using assms(2) by (auto simp: record_error_def result_simps split: prod.splits)
  with assms(1) show ?thesis
    by (rule db_inv_update_instance [where g = "\<lambda>i. i"])
       (use assms(3) record_error_row in \<open>auto simp: instance_core_def record_error_set_def\<close>)
qed

lemma complete_inv:
  "db_inv db \<Longrightarrow> complete ident result now db = Inr (db', b) \<Longrightarrow> db_inv db'"
  unfolding complete_def
  by (erule (1) db_inv_update_instance [where g = "\<lambda>i. if h_id i = ident then i\<lparr> h_active := False \<rparr> else i"], erule (1) complete_row)
     (auto simp: instance_core_def complete_set_def active_where_def)

lemma schema_rows:
  assumes "schema db"
  shows "distinct (map s_id (servers db))" "distinct (map i_id (server_instances db))"
    "distinct (map c_id (compute_instances db))"
    "r \<in> set (servers db) \<Longrightarrow> server_row_check r"
    "i \<in> set (server_instances db) \<Longrightarrow> instance_row_check i"
    "c \<in> set (compute_instances db) \<Longrightarrow> compute_row_check c"
  using assms by (auto simp: schema_def unique_constraints_def check_constraints_def list_all_iff)

lemma db_inv_rows:
  assumes "db_inv db"
  shows "r \<in> set (servers db) \<Longrightarrow> server_row_ok r"
    "i \<in> set (server_instances db) \<Longrightarrow> instance_row_ok i"
    "c \<in> set (compute_instances db) \<Longrightarrow> compute_row_ok c"
  using assms by (auto simp: db_inv_def rows_ok_def list_all_iff)

lemma new_instance_row_ok:
  assumes "server_row_ok s"
  shows "instance_row_ok (new_instance_row ident (instance_time now s insts) s)"
proof -
  have "0 \<le> instance_time now s insts"
    using assms by (auto simp: instance_time_def server_row_ok_def)
  then show ?thesis
    using assms by (simp add: new_instance_row_def instance_row_ok_def server_row_ok_def latest_ms_def)
qed

lemma running_not_archived:
  "server_row_ok s \<Longrightarrow> s_desired_state s = ''running'' \<Longrightarrow> s_archived_at_ms s = None"
  by (auto simp: server_row_ok_def)

lemma insert_for_running_server_cases:
  assumes "insert_for_running_server ident sid now db = Inr (db', b)"
  obtains (none) "\<not> b" "db' = db"
  | (some) s where "b" "s \<in> set (servers db)" "s_id s = sid" "s_desired_state s = ''running''"
      "\<And>i. i \<in> set (server_instances db) \<Longrightarrow> i_server_id i = sid \<Longrightarrow> i_terminated_at_ms i \<noteq> None"
      "db' = db\<lparr> server_instances := server_instances db @
            [new_instance_row ident (instance_time now s (server_instances db)) s],
          servers := sql_update (\<lambda>s. s_id s = sid) next_token_set (servers db) \<rparr>"
      "schema db'"
proof (cases "select_one (\<lambda>s. s_id s = sid \<and> s_desired_state s = ''running''
    \<and> \<not> list_ex (\<lambda>i. i_server_id i = s_id s \<and> i_terminated_at_ms i = None) (server_instances db))
    (servers db)")
  case None
  then show thesis using assms none by (simp add: insert_for_running_server_def)
next
  case (Some s)
  then show thesis
    using assms select_one_SomeD [OF Some]
    by (intro some [of s]) (auto simp: insert_for_running_server_def result_simps Let_def list_ex_iff)
qed

lemma insert_for_running_server_inv:
  assumes inv: "db_inv db" and op: "insert_for_running_server ident sid now db = Inr (db', b)"
  shows "db_inv db'"
  using op
proof (cases rule: insert_for_running_server_cases)
  case (some s)
  let ?new = "new_instance_row ident (instance_time now s (server_instances db)) s"
  have s: "server_row_ok s" using inv some(2) by (rule db_inv_rows)
  have "s_next_fencing_token r + 1 \<le> i64_max" if "r \<in> set (servers db)" "s_id r = sid" for r
    using schema_rows(4) [OF some(7), of "next_token_set r"] that some(6)
    by (auto simp: sql_update_def server_row_check_def next_token_set_def sql_int_def)
  then have "list_all server_row_ok (servers db')"
    using inv some(6) by (auto simp: db_inv_def rows_ok_def list_all_iff sql_update_def
        server_row_ok_def next_token_set_def)
  moreover have no_live: "h_server i \<noteq> k_id (server_core s)"
    if "i \<in> instance_core ` set (server_instances db)" "h_active i" for i
    using that some(3,5) by fastforce
  have "ident \<notin> i_id ` set (server_instances db)"
    using schema_rows(2) [OF some(7)] some(6) by (auto simp: new_instance_row_def)
  then have "ledger (bump_token (k_id (server_core s)) ` server_core ` set (servers db))
      (insert (instance_core ?new) (instance_core ` set (server_instances db))) (set (snapshots db))"
    using inv some(2,3) no_live running_not_archived [OF s some(4)]
    by (intro ledger_new_instance) (simp_all add: db_inv_def db_ledger_def new_instance_row_def image_image)
  moreover have "server_core ` set (sql_update (\<lambda>s. s_id s = sid) next_token_set (servers db)) =
      bump_token (k_id (server_core s)) ` server_core ` set (servers db)"
    using some(3) by (intro image_sql_update) (auto simp: next_token_set_def bump_token_def server_core_def)
  ultimately show ?thesis
    using inv some(6,7) new_instance_row_ok [OF s]
    by (simp add: db_inv_def rows_ok_def db_ledger_def)
qed (use inv in simp)

section \<open>Writes to the server table\<close>

lemma uint_less_unat: "uint (a :: u64) < uint (b :: u64) \<longleftrightarrow> unat a < unat b"
  by (simp only: uint_nat of_nat_less_iff)

lemma uint_pos [simp]: "0 < uint (w :: u64) \<longleftrightarrow> w \<noteq> 0"
  using uint_less_unat [of 0 w] by (simp add: unat_gt_0)

lemma generation_to_i64_Inr [result_simps]:
  "generation_to_i64 v = Inr i \<longleftrightarrow> v \<noteq> 0 \<and> uint v \<le> i64_max \<and> i = uint v"
  by (simp add: generation_to_i64_def result_simps)

lemma server_create_inv:
  assumes inv: "db_inv db" and op: "server_create s db = Inr db'"
    and wf: "server_wf s" "sv_current_snapshot_id s = None"
  shows "db_inv db'"
proof -
  have g: "sv_generation s \<noteq> 0" "uint (sv_generation s) \<le> i64_max"
    and db': "db' = insert_server s (uint (sv_generation s)) db" "schema db'"
    using op by (auto simp: server_create_def result_simps split: sum.splits if_splits)
  let ?r = "last (servers db')"
  have r: "servers db' = servers db @ [?r]" "s_id ?r = sv_id s" "s_current_snapshot_id ?r = None"
    using db' wf by (simp_all add: insert_server_def)
  have "uint (sv_generation s) > 0" using g by simp
  then have "server_row_ok ?r"
    using wf g db' by (auto simp: server_wf_def server_consistent_def insert_server_def
        server_row_ok_def optional_text_ok_def within_def)
  moreover have "sv_id s \<notin> s_id ` set (servers db)"
    using schema_rows(1) [OF db'(2)] r(2) by (subst (asm) r(1)) auto
  then have "ledger (insert (server_core ?r) (server_core ` set (servers db)))
      (instance_core ` set (server_instances db)) (set (snapshots db))"
    using inv r by (intro ledger_new_server) (auto simp: db_inv_def db_ledger_def image_iff)
  ultimately show ?thesis
    using inv db' r(1)
    by (auto simp: db_inv_def rows_ok_def db_ledger_def insert_server_def)
qed

lemma update_desired_state_inv:
  assumes inv: "db_inv db" and op: "update_desired_state s prev db = Inr (db', b)"
    and newer: "unat prev < unat (sv_generation s)"
  shows "db_inv db'"
proof -
  let ?p = "update_desired_state_where (sv_id s) (uint prev)"
  let ?f = "update_desired_state_set (sv_desired_state s) (uint (sv_generation s)) (sv_updated_at s)"
  let ?g = "\<lambda>k. if k_id k = sv_id s \<and> k_generation k = uint prev \<and> \<not> k_archived k
     then k\<lparr> k_generation := uint (sv_generation s), k_desired := desired_state_as_str (sv_desired_state s) \<rparr>
     else k"
  have db': "db' = db\<lparr> servers := sql_update ?p ?f (servers db) \<rparr>" "schema db'"
    and g: "uint (sv_generation s) \<le> i64_max" "sv_generation s \<noteq> 0"
    using op by (auto simp: update_desired_state_def result_simps Let_def)
  have "ledger (?g ` server_core ` set (servers db)) (instance_core ` set (server_instances db))
      (set (snapshots db))"
    using inv newer by (intro ledger_update_servers)
      (auto simp: db_inv_def db_ledger_def uint_less_unat [symmetric] split: if_splits)
  then have "db_inv (db\<lparr> servers := sql_update ?p ?f (servers db) \<rparr>)"
    using inv db' g
    by (intro db_inv_update_servers [where g = ?g])
       (auto simp: server_row_ok_def update_desired_state_set_def server_row_check_def
          update_desired_state_where_def server_core_def)
  then show ?thesis using db' by simp
qed

lemma update_spec_inv:
  assumes inv: "db_inv db" and op: "update_spec s prev db = Inr (db', b)"
    and newer: "unat prev < unat (sv_generation s)" and spec: "server_spec_ok (sv_spec s)"
  shows "db_inv db'"
proof -
  let ?p = "update_spec_where (sv_id s) (uint prev)"
  let ?f = "update_spec_set (sv_spec s) (uint (sv_generation s)) (sv_updated_at s)"
  let ?g = "\<lambda>k. if k_id k = sv_id s \<and> k_generation k = uint prev \<and> k_desired k = ''stopped''
       \<and> \<not> k_archived k
     then k\<lparr> k_generation := uint (sv_generation s) \<rparr> else k"
  have db': "db' = db\<lparr> servers := sql_update ?p ?f (servers db) \<rparr>" "schema db'"
    and g: "uint (sv_generation s) \<le> i64_max" "sv_generation s \<noteq> 0"
    using op by (auto simp: update_spec_def result_simps Let_def)
  have "ledger (?g ` server_core ` set (servers db)) (instance_core ` set (server_instances db))
      (set (snapshots db))"
    using inv newer by (intro ledger_update_servers)
      (auto simp: db_inv_def db_ledger_def uint_less_unat [symmetric] split: if_splits)
  then have "db_inv (db\<lparr> servers := sql_update ?p ?f (servers db) \<rparr>)"
    using inv db' g spec
    by (intro db_inv_update_servers [where g = ?g])
       (auto simp: server_row_ok_def update_spec_set_def server_row_check_def
          update_spec_where_def server_core_def)
  then show ?thesis using db' by simp
qed

lemma archive_inv:
  assumes inv: "db_inv db" and op: "archive s prev db = Inr (db', b)"
    and newer: "unat prev < unat (sv_generation s)"
  shows "db_inv db'"
proof -
  obtain a where a: "sv_archived_at s = Some a"
    using op by (auto simp: archive_def result_simps)
  let ?live = "\<lambda>k. \<exists>i \<in> set (server_instances db). i_server_id i = k_id k \<and> i_terminated_at_ms i = None"
  let ?p = "archive_where (sv_id s) (uint prev) (server_instances db)"
  let ?f = "archive_set a (uint (sv_generation s)) (sv_updated_at s)"
  let ?g = "\<lambda>k. if k_id k = sv_id s \<and> k_generation k = uint prev \<and> k_desired k = ''stopped''
       \<and> \<not> k_archived k \<and> \<not> ?live k
     then k\<lparr> k_generation := uint (sv_generation s), k_archived := True \<rparr> else k"
  have db': "db' = db\<lparr> servers := sql_update ?p ?f (servers db) \<rparr>" "schema db'"
    and g: "uint (sv_generation s) \<le> i64_max" "sv_generation s \<noteq> 0"
    using op a by (auto simp: archive_def result_simps Let_def)
  have "ledger (?g ` server_core ` set (servers db)) (instance_core ` set (server_instances db))
      (set (snapshots db))"
    using inv newer by (intro ledger_update_servers)
      (auto simp: db_inv_def db_ledger_def uint_less_unat [symmetric] split: if_splits)
  then have "db_inv (db\<lparr> servers := sql_update ?p ?f (servers db) \<rparr>)"
    using inv db' g
    by (intro db_inv_update_servers [where g = ?g])
       (auto simp: server_row_ok_def archive_set_def server_row_check_def null_or_def
          archive_where_def server_core_def list_ex_iff)
  then show ?thesis using db' by simp
qed

section \<open>Publication of a snapshot\<close>

lemma publish_Inr:
  assumes "publish snap sid ident token t db = Inr (db', b)"
  shows "b \<and> schema db' \<and> db' = db\<lparr>
      snapshots := snapshots db @ [new_snapshot_row snap sid ident token t],
      server_instances := sql_update (publish_instance_where ident token)
        (publish_instance_set snap t) (server_instances db),
      servers := sql_update (publish_server_where sid ident token
          (sql_update (publish_instance_where ident token) (publish_instance_set snap t)
            (server_instances db)))
        (publish_server_set snap t) (servers db) \<rparr>"
  using assms by (auto simp: publish_def result_simps Let_def)

lemma commit_cases:
  assumes inv: "db_inv db" and op: "commit ident token snap now db = Inr (db', b)"
  obtains (again) "\<not> b" "db' = db"
      "\<exists>i \<in> set (server_instances db). i_id i = ident \<and> i_terminated_at_ms i = None
         \<and> i_fencing_token i = uint token \<and> i_result_snapshot_id i = Some snap"
  | (published) i s where "b" "text_ok 256 snap" "i \<in> set (server_instances db)" "i_id i = ident"
      "i_terminated_at_ms i = None" "i_fencing_token i = uint token" "i_result_snapshot_id i = None"
      "s \<in> set (servers db)" "s_id s = i_server_id i"
      "publish snap (i_server_id i) ident (uint token)
         (max (max now (i_updated_at_ms i)) (s_updated_at_ms s)) db = Inr (db', True)"
proof -
  have snap: "text_ok 256 snap" using op by (auto simp: commit_def text_ok_def split: if_splits)
  obtain i s where i: "select_one (\<lambda>r. i_id r = ident) (server_instances db) = Some i"
      and s: "select_one (\<lambda>s. s_id s = i_server_id i) (servers db) = Some s"
    using op by (auto simp: commit_def result_simps bind_eq_Some_conv split: if_splits)
  note mem = select_one_SomeD [OF i] select_one_SomeD [OF s]
  have token: "i_fencing_token i = uint token" "i_terminated_at_ms i = None"
    using op i s by (auto simp: commit_def result_simps split: if_splits)
  show thesis
  proof (cases "i_result_snapshot_id i")
    case None
    have pub: "publish snap (i_server_id i) ident (uint token)
         (max (max now (i_updated_at_ms i)) (s_updated_at_ms s)) db = Inr (db', b)"
      using op i s None token by (auto simp: commit_def result_simps split: if_splits)
    moreover have "b" using publish_Inr [OF pub] by blast
    ultimately show thesis using published [of i s] snap mem token None by simp
  next
    case (Some x)
    then show thesis
      using again op i s mem token by (auto simp: commit_def result_simps split: if_splits)
  qed
qed

lemma publish_instance_row_ok:
  "instance_row_ok r \<Longrightarrow> publish_instance_where ident token r \<Longrightarrow> text_ok 256 snap
   \<Longrightarrow> instance_row_ok (publish_instance_set snap t r)"
  by (auto simp: publish_instance_where_def publish_instance_set_def instance_row_ok_def latest_ms_def
      le_max_iff_disj elim: within_mono)

lemma publish_server_row_ok:
  "server_row_ok r \<Longrightarrow> text_ok 256 snap \<Longrightarrow> server_row_ok (publish_server_set snap t r)"
  by (auto simp: publish_server_set_def server_row_ok_def le_max_iff_disj elim: within_mono)

lemma commit_inv:
  assumes inv: "db_inv db" and op: "commit ident token snap now db = Inr (db', b)"
  shows "db_inv db'"
  using inv op
proof (cases rule: commit_cases)
  case (published i s)
  define t where "t = max (max now (i_updated_at_ms i)) (s_updated_at_ms s)"
  let ?n = "new_snapshot_row snap (i_server_id i) ident (uint token) t"
  let ?I = "sql_update (publish_instance_where ident (uint token)) (publish_instance_set snap t)
     (server_instances db)"
  let ?S = "sql_update (publish_server_where (i_server_id i) ident (uint token) ?I)
     (publish_server_set snap t) (servers db)"
  let ?f = "\<lambda>j. if h_id j = h_id (instance_core i) then j\<lparr> h_result := Some (n_id ?n) \<rparr> else j"
  let ?g = "\<lambda>k. if k_id k = h_server (instance_core i) then k\<lparr> k_current := Some (n_id ?n) \<rparr> else k"
  have db': "db' = db\<lparr> snapshots := snapshots db @ [?n], server_instances := ?I, servers := ?S \<rparr>"
      "schema db'"
    using publish_Inr [OF published(10)] unfolding t_def [symmetric] by blast+
  have same: "r = i" if "r \<in> set (server_instances db)" "i_id r = ident" for r
    using inv that published(3,4) inj_onD [of i_id "set (server_instances db)" r i]
    by (auto simp: db_inv_def schema_def unique_constraints_def distinct_map)
  have "instance_core ` set ?I = ?f ` instance_core ` set (server_instances db)"
    using published(4-6)
    by (intro image_sql_update)
       (auto simp: publish_instance_where_def publish_instance_set_def instance_core_def
          new_snapshot_row_def dest: same)
  moreover have "publish_instance_set snap t i \<in> set ?I"
    unfolding sql_update_def set_map
    by (rule image_eqI [where x = i]) (use published(3-6) in \<open>simp_all add: publish_instance_where_def\<close>)
  then have "list_ex (\<lambda>j. i_id j = ident \<and> i_server_id j = i_server_id i
      \<and> i_fencing_token j = uint token \<and> i_terminated_at_ms j = None) ?I"
    unfolding list_ex_iff
    by (rule bexI [rotated]) (use published(4-6) in \<open>simp add: publish_instance_set_def\<close>)
  then have "server_core ` set ?S = ?g ` server_core ` set (servers db)"
    by (intro image_sql_update)
       (auto simp: publish_server_where_def publish_server_set_def server_core_def new_snapshot_row_def)
  moreover have "ledger (?g ` server_core ` set (servers db))
      (?f ` instance_core ` set (server_instances db)) (insert ?n (set (snapshots db)))"
    using inv published(3-7)
    by (intro ledger_publish [where i = "instance_core i"])
       (auto simp: db_inv_def db_ledger_def new_snapshot_row_def)
  ultimately have "db_ledger db'" by (simp add: db_ledger_def db'(1))
  moreover have "rows_ok db'"
    using inv published(2) publish_instance_row_ok publish_server_row_ok
    by (auto simp: db'(1) rows_ok_def db_inv_def intro!: list_all_sql_update)
  ultimately show ?thesis using db'(2) by (simp add: db_inv_def)
qed (use inv in simp)

section \<open>Writes to the compute table\<close>

lemmas compute_row_simps = compute_row_ok_def compute_latest_ms_def touched_def connected_at_def
  coalesce_def le_max_iff_disj

lemma insert_for_instance_inv:
  assumes inv: "db_inv db" and now: "0 \<le> now"
    and tokens: "text_ok 256 token" "optional_text_ok 256 enrollment"
      "provider = LocalProcess \<Longrightarrow> enrollment = None"
    and op: "insert_for_instance ident iid provider token enrollment now db = Inr (db', b)"
  shows "db_inv db'"
proof -
  have "compute_row_ok (new_compute_row ident iid provider token enrollment now)"
    using now tokens by (cases provider) (auto simp: new_compute_row_def compute_row_simps)
  then show ?thesis
    using op inv
    by (auto simp: insert_for_instance_def result_simps db_inv_def rows_ok_def db_ledger_def
        split: if_splits sum.splits)
qed

lemma uint_u32_bound: "uint (p :: u32) \<le> 4294967295"
  using uint_lt2p [of p] by simp

lemma record_process_id_inv:
  assumes "db_inv db" "record_process_id ident pid now db = Inr (db', b)"
  shows "db_inv db'"
  using assms(1) assms(2) [unfolded record_process_id_def]
  by (rule db_inv_update_compute)
     (use uint_u32_bound [of pid] in \<open>auto simp: provider_active_where_def record_process_id_set_def
        compute_row_simps elim: within_mono\<close>)

lemma record_provider_instance_inv:
  assumes "db_inv db" "record_provider_instance ident pid addr now db = Inr (db', b)"
    and "text_ok 256 pid" "\<And>a. addr = Some a \<Longrightarrow> text_ok 64 a \<and> ipv4_parses a"
  shows "db_inv db'"
  using assms(1) assms(2) [unfolded record_provider_instance_def]
  by (rule db_inv_update_compute)
     (use assms(3,4) in \<open>auto simp: provider_active_where_def record_provider_instance_set_def
        optional_text_ok_def compute_row_simps elim: within_mono\<close>)

lemma record_agent_certificate_inv:
  assumes "db_inv db" "record_agent_certificate ident token cert db = Inr (db', b)"
  shows "db_inv db'"
  using assms(1) assms(2) [unfolded record_agent_certificate_def]
  by (rule db_inv_update_compute)
     (auto simp: record_agent_certificate_where_def record_agent_certificate_set_def
        compute_row_simps elim: within_mono)

lemma authenticate_agent_inv:
  assumes "db_inv db" "authenticate_agent ident provider token der now db = Inr (db', a)"
  shows "db_inv db'"
proof -
  have "update_compute (authenticate_local_where ident token) (authenticate_local_set now) db = Inr (db1, b)
      \<Longrightarrow> db_inv db1" for db1 b
    by (erule db_inv_update_compute [OF assms(1)])
       (auto simp: authenticate_local_where_def authenticate_local_set_def compute_row_simps
          elim: within_mono split: option.splits)
  moreover have "update_compute (authenticate_akamai_where ident token d now)
      (authenticate_akamai_set now) db = Inr (db1, b) \<Longrightarrow> db_inv db1" for d db1 b
    by (erule db_inv_update_compute [OF assms(1)])
       (auto simp: authenticate_akamai_where_def authenticate_akamai_set_def compute_row_simps
          elim: within_mono split: option.splits)
  ultimately show ?thesis
    using assms
    by (auto simp: authenticate_agent_def result_simps split: compute_provider.splits option.splits)
qed

lemma request_shutdown_inv:
  assumes "db_inv db" "request_shutdown ident now db = Inr (db', b)"
  shows "db_inv db'"
  using assms(1) assms(2) [unfolded request_shutdown_def]
  by (rule db_inv_update_compute)
     (auto simp: compute_active_where_def request_shutdown_set_def compute_row_simps
        elim: within_mono split: option.splits)

lemma terminate_inv:
  assumes "db_inv db" "terminate ident result message now db = Inr (db', b)"
    and "optional_text_ok 8192 message"
  shows "db_inv db'"
  using assms(1) assms(2) [unfolded terminate_def]
  by (rule db_inv_update_compute)
     (use assms(3) in \<open>auto simp: compute_active_where_def terminate_set_def compute_row_simps
        elim: within_mono\<close>)

lemma record_failure_inv:
  assumes "db_inv db" "record_failure ident message now db = Inr (db', b)"
    and "text_ok 8192 (truncate_chars 8192 message)"
  shows "db_inv db'"
proof -
  obtain x where "update_compute (compute_active_where ident)
      (record_failure_set (truncate_chars 8192 message) now) db = Inr (db', x)"
    using assms(2) by (auto simp: record_failure_def result_simps split: prod.splits)
  with assms(1) show ?thesis
    by (rule db_inv_update_compute)
       (use assms(3) in \<open>auto simp: compute_active_where_def record_failure_set_def compute_row_simps
          elim: within_mono\<close>)
qed

section \<open>The repositories as a transition system\<close>

text \<open>
  One step is one committed write with the arguments its callers pass:
  aggregates that passed validation, a version newer than the one it
  replaces, bounded non-blank texts and clock readings since the epoch.
\<close>

inductive db_step :: "database \<Rightarrow> database \<Rightarrow> bool" where
  step_create: "server_create s db = Inr db' \<Longrightarrow> server_wf s \<Longrightarrow> sv_current_snapshot_id s = None
    \<Longrightarrow> db_step db db'"
| step_desired_state: "update_desired_state s prev db = Inr (db', b)
    \<Longrightarrow> unat prev < unat (sv_generation s) \<Longrightarrow> db_step db db'"
| step_spec: "update_spec s prev db = Inr (db', b) \<Longrightarrow> unat prev < unat (sv_generation s)
    \<Longrightarrow> server_spec_ok (sv_spec s) \<Longrightarrow> db_step db db'"
| step_archive: "archive s prev db = Inr (db', b) \<Longrightarrow> unat prev < unat (sv_generation s)
    \<Longrightarrow> db_step db db'"
| step_insert_instance: "insert_for_running_server ident sid now db = Inr (db', b) \<Longrightarrow> db_step db db'"
| step_request_stop: "request_stop ident now db = Inr (db', b) \<Longrightarrow> db_step db db'"
| step_mark_data_prepared: "mark_data_prepared ident now db = Inr (db', b) \<Longrightarrow> db_step db db'"
| step_observe_process: "observe_process ident running now db = Inr (db', b) \<Longrightarrow> db_step db db'"
| step_record_error: "record_error ident message now db = Inr (db', u)
    \<Longrightarrow> text_ok 8192 (truncate_chars 8192 message) \<Longrightarrow> db_step db db'"
| step_complete: "complete ident result now db = Inr (db', b) \<Longrightarrow> db_step db db'"
| step_commit: "commit ident token snap now db = Inr (db', b) \<Longrightarrow> db_step db db'"
| step_insert_compute: "insert_for_instance ident iid provider ctoken etoken now db = Inr (db', b)
    \<Longrightarrow> 0 \<le> now \<Longrightarrow> text_ok 256 ctoken \<Longrightarrow> optional_text_ok 256 etoken
    \<Longrightarrow> (provider = LocalProcess \<Longrightarrow> etoken = None) \<Longrightarrow> db_step db db'"
| step_process_id: "record_process_id ident pid now db = Inr (db', b) \<Longrightarrow> db_step db db'"
| step_provider_instance: "record_provider_instance ident piid addr now db = Inr (db', b)
    \<Longrightarrow> text_ok 256 piid \<Longrightarrow> (\<And>a. addr = Some a \<Longrightarrow> text_ok 64 a \<and> ipv4_parses a) \<Longrightarrow> db_step db db'"
| step_certificate: "record_agent_certificate ident etoken cert db = Inr (db', b) \<Longrightarrow> db_step db db'"
| step_authenticate: "authenticate_agent ident provider ctoken der now db = Inr (db', a)
    \<Longrightarrow> db_step db db'"
| step_request_shutdown: "request_shutdown ident now db = Inr (db', b) \<Longrightarrow> db_step db db'"
| step_terminate: "terminate ident cresult message now db = Inr (db', b)
    \<Longrightarrow> optional_text_ok 8192 message \<Longrightarrow> db_step db db'"
| step_record_failure: "record_failure ident message now db = Inr (db', u)
    \<Longrightarrow> text_ok 8192 (truncate_chars 8192 message) \<Longrightarrow> db_step db db'"

lemmas db_inv_ops = server_create_inv update_desired_state_inv update_spec_inv archive_inv
  insert_for_running_server_inv request_stop_inv mark_data_prepared_inv observe_process_inv
  record_error_inv complete_inv commit_inv insert_for_instance_inv record_process_id_inv
  record_provider_instance_inv record_agent_certificate_inv authenticate_agent_inv
  request_shutdown_inv terminate_inv record_failure_inv

lemma db_step_inv: "db_step db db' \<Longrightarrow> db_inv db \<Longrightarrow> db_inv db'"
  by (cases rule: db_step.cases) (auto intro: db_inv_ops)

interpretation repositories: invariant_system "\<lambda>db. db = empty_database" db_step db_inv
  by unfold_locales (auto intro: db_inv_empty db_step_inv)

end
