(* ===== verification/Example_Run.thy ===== *)
theory Example_Run
  imports Database_Invariant
begin

text \<open>
  A concrete run of the repositories, from the empty database to a server
  whose first instance has published a snapshot. It shows that the
  hypotheses of the general theorems are met by real states.
\<close>

definition ex_spec :: server_spec where
  "ex_spec = \<lparr> compute = ComputeLocal,
     process = \<lparr> container_image = ''itzg/minecraft-server'', server_type = ''VANILLA'',
       version = ''LATEST'', host_port = 25565, stop_timeout_seconds = 30, accept_eula = True,
       environment = [] \<rparr>,
     data = \<lparr> backend = LocalRestic, repository = ''/srv/restic'' \<rparr> \<rparr>"

definition ex_server :: server where
  "ex_server = \<lparr> sv_id = 1, sv_name = ''lobby'', sv_generation = 1, sv_desired_state = Stopped,
     sv_spec = ex_spec, sv_current_snapshot_id = None, sv_archived_at = None,
     sv_created_at = 1000, sv_updated_at = 1000 \<rparr>"

definition ex_server_running :: server where
  "ex_server_running = ex_server\<lparr> sv_generation := 2, sv_desired_state := Running, sv_updated_at := 2000 \<rparr>"

definition ex_row :: server_row where
  "ex_row = \<lparr> s_id = 1, s_name = ''lobby'', s_generation = 2, s_desired_state = ''running'',
     s_spec = ex_spec, s_current_snapshot_id = None, s_next_fencing_token = 1,
     s_archived_at_ms = None, s_created_at_ms = 1000, s_updated_at_ms = 2000 \<rparr>"

definition ex_instance :: instance_row where
  "ex_instance = \<lparr> i_id = 7, i_server_id = 1, i_server_generation = 2, i_resolved_spec = ex_spec,
     i_fencing_token = 1, i_source_snapshot_id = None, i_data_prepared_at_ms = None,
     i_process_running = False, i_process_observed_at_ms = None, i_result_snapshot_id = None,
     i_stop_requested_at_ms = None, i_terminated_at_ms = None, i_terminal_result = None,
     i_last_error = None, i_created_at_ms = 3000, i_updated_at_ms = 3000 \<rparr>"

definition ex_snapshot :: string where
  "ex_snapshot = ''5f3a''"

definition ex_db1 :: database where
  "ex_db1 = empty_database\<lparr> servers := [ex_row\<lparr> s_generation := 1, s_desired_state := ''stopped'',
     s_updated_at_ms := 1000 \<rparr>] \<rparr>"

definition ex_db2 :: database where
  "ex_db2 = empty_database\<lparr> servers := [ex_row] \<rparr>"

definition ex_db3 :: database where
  "ex_db3 = empty_database\<lparr> servers := [ex_row\<lparr> s_next_fencing_token := 2 \<rparr>],
     server_instances := [ex_instance] \<rparr>"

definition ex_db4 :: database where
  "ex_db4 = ex_db3\<lparr> server_instances := [ex_instance\<lparr> i_data_prepared_at_ms := Some 3500,
     i_updated_at_ms := 3500 \<rparr>] \<rparr>"

definition ex_db5 :: database where
  "ex_db5 = empty_database\<lparr>
     servers := [ex_row\<lparr> s_next_fencing_token := 2, s_current_snapshot_id := Some ex_snapshot,
       s_updated_at_ms := 5000 \<rparr>],
     server_instances := [ex_instance\<lparr> i_data_prepared_at_ms := Some 3500,
       i_result_snapshot_id := Some ex_snapshot, i_updated_at_ms := 5000 \<rparr>],
     snapshots := [\<lparr> n_id = ex_snapshot, n_server_id = 1, n_server_instance_id = 7,
       n_fencing_token = 1, n_created_at_ms = 5000 \<rparr>] \<rparr>"

definition ex_db6 :: database where
  "ex_db6 = ex_db5\<lparr> server_instances := [ex_instance\<lparr> i_data_prepared_at_ms := Some 3500,
     i_process_observed_at_ms := Some 6000, i_result_snapshot_id := Some ex_snapshot,
     i_terminated_at_ms := Some 6000, i_terminal_result := Some ''completed'',
     i_updated_at_ms := 6000 \<rparr>] \<rparr>"

lemmas ex_defs = ex_row_def ex_instance_def ex_snapshot_def ex_db1_def ex_db2_def ex_db3_def
  ex_db4_def ex_db5_def ex_db6_def empty_database_def

lemma ex_create: "server_create ex_server empty_database = Inr ex_db1"
  by code_simp

lemma ex_wf: "server_new 1 ''lobby'' ex_spec 1000 = Inr ex_server"
  by code_simp

lemma ex_running: "update_desired_state ex_server_running 1 ex_db1 = Inr (ex_db2, True)"
  by code_simp

lemma ex_insert: "insert_for_running_server 7 1 3000 ex_db2 = Inr (ex_db3, True)"
  by code_simp

lemma ex_prepared: "mark_data_prepared 7 3500 ex_db3 = Inr (ex_db4, True)"
  by code_simp

lemma ex_commit: "commit 7 1 ex_snapshot 5000 ex_db4 = Inr (ex_db5, True)"
  by code_simp

lemma ex_complete: "complete 7 Completed 6000 ex_db5 = Inr (ex_db6, True)"
  by code_simp

lemma ex_server_wf: "server_wf ex_server"
proof -
  have "server_name_new ''lobby'' = Inr ''lobby''" by code_simp
  then have "dns_label ''lobby''" by (simp add: result_simps)
  then show ?thesis by (rule server_new_wf [OF ex_wf]) simp
qed

abbreviation reachable :: "database \<Rightarrow> bool" where
  "reachable \<equiv> reach (\<lambda>db. db = empty_database) db_step"

lemma ex_reach1: "reachable ex_db1"
  by (rule reach_step [OF reach_init, of _ empty_database], simp, rule step_create [OF ex_create ex_server_wf])
     (simp add: ex_server_def)

lemma ex_reach2: "reachable ex_db2"
  by (rule reach_step [OF ex_reach1], rule step_desired_state [OF ex_running])
     (simp add: ex_server_running_def ex_server_def)

lemma ex_reach3: "reachable ex_db3"
  by (rule reach_step [OF ex_reach2], rule step_insert_instance [OF ex_insert])

lemma ex_reach4: "reachable ex_db4"
  by (rule reach_step [OF ex_reach3], rule step_mark_data_prepared [OF ex_prepared])

lemma ex_reach5: "reachable ex_db5"
  by (rule reach_step [OF ex_reach4], rule step_commit [OF ex_commit])

lemma ex_reach6: "reachable ex_db6"
  by (rule reach_step [OF ex_reach5], rule step_complete [OF ex_complete])

end
