(* ===== verification/Repository_Properties.thy ===== *)
theory Repository_Properties
  imports Example_Run
begin

text \<open>
  What the invariant gives the users of the repositories: reads never fail
  to decode, the writes of the reconciler never violate the schema, a live
  instance excludes every other writer, and publication of a snapshot is
  fenced, atomic and idempotent.
\<close>

section \<open>Rows that decode satisfy the schema\<close>

lemma blank_bytes_white1: "list_all white1 bs \<Longrightarrow> blank_bytes bs"
  by (induction bs rule: blank_bytes.induct) auto

lemma text_ok_sql_text: "text_ok m v \<Longrightarrow> sql_text m v"
proof -
  have "is_blank v" if "list_all (\<lambda>c. c = CHR '' '') v"
  proof -
    have "list_all white1 (map code v)"
      using that by (induction v) (simp_all add: white1_def code_def)
    then show ?thesis by (simp add: is_blank_def blank_bytes_white1)
  qed
  then show "text_ok m v \<Longrightarrow> sql_text m v" by (auto simp: text_ok_def sql_text_def)
qed

lemma optional_text_ok_null_or: "optional_text_ok m x \<Longrightarrow> null_or (sql_text m) x"
  by (cases x) (auto simp: null_or_def text_ok_sql_text)

lemma null_or_within: "within lo hi x \<Longrightarrow> hi \<le> hi' \<Longrightarrow> null_or (\<lambda>t. lo \<le> t \<and> t \<le> hi') x"
  by (cases x) (auto simp: null_or_def)

lemma within_coalesce: "within lo hi x \<Longrightarrow> 0 \<le> hi \<Longrightarrow> coalesce x 0 \<le> hi"
  by (cases x) (auto simp: coalesce_def)

lemma latest_ms_le: "instance_row_ok r \<Longrightarrow> latest_ms r \<le> i_updated_at_ms r"
  by (auto simp: instance_row_ok_def latest_ms_def split: option.splits)

lemma terminated_covers_priors:
  assumes "instance_row_ok r" "i_terminated_at_ms r = Some t"
  shows "max (max (coalesce (i_data_prepared_at_ms r) 0) (coalesce (i_process_observed_at_ms r) 0))
     (coalesce (i_stop_requested_at_ms r) 0) \<le> t"
proof -
  have "0 \<le> t" "latest_ms r = t" using assms by (auto simp: instance_row_ok_def latest_ms_def)
  then show ?thesis
    using assms within_coalesce [of "i_created_at_ms r" t] by (simp add: instance_row_ok_def)
qed

lemma range_terminal_result: "range terminal_result_as_str = {''completed'', ''failed''}"
proof -
  have "(UNIV :: terminal_result set) = {Completed, Failed}"
    using terminal_result.exhaust by blast
  then have "range terminal_result_as_str = terminal_result_as_str ` {Completed, Failed}"
    by (rule arg_cong)
  then show ?thesis by simp
qed

lemma instance_row_ok_check:
  assumes ok: "instance_row_ok r"
  shows "instance_row_check r"
proof -
  have "null_or (\<lambda>t. i_created_at_ms r \<le> t \<and> t \<le> i_updated_at_ms r) x"
    if "x \<in> {i_data_prepared_at_ms r, i_process_observed_at_ms r, i_stop_requested_at_ms r}" for x
    using that ok latest_ms_le [OF ok] null_or_within [of "i_created_at_ms r" "latest_ms r" x]
    by (auto simp: instance_row_ok_def)
  then show ?thesis
    using ok terminated_covers_priors [OF ok] range_terminal_result
    by (cases "i_terminated_at_ms r"; cases "i_terminal_result r")
       (simp_all add: instance_row_check_def instance_row_ok_def Let_def optional_text_ok_null_or)
qed

lemma filter_sql_update_keys:
  assumes upd: "\<And>r. p r \<Longrightarrow> k (f r) = k r \<and> (q (f r) \<longrightarrow> q r)"
    and "distinct (map k (filter q rows))"
  shows "distinct (map k (filter q (sql_update p f rows)))"
  using assms(2)
proof (induction rows)
  case Nil
  then show ?case by (simp add: sql_update_def)
next
  case (Cons r rows)
  define u where "u = (\<lambda>r. if p r then f r else r)"
  have u: "k (u r) = k r" "q (u r) \<Longrightarrow> q r" for r
    using upd [of r] by (auto simp: u_def split: if_splits)
  have "\<forall>x \<in> set rows. q r \<longrightarrow> q (u x) \<longrightarrow> k x \<noteq> k r"
  proof (intro ballI impI)
    fix x
    assume x: "x \<in> set rows" "q r" "q (u x)"
    have "q x" using u(2) x(3) .
    then show "k x \<noteq> k r" using Cons.prems x by (auto simp: image_iff)
  qed
  moreover have "distinct (map k (filter q (map u rows)))"
    using Cons by (simp add: sql_update_def u_def split: if_splits)
  ultimately show ?case
    using u(1) u(2) [of r] unfolding sql_update_def u_def [symmetric] by auto
qed

lemma schema_update_instances:
  assumes sch: "schema db" and rows: "list_all instance_row_ok (server_instances db)"
    and ok: "\<And>r. p r \<Longrightarrow> instance_row_ok r \<Longrightarrow> instance_row_ok (f r)"
    and keep: "\<And>r. p r \<Longrightarrow> i_id (f r) = i_id r \<and> i_server_id (f r) = i_server_id r
       \<and> i_fencing_token (f r) = i_fencing_token r
       \<and> (i_terminated_at_ms (f r) = None \<longrightarrow> i_terminated_at_ms r = None)"
  shows "schema (db\<lparr> server_instances := sql_update p f (server_instances db) \<rparr>)"
proof -
  let ?I = "sql_update p f (server_instances db)"
  let ?db = "db\<lparr> server_instances := ?I \<rparr>"
  have "list_all instance_row_check ?I"
    using sch rows ok instance_row_ok_check
    by (auto simp: sql_update_def list_all_iff schema_def check_constraints_def)
  then have "check_constraints ?db"
    using sch by (simp add: schema_def check_constraints_def)
  moreover have keys: "map i_id ?I = map i_id (server_instances db)"
    "map (\<lambda>r. (i_server_id r, i_fencing_token r)) ?I =
     map (\<lambda>r. (i_server_id r, i_fencing_token r)) (server_instances db)"
    "map i_server_id ?I = map i_server_id (server_instances db)"
    using keep by (auto intro!: map_sql_update_cong)
  have "distinct (map i_server_id (filter i_active ?I))"
    using sch keep by (intro filter_sql_update_keys)
      (auto simp: i_active_def schema_def unique_constraints_def)
  then have "unique_constraints ?db"
    using sch keys by (simp add: schema_def unique_constraints_def)
  moreover have "i_server_id ` set ?I = i_server_id ` set (server_instances db)"
    "i_id ` set ?I = i_id ` set (server_instances db)"
    using keys(1,3) by (metis list.set_map)+
  then have "foreign_keys ?db"
    using sch unfolding schema_def foreign_keys_def list_all_iff by (simp add: image_subset_iff [symmetric])
  ultimately show ?thesis by (simp add: schema_def)
qed

lemma update_instance_succeeds:
  assumes "db_inv db"
    and "\<And>r. p r \<Longrightarrow> instance_row_ok r \<Longrightarrow> instance_row_ok (f r)"
    and "\<And>r. p r \<Longrightarrow> i_id (f r) = i_id r \<and> i_server_id (f r) = i_server_id r
       \<and> i_fencing_token (f r) = i_fencing_token r
       \<and> (i_terminated_at_ms (f r) = None \<longrightarrow> i_terminated_at_ms r = None)"
  shows "update_instance p f db =
     Inr (db\<lparr> server_instances := sql_update p f (server_instances db) \<rparr>,
          rows_affected p (server_instances db) = 1)"
  using schema_update_instances [of db p f] assms
  by (simp add: update_instance_def execute_def schema_def db_inv_def rows_ok_def)

section \<open>Publication succeeds for the holder of the token\<close>

lemma server_row_ok_check:
  assumes ok: "server_row_ok r"
  shows "server_row_check r"
proof -
  have "dns_label (s_name r)" using ok by (simp add: server_row_ok_def)
  then obtain a m where n: "s_name r = a # m" "length (s_name r) \<le> 63"
      "list_all (\<lambda>b. name_edge b \<or> b = CHR ''-'') (s_name r)" "name_edge a"
    by (auto simp: dns_label_def list_all_iff)
  then have "list_all (\<lambda>b. code b < 128 \<and> \<not> white1 (code b) \<and> code b \<noteq> 0) (s_name r)"
    using printable_ascii(3) by (auto simp: list_all_iff code_def white1_def)
  then have "text_ok 128 (s_name r)"
    using ascii_text [of "s_name r"] n by (simp add: text_ok_def)
  moreover have "s_desired_state r \<in> {''running'', ''stopped''}"
    using ok by (auto simp: server_row_ok_def) (metis desired_state_as_str.simps desired_state.exhaust)
  ultimately show ?thesis
    using ok text_ok_sql_text optional_text_ok_null_or
    by (cases "s_archived_at_ms r") (auto simp: server_row_ok_def server_row_check_def sql_int_def)
qed

lemma schema_update_servers:
  assumes sch: "schema db" and rows: "list_all server_row_ok (servers db)"
    and ok: "\<And>r. p r \<Longrightarrow> server_row_ok r \<Longrightarrow> server_row_ok (f r)"
    and keep: "\<And>r. p r \<Longrightarrow> s_id (f r) = s_id r \<and> s_name (f r) = s_name r"
  shows "schema (db\<lparr> servers := sql_update p f (servers db) \<rparr>)"
proof -
  let ?S = "sql_update p f (servers db)"
  have "list_all server_row_check ?S"
    using sch rows ok server_row_ok_check
    by (auto simp: sql_update_def list_all_iff schema_def check_constraints_def)
  moreover have keys: "map s_id ?S = map s_id (servers db)" "map s_name ?S = map s_name (servers db)"
    using keep by (auto intro!: map_sql_update_cong)
  moreover have "s_id ` set ?S = s_id ` set (servers db)"
    using keys(1) by (metis list.set_map)
  ultimately show ?thesis
    using sch by (simp add: schema_def check_constraints_def unique_constraints_def foreign_keys_def)
qed

lemma token_unpublished:
  assumes inv: "db_inv db" and i: "i \<in> set (server_instances db)" "i_result_snapshot_id i = None"
    and n: "n \<in> set (snapshots db)"
  shows "\<not> (n_server_id n = i_server_id i \<and> n_fencing_token n = i_fencing_token i)"
proof
  assume eq: "n_server_id n = i_server_id i \<and> n_fencing_token n = i_fencing_token i"
  have L: "ledger (server_core ` set (servers db)) (instance_core ` set (server_instances db)) (set (snapshots db))"
    using inv by (simp add: db_inv_def db_ledger_def)
  then obtain j where j: "j \<in> set (server_instances db)" "published_by (instance_core j) n"
    using n unfolding ledger_def results_published_def by blast
  have "inj_on (\<lambda>i. (h_server i, h_token i)) (instance_core ` set (server_instances db))"
    using L by (simp add: ledger_def)
  then have "instance_core j = instance_core i"
    by (rule inj_onD) (use j eq i in \<open>auto simp: published_by_def\<close>)
  then show False
    using j(2) i(2) by (simp add: published_by_def instance_core_def)
qed

lemma schema_new_snapshot:
  assumes inv: "db_inv db" and i: "i \<in> set (server_instances db)" "i_result_snapshot_id i = None"
    and snap: "text_ok 256 snap" and t: "0 \<le> t"
    and fresh: "\<forall>n \<in> set (snapshots db). n_server_id n = i_server_id i \<longrightarrow> n_id n \<noteq> snap"
  shows "schema (db\<lparr> snapshots := snapshots db @
     [new_snapshot_row snap (i_server_id i) (i_id i) (i_fencing_token i) t] \<rparr>)"
proof -
  have sch: "schema db" using inv by (simp add: db_inv_def)
  have "0 < i_fencing_token i" using db_inv_rows(2) [OF inv i(1)] by (simp add: instance_row_ok_def)
  moreover have "i_server_id i \<in> s_id ` set (servers db)"
    using sch i(1) by (auto simp: schema_def foreign_keys_def list_all_iff)
  moreover have "\<forall>n \<in> set (snapshots db). n_server_id n = i_server_id i \<longrightarrow>
      n_fencing_token n \<noteq> i_fencing_token i"
    using token_unpublished [OF inv i] by blast
  ultimately show ?thesis
    using sch fresh text_ok_sql_text [OF snap] t i(1)
    by (auto simp: schema_def check_constraints_def unique_constraints_def foreign_keys_def
        new_snapshot_row_def snapshot_row_check_def)
qed

lemma rows_affected_key:
  assumes "distinct (map key rows)" "r \<in> set rows" "p r" "\<And>x. p x \<Longrightarrow> key x = key r"
  shows "rows_affected p rows = 1"
proof -
  have "row_update key p (\<lambda>r. r)"
  proof
    show "key r = key r'" if "p r" "p r'" for r r' using assms(4) that by metis
  qed simp
  then show ?thesis
    using row_update.affected_one [of key p "\<lambda>r. r" rows] assms(1-3) by blast
qed

lemma publish_succeeds:
  assumes inv: "db_inv db" and i: "i \<in> set (server_instances db)" "i_result_snapshot_id i = None"
      "i_terminated_at_ms i = None"
    and snap: "text_ok 256 snap" and t: "0 \<le> t"
    and fresh: "\<forall>n \<in> set (snapshots db). n_server_id n = i_server_id i \<longrightarrow> n_id n \<noteq> snap"
  shows "\<exists>db'. publish snap (i_server_id i) (i_id i) (i_fencing_token i) t db = Inr (db', True)"
proof -
  let ?n = "new_snapshot_row snap (i_server_id i) (i_id i) (i_fencing_token i) t"
  let ?p = "publish_instance_where (i_id i) (i_fencing_token i)"
  let ?I = "sql_update ?p (publish_instance_set snap t) (server_instances db)"
  let ?q = "publish_server_where (i_server_id i) (i_id i) (i_fencing_token i) ?I"
  let ?db1 = "db\<lparr> snapshots := snapshots db @ [?n] \<rparr>"
  let ?db2 = "?db1\<lparr> server_instances := ?I \<rparr>"
  have rows: "list_all instance_row_ok (server_instances db)" "list_all server_row_ok (servers db)"
    using inv by (simp_all add: db_inv_def rows_ok_def)
  have s1: "schema ?db1" using schema_new_snapshot [OF inv i(1,2) snap t fresh] .
  have s2: "schema ?db2"
    using schema_update_instances [OF s1, of ?p "publish_instance_set snap t"] rows snap
      publish_instance_row_ok
    by (simp add: publish_instance_set_def)
  have s3: "schema (?db2\<lparr> servers := sql_update ?q (publish_server_set snap t) (servers db) \<rparr>)"
    using schema_update_servers [OF s2, of ?q "publish_server_set snap t"] rows snap publish_server_row_ok
    by (simp add: publish_server_set_def)
  have "schema db" using inv by (simp add: db_inv_def)
  then obtain s where s: "s \<in> set (servers db)" "s_id s = i_server_id i"
    using i(1) by (auto simp: schema_def foreign_keys_def list_all_iff)
  have "rows_affected ?p (server_instances db) = 1"
    using schema_rows(2) [OF \<open>schema db\<close>] i
    by (intro rows_affected_key [where key = i_id and r = i]) (auto simp: publish_instance_where_def)
  moreover have "publish_instance_set snap t i \<in> set ?I"
    unfolding sql_update_def set_map
    by (rule image_eqI [where x = i]) (use i in \<open>simp_all add: publish_instance_where_def\<close>)
  then have "?q s"
    unfolding publish_server_where_def list_ex_iff
    by (intro conjI, use s in simp)
       (rule bexI [rotated], assumption, use i s in \<open>simp add: publish_instance_set_def\<close>)
  then have "rows_affected ?q (servers db) = 1"
    using schema_rows(1) [OF \<open>schema db\<close>] s
    by (intro rows_affected_key [where key = s_id and r = s]) (auto simp: publish_server_where_def)
  ultimately show ?thesis
    using s1 s2 s3 by (simp add: publish_def execute_def schema_def Let_def)
qed

section \<open>Properties\<close>

lemma reachable_inv: "reachable db \<Longrightarrow> db_inv db"
  by (rule repositories.inv_reach)

lemma reachable_ledger:
  "reachable db \<Longrightarrow> ledger (server_core ` set (servers db))
     (instance_core ` set (server_instances db)) (set (snapshots db))"
  using reachable_inv by (simp add: db_inv_def db_ledger_def)

lemma decode_optional_ok:
  "(\<And>r. x = Some r \<Longrightarrow> decode r = Inr (g r)) \<Longrightarrow> decode_optional decode x = Inr (map_option g x)"
  by (cases x) (simp_all add: decode_optional_def)

lemma decode_all_ok:
  "(\<And>r. r \<in> set rows \<Longrightarrow> decode r = Inr (g r)) \<Longrightarrow> \<exists>xs. map_result decode rows = Inr xs"
  by (rule exI) (rule map_result_Inr_map)

lemma decode_selected:
  assumes "\<And>r. r \<in> set rows \<Longrightarrow> decode r = Inr (g r)"
  shows "decode_optional decode (select_one p rows) = Inr (map_option g (select_one p rows))"
  by (rule decode_optional_ok) (use assms in \<open>blast dest: select_one_SomeD\<close>)

lemma inv_decodes:
  assumes "db_inv db"
  shows "r \<in> set (servers db) \<Longrightarrow> decode_server r = Inr (server_of_row r)"
    "i \<in> set (server_instances db) \<Longrightarrow> decode_instance i = Inr (instance_of_row i)"
    "c \<in> set (compute_instances db) \<Longrightarrow> decode_compute_instance c = Inr (compute_of_row c)"
  using db_inv_rows [OF assms] decode_server_ok decode_instance_ok decode_compute_ok by blast+

text \<open>
  C5. Every instance ever created on a reachable database was restored from
  the newest snapshot published for its server before it: its source
  snapshot is the one with the greatest fencing token below its own, or
  absent when none was published. The server's current snapshot is always
  the newest published one.
\<close>

theorem snapshot_lineage:
  assumes "reachable db"
  shows "(\<forall>i \<in> set (server_instances db). newest (i_server_id i) (i_source_snapshot_id i)
        {n \<in> set (snapshots db). n_fencing_token n < i_fencing_token i})
    \<and> (\<forall>s \<in> set (servers db). newest (s_id s) (s_current_snapshot_id s) (set (snapshots db)))"
  using reachable_ledger [OF assms] by (simp add: ledger_def lineage_def current_is_newest_def)

theorem snapshot_lineage_witness:
  "\<exists>s \<in> set (servers ex_db6). newest 1 (s_current_snapshot_id s) (set (snapshots ex_db6))"
proof -
  have "\<exists>s \<in> set (servers ex_db6). s_id s = 1" by (simp add: ex_defs)
  then show ?thesis using snapshot_lineage [OF ex_reach6] by metis
qed

text \<open>
  C11. A live instance excludes every other one: on a reachable database,
  every other instance of the same server is terminated and has a smaller
  fencing token, every published snapshot of the server carries a token no
  greater than the live one's, and the server is not archived.
\<close>

theorem live_instance_exclusive:
  assumes "reachable db" and "i \<in> set (server_instances db)" "i_terminated_at_ms i = None"
  shows "(\<forall>j \<in> set (server_instances db). i_server_id j = i_server_id i \<and> i_id j \<noteq> i_id i \<longrightarrow>
        i_terminated_at_ms j \<noteq> None \<and> i_fencing_token j < i_fencing_token i)
    \<and> (\<forall>n \<in> set (snapshots db). n_server_id n = i_server_id i \<longrightarrow>
        n_fencing_token n \<le> i_fencing_token i)
    \<and> (\<forall>s \<in> set (servers db). s_id s = i_server_id i \<longrightarrow> s_archived_at_ms s = None)"
proof -
  let ?I = "instance_core ` set (server_instances db)"
  note L = reachable_ledger [OF assms(1)]
  have i: "instance_core i \<in> ?I" "h_active (instance_core i)" using assms by auto
  have less: "i_fencing_token j < i_fencing_token i"
    if "j \<in> set (server_instances db)" "i_server_id j = i_server_id i" "i_id j \<noteq> i_id i" for j
  proof -
    have "inj_on (\<lambda>i. (h_server i, h_token i)) ?I" using L by (simp add: ledger_def)
    then have "i_fencing_token j \<noteq> i_fencing_token i"
      using that inj_onD [of "\<lambda>i. (h_server i, h_token i)" ?I "instance_core j" "instance_core i"] i
      by (metis imageI instance_core_simps(1,2,4))
    then show ?thesis using live_tops_instances [OF L i, of "instance_core j"] that by simp
  qed
  moreover have "i_terminated_at_ms j \<noteq> None"
    if "j \<in> set (server_instances db)" "i_server_id j = i_server_id i" "i_id j \<noteq> i_id i" for j
    using live_tops_instances [OF L _ _ i(1), of "instance_core j"] less [OF that] that by auto
  moreover have "s_archived_at_ms s = None" if "s \<in> set (servers db)" "s_id s = i_server_id i" for s
    using L assms(2,3) that by (simp add: ledger_def live_is_newest_def)
  ultimately show ?thesis using live_tops_snapshots [OF L i] by simp
qed

theorem live_instance_exclusive_witness:
  "\<exists>s \<in> set (servers ex_db4). s_id s = 1 \<and> s_archived_at_ms s = None"
proof -
  have "\<exists>s \<in> set (servers ex_db4). s_id s = 1" by (simp add: ex_defs)
  moreover have "\<exists>i \<in> set (server_instances ex_db4). i_server_id i = 1 \<and> i_terminated_at_ms i = None"
    by (simp add: ex_defs)
  ultimately show ?thesis using live_instance_exclusive [OF ex_reach4] by metis
qed



text \<open>
  C14. The reconciler's own writes to an instance always go through: on a
  reachable database, requesting a stop, recording prepared data, recording
  an observation and completing an instance never fail, whatever the clock
  reads, and they report a change exactly when the instance is stored and
  live (for a stop request: and no stop was requested before).
\<close>

theorem instance_writes_succeed:
  assumes "reachable db"
  shows "(\<exists>db'. request_stop ident now db = Inr (db', \<exists>i \<in> set (server_instances db).
          i_id i = ident \<and> i_terminated_at_ms i = None \<and> i_stop_requested_at_ms i = None))
    \<and> (let live = (\<exists>i \<in> set (server_instances db). i_id i = ident \<and> i_terminated_at_ms i = None) in
        (\<exists>db'. mark_data_prepared ident now db = Inr (db', live))
      \<and> (\<exists>db'. observe_process ident running now db = Inr (db', live))
      \<and> (\<exists>db'. complete ident result now db = Inr (db', live)))"
proof -
  note inv = reachable_inv [OF assms]
  have keys: "distinct (map i_id (server_instances db))"
    using inv schema_rows(2) by (simp add: db_inv_def)
  have upd: "update_instance p f db =
      Inr (db\<lparr> server_instances := sql_update p f (server_instances db) \<rparr>,
        rows_affected p (server_instances db) = 1)"
    if "\<And>r. p r \<Longrightarrow> instance_row_ok r \<Longrightarrow> instance_row_ok (f r)"
      "f \<in> {request_stop_set now, mark_data_prepared_set now, observe_process_set running now,
        complete_set result now}" for p f
    using inv that(1)
    by (rule update_instance_succeeds) (use that(2) in \<open>auto simp: instance_set_defs\<close>)
  show ?thesis
    using request_stop.affected_one [OF keys, of ident] complete.affected_one [OF keys, of ident]
      upd [of "request_stop_where ident" "request_stop_set now", OF request_stop_row]
      upd [of "active_where ident" "mark_data_prepared_set now", OF mark_data_prepared_row]
      upd [of "active_where ident" "observe_process_set running now", OF observe_process_row]
      upd [of "active_where ident" "complete_set result now", OF complete_row]
    by (simp add: request_stop_def mark_data_prepared_def observe_process_def complete_def
        request_stop_where_def active_where_def Let_def)
qed

theorem instance_writes_succeed_witness:
  "\<exists>db'. complete 7 Completed 0 ex_db5 = Inr (db', True)"
proof -
  have "\<exists>i \<in> set (server_instances ex_db5). i_id i = 7 \<and> i_terminated_at_ms i = None"
    by (simp add: ex_defs)
  then show ?thesis
    using instance_writes_succeed [OF ex_reach5, where now = 0 and ident = 7 and result = Completed]
    by (simp add: Let_def)
qed

section \<open>Publication\<close>

lemma publish_effect:
  assumes "publish snap sid ident token t db = Inr (db', b)"
  shows "compute_instances db' = compute_instances db"
    "snapshots db' = snapshots db @ [new_snapshot_row snap sid ident token t]"
    "\<forall>j \<in> set (server_instances db). i_id j \<noteq> ident \<longrightarrow> j \<in> set (server_instances db')"
    "\<forall>r \<in> set (servers db). s_id r \<noteq> sid \<longrightarrow> r \<in> set (servers db')"
    "i \<in> set (server_instances db) \<Longrightarrow> publish_instance_where ident token i
       \<Longrightarrow> publish_instance_set snap t i \<in> set (server_instances db')"
  using publish_Inr [OF assms]
  by (auto simp: sql_update_def publish_instance_where_def publish_server_where_def image_iff)

lemma live_published_current:
  assumes "db_inv db" "i \<in> set (server_instances db)" "i_terminated_at_ms i = None"
    "i_result_snapshot_id i = Some x"
  shows "\<exists>s \<in> set (servers db). s_id s = i_server_id i \<and> s_current_snapshot_id s = Some x"
proof -
  have "schema db" using assms(1) by (simp add: db_inv_def)
  then obtain s where s: "s \<in> set (servers db)" "s_id s = i_server_id i"
    using assms(2) by (auto simp: schema_def foreign_keys_def list_all_iff)
  have "k_current (server_core s) = Some x"
    by (rule live_result_is_current [of _ "instance_core ` set (server_instances db)" "set (snapshots db)"
          "instance_core i"])
       (use assms s in \<open>auto simp: db_inv_def db_ledger_def\<close>)
  with s show ?thesis by auto
qed

lemma commit_by_owner:
  assumes inv: "db_inv db" and i: "i \<in> set (server_instances db)" "i_terminated_at_ms i = None"
      "i_fencing_token i = uint token" and snap: "text_ok 256 snap"
  obtains s where "s \<in> set (servers db)" "s_id s = i_server_id i"
    "commit (i_id i) token snap now db =
      (case i_result_snapshot_id i of
         Some x \<Rightarrow> if x = snap then Inr (db, False)
            else Inl (RConflict ''server instance already published another snapshot'')
       | None \<Rightarrow> publish snap (i_server_id i) (i_id i) (uint token)
            (max (max now (i_updated_at_ms i)) (s_updated_at_ms s)) db)"
proof -
  have sch: "schema db" using inv by (simp add: db_inv_def)
  have i': "select_one (\<lambda>r. i_id r = i_id i) (server_instances db) = Some i"
    using schema_rows(2) [OF sch] i(1) by (simp add: select_one_key)
  obtain s where s: "s \<in> set (servers db)" "s_id s = i_server_id i"
    using sch i(1) by (auto simp: schema_def foreign_keys_def list_all_iff)
  then have s': "select_one (\<lambda>s. s_id s = i_server_id i) (servers db) = Some s"
    using schema_rows(1) [OF sch] by (simp add: select_one_key)
  have "0 < uint token" "uint token \<le> i64_max"
    using db_inv_rows(2) [OF inv i(1)] i(3) by (simp_all add: instance_row_ok_def)
  then have "positive_u64_to_i64 token = Inr (uint token)" by (simp add: positive_u64_to_i64_def)
  then show thesis
    using that [OF s] i i' s' snap by (simp add: commit_def text_ok_def split: option.split)
qed

lemma commit_again:
  assumes "db_inv db" "i \<in> set (server_instances db)" "i_terminated_at_ms i = None"
    "i_fencing_token i = uint token" "i_result_snapshot_id i = Some x" "text_ok 256 snap"
  shows "commit (i_id i) token snap now db = (if x = snap then Inr (db, False)
     else Inl (RConflict ''server instance already published another snapshot''))"
  by (rule commit_by_owner [OF assms(1-4,6), of now]) (simp add: assms(5))

lemma commit_stored:
  assumes inv: "db_inv db" and op: "commit ident token snap now db = Inr (db', b)"
  obtains i i' where "i \<in> set (server_instances db)" "i_id i = ident" "i_terminated_at_ms i = None"
    "i_fencing_token i = uint token" "i' \<in> set (server_instances db')" "i_id i' = ident"
    "i_server_id i' = i_server_id i" "i_terminated_at_ms i' = None" "i_fencing_token i' = uint token"
    "i_result_snapshot_id i' = Some snap"
    "\<forall>j \<in> set (server_instances db). i_id j \<noteq> ident \<longrightarrow> j \<in> set (server_instances db')"
    "\<forall>r \<in> set (servers db). s_id r \<noteq> i_server_id i \<longrightarrow> r \<in> set (servers db')"
    "if b then \<exists>n. snapshots db' = snapshots db @ [n] \<and> n_id n = snap \<and> n_server_instance_id n = ident
     else db' = db"
  using inv op
proof (cases rule: commit_cases)
  case again
  then obtain i where "i \<in> set (server_instances db)" "i_id i = ident" "i_terminated_at_ms i = None"
      "i_fencing_token i = uint token" "i_result_snapshot_id i = Some snap" by blast
  then show thesis using that [of i i] again by simp
next
  case (published i s)
  let ?t = "max (max now (i_updated_at_ms i)) (s_updated_at_ms s)"
  have "publish_instance_set snap ?t i \<in> set (server_instances db')"
    using publish_effect(5) [OF published(10) published(3)] published(4-6)
    by (simp add: publish_instance_where_def)
  then show thesis
    using that [of i "publish_instance_set snap ?t i"] published
      publish_effect(2-4) [OF published(10)]
    by (simp add: publish_instance_set_def new_snapshot_row_def)
qed

text \<open>
  C6. Publishing a snapshot is fenced, atomic and idempotent. If a commit
  is accepted, the instance was live and the caller presented its fencing
  token; afterwards the instance's result and the server's current snapshot
  are the published one, every other instance and server row is untouched,
  the history grew by exactly one row (or nothing changed, when the same
  snapshot had been published already), repeating the commit is accepted
  without effect, and publishing any other snapshot for the instance is
  refused.
\<close>

theorem commit_fenced_and_idempotent:
  assumes "reachable db" and op: "commit ident token snap now db = Inr (db', b)"
  shows "\<exists>i \<in> set (server_instances db). i_id i = ident \<and> i_terminated_at_ms i = None
      \<and> i_fencing_token i = uint token
      \<and> (\<exists>s \<in> set (servers db'). s_id s = i_server_id i \<and> s_current_snapshot_id s = Some snap)
      \<and> (\<exists>i' \<in> set (server_instances db'). i_id i' = ident \<and> i_result_snapshot_id i' = Some snap)
      \<and> (\<forall>j \<in> set (server_instances db). i_id j \<noteq> ident \<longrightarrow> j \<in> set (server_instances db'))
      \<and> (\<forall>r \<in> set (servers db). s_id r \<noteq> i_server_id i \<longrightarrow> r \<in> set (servers db'))
      \<and> (if b then \<exists>n. snapshots db' = snapshots db @ [n] \<and> n_id n = snap \<and> n_server_instance_id n = ident
         else db' = db)
      \<and> commit ident token snap now' db' = Inr (db', False)
      \<and> (other \<noteq> snap \<longrightarrow> (\<exists>e. commit ident token other now' db' = Inl e))"
proof -
  note inv = reachable_inv [OF assms(1)]
  have inv': "db_inv db'" using inv op by (rule commit_inv)
  have snap: "text_ok 256 snap" using op by (auto simp: commit_def text_ok_def split: if_splits)
  from inv op obtain i i' where i: "i \<in> set (server_instances db)" "i_id i = ident"
      "i_terminated_at_ms i = None" "i_fencing_token i = uint token"
    and i': "i' \<in> set (server_instances db')" "i_id i' = ident" "i_server_id i' = i_server_id i"
      "i_terminated_at_ms i' = None" "i_fencing_token i' = uint token" "i_result_snapshot_id i' = Some snap"
    and frame: "\<forall>j \<in> set (server_instances db). i_id j \<noteq> ident \<longrightarrow> j \<in> set (server_instances db')"
      "\<forall>r \<in> set (servers db). s_id r \<noteq> i_server_id i \<longrightarrow> r \<in> set (servers db')"
      "if b then \<exists>n. snapshots db' = snapshots db @ [n] \<and> n_id n = snap \<and> n_server_instance_id n = ident
       else db' = db"
    by (rule commit_stored)
  have "\<exists>s \<in> set (servers db'). s_id s = i_server_id i \<and> s_current_snapshot_id s = Some snap"
    using live_published_current [OF inv' i'(1,4,6)] i'(3) by simp
  moreover have "commit ident token snap now' db' = Inr (db', False)"
    using commit_again [OF inv' i'(1,4,5,6) snap] i'(2) by simp
  moreover have "\<exists>e. commit ident token other now' db' = Inl e" if "other \<noteq> snap"
  proof (cases "text_ok 256 other")
    case True
    then show ?thesis using commit_again [OF inv' i'(1,4,5,6) True] i'(2) that by simp
  qed (auto simp: commit_def text_ok_def)
  ultimately show ?thesis using i i' frame by blast
qed

theorem commit_fenced_and_idempotent_witness:
  "commit 7 1 ex_snapshot 9000 ex_db5 = Inr (ex_db5, False)"
  using commit_fenced_and_idempotent [OF ex_reach4 ex_commit] by blast

text \<open>
  C12. Publication is available to its owner: on a reachable database, a
  live instance that presents its own token and has not published yet can
  publish any well-formed snapshot id that its server has not used before.
\<close>

theorem commit_available:
  assumes "reachable db" "i \<in> set (server_instances db)" "i_terminated_at_ms i = None"
    "i_result_snapshot_id i = None" "i_fencing_token i = uint token" "text_ok 256 snap" "0 \<le> now"
    "\<forall>n \<in> set (snapshots db). n_server_id n = i_server_id i \<longrightarrow> n_id n \<noteq> snap"
  shows "\<exists>db'. commit (i_id i) token snap now db = Inr (db', True)"
proof -
  note inv = reachable_inv [OF assms(1)]
  obtain s where s: "s \<in> set (servers db)"
      "commit (i_id i) token snap now db = publish snap (i_server_id i) (i_id i) (i_fencing_token i)
         (max (max now (i_updated_at_ms i)) (s_updated_at_ms s)) db"
    by (rule commit_by_owner [OF inv assms(2,3,5,6), of now]) (simp add: assms(4,5))
  show ?thesis
    unfolding s(2)
    by (rule publish_succeeds [OF inv assms(2,4,3,6) _ assms(8)]) (use assms(7) in simp)
qed

theorem commit_available_witness:
  "\<exists>db'. commit 7 1 ''abc'' 4000 ex_db4 = Inr (db', True)"
proof -
  obtain i where i: "i \<in> set (server_instances ex_db4)" "i_terminated_at_ms i = None"
      "i_result_snapshot_id i = None" "i_fencing_token i = uint (1 :: u64)" and "i_id i = 7"
    by (simp add: ex_defs)
  moreover have "text_ok 256 ''abc''" by code_simp
  moreover have "snapshots ex_db4 = []" by (simp add: ex_defs)
  ultimately show ?thesis
    using commit_available [OF ex_reach4 i, of "''abc''" 4000] by simp
qed

end
