(* ===== verification/Scheduler.thy ===== *)
theory Scheduler
  imports Prelude
begin

text \<open>
  The reconcile queue (\<open>ReconcileScheduler\<close> in \<open>reconciliation.rs\<close>): a bounded
  channel to the worker. Notifications are best effort: one that does not
  fit is dropped, since the worker's periodic resynchronisation visits every
  server anyway.
\<close>

datatype reconcile_request = RequestServer uuid | RequestServerInstance uuid

definition RECONCILE_QUEUE_CAPACITY :: nat where
  "RECONCILE_QUEUE_CAPACITY = 256"

definition try_send :: "reconcile_request \<Rightarrow> reconcile_request list \<Rightarrow> reconcile_request list" where
  "try_send request queue =
     (if length queue < RECONCILE_QUEUE_CAPACITY then queue @ [request] else queue)"

definition enqueue_best_effort :: "uuid \<Rightarrow> reconcile_request list \<Rightarrow> reconcile_request list" where
  "enqueue_best_effort server_id queue = try_send (RequestServer server_id) queue"

definition enqueue_best_effort_for_instance :: "uuid \<Rightarrow> reconcile_request list \<Rightarrow> reconcile_request list" where
  "enqueue_best_effort_for_instance instance_id queue = try_send (RequestServerInstance instance_id) queue"

lemma try_send_bounded:
  "length queue \<le> RECONCILE_QUEUE_CAPACITY \<Longrightarrow> length (try_send r queue) \<le> RECONCILE_QUEUE_CAPACITY"
  by (simp add: try_send_def)

lemma try_send_subset: "set queue \<subseteq> set (try_send r queue)" "set (try_send r queue) \<subseteq> insert r (set queue)"
  by (auto simp: try_send_def)

end
