(* ===== verification/Server_Service.thy ===== *)
theory Server_Service
  imports Repository_Properties Scheduler
begin

text \<open>
  The application layer (\<open>application/*.rs\<close>): creating, applying, starting,
  stopping and archiving servers with optimistic concurrency, and the
  status view. A call runs against a database that other tasks may change
  before each of its repository calls: in the attempt with \<open>n\<close> attempts left
  after it, \<open>others n k\<close> is what they did before the call of position \<open>k\<close>,
  and \<open>clock n\<close> is the reading of the clock.
\<close>

datatype application_error =
    AValidation validation_error
  | ANotFound
  | AServerInstanceNotFound
  | AServerHasActiveInstance
  | AGenerationConflict "u64 option" u64
  | AConcurrentUpdate
  | ARepository repository_error
  | ATimestamp timestamp_error

record app_state =
  app_db :: database
  app_queue :: "reconcile_request list"

type_synonym 'a app = "(app_state, application_error, 'a) action"

definition on_db :: "(database, repository_error, 'a) action \<Rightarrow> 'a app" where
  "on_db m w = (case m (app_db w) of (db', r) \<Rightarrow> (w\<lparr> app_db := db' \<rparr>, map_err ARepository r))"

definition interfere :: "(database \<Rightarrow> database) \<Rightarrow> unit app" where
  "interfere f w = (w\<lparr> app_db := f (app_db w) \<rparr>, Inr ())"

definition notify :: "uuid \<Rightarrow> unit app" where
  "notify server_id w = (w\<lparr> app_queue := enqueue_best_effort server_id (app_queue w) \<rparr>, Inr ())"

definition call :: "(database \<Rightarrow> database) \<Rightarrow> (database, repository_error, 'a) action \<Rightarrow> 'a app" where
  "call f m = abind (interfere f) (\<lambda>_. on_db m)"

definition r2_repository :: "string option \<Rightarrow> string \<Rightarrow> string option" where
  "r2_repository base name = map_option (\<lambda>b. b @ ''/servers/'' @ name @ ''/restic'') base"

section \<open>Reading\<close>

definition service_get :: "uuid \<Rightarrow> server app" where
  "service_get ident = abind (on_db (query (server_get ident))) (\<lambda>s. alift (ok_or s ANotFound))"

definition service_get_by_name :: "string \<Rightarrow> server app" where
  "service_get_by_name name =
     abind (alift (map_err AValidation (server_name_new name))) (\<lambda>name.
     abind (on_db (query (server_get_by_name name))) (\<lambda>s. alift (ok_or s ANotFound)))"

definition service_list :: "bool \<Rightarrow> server list app" where
  "service_list include_archived = on_db (query (server_list include_archived))"

definition service_instance_get :: "uuid \<Rightarrow> server_instance app" where
  "service_instance_get ident =
     abind (on_db (query (instance_get ident))) (\<lambda>i. alift (ok_or i AServerInstanceNotFound))"

definition service_list_for_server :: "uuid \<Rightarrow> server_instance list app" where
  "service_list_for_server server_id = on_db (query (list_for_server server_id))"

record server_status =
  st_server :: server
  st_active_instance :: "server_instance option"
  st_active_compute :: "compute_instance option"
  st_agent_connected :: bool

definition status_get :: "(uuid \<Rightarrow> bool) \<Rightarrow> uuid \<Rightarrow> server_status app" where
  "status_get is_connected server_id =
     abind (on_db (query (server_get server_id))) (\<lambda>s.
     abind (alift (ok_or s ANotFound)) (\<lambda>server.
     abind (on_db (query (get_active_for_server server_id))) (\<lambda>active_instance.
     abind (case active_instance of
              None \<Rightarrow> areturn None
            | Some i \<Rightarrow> on_db (query (get_active_for_instance (si_id i)))) (\<lambda>active_compute.
     areturn \<lparr> st_server = server, st_active_instance = active_instance,
       st_active_compute = active_compute,
       st_agent_connected = (case active_compute of None \<Rightarrow> False | Some c \<Rightarrow> is_connected (ci_id c)) \<rparr>))))"

section \<open>Writing\<close>

definition service_create ::
    "string option \<Rightarrow> (timestamp_error + timestamp) \<Rightarrow> (database \<Rightarrow> database) \<Rightarrow> uuid \<Rightarrow> string
     \<Rightarrow> desired_server_spec \<Rightarrow> server app" where
  "service_create base now other ident name desired =
     abind (alift (map_err ATimestamp now)) (\<lambda>now.
     abind (alift (map_err AValidation (server_name_new name))) (\<lambda>name.
     abind (alift (map_err AValidation (resolve desired None (r2_repository base name)))) (\<lambda>spec.
     abind (alift (map_err AValidation (server_new ident name spec now))) (\<lambda>server.
     abind (call other (transaction (\<lambda>db. rbind (server_create server db) (\<lambda>db'. Inr (db', ()))))) (\<lambda>_.
     abind (notify (sv_id server)) (\<lambda>_.
     areturn server))))))"

definition generation_mismatch :: "u64 option \<Rightarrow> server \<Rightarrow> bool" where
  "generation_mismatch expected s \<longleftrightarrow> is_some_and expected (\<lambda>e. e \<noteq> sv_generation s)"

primrec apply_attempts ::
    "nat \<Rightarrow> string option \<Rightarrow> (nat \<Rightarrow> timestamp_error + timestamp) \<Rightarrow> (nat \<Rightarrow> nat \<Rightarrow> database \<Rightarrow> database) \<Rightarrow> uuid
     \<Rightarrow> string \<Rightarrow> desired_server_spec \<Rightarrow> u64 option \<Rightarrow> server app" where
  "apply_attempts 0 base clock others ident name desired expected = afail AConcurrentUpdate"
| "apply_attempts (Suc n) base clock others ident name desired expected =
     abind (call (others n 0) (query (server_get_by_name name))) (\<lambda>found.
     case found of
       None \<Rightarrow> if expected \<noteq> None then afail ANotFound
               else service_create base (clock n) (others n 2) ident name desired
     | Some server \<Rightarrow>
         if generation_mismatch expected server
         then afail (AGenerationConflict expected (sv_generation server))
         else
           abind (alift (map_err AValidation (resolve desired (Some (data (sv_spec server))) None))) (\<lambda>spec.
           abind (alift (map_err ATimestamp (clock n))) (\<lambda>now.
           case server_update_spec spec now server of (server', r) \<Rightarrow>
           abind (alift (map_err AValidation r)) (\<lambda>changed.
           if \<not> changed then areturn server'
           else
             abind (call (others n 2) (transaction (update_spec server' (sv_generation server)))) (\<lambda>updated.
             if updated
             then abind (notify (sv_id server')) (\<lambda>_. areturn server')
             else if expected \<noteq> None
             then abind (abind (interfere (others n 3)) (\<lambda>_. service_get (sv_id server'))) (\<lambda>s.
                  afail (AGenerationConflict expected (sv_generation s)))
             else apply_attempts n base clock others ident name desired expected)))))"

definition service_apply ::
    "string option \<Rightarrow> (nat \<Rightarrow> timestamp_error + timestamp) \<Rightarrow> (nat \<Rightarrow> nat \<Rightarrow> database \<Rightarrow> database) \<Rightarrow> uuid
     \<Rightarrow> string \<Rightarrow> desired_server_spec \<Rightarrow> u64 option \<Rightarrow> server app" where
  "service_apply base clock others ident name desired expected =
     abind (alift (map_err AValidation (server_name_new name))) (\<lambda>name.
     apply_attempts 3 base clock others ident name desired expected)"

primrec set_desired_state_attempts ::
    "nat \<Rightarrow> (nat \<Rightarrow> timestamp_error + timestamp) \<Rightarrow> (nat \<Rightarrow> nat \<Rightarrow> database \<Rightarrow> database)
     \<Rightarrow> string \<Rightarrow> desired_state \<Rightarrow> u64 option \<Rightarrow> server app" where
  "set_desired_state_attempts 0 clock others name desired expected = afail AConcurrentUpdate"
| "set_desired_state_attempts (Suc n) clock others name desired expected =
     abind (call (others n 0) (query (server_get_by_name name))) (\<lambda>found.
     abind (alift (ok_or found ANotFound)) (\<lambda>server.
     if generation_mismatch expected server
     then afail (AGenerationConflict expected (sv_generation server))
     else
       abind (alift (map_err ATimestamp (clock n))) (\<lambda>now.
       case server_set_desired_state desired now server of (server', r) \<Rightarrow>
       abind (alift (map_err AValidation r)) (\<lambda>changed.
       if \<not> changed then areturn server'
       else
         abind (call (others n 2) (transaction (update_desired_state server' (sv_generation server)))) (\<lambda>updated.
         if updated
         then abind (notify (sv_id server')) (\<lambda>_. areturn server')
         else if expected \<noteq> None
         then abind (abind (interfere (others n 3)) (\<lambda>_. service_get_by_name name)) (\<lambda>s.
              afail (AGenerationConflict expected (sv_generation s)))
         else set_desired_state_attempts n clock others name desired expected)))))"

definition service_set_desired_state ::
    "(nat \<Rightarrow> timestamp_error + timestamp) \<Rightarrow> (nat \<Rightarrow> nat \<Rightarrow> database \<Rightarrow> database)
     \<Rightarrow> string \<Rightarrow> desired_state \<Rightarrow> u64 option \<Rightarrow> server app" where
  "service_set_desired_state clock others name desired expected =
     abind (alift (map_err AValidation (server_name_new name))) (\<lambda>name.
     set_desired_state_attempts 3 clock others name desired expected)"

primrec archive_attempts ::
    "nat \<Rightarrow> (nat \<Rightarrow> timestamp_error + timestamp) \<Rightarrow> (nat \<Rightarrow> nat \<Rightarrow> database \<Rightarrow> database)
     \<Rightarrow> string \<Rightarrow> u64 option \<Rightarrow> server app" where
  "archive_attempts 0 clock others name expected = afail AConcurrentUpdate"
| "archive_attempts (Suc n) clock others name expected =
     abind (call (others n 0) (query (server_get_by_name name))) (\<lambda>found.
     abind (alift (ok_or found ANotFound)) (\<lambda>server.
     if generation_mismatch expected server
     then afail (AGenerationConflict expected (sv_generation server))
     else if sv_archived_at server \<noteq> None then areturn server
     else
       abind (call (others n 1) (query (\<lambda>db. Inr (has_active_instance (sv_id server) db)))) (\<lambda>active.
       if active then afail AServerHasActiveInstance
       else
         abind (alift (map_err ATimestamp (clock n))) (\<lambda>now.
         case server_archive now server of (server', r) \<Rightarrow>
         abind (alift (map_err AValidation r)) (\<lambda>_.
         abind (call (others n 2) (transaction (archive server' (sv_generation server)))) (\<lambda>updated.
         if updated then areturn server'
         else if expected \<noteq> None
         then abind (abind (interfere (others n 3)) (\<lambda>_. service_get_by_name name)) (\<lambda>s.
              afail (AGenerationConflict expected (sv_generation s)))
         else archive_attempts n clock others name expected))))))"

definition service_archive ::
    "(nat \<Rightarrow> timestamp_error + timestamp) \<Rightarrow> (nat \<Rightarrow> nat \<Rightarrow> database \<Rightarrow> database)
     \<Rightarrow> string \<Rightarrow> u64 option \<Rightarrow> server app" where
  "service_archive clock others name expected =
     abind (alift (map_err AValidation (server_name_new name))) (\<lambda>name.
     archive_attempts 3 clock others name expected)"

section \<open>Conditional writes\<close>

text \<open>
  What the service relies on from the three conditional writes of the
  server repository: a write is applied to the version it was computed
  from or not at all.
\<close>

locale versioned_write =
  fixes put :: "server \<Rightarrow> u64 \<Rightarrow> database \<Rightarrow> repository_error + (database \<times> bool)"
    and stored :: "server \<Rightarrow> server_row \<Rightarrow> bool"
  assumes matched: "db_inv db \<Longrightarrow> put s prev db = Inr (db', True) \<Longrightarrow>
      \<exists>r \<in> set (servers db). s_id r = sv_id s \<and> s_generation r = uint prev \<and> s_archived_at_ms r = None"
    and applied: "db_inv db \<Longrightarrow> put s prev db = Inr (db', True) \<Longrightarrow>
      \<exists>r \<in> set (servers db'). s_id r = sv_id s \<and> s_generation r = uint (sv_generation s) \<and> stored s r"
    and refused: "db_inv db \<Longrightarrow> put s prev db = Inr (db', False) \<Longrightarrow> db' = db"
begin

lemma stale:
  assumes inv: "db_inv db" and op: "put s prev db = Inr (db', b)"
    and r: "r \<in> set (servers db)" "s_id r = sv_id s" "s_generation r \<noteq> uint prev"
  shows "\<not> b \<and> db' = db"
proof -
  have "inj_on s_id (set (servers db))"
    using inv schema_rows(1) by (simp add: db_inv_def distinct_map)
  then have "\<not> b"
    using matched [OF inv, of s prev db'] op r inj_onD [of s_id "set (servers db)" _ r] by (metis (full_types))
  then show ?thesis using refused [OF inv] op by simp
qed

end

lemma conditional_update:
  assumes u: "row_update s_id p f" and inv: "db_inv db"
    and b: "b = (rows_affected p (servers db) = 1)" and db': "servers db' = sql_update p f (servers db)"
  shows "b \<Longrightarrow> \<exists>r \<in> set (servers db). p r \<and> f r \<in> set (servers db')"
    and "\<not> b \<Longrightarrow> servers db' = servers db"
proof -
  have d: "distinct (map s_id (servers db))" using inv schema_rows(1) by (simp add: db_inv_def)
  show "\<exists>r \<in> set (servers db). p r \<and> f r \<in> set (servers db')" if "b"
    using that b row_update.affected_one [OF u d] db' by (auto simp: sql_update_def)
  show "servers db' = servers db" if "\<not> b"
    using that b row_update.affected_one [OF u d] db' sql_update_id [of "servers db" p f] by auto
qed

lemma database_servers_eq: "servers db' = servers db \<Longrightarrow> db' = db\<lparr> servers := x \<rparr> \<Longrightarrow> db' = db"
  by (cases db) auto

lemma update_desired_state_Inr:
  assumes "update_desired_state s prev db = Inr (db', b)"
  shows "db' = db\<lparr> servers := servers db' \<rparr>"
    "servers db' = sql_update (update_desired_state_where (sv_id s) (uint prev))
       (update_desired_state_set (sv_desired_state s) (uint (sv_generation s)) (sv_updated_at s)) (servers db)"
    "b = (rows_affected (update_desired_state_where (sv_id s) (uint prev)) (servers db) = 1)"
  using assms by (auto simp: update_desired_state_def result_simps Let_def)

lemma update_spec_Inr:
  assumes "update_spec s prev db = Inr (db', b)"
  shows "db' = db\<lparr> servers := servers db' \<rparr>"
    "servers db' = sql_update (update_spec_where (sv_id s) (uint prev))
       (update_spec_set (sv_spec s) (uint (sv_generation s)) (sv_updated_at s)) (servers db)"
    "b = (rows_affected (update_spec_where (sv_id s) (uint prev)) (servers db) = 1)"
  using assms by (auto simp: update_spec_def result_simps Let_def)

lemma archive_Inr:
  assumes "archive s prev db = Inr (db', b)"
  shows "db' = db\<lparr> servers := servers db' \<rparr>"
    "servers db' = sql_update (archive_where (sv_id s) (uint prev) (server_instances db))
       (archive_set (the (sv_archived_at s)) (uint (sv_generation s)) (sv_updated_at s)) (servers db)"
    "b = (rows_affected (archive_where (sv_id s) (uint prev) (server_instances db)) (servers db) = 1)"
  using assms by (auto simp: archive_def result_simps Let_def)

interpretation desired_state_write: versioned_write update_desired_state
    "\<lambda>s r. s_desired_state r = desired_state_as_str (sv_desired_state s)"
proof
  fix db s prev db'
  assume inv: "db_inv db"
  note upd = conditional_update [OF update_desired_state.row_update_axioms inv]
  show "\<exists>r \<in> set (servers db). s_id r = sv_id s \<and> s_generation r = uint prev \<and> s_archived_at_ms r = None"
    if "update_desired_state s prev db = Inr (db', True)"
    using upd(1) [OF update_desired_state_Inr(3,2) [OF that]] by (auto simp: update_desired_state_where_def)
  show "\<exists>r \<in> set (servers db'). s_id r = sv_id s \<and> s_generation r = uint (sv_generation s)
      \<and> s_desired_state r = desired_state_as_str (sv_desired_state s)"
    if "update_desired_state s prev db = Inr (db', True)"
    by (rule bexE [OF upd(1) [OF update_desired_state_Inr(3,2) [OF that] TrueI]], elim conjE, erule rev_bexI)
       (simp add: update_desired_state_where_def update_desired_state_set_def)
  show "db' = db" if "update_desired_state s prev db = Inr (db', False)"
    using upd(2) [OF update_desired_state_Inr(3,2) [OF that]] update_desired_state_Inr(1) [OF that]
      database_servers_eq by blast
qed

interpretation spec_write: versioned_write update_spec "\<lambda>s r. s_spec r = sv_spec s"
proof
  fix db s prev db'
  assume inv: "db_inv db"
  note upd = conditional_update [OF update_spec.row_update_axioms inv]
  show "\<exists>r \<in> set (servers db). s_id r = sv_id s \<and> s_generation r = uint prev \<and> s_archived_at_ms r = None"
    if "update_spec s prev db = Inr (db', True)"
    using upd(1) [OF update_spec_Inr(3,2) [OF that]] by (auto simp: update_spec_where_def)
  show "\<exists>r \<in> set (servers db'). s_id r = sv_id s \<and> s_generation r = uint (sv_generation s)
      \<and> s_spec r = sv_spec s"
    if "update_spec s prev db = Inr (db', True)"
    by (rule bexE [OF upd(1) [OF update_spec_Inr(3,2) [OF that] TrueI]], elim conjE, erule rev_bexI)
       (simp add: update_spec_where_def update_spec_set_def)
  show "db' = db" if "update_spec s prev db = Inr (db', False)"
    using upd(2) [OF update_spec_Inr(3,2) [OF that]] update_spec_Inr(1) [OF that]
      database_servers_eq by blast
qed

interpretation archive_write: versioned_write archive "\<lambda>s r. s_archived_at_ms r \<noteq> None"
proof
  fix db s prev db'
  assume inv: "db_inv db"
  note upd = conditional_update [OF archive.row_update_axioms inv]
  show "\<exists>r \<in> set (servers db). s_id r = sv_id s \<and> s_generation r = uint prev \<and> s_archived_at_ms r = None"
    if "archive s prev db = Inr (db', True)"
    using upd(1) [OF archive_Inr(3,2) [OF that]] by (auto simp: archive_where_def)
  show "\<exists>r \<in> set (servers db'). s_id r = sv_id s \<and> s_generation r = uint (sv_generation s)
      \<and> s_archived_at_ms r \<noteq> None"
    if "archive s prev db = Inr (db', True)"
    by (rule bexE [OF upd(1) [OF archive_Inr(3,2) [OF that] TrueI]], elim conjE, erule rev_bexI)
       (simp add: archive_where_def archive_set_def)
  show "db' = db" if "archive s prev db = Inr (db', False)"
    using upd(2) [OF archive_Inr(3,2) [OF that]] archive_Inr(1) [OF that] database_servers_eq by blast
qed

section \<open>Runs of the service\<close>

definition app_ok :: "app_state \<Rightarrow> bool" where
  "app_ok w \<longleftrightarrow> reachable (app_db w)"

text \<open>What other tasks may do: any number of repository writes.\<close>

definition repository_writes :: "(database \<Rightarrow> database) \<Rightarrow> bool" where
  "repository_writes f \<longleftrightarrow> (\<forall>db. db_step\<^sup>*\<^sup>* db (f db))"

lemma reachable_steps: "db_step\<^sup>*\<^sup>* db db' \<Longrightarrow> reachable db \<Longrightarrow> reachable db'"
  by (induction rule: rtranclp_induct) (auto intro: reach_step)

lemma reachable_writes: "repository_writes f \<Longrightarrow> reachable db \<Longrightarrow> reachable (f db)"
  using reachable_steps by (auto simp: repository_writes_def)

lemma triple_interfere:
  "repository_writes f \<Longrightarrow> triple app_ok (interfere f) (\<lambda>_. app_ok) (\<lambda>_. app_ok)"
  by (simp add: triple_def interfere_def app_ok_def reachable_writes)

lemma triple_on_query:
  "triple app_ok (on_db (query q)) (\<lambda>a w. app_ok w \<and> q (app_db w) = Inr a) (\<lambda>_. app_ok)"
  by (rule tripleI) (auto simp: on_db_def query_def map_err_def split: sum.splits)

lemma triple_call_query:
  "repository_writes f
   \<Longrightarrow> triple app_ok (call f (query q)) (\<lambda>a w. app_ok w \<and> q (app_db w) = Inr a) (\<lambda>_. app_ok)"
  unfolding call_def by (rule triple_abind [OF triple_interfere triple_on_query])

lemma triple_call_write:
  assumes "repository_writes f" and "\<And>db db' b. reachable db \<Longrightarrow> t db = Inr (db', b) \<Longrightarrow> db_step db db'"
  shows "triple app_ok (call f (transaction t))
     (\<lambda>b w. app_ok w \<and> (\<exists>db. reachable db \<and> t db = Inr (app_db w, b))) (\<lambda>_. app_ok)"
  unfolding call_def
proof (rule triple_abind [OF triple_interfere [OF assms(1)]], rule tripleI)
  fix w w' b
  assume w: "app_ok w" and op: "on_db (transaction t) w = (w', Inr b)"
  then obtain db' where "t (app_db w) = Inr (db', b)" "w' = w\<lparr> app_db := db' \<rparr>"
    by (auto simp: on_db_def transaction_def map_err_def split: sum.splits prod.splits)
  then show "app_ok w' \<and> (\<exists>db. reachable db \<and> t db = Inr (app_db w', b))"
    using w assms(2) by (auto simp: app_ok_def intro: reach_step)
qed (auto simp: on_db_def transaction_def map_err_def app_ok_def split: sum.splits prod.splits)

lemma triple_notify:
  "triple (\<lambda>w. Q (app_db w)) (notify ident) (\<lambda>_ w. Q (app_db w)) E"
  by (simp add: triple_def notify_def)

lemma triple_service_get:
  "triple app_ok (service_get ident) (\<lambda>_. app_ok) (\<lambda>_. app_ok)"
  unfolding service_get_def
  by (rule triple_abind [OF triple_on_query]) (rule triple_alift; simp)

lemma triple_service_get_by_name:
  "triple app_ok (service_get_by_name name) (\<lambda>_. app_ok) (\<lambda>_. app_ok)"
  unfolding service_get_by_name_def
  by (rule triple_bind_alift, rule triple_abind [OF triple_on_query]) (rule triple_alift; simp)+

lemmas triple_reread = triple_abind [OF triple_interfere triple_service_get]
  triple_abind [OF triple_interfere triple_service_get_by_name]

lemma get_by_name_row:
  assumes "reachable db" "server_get_by_name name db = Inr (Some s)"
  shows "\<exists>r \<in> set (servers db). s_name r = name \<and> s = server_of_row r \<and> server_row_ok r"
proof -
  obtain r where r: "select_one (\<lambda>r. s_name r = name) (servers db) = Some r" "decode_server r = Inr s"
    using assms(2) by (auto simp: server_get_by_name_def decode_optional_def result_simps split: option.splits)
  then have "r \<in> set (servers db)" "s_name r = name" using select_one_SomeD by fastforce+
  then show ?thesis
    using r inv_decodes(1) [OF reachable_inv [OF assms(1)]] db_inv_rows(1) [OF reachable_inv [OF assms(1)]]
    by (intro bexI [of _ r]) auto
qed

lemma found_name: "app_ok w \<Longrightarrow> server_get_by_name name (app_db w) = Inr (Some s) \<Longrightarrow> sv_name s = name"
  using get_by_name_row [of "app_db w" name s] by (auto simp: app_ok_def server_of_row_def)

text \<open>The row that stores the version the service returned.\<close>

definition stores_version :: "database \<Rightarrow> server \<Rightarrow> (server_row \<Rightarrow> bool) \<Rightarrow> bool" where
  "stores_version db s P \<longleftrightarrow>
     (\<exists>r \<in> set (servers db). s_id r = sv_id s \<and> s_generation r = uint (sv_generation s) \<and> P r)"

lemma generation_of_row: "server_row_ok r \<Longrightarrow> uint (sv_generation (server_of_row r)) = s_generation r"
  by (simp add: server_of_row_def server_row_ok_def uint_word_of_int_i64)

lemma stores_version_row:
  "r \<in> set (servers db) \<Longrightarrow> server_row_ok r \<Longrightarrow> P r \<Longrightarrow> stores_version db (server_of_row r) P"
  unfolding stores_version_def
  by (rule bexI [of _ r]) (auto simp: generation_of_row, simp add: server_of_row_def)

lemma desired_state_of_row:
  "server_row_ok r \<Longrightarrow> s_desired_state r = desired_state_as_str (sv_desired_state (server_of_row r))"
  by (auto simp: server_row_ok_def server_of_row_def)
     (metis desired_state_as_str.simps desired_state.exhaust)

definition generation_follows :: "u64 option \<Rightarrow> server \<Rightarrow> bool" where
  "generation_follows expected s \<longleftrightarrow>
     (\<forall>e. expected = Some e \<longrightarrow> unat (sv_generation s) = unat e \<or> unat (sv_generation s) = unat e + 1)"

lemma generation_follows_same: "\<not> generation_mismatch expected s \<Longrightarrow> generation_follows expected s"
  by (auto simp: generation_mismatch_def generation_follows_def not_is_some_and)

lemma generation_follows_next:
  "\<not> generation_mismatch expected s \<Longrightarrow> next_version now s s' \<Longrightarrow> generation_follows expected s'"
  by (auto simp: generation_mismatch_def generation_follows_def not_is_some_and next_version_def)

definition desired_state_post :: "string \<Rightarrow> desired_state \<Rightarrow> u64 option \<Rightarrow> server \<Rightarrow> database \<Rightarrow> bool" where
  "desired_state_post name ds expected s db \<longleftrightarrow> reachable db \<and> sv_name s = name \<and> sv_desired_state s = ds
   \<and> generation_follows expected s
   \<and> stores_version db s (\<lambda>r. s_desired_state r = desired_state_as_str ds)"

lemma set_desired_state_unchanged:
  assumes "reachable db" "server_get_by_name name db = Inr (Some s)"
    "\<not> generation_mismatch expected s" "server_set_desired_state ds now s = (s', Inr False)"
  shows "desired_state_post name ds expected s' db"
proof -
  have eq: "s' = s" "sv_desired_state s = ds"
    using run_command_unchanged [of "SetDesiredState ds" now s s'] assms(4)
    by (auto simp: server_set_desired_state_def Let_def split: if_splits option.splits)
  obtain r where r: "r \<in> set (servers db)" "s_name r = name" "s = server_of_row r" "server_row_ok r"
    using get_by_name_row [OF assms(1,2)] by blast
  have "stores_version db s (\<lambda>r. s_desired_state r = desired_state_as_str ds)"
    using stores_version_row [OF r(1,4)] desired_state_of_row [OF r(4)] eq r(3) by simp
  then show ?thesis
    using assms eq r generation_follows_same [OF assms(3)]
    by (simp add: desired_state_post_def) (simp add: server_of_row_def)
qed

lemma set_desired_state_written:
  assumes "server_set_desired_state ds now s = (s', Inr True)" "sv_name s = name"
    "\<not> generation_mismatch expected s"
    "reachable db" "update_desired_state s' (sv_generation s) db = Inr (db', True)"
  shows "desired_state_post name ds expected s' db'"
proof -
  have v: "next_version now s s'" using run_command_versions [of "SetDesiredState ds"] assms(1) by simp
  have "sv_desired_state s' = ds"
    using assms(1) by (auto simp: server_set_desired_state_def Let_def split: if_splits option.splits)
  moreover have "db_step db db'"
    using v by (intro step_desired_state [OF assms(5)]) (simp add: next_version_def)
  moreover have "stores_version db' s' (\<lambda>r. s_desired_state r = desired_state_as_str (sv_desired_state s'))"
    using desired_state_write.applied [OF reachable_inv [OF assms(4)] assms(5)]
    by (simp add: stores_version_def)
  ultimately show ?thesis
    using v assms(2-4) generation_follows_next [OF assms(3) v]
    by (auto simp: desired_state_post_def next_version_def intro: reach_step)
qed

lemma set_desired_state_step:
  assumes "server_set_desired_state ds now s = (s', Inr True)"
    "update_desired_state s' (sv_generation s) db = Inr (db', b)"
  shows "db_step db db'"
  using run_command_versions [of "SetDesiredState ds"] assms
  by (intro step_desired_state [OF assms(2)]) (simp add: next_version_def)

text \<open>The tail of an attempt: the conditional write, then success, a conflict or another attempt.\<close>

lemma triple_optimistic:
  assumes others: "\<And>k. repository_writes (others k)"
    and step: "\<And>db db' b. reachable db \<Longrightarrow> t db = Inr (db', b) \<Longrightarrow> db_step db db'"
    and written: "\<And>db db'. reachable db \<Longrightarrow> t db = Inr (db', True) \<Longrightarrow> Q db'"
    and accept: "triple (\<lambda>w. Q (app_db w)) accept N (\<lambda>_. app_ok)"
    and retry: "triple app_ok retry N (\<lambda>_. app_ok)"
    and reread: "triple app_ok reread (\<lambda>_. app_ok) (\<lambda>_. app_ok)"
  shows "triple app_ok (abind (call (others i) (transaction t)) (\<lambda>updated.
      if updated then accept
      else if expected \<noteq> None
      then abind (abind (interfere (others j)) (\<lambda>_. reread)) (\<lambda>s. afail (AGenerationConflict expected (g s)))
      else retry)) N (\<lambda>_. app_ok)"
proof (rule triple_abind [OF triple_call_write [OF others step]], assumption, assumption, rule triple_if)
  fix updated :: bool
  let ?P = "\<lambda>w. app_ok w \<and> (\<exists>db. reachable db \<and> t db = Inr (app_db w, updated))"
  show "triple ?P accept N (\<lambda>_. app_ok)" if "updated"
    using that written by (intro triple_weaken [OF accept]) auto
  have "triple ?P (abind (abind (interfere (others j)) (\<lambda>_. reread))
      (\<lambda>s. afail (AGenerationConflict expected (g s)))) N (\<lambda>_. app_ok)"
    by (rule triple_weaken [OF triple_abind [OF triple_abind [OF triple_interfere reread]]])
       (auto intro: others triple_afail)
  moreover have "triple ?P retry N (\<lambda>_. app_ok)" by (rule triple_weaken [OF retry]) auto
  ultimately show "triple ?P (if expected \<noteq> None
      then abind (abind (interfere (others j)) (\<lambda>_. reread)) (\<lambda>s. afail (AGenerationConflict expected (g s)))
      else retry) N (\<lambda>_. app_ok)" by simp
qed

lemma triple_accept_notified:
  "triple (\<lambda>w. Q s (app_db w)) (abind (notify ident) (\<lambda>_. areturn s)) (\<lambda>s w. Q s (app_db w)) E"
  by (rule triple_abind [OF triple_notify]) (rule triple_areturn)

lemma set_desired_state_attempts_triple:
  assumes others: "\<And>n k. repository_writes (others n k)"
  shows "triple app_ok (set_desired_state_attempts n clock others name ds expected)
     (\<lambda>s w. desired_state_post name ds expected s (app_db w)) (\<lambda>_. app_ok)"
proof (induction n)
  case 0
  then show ?case by (simp add: triple_afail)
next
  case (Suc n)
  show ?case
    unfolding set_desired_state_attempts.simps
  proof (rule triple_abind [OF triple_call_query [OF others]], rule triple_bind_alift, rule triple_if,
      rule triple_afail, simp, rule triple_bind_alift, rule triple_case_prod, rule triple_bind_alift, rule triple_if)
    fix found s now s' r changed
    let ?P = "\<lambda>w. app_ok w \<and> server_get_by_name name (app_db w) = Inr found"
    assume found: "ok_or found ANotFound = Inr s" and gen: "\<not> generation_mismatch expected s"
      and upd: "server_set_desired_state ds now s = (s', r)" "map_err AValidation r = Inr changed"
    show "triple ?P (areturn s') (\<lambda>s w. desired_state_post name ds expected s (app_db w)) (\<lambda>_. app_ok)"
      if "\<not> changed"
      using that found gen upd
      by (intro triple_areturn) (auto simp: app_ok_def result_simps intro: set_desired_state_unchanged)
    assume "\<not> \<not> changed"
    then have upd': "server_set_desired_state ds now s = (s', Inr True)" using upd by (simp add: result_simps)
    let ?tail = "abind (call (others n 2) (transaction (update_desired_state s' (sv_generation s)))) (\<lambda>updated.
        if updated then abind (notify (sv_id s')) (\<lambda>_. areturn s')
        else if expected \<noteq> None
        then abind (abind (interfere (others n 3)) (\<lambda>_. service_get_by_name name))
           (\<lambda>s. afail (AGenerationConflict expected (sv_generation s)))
        else set_desired_state_attempts n clock others name ds expected)"
    show "triple ?P ?tail (\<lambda>s w. desired_state_post name ds expected s (app_db w)) (\<lambda>_. app_ok)"
    proof (rule triple_pre)
      show "sv_name s = name" if "?P w" for w using that found by (auto simp: result_simps found_name)
      assume name: "sv_name s = name"
      show "triple ?P ?tail (\<lambda>s w. desired_state_post name ds expected s (app_db w)) (\<lambda>_. app_ok)"
        by (rule triple_weaken [OF triple_optimistic [where Q = "desired_state_post name ds expected s'",
              OF others set_desired_state_step [OF upd'] set_desired_state_written [OF upd' name gen]
                triple_accept_notified Suc triple_service_get_by_name]]) auto
    qed
  qed (auto simp: result_simps)
qed

definition archive_post :: "string \<Rightarrow> u64 option \<Rightarrow> server \<Rightarrow> database \<Rightarrow> bool" where
  "archive_post name expected s db \<longleftrightarrow> reachable db \<and> sv_name s = name \<and> sv_archived_at s \<noteq> None
   \<and> generation_follows expected s
   \<and> stores_version db s (\<lambda>r. s_archived_at_ms r \<noteq> None)"

lemma archived_no_live:
  assumes "reachable db" "r \<in> set (servers db)" "s_archived_at_ms r \<noteq> None"
    "i \<in> set (server_instances db)" "i_server_id i = s_id r"
  shows "i_terminated_at_ms i \<noteq> None"
proof
  assume "i_terminated_at_ms i = None"
  then show False
    using reachable_ledger [OF assms(1)] assms(2-5) by (simp add: ledger_def live_is_newest_def)
qed

lemma archive_unchanged:
  assumes "reachable db" "server_get_by_name name db = Inr (Some s)"
    "\<not> generation_mismatch expected s" "sv_archived_at s \<noteq> None"
  shows "archive_post name expected s db"
proof -
  obtain r where r: "r \<in> set (servers db)" "s_name r = name" "s = server_of_row r" "server_row_ok r"
    using get_by_name_row [OF assms(1,2)] by blast
  have "stores_version db s (\<lambda>r. s_archived_at_ms r \<noteq> None)"
    using stores_version_row [OF r(1,4)] assms(4) r(3) by (simp add: server_of_row_def)
  then show ?thesis
    using assms r generation_follows_same [OF assms(3)]
    by (simp add: archive_post_def) (simp add: server_of_row_def)
qed

lemma server_archive_changes:
  "server_archive now s = (s', Inr b) \<Longrightarrow> sv_archived_at s = None \<Longrightarrow> b \<and> sv_archived_at s' \<noteq> None"
  by (auto simp: server_archive_def Let_def split: if_splits option.splits)

lemma archive_step:
  assumes "server_archive now s = (s', Inr b)" "sv_archived_at s = None"
    "archive s' (sv_generation s) db = Inr (db', b')"
  shows "db_step db db'"
proof (rule step_archive [OF assms(3)])
  have "b" using server_archive_changes [OF assms(1,2)] by simp
  then show "unat (sv_generation s) < unat (sv_generation s')"
    using run_command_versions [of Archive now s s'] assms(1) by (simp add: next_version_def)
qed

lemma archive_written:
  assumes op: "server_archive now s = (s', Inr b)" "sv_archived_at s = None" and "sv_name s = name"
    "\<not> generation_mismatch expected s"
    "reachable db" "archive s' (sv_generation s) db = Inr (db', True)"
  shows "archive_post name expected s' db'"
proof -
  have v: "next_version now s s'"
    using run_command_versions [of Archive now s s'] op server_archive_changes [OF op] by simp
  have "stores_version db' s' (\<lambda>r. s_archived_at_ms r \<noteq> None)"
    using archive_write.applied [OF reachable_inv [OF assms(5)] assms(6)] by (simp add: stores_version_def)
  then show ?thesis
    using v assms(3-5) generation_follows_next [OF assms(4) v] server_archive_changes [OF op]
      archive_step [OF op assms(6)]
    by (auto simp: archive_post_def next_version_def intro: reach_step)
qed

lemma archive_attempts_triple:
  assumes others: "\<And>n k. repository_writes (others n k)"
  shows "triple app_ok (archive_attempts n clock others name expected)
     (\<lambda>s w. archive_post name expected s (app_db w)) (\<lambda>_. app_ok)"
proof (induction n)
  case 0
  then show ?case by (simp add: triple_afail)
next
  case (Suc n)
  show ?case
    unfolding archive_attempts.simps
  proof (rule triple_abind [OF triple_call_query [OF others]], rule triple_bind_alift, rule triple_if,
      rule triple_afail, simp, rule triple_if)
    fix found s
    let ?P = "\<lambda>w. app_ok w \<and> server_get_by_name name (app_db w) = Inr found"
    assume found: "ok_or found ANotFound = Inr s" and gen: "\<not> generation_mismatch expected s"
    show "triple ?P (areturn s) (\<lambda>s w. archive_post name expected s (app_db w)) (\<lambda>_. app_ok)"
      if "sv_archived_at s \<noteq> None"
      using that found gen
      by (intro triple_areturn) (auto simp: app_ok_def result_simps intro: archive_unchanged)
    let ?tail = "abind (call (others n 1) (query (\<lambda>db. Inr (has_active_instance (sv_id s) db)))) (\<lambda>active.
       if active then afail AServerHasActiveInstance
       else
         abind (alift (map_err ATimestamp (clock n))) (\<lambda>now.
         case server_archive now s of (s', r) \<Rightarrow>
         abind (alift (map_err AValidation r)) (\<lambda>_.
         abind (call (others n 2) (transaction (archive s' (sv_generation s)))) (\<lambda>updated.
         if updated then areturn s'
         else if expected \<noteq> None
         then abind (abind (interfere (others n 3)) (\<lambda>_. service_get_by_name name)) (\<lambda>s.
              afail (AGenerationConflict expected (sv_generation s)))
         else archive_attempts n clock others name expected))))"
    assume live: "\<not> sv_archived_at s \<noteq> None"
    show "triple ?P ?tail (\<lambda>s w. archive_post name expected s (app_db w)) (\<lambda>_. app_ok)"
    proof (rule triple_pre)
      show "sv_name s = name" if "?P w" for w using that found by (auto simp: result_simps found_name)
      assume name: "sv_name s = name"
      have "triple app_ok ?tail (\<lambda>s w. archive_post name expected s (app_db w)) (\<lambda>_. app_ok)"
      proof (rule triple_abind [OF triple_call_query [OF others]], rule triple_if, rule triple_afail, simp,
          rule triple_bind_alift, rule triple_case_prod, rule triple_bind_alift)
        fix active now s' r b
        assume "server_archive now s = (s', r)" "map_err AValidation r = Inr b"
        then have op: "server_archive now s = (s', Inr b)" "sv_archived_at s = None"
          using live by (auto simp: result_simps)
        show "triple (\<lambda>w. app_ok w \<and> Inr (has_active_instance (sv_id s) (app_db w)) = Inr active)
          (abind (call (others n 2) (transaction (archive s' (sv_generation s)))) (\<lambda>updated.
             if updated then areturn s'
             else if expected \<noteq> None
             then abind (abind (interfere (others n 3)) (\<lambda>_. service_get_by_name name)) (\<lambda>s.
                  afail (AGenerationConflict expected (sv_generation s)))
             else archive_attempts n clock others name expected))
          (\<lambda>s w. archive_post name expected s (app_db w)) (\<lambda>_. app_ok)"
          by (rule triple_weaken [OF triple_optimistic [where Q = "archive_post name expected s'",
                OF others archive_step [OF op] archive_written [OF op name gen] triple_areturn Suc
                  triple_service_get_by_name]]) auto
      qed auto
      then show "triple ?P ?tail (\<lambda>s w. archive_post name expected s (app_db w)) (\<lambda>_. app_ok)"
        by (rule triple_weaken) auto
    qed
  qed (auto simp: result_simps)
qed

definition spec_post :: "string \<Rightarrow> desired_server_spec \<Rightarrow> u64 option \<Rightarrow> server \<Rightarrow> database \<Rightarrow> bool" where
  "spec_post name desired expected s db \<longleftrightarrow> reachable db \<and> sv_name s = name
   \<and> compute (sv_spec s) = desired_compute desired \<and> process (sv_spec s) = desired_process desired
   \<and> server_spec_ok (sv_spec s) \<and> generation_follows expected s
   \<and> stores_version db s (\<lambda>r. s_spec r = sv_spec s)"

lemma server_update_spec_Inr:
  "server_update_spec spec now s = (s', Inr b) \<Longrightarrow> sv_spec s' = spec \<and> server_spec_ok spec"
  by (auto simp: server_update_spec_def Let_def result_simps split: sum.splits if_splits option.splits)

lemma update_spec_unchanged:
  assumes "reachable db" "server_get_by_name name db = Inr (Some s)" "\<not> generation_mismatch expected s"
    "resolve desired existing r2 = Inr spec" "server_update_spec spec now s = (s', Inr False)"
  shows "spec_post name desired expected s' db"
proof -
  have eq: "s' = s" "sv_spec s = spec"
    using run_command_unchanged [of "UpdateSpec spec" now s s'] assms(5) server_update_spec_Inr by fastforce+
  obtain r where r: "r \<in> set (servers db)" "s_name r = name" "s = server_of_row r" "server_row_ok r"
    using get_by_name_row [OF assms(1,2)] by blast
  have "stores_version db s (\<lambda>r. s_spec r = spec)"
    using stores_version_row [OF r(1,4)] eq r(3) by (simp add: server_of_row_def)
  then show ?thesis
    using assms eq r generation_follows_same [OF assms(3)] resolve_Inr(1-3) [OF assms(4)]
    by (simp add: spec_post_def) (simp add: server_of_row_def)
qed

lemma update_spec_step:
  assumes "server_update_spec spec now s = (s', Inr True)"
    "update_spec s' (sv_generation s) db = Inr (db', b)"
  shows "db_step db db'"
  using run_command_versions [of "UpdateSpec spec"] assms(1) server_update_spec_Inr [OF assms(1)]
  by (intro step_spec [OF assms(2)]) (simp_all add: next_version_def)

lemma update_spec_written:
  assumes upd: "server_update_spec spec now s = (s', Inr True)" and res: "resolve desired existing r2 = Inr spec"
    and "sv_name s = name" "\<not> generation_mismatch expected s"
    "reachable db" "update_spec s' (sv_generation s) db = Inr (db', True)"
  shows "spec_post name desired expected s' db'"
proof -
  have v: "next_version now s s'" using run_command_versions [of "UpdateSpec spec"] upd by simp
  have "stores_version db' s' (\<lambda>r. s_spec r = sv_spec s')"
    using spec_write.applied [OF reachable_inv [OF assms(5)] assms(6)] by (simp add: stores_version_def)
  then show ?thesis
    using v assms(3-5) generation_follows_next [OF assms(4) v] server_update_spec_Inr [OF upd]
      resolve_Inr(1-3) [OF res] update_spec_step [OF upd assms(6)]
    by (auto simp: spec_post_def next_version_def intro: reach_step)
qed

lemma service_create_triple:
  assumes other: "repository_writes other" and clock: "\<And>t. now = Inr t \<Longrightarrow> 0 \<le> t"
  shows "triple app_ok (service_create base now other ident name desired)
     (\<lambda>s w. spec_post name desired None s (app_db w)) (\<lambda>_. app_ok)"
  unfolding service_create_def
proof (rule triple_bind_alift, rule triple_bind_alift, rule triple_bind_alift, rule triple_bind_alift)
  fix t n spec s
  assume *: "map_err ATimestamp now = Inr t" "map_err AValidation (server_name_new name) = Inr n"
    "map_err AValidation (resolve desired None (r2_repository base n)) = Inr spec"
    "map_err AValidation (server_new ident n spec t) = Inr s"
  then have res: "resolve desired None (r2_repository base n) = Inr spec" and n: "n = name" "dns_label name"
    and new: "server_new ident name spec t = Inr s"
    by (auto simp: result_simps)
  have "0 \<le> t" using * clock by (simp add: result_simps)
  then have wf: "server_wf s" using server_new_wf new n by blast
  have sv: "sv_name s = name" "sv_spec s = spec" "sv_current_snapshot_id s = None"
    using new by (auto simp: result_simps)
  have step: "db_step db db'" if "server_create s db = Inr db'" for db db'
    using step_create [OF that wf sv(3)] .
  have stored: "stores_version db' s (\<lambda>r. s_spec r = spec)" if "server_create s db = Inr db'" for db db'
    using that sv(2) by (auto simp: server_create_def insert_server_def stores_version_def result_simps
        split: sum.splits if_splits)
  have "triple app_ok (call other (transaction (\<lambda>db. rbind (server_create s db) (\<lambda>db'. Inr (db', ())))))
      (\<lambda>_ w. spec_post name desired None s (app_db w)) (\<lambda>_. app_ok)"
    by (rule triple_weaken [OF triple_call_write [OF other]])
       (auto simp: result_simps spec_post_def app_ok_def sv resolve_Inr(1-3) [OF res] generation_follows_def
          intro: step stored)
  then show "triple app_ok (abind (call other (transaction (\<lambda>db. rbind (server_create s db) (\<lambda>db'. Inr (db', ())))))
      (\<lambda>_. abind (notify (sv_id s)) (\<lambda>_. areturn s))) (\<lambda>s w. spec_post name desired None s (app_db w)) (\<lambda>_. app_ok)"
    by (rule triple_abind) (rule triple_accept_notified)
qed simp_all

lemma apply_attempts_triple:
  assumes others: "\<And>n k. repository_writes (others n k)" and clock: "\<And>n t. clock n = Inr t \<Longrightarrow> 0 \<le> t"
  shows "triple app_ok (apply_attempts n base clock others ident name desired expected)
     (\<lambda>s w. spec_post name desired expected s (app_db w)) (\<lambda>_. app_ok)"
proof (induction n)
  case 0
  then show ?case by (simp add: triple_afail)
next
  case (Suc n)
  show ?case
    unfolding apply_attempts.simps
  proof (rule triple_abind [OF triple_call_query [OF others]], rule triple_case_option, rule triple_if,
      rule triple_afail, simp)
    fix found
    assume "\<not> expected \<noteq> None"
    then show "triple (\<lambda>w. app_ok w \<and> server_get_by_name name (app_db w) = Inr found)
        (service_create base (clock n) (others n 2) ident name desired)
        (\<lambda>s w. spec_post name desired expected s (app_db w)) (\<lambda>_. app_ok)"
      using triple_weaken [OF service_create_triple [OF others clock]] by simp
  next
    fix found :: "server option" and s
    assume found: "found = Some s"
    let ?P = "\<lambda>w. app_ok w \<and> server_get_by_name name (app_db w) = Inr found"
    let ?tail = "\<lambda>s'. abind (call (others n 2) (transaction (update_spec s' (sv_generation s)))) (\<lambda>updated.
             if updated then abind (notify (sv_id s')) (\<lambda>_. areturn s')
             else if expected \<noteq> None
             then abind (abind (interfere (others n 3)) (\<lambda>_. service_get (sv_id s'))) (\<lambda>s.
                  afail (AGenerationConflict expected (sv_generation s)))
             else apply_attempts n base clock others ident name desired expected)"
    show "triple ?P (if generation_mismatch expected s then afail (AGenerationConflict expected (sv_generation s))
         else abind (alift (map_err AValidation (resolve desired (Some (data (sv_spec s))) None))) (\<lambda>spec.
           abind (alift (map_err ATimestamp (clock n))) (\<lambda>now.
           case server_update_spec spec now s of (s', r) \<Rightarrow>
           abind (alift (map_err AValidation r)) (\<lambda>changed. if \<not> changed then areturn s' else ?tail s'))))
       (\<lambda>s w. spec_post name desired expected s (app_db w)) (\<lambda>_. app_ok)"
    proof (rule triple_if, rule triple_afail, simp, rule triple_bind_alift, rule triple_bind_alift,
        rule triple_case_prod, rule triple_bind_alift, rule triple_if)
      fix spec now s' r changed
      assume gen: "\<not> generation_mismatch expected s"
        and "map_err AValidation (resolve desired (Some (data (sv_spec s))) None) = Inr spec"
        and upd: "server_update_spec spec now s = (s', r)" "map_err AValidation r = Inr changed"
      then have res: "resolve desired (Some (data (sv_spec s))) None = Inr spec" by (simp add: result_simps)
      show "triple ?P (areturn s') (\<lambda>s w. spec_post name desired expected s (app_db w)) (\<lambda>_. app_ok)"
        if "\<not> changed"
        using that found gen upd
        by (intro triple_areturn)
           (auto simp: app_ok_def result_simps intro: update_spec_unchanged [OF _ _ _ res])
      assume "\<not> \<not> changed"
      then have upd': "server_update_spec spec now s = (s', Inr True)" using upd by (simp add: result_simps)
      show "triple ?P (?tail s') (\<lambda>s w. spec_post name desired expected s (app_db w)) (\<lambda>_. app_ok)"
      proof (rule triple_pre)
        show "sv_name s = name" if "?P w" for w using that found by (auto simp: found_name)
        assume name: "sv_name s = name"
        show "triple ?P (?tail s') (\<lambda>s w. spec_post name desired expected s (app_db w)) (\<lambda>_. app_ok)"
          by (rule triple_weaken [OF triple_optimistic [where Q = "spec_post name desired expected s'",
                OF others update_spec_step [OF upd'] update_spec_written [OF upd' res name gen]
                  triple_accept_notified Suc triple_service_get]]) auto
      qed
    qed auto
  qed
qed

section \<open>Properties\<close>

text \<open>
  C15. No lost update. The three writes of a server's configuration are
  conditional on the generation they were computed from: once any of them
  has been applied to the version with a given generation, every other
  write computed from that same version is refused and leaves the database
  as it is.
\<close>

theorem no_lost_update:
  assumes db: "reachable db"
    and first: "w1 \<in> {update_desired_state, update_spec, archive}" "w1 s1 prev db = Inr (db1, True)"
      "unat prev < unat (sv_generation s1)"
    and second: "w2 \<in> {update_desired_state, update_spec, archive}" "w2 s2 prev db1 = Inr (db2, b)"
    and same: "sv_id s2 = sv_id s1" and valid: "server_spec_ok (sv_spec s1)"
  shows "\<not> b \<and> db2 = db1"
proof -
  note inv = reachable_inv [OF db]
  have "db_step db db1"
    using first valid by (auto intro: step_desired_state step_spec step_archive)
  then have inv1: "db_inv db1" using inv by (rule db_step_inv)
  obtain r where r: "r \<in> set (servers db1)" "s_id r = sv_id s1" "s_generation r = uint (sv_generation s1)"
    using first(1,2) desired_state_write.applied [OF inv] spec_write.applied [OF inv]
      archive_write.applied [OF inv] by blast
  have ne: "s_generation r \<noteq> uint prev" using r(3) first(3) by (metis nat_less_le unsigned_word_eqI uint_nat)
  have id2: "s_id r = sv_id s2" using r(2) same by simp
  have "w2 = update_desired_state \<Longrightarrow> ?thesis" "w2 = update_spec \<Longrightarrow> ?thesis" "w2 = archive \<Longrightarrow> ?thesis"
    using second(2) desired_state_write.stale [OF inv1 _ r(1) id2 ne, of db2 b]
      spec_write.stale [OF inv1 _ r(1) id2 ne, of db2 b] archive_write.stale [OF inv1 _ r(1) id2 ne, of db2 b]
    by simp_all
  with second(1) show ?thesis by blast
qed

theorem no_lost_update_witness:
  "\<not> snd (projr (update_desired_state ex_server_running 1 ex_db2))"
proof -
  have again: "update_desired_state ex_server_running 1 ex_db2 = Inr (ex_db2, False)" by code_simp
  have "server_spec_ok (sv_spec ex_server_running)"
    using ex_server_wf by (simp add: server_wf_def server_consistent_def ex_server_running_def ex_server_def)
  moreover have "unat (1 :: u64) < unat (sv_generation ex_server_running)"
    by (simp add: ex_server_running_def)
  ultimately have "\<not> False \<and> ex_db2 = ex_db2"
    using no_lost_update [where ?w1.0 = update_desired_state and ?w2.0 = update_desired_state,
        OF ex_reach1 _ ex_running _ _ again] by simp
  then show ?thesis using again by simp
qed

text \<open>
  C16. Setting the desired state, against any interleaving of other
  repository writes: the database stays reachable, and when the call
  succeeds the stored row of the server carries exactly the returned
  generation and the requested state, the returned server has the requested
  name, and its generation is the expected one or its successor.
\<close>

theorem set_desired_state_effect:
  assumes "reachable (app_db w)" and "\<And>n k db. db_step\<^sup>*\<^sup>* db (others n k db)"
    and "service_set_desired_state clock others name ds expected w = (w', r)"
  shows "reachable (app_db w') \<and> (\<forall>s. r = Inr s \<longrightarrow>
      sv_name s = name \<and> sv_desired_state s = ds
    \<and> (\<exists>row \<in> set (servers (app_db w')). s_id row = sv_id s \<and> s_generation row = uint (sv_generation s)
        \<and> s_desired_state row = desired_state_as_str ds)
    \<and> (\<forall>e. expected = Some e \<longrightarrow>
        unat (sv_generation s) = unat e \<or> unat (sv_generation s) = unat e + 1))"
proof -
  have others: "repository_writes (others n k)" for n k using assms(2) by (simp add: repository_writes_def)
  have "triple app_ok (service_set_desired_state clock others name ds expected)
      (\<lambda>s w. desired_state_post name ds expected s (app_db w)) (\<lambda>_. app_ok)"
    unfolding service_set_desired_state_def
    by (rule triple_bind_alift) (auto simp: result_simps intro: set_desired_state_attempts_triple [OF others])
  from triple_InrD [OF this, of w w'] triple_InlD [OF this, of w w'] show ?thesis
    using assms(1,3)
    by (cases r) (auto simp: app_ok_def desired_state_post_def generation_follows_def stores_version_def)
qed

theorem set_desired_state_effect_witness:
  "reachable (app_db (fst (service_set_desired_state (\<lambda>_. Inr 7000) (\<lambda>_ _ db. db) ''lobby'' Stopped (Some 2)
     \<lparr> app_db = ex_db3, app_queue = [] \<rparr>)))
   \<and> isl (snd (service_set_desired_state (\<lambda>_. Inr 7000) (\<lambda>_ _ db. db) ''lobby'' Stopped (Some 2)
     \<lparr> app_db = ex_db3, app_queue = [] \<rparr>)) = False"
proof -
  let ?run = "service_set_desired_state (\<lambda>_. Inr 7000) (\<lambda>_ _ db. db) ''lobby'' Stopped (Some 2)
     \<lparr> app_db = ex_db3, app_queue = [] \<rparr>"
  have "\<not> isl (snd ?run)" by code_simp
  moreover have "reachable (app_db (fst ?run))"
    using set_desired_state_effect [OF _ _ prod.collapse [symmetric], of "\<lparr> app_db = ex_db3, app_queue = [] \<rparr>"
        "\<lambda>_ _ db. db"] ex_reach3 by simp
  ultimately show ?thesis by simp
qed

text \<open>
  C17. Applying a definition, against any interleaving of other repository
  writes and with a clock that never precedes the epoch: the database stays
  reachable, and when the call succeeds the returned server has the
  requested name, compute and process specification, its specification is
  valid, the stored row carries exactly that specification under the
  returned generation, and the generation is the expected one or its
  successor.
\<close>

theorem apply_effect:
  assumes "reachable (app_db w)" and "\<And>n k db. db_step\<^sup>*\<^sup>* db (others n k db)"
    and "\<And>n t. clock n = Inr t \<Longrightarrow> 0 \<le> t"
    and "service_apply base clock others ident name desired expected w = (w', r)"
  shows "reachable (app_db w') \<and> (\<forall>s. r = Inr s \<longrightarrow>
      sv_name s = name \<and> server_spec_ok (sv_spec s)
    \<and> compute (sv_spec s) = desired_compute desired \<and> process (sv_spec s) = desired_process desired
    \<and> (\<exists>row \<in> set (servers (app_db w')). s_id row = sv_id s \<and> s_generation row = uint (sv_generation s)
        \<and> s_spec row = sv_spec s)
    \<and> (\<forall>e. expected = Some e \<longrightarrow>
        unat (sv_generation s) = unat e \<or> unat (sv_generation s) = unat e + 1))"
proof -
  have others: "repository_writes (others n k)" for n k using assms(2) by (simp add: repository_writes_def)
  have "triple app_ok (service_apply base clock others ident name desired expected)
      (\<lambda>s w. spec_post name desired expected s (app_db w)) (\<lambda>_. app_ok)"
    unfolding service_apply_def
    by (rule triple_bind_alift) (auto simp: result_simps intro: apply_attempts_triple [OF others assms(3)])
  from triple_InrD [OF this, of w w'] triple_InlD [OF this, of w w'] show ?thesis
    using assms(1,4)
    by (cases r) (auto simp: app_ok_def spec_post_def generation_follows_def stores_version_def)
qed

definition ex_desired :: desired_server_spec where
  "ex_desired = \<lparr> desired_compute = ComputeLocal,
     desired_process = (process ex_spec)\<lparr> version := ''1.21'' \<rparr>,
     desired_data = DesiredLocalRestic ''/srv/restic'' \<rparr>"

theorem apply_effect_witness:
  "\<exists>s w'. service_apply None (\<lambda>_. Inr 7000) (\<lambda>_ _ db. db) 9 ''lobby'' ex_desired (Some 1)
       \<lparr> app_db = ex_db1, app_queue = [] \<rparr> = (w', Inr s)
     \<and> (\<exists>row \<in> set (servers (app_db w')). s_id row = sv_id s \<and> s_spec row = sv_spec s)"
proof -
  let ?run = "service_apply None (\<lambda>_. Inr 7000) (\<lambda>_ _ db. db) 9 ''lobby'' ex_desired (Some 1)
     \<lparr> app_db = ex_db1, app_queue = [] \<rparr>"
  have "\<not> isl (snd ?run)" by code_simp
  then obtain w' s where run: "?run = (w', Inr s)" by (metis prod.collapse sum.collapse(2))
  have "\<exists>row \<in> set (servers (app_db w')). s_id row = sv_id s \<and> s_spec row = sv_spec s"
    using apply_effect [OF _ _ _ run] ex_reach1 by auto
  with run show ?thesis by blast
qed

text \<open>
  C18. Archiving, against any interleaving of other repository writes: the
  database stays reachable, and when the call succeeds the server is
  archived, its row is stored as archived and stopped under the returned
  generation, and no instance of it is live.
\<close>

theorem archive_effect:
  assumes "reachable (app_db w)" and "\<And>n k db. db_step\<^sup>*\<^sup>* db (others n k db)"
    and "service_archive clock others name expected w = (w', r)"
  shows "reachable (app_db w') \<and> (\<forall>s. r = Inr s \<longrightarrow>
      sv_name s = name \<and> sv_archived_at s \<noteq> None
    \<and> (\<exists>row \<in> set (servers (app_db w')). s_id row = sv_id s \<and> s_generation row = uint (sv_generation s)
        \<and> s_archived_at_ms row \<noteq> None \<and> s_desired_state row = ''stopped'')
    \<and> (\<forall>i \<in> set (server_instances (app_db w')). i_server_id i = sv_id s \<longrightarrow> i_terminated_at_ms i \<noteq> None))"
proof -
  have others: "repository_writes (others n k)" for n k using assms(2) by (simp add: repository_writes_def)
  have "triple app_ok (service_archive clock others name expected)
      (\<lambda>s w. archive_post name expected s (app_db w)) (\<lambda>_. app_ok)"
    unfolding service_archive_def
    by (rule triple_bind_alift) (auto simp: result_simps intro: archive_attempts_triple [OF others])
  note T = triple_InrD [OF this, of w w'] triple_InlD [OF this, of w w']
  show ?thesis
  proof (cases r)
    case (Inl e)
    then show ?thesis using T assms by (auto simp: app_ok_def)
  next
    case (Inr s)
    then have post: "archive_post name expected s (app_db w')" using T assms by (auto simp: app_ok_def)
    then obtain row where row: "row \<in> set (servers (app_db w'))" "s_id row = sv_id s"
        "s_generation row = uint (sv_generation s)" "s_archived_at_ms row \<noteq> None" "reachable (app_db w')"
      by (auto simp: archive_post_def stores_version_def)
    have "server_row_ok row" using db_inv_rows(1) [OF reachable_inv [OF row(5)] row(1)] .
    then have "s_desired_state row = ''stopped''" using row(4) by (auto simp: server_row_ok_def)
    then show ?thesis
      using Inr post row archived_no_live [OF row(5,1,4)] by (auto simp: archive_post_def)
  qed
qed

theorem archive_effect_witness:
  "\<exists>s w'. service_archive (\<lambda>_. Inr 7000) (\<lambda>_ _ db. db) ''lobby'' None
       \<lparr> app_db = ex_db1, app_queue = [] \<rparr> = (w', Inr s) \<and> reachable (app_db w') \<and> sv_archived_at s \<noteq> None"
proof -
  let ?run = "service_archive (\<lambda>_. Inr 7000) (\<lambda>_ _ db. db) ''lobby'' None \<lparr> app_db = ex_db1, app_queue = [] \<rparr>"
  have "\<not> isl (snd ?run)" by code_simp
  then obtain w' s where run: "?run = (w', Inr s)" by (metis prod.collapse sum.collapse(2))
  then show ?thesis using archive_effect [OF _ _ run] ex_reach1 by auto
qed

end
