(* ===== verification/Agent_Protocol.thy ===== *)
theory Agent_Protocol
  imports Server_Domain
begin

text \<open>
  The protocol between the control plane and a node agent
  (\<open>mcserver-protocol/src/node_agent.rs\<close>): the commands an agent accepts with
  their parameters, its replies, and the failures of a call
  (\<open>AgentCallError\<close> in \<open>agent/registry.rs\<close>).
\<close>

definition PROTOCOL_VERSION :: u32 where
  "PROTOCOL_VERSION = 3"

record instance_identity =
  server_instance_id :: uuid
  fencing_token :: u64

record agent_process_spec =
  ap_container_image :: string
  ap_server_type :: string
  ap_version :: string
  ap_host_port :: u16
  ap_stop_timeout_seconds :: u64
  ap_accept_eula :: bool
  ap_environment :: "(string \<times> string) list"

record restore_data_params =
  rd_instance :: instance_identity
  rd_server_id :: uuid
  rd_repository :: string
  rd_source_snapshot_id :: "string option"

record start_server_params =
  ss_instance :: instance_identity
  ss_process :: agent_process_spec

record stop_server_params =
  sp_instance :: instance_identity
  sp_stop_timeout_seconds :: u64

record snapshot_data_params =
  sd_instance :: instance_identity
  sd_server_id :: uuid
  sd_repository :: string

datatype agent_request =
    AgentInspect instance_identity
  | DataRestore restore_data_params
  | ServerStart start_server_params
  | ServerStop stop_server_params
  | DataSnapshot snapshot_data_params
  | InstanceCleanup instance_identity
  | NodeShutdown

fun method_name :: "agent_request \<Rightarrow> string" where
  "method_name (AgentInspect _) = ''agent.inspect''"
| "method_name (DataRestore _) = ''data.restore''"
| "method_name (ServerStart _) = ''server.start''"
| "method_name (ServerStop _) = ''server.stop''"
| "method_name (DataSnapshot _) = ''data.snapshot''"
| "method_name (InstanceCleanup _) = ''instance.cleanup''"
| "method_name NodeShutdown = ''node.shutdown''"

record agent_inspect_result =
  ir_data_prepared :: bool
  ir_process_running :: bool
  ir_last_snapshot_id :: "string option"

datatype agent_reply =
    InspectReply agent_inspect_result
  | ChangedReply bool
  | SnapshotReply string
  | ShutdownReply bool

datatype agent_call_error =
    NotConnected
  | Disconnected
  | CallTimeout
  | Remote int string
  | CallSerialization
  | Protocol string
  | CallIo

text \<open>A reply decodes to the result type the caller asks for, or the call fails.\<close>

fun as_inspect :: "agent_reply \<Rightarrow> agent_call_error + agent_inspect_result" where
  "as_inspect (InspectReply r) = Inr r"
| "as_inspect _ = Inl CallSerialization"

fun as_changed :: "agent_reply \<Rightarrow> agent_call_error + bool" where
  "as_changed (ChangedReply b) = Inr b"
| "as_changed _ = Inl CallSerialization"

fun as_snapshot :: "agent_reply \<Rightarrow> agent_call_error + string" where
  "as_snapshot (SnapshotReply s) = Inr s"
| "as_snapshot _ = Inl CallSerialization"

fun as_shutdown :: "agent_reply \<Rightarrow> agent_call_error + bool" where
  "as_shutdown (ShutdownReply b) = Inr b"
| "as_shutdown _ = Inl CallSerialization"

end
