(* ===== verification/Provider_Api.thy ===== *)
theory Provider_Api
  imports Server_Domain
begin

text \<open>
  What the control plane exchanges with the Akamai API
  (\<open>infrastructure/akamai_compute.rs\<close>): the requests its client sends and the
  responses it reads. A response carries its status, the retry header, its
  body as the JSON decoder reads it, and the raw chunks of an error body.
\<close>

datatype disk_encryption = EncryptionEnabled | EncryptionDisabled

record create_instance_request =
  cr_region :: string
  cr_instance_type :: string
  cr_image :: string
  cr_label :: string
  cr_booted :: bool
  cr_authorized_keys :: "string list"
  cr_tags :: "string list"
  cr_firewall_id :: u64
  cr_disk_encryption :: disk_encryption
  cr_user_data :: string

record provider_instance =
  pi_id :: u64
  pi_label :: string
  pi_region :: string
  pi_instance_type :: string
  pi_image :: string
  pi_disk_encryption :: disk_encryption
  pi_ipv4 :: "string list"
  pi_tags :: "string list"

record provider_image =
  im_id :: string
  im_status :: string
  im_deprecated :: bool
  im_capabilities :: "string list"

record provider_region =
  rg_id :: string
  rg_capabilities :: "string list"

record provider_firewall =
  fw_id :: u64
  fw_status :: string

datatype list_filter = FilterTagContains string | FilterLabel string

datatype api_request =
    ListInstances list_filter u64
  | PostInstance create_instance_request
  | GetInstance u64
  | DeleteInstance u64
  | GetImage string
  | GetRegion string
  | GetType string
  | GetFirewall u64
  | ListInstanceFirewalls u64

datatype api_body =
    BodyInstances "provider_instance list" "u64 option"
  | BodyInstance provider_instance
  | BodyImage provider_image
  | BodyRegion provider_region
  | BodyType string
  | BodyFirewall provider_firewall
  | BodyFirewalls "provider_firewall list"
  | BodyOther

record api_response =
  status :: nat
  retry_after_header :: "string option"
  body :: api_body
  error_chunks :: "string list"
  chunk_failure :: bool

section \<open>The bootstrap manifest\<close>

record bootstrap_manifest =
  bm_schema_version :: u32
  bm_compute_instance_id :: string
  bm_server_instance_id :: string
  bm_enrollment_token :: string
  bm_control_plane_address :: string
  bm_tls_server_name :: string
  bm_provider_scope :: string

end
