(* ===== verification/Text.thy ===== *)
theory Text
  imports Compute_Domain
begin

text \<open>
  What the program uses of Rust's string and integer conversions: decimal
  printing and parsing of unsigned integers, trimming and splitting at
  Unicode white space, prefixes, and the lossy reading of bytes as UTF-8.
\<close>

section \<open>Unsigned decimals\<close>

definition digit_char :: "nat \<Rightarrow> char" where
  "digit_char d = char_of (48 + d)"

fun nat_to_string :: "nat \<Rightarrow> string" where
  "nat_to_string n = (if n < 10 then [digit_char n] else nat_to_string (n div 10) @ [digit_char (n mod 10)])"

declare nat_to_string.simps [simp del]

definition u64_to_string :: "u64 \<Rightarrow> string" where
  "u64_to_string w = nat_to_string (unat w)"

text \<open>
  \<open>str::parse\<close> for an unsigned type with the given maximum: one optional
  plus sign, then at least one digit, and no overflow.
\<close>

definition parse_unsigned :: "nat \<Rightarrow> string \<Rightarrow> nat option" where
  "parse_unsigned maximum s =
     (let digits = (case s of [] \<Rightarrow> [] | c # cs \<Rightarrow> if c = CHR ''+'' then cs else s) in
      if digits \<noteq> [] \<and> list_all is_ascii_digit digits \<and> digits_value 0 digits \<le> maximum
      then Some (digits_value 0 digits) else None)"

definition parse_u64 :: "string \<Rightarrow> u64 option" where
  "parse_u64 s = map_option of_nat (parse_unsigned 18446744073709551615 s)"

lemma digit_char_simps [simp]:
  "d < 10 \<Longrightarrow> code (digit_char d) = 48 + d"
  "d < 10 \<Longrightarrow> is_ascii_digit (digit_char d)"
  by (simp_all add: digit_char_def code_def is_ascii_digit_def)

lemma digits_value_append: "digits_value acc (xs @ ys) = digits_value (digits_value acc xs) ys"
  by (induction xs arbitrary: acc) simp_all

lemma nat_to_string_digits: "list_all is_ascii_digit (nat_to_string n)" "nat_to_string n \<noteq> []"
proof -
  show "list_all is_ascii_digit (nat_to_string n)"
    by (induction n rule: nat_to_string.induct) (subst nat_to_string.simps, simp)
  show "nat_to_string n \<noteq> []" by (subst nat_to_string.simps) simp
qed

lemma digits_value_nat_to_string: "digits_value 0 (nat_to_string n) = n"
proof (induction n rule: nat_to_string.induct)
  case (1 n)
  then show ?case
    by (subst nat_to_string.simps) (simp add: digits_value_append)
qed

lemma parse_unsigned_to_string: "n \<le> maximum \<Longrightarrow> parse_unsigned maximum (nat_to_string n) = Some n"
proof -
  assume "n \<le> maximum"
  moreover have "hd (nat_to_string n) \<noteq> CHR ''+''"
    using nat_to_string_digits [of n]
    by (cases "nat_to_string n") (auto simp: is_ascii_digit_def code_def)
  ultimately show ?thesis
    using nat_to_string_digits [of n] digits_value_nat_to_string [of n]
    by (cases "nat_to_string n") (auto simp: parse_unsigned_def Let_def)
qed

lemma parse_u64_to_string: "parse_u64 (u64_to_string w) = Some w"
proof -
  have "unat w \<le> 18446744073709551615"
    using word_order.extremum [of w] by (simp add: word_le_nat_alt unat_minus_one_u64)
  then show ?thesis
    by (simp add: parse_u64_def u64_to_string_def parse_unsigned_to_string)
qed

section \<open>White space\<close>

text \<open>The length in bytes of the white-space character a byte list starts with, or nothing.\<close>

definition white_prefix :: "nat list \<Rightarrow> nat" where
  "white_prefix bs =
     (case bs of
        [] \<Rightarrow> 0
      | a # r \<Rightarrow> if white1 a then 1 else
          (case r of
             [] \<Rightarrow> 0
           | b # r' \<Rightarrow> if white2 a b then 2 else
               (case r' of [] \<Rightarrow> 0 | c # _ \<Rightarrow> if white3 a b c then 3 else 0)))"

text \<open>The same at the end of a byte list, given reversed.\<close>

definition white_suffix :: "nat list \<Rightarrow> nat" where
  "white_suffix bs =
     (case bs of
        [] \<Rightarrow> 0
      | a # r \<Rightarrow> if white1 a then 1 else
          (case r of
             [] \<Rightarrow> 0
           | b # r' \<Rightarrow> if white2 b a then 2 else
               (case r' of [] \<Rightarrow> 0 | c # _ \<Rightarrow> if white3 c b a then 3 else 0)))"

lemma white_prefix_le: "white_prefix bs \<le> length bs" "white_suffix bs \<le> length bs"
  by (auto simp: white_prefix_def white_suffix_def split: list.split)

function strip_white :: "(nat list \<Rightarrow> nat) \<Rightarrow> string \<Rightarrow> string" where
  "strip_white width s =
     (let n = width (map code s) in if 0 < n \<and> n \<le> length s then strip_white width (drop n s) else s)"
  by auto

termination by (relation "measure (\<lambda>(_, s). length s)") auto

declare strip_white.simps [simp del]

definition str_trim :: "string \<Rightarrow> string" where
  "str_trim s = rev (strip_white white_suffix (rev (strip_white white_prefix s)))"

function split_whitespace_from :: "string \<Rightarrow> string \<Rightarrow> string list" where
  "split_whitespace_from word s =
     (case s of
        [] \<Rightarrow> if word = [] then [] else [word]
      | c # cs \<Rightarrow>
          let n = white_prefix (map code s) in
          if 0 < n \<and> n \<le> length s
          then (if word = [] then [] else [word]) @ split_whitespace_from [] (drop n s)
          else split_whitespace_from (word @ [c]) cs)"
  by auto

termination by (relation "measure (\<lambda>(_, s). length s)") auto

declare split_whitespace_from.simps [simp del]

definition split_whitespace :: "string \<Rightarrow> string list" where
  "split_whitespace s = split_whitespace_from [] s"

definition trim_end_matches :: "char \<Rightarrow> string \<Rightarrow> string" where
  "trim_end_matches c s = rev (dropWhile (\<lambda>x. x = c) (rev s))"

section \<open>Prefixes and searches\<close>

fun strip_prefix :: "string \<Rightarrow> string \<Rightarrow> string option" where
  "strip_prefix [] s = Some s"
| "strip_prefix (p # ps) [] = None"
| "strip_prefix (p # ps) (c # cs) = (if p = c then strip_prefix ps cs else None)"

definition starts_with :: "string \<Rightarrow> string \<Rightarrow> bool" where
  "starts_with p s \<longleftrightarrow> strip_prefix p s \<noteq> None"

definition ends_with :: "string \<Rightarrow> string \<Rightarrow> bool" where
  "ends_with p s \<longleftrightarrow> strip_prefix (rev p) (rev s) \<noteq> None"

definition str_contains :: "string \<Rightarrow> string \<Rightarrow> bool" where
  "str_contains p s \<longleftrightarrow> list_ex (\<lambda>n. starts_with p (drop n s)) [0..<Suc (length s)]"

lemma strip_prefix_Some: "strip_prefix p s = Some r \<longleftrightarrow> s = p @ r"
  by (induction p s rule: strip_prefix.induct) auto

lemma starts_with_iff: "starts_with p s \<longleftrightarrow> (\<exists>r. s = p @ r)"
  by (auto simp: starts_with_def strip_prefix_Some)

lemma ends_with_iff: "ends_with p s \<longleftrightarrow> (\<exists>r. s = r @ p)"
proof -
  have "ends_with p s \<longleftrightarrow> (\<exists>r. rev s = rev p @ r)"
    by (auto simp: ends_with_def strip_prefix_Some)
  also have "\<dots> \<longleftrightarrow> (\<exists>r. s = r @ p)" by (metis rev_append rev_rev_ident)
  finally show ?thesis .
qed

text \<open>The text after the last occurrence of a byte.\<close>

definition after_last :: "char \<Rightarrow> string \<Rightarrow> string option" where
  "after_last c s = (if c \<in> set s then Some (rev (takeWhile (\<lambda>x. x \<noteq> c) (rev s))) else None)"

lemma after_last_Some:
  "after_last c s = Some r \<longleftrightarrow> (\<exists>p. s = p @ c # r) \<and> c \<notin> set r"
proof
  assume "after_last c s = Some r"
  then have c: "c \<in> set (rev s)" and r: "r = rev (takeWhile (\<lambda>x. x \<noteq> c) (rev s))"
    by (auto simp: after_last_def split: if_splits)
  have "dropWhile (\<lambda>x. x \<noteq> c) (rev s) \<noteq> []" using c by (auto simp: dropWhile_eq_Nil_conv)
  then obtain q where "dropWhile (\<lambda>x. x \<noteq> c) (rev s) = c # q"
    using hd_dropWhile [of "\<lambda>x. x \<noteq> c" "rev s"] by (cases "dropWhile (\<lambda>x. x \<noteq> c) (rev s)") auto
  then have "rev s = rev r @ c # q" using takeWhile_dropWhile_id [of "\<lambda>x. x \<noteq> c" "rev s"] r by simp
  then have "s = rev q @ c # r" by (metis append.assoc append_Cons append_Nil rev.simps(2) rev_append rev_rev_ident)
  moreover have "c \<notin> set r" using r by (auto dest: set_takeWhileD)
  ultimately show "(\<exists>p. s = p @ c # r) \<and> c \<notin> set r" by blast
next
  assume "(\<exists>p. s = p @ c # r) \<and> c \<notin> set r"
  then obtain p where s: "s = p @ c # r" and c: "c \<notin> set r" by blast
  have "takeWhile (\<lambda>x. x \<noteq> c) (rev r @ c # rev p) = rev r"
    using c by (subst takeWhile_append2) auto
  then show "after_last c s = Some r" using s by (simp add: after_last_def)
qed

section \<open>Bytes read as UTF-8\<close>

text \<open>
  \<open>String::from_utf8_lossy\<close>: valid sequences stay, and each maximal prefix of an
  ill-formed sequence becomes one replacement character.
\<close>

definition cont :: "nat \<Rightarrow> bool" where
  "cont b \<longleftrightarrow> 128 \<le> b \<and> b < 192"

definition byte_at :: "nat list \<Rightarrow> nat \<Rightarrow> nat" where
  "byte_at bs n = (if n < length bs then bs ! n else 0)"

definition second_ok :: "nat \<Rightarrow> nat \<Rightarrow> bool" where
  "second_ok a b \<longleftrightarrow>
     a = 224 \<and> 160 \<le> b \<and> b < 192
   \<or> (225 \<le> a \<and> a \<le> 236 \<or> 238 \<le> a \<and> a \<le> 239) \<and> cont b
   \<or> a = 237 \<and> 128 \<le> b \<and> b < 160
   \<or> a = 240 \<and> 144 \<le> b \<and> b < 192
   \<or> 241 \<le> a \<and> a \<le> 243 \<and> cont b
   \<or> a = 244 \<and> 128 \<le> b \<and> b < 144"

definition utf8_step :: "nat list \<Rightarrow> nat \<times> bool" where
  "utf8_step bs = (let a = byte_at bs 0; b = byte_at bs 1; c = byte_at bs 2; d = byte_at bs 3 in
     if a < 128 then (1, True)
     else if 194 \<le> a \<and> a \<le> 223 then (if cont b then (2, True) else (1, False))
     else if \<not> second_ok a b then (1, False)
     else if \<not> cont c then (2, False)
     else if a < 240 then (3, True)
     else if cont d then (4, True) else (3, False))"

lemma utf8_step_pos: "0 < fst (utf8_step bs)"
  by (simp add: utf8_step_def Let_def)

definition replacement_character :: "nat list" where
  "replacement_character = [239, 191, 189]"

function utf8_lossy :: "nat list \<Rightarrow> nat list" where
  "utf8_lossy bs =
     (if bs = [] then []
      else case utf8_step bs of (n, valid) \<Rightarrow>
        (if valid then take n bs else replacement_character) @ utf8_lossy (drop n bs))"
  by auto

termination
proof (relation "measure length")
  show "(drop n bs, bs) \<in> measure length" if "bs \<noteq> []" "(n, v) = utf8_step bs" for bs n v
    using utf8_step_pos [of bs] that by (cases "utf8_step bs") auto
qed simp

function utf8_valid :: "nat list \<Rightarrow> bool" where
  "utf8_valid bs \<longleftrightarrow>
     (if bs = [] then True else case utf8_step bs of (n, valid) \<Rightarrow> valid \<and> utf8_valid (drop n bs))"
  by auto

termination
proof (relation "measure length")
  show "(drop n bs, bs) \<in> measure length" if "bs \<noteq> []" "(n, v) = utf8_step bs" for bs n v
    using utf8_step_pos [of bs] that by (cases "utf8_step bs") auto
qed simp

declare utf8_lossy.simps [simp del] utf8_valid.simps [simp del]

lemma byte_at_simps [simp]:
  "byte_at [] n = 0" "byte_at (a # bs) 0 = a" "byte_at (a # bs) (Suc n) = byte_at bs n"
  by (simp_all add: byte_at_def)

lemma cont_0 [simp]: "\<not> cont 0" "\<not> second_ok a 0"
  by (auto simp: cont_def second_ok_def)

lemma utf8_step_valid:
  assumes "utf8_step bs = (n, True)" "bs \<noteq> []"
  shows "n \<le> length bs \<and> utf8_step (take n bs @ rest) = (n, True)"
proof (cases bs rule: blank_bytes.cases)
  case (2 a)
  then show ?thesis using assms by (auto simp: utf8_step_def Let_def numeral_2_eq_2 split: if_splits)
next
  case (3 a b)
  then show ?thesis using assms by (auto simp: utf8_step_def Let_def numeral_2_eq_2 split: if_splits)
next
  case (4 a b c s)
  then show ?thesis
    using assms
    by (cases s) (auto simp: utf8_step_def Let_def numeral_2_eq_2 numeral_3_eq_3 split: if_splits)
qed (use assms in simp)

lemma utf8_valid_append_step:
  assumes "utf8_step bs = (n, True)" "bs \<noteq> []" "utf8_valid rest"
  shows "utf8_valid (take n bs @ rest)"
proof -
  have "length (take n bs) = n" using utf8_step_valid [OF assms(1,2)] by simp
  then show ?thesis
    using utf8_step_valid [OF assms(1,2), of rest] assms(3) by (subst utf8_valid.simps) simp
qed

lemma utf8_valid_replacement: "utf8_valid rest \<Longrightarrow> utf8_valid (replacement_character @ rest)"
proof -
  have "utf8_step replacement_character = (3, True)"
    by (simp add: replacement_character_def utf8_step_def Let_def second_ok_def cont_def numeral_2_eq_2)
  moreover have "take 3 replacement_character = replacement_character"
    by (simp add: replacement_character_def)
  moreover have "replacement_character \<noteq> []" by (simp add: replacement_character_def)
  ultimately show "utf8_valid rest \<Longrightarrow> ?thesis"
    using utf8_valid_append_step [of replacement_character 3 rest] by simp
qed

lemma utf8_lossy_valid: "utf8_valid (utf8_lossy bs)"
proof (induction bs rule: utf8_lossy.induct)
  case (1 bs)
  obtain n v where step: "utf8_step bs = (n, v)" by force
  have "utf8_valid (utf8_lossy (drop n bs))" if "bs \<noteq> []" using 1 that step by auto
  then have "utf8_valid ((if v then take n bs else replacement_character) @ utf8_lossy (drop n bs))" if "bs \<noteq> []"
    using that step utf8_valid_append_step utf8_valid_replacement by auto
  then show ?case
    using step by (subst utf8_lossy.simps) (auto simp: utf8_valid.simps [of "[]"])
qed

lemma utf8_lossy_id: "utf8_valid bs \<Longrightarrow> utf8_lossy bs = bs"
proof (induction bs rule: utf8_valid.induct)
  case (1 bs)
  show ?case
  proof (cases "bs = []")
    case True
    then show ?thesis by (simp add: utf8_lossy.simps)
  next
    case False
    obtain n where step: "utf8_step bs = (n, True)" and rest: "utf8_valid (drop n bs)"
      using 1(2) False by (subst (asm) utf8_valid.simps) (auto split: prod.splits)
    then have "utf8_lossy (drop n bs) = drop n bs" using 1(1) False by simp
    then show ?thesis using step False by (subst utf8_lossy.simps) simp
  qed
qed

definition from_utf8_lossy :: "string \<Rightarrow> string" where
  "from_utf8_lossy s = map char_of (utf8_lossy (map code s))"

lemma from_utf8_lossy_id: "utf8_valid (map code s) \<Longrightarrow> from_utf8_lossy s = s"
  by (simp add: from_utf8_lossy_def utf8_lossy_id code_def comp_def)

section \<open>Lines\<close>

text \<open>\<open>str::lines\<close>: a line feed ends a line, with a carriage return before it dropped.\<close>

definition strip_cr :: "string \<Rightarrow> string" where
  "strip_cr s = (if s \<noteq> [] \<and> last s = CHR 0x0D then butlast s else s)"

definition str_lines :: "string \<Rightarrow> string list" where
  "str_lines s = (let parts = split_on (CHR 0x0A) s in
     map strip_cr (butlast parts) @ (if last parts = [] then [] else [last parts]))"

section \<open>Durations\<close>

text \<open>A \<open>Duration\<close> in nanoseconds: seconds in a 64-bit word and a rest below one second.\<close>

type_synonym duration = nat

definition from_secs :: "nat \<Rightarrow> duration" where
  "from_secs n = n * 1000000000"

definition as_secs :: "duration \<Rightarrow> nat" where
  "as_secs d = d div 1000000000"

definition DURATION_MAX :: duration where
  "DURATION_MAX = 18446744073709551616 * 1000000000 - 1"

definition duration_checked_sub :: "duration \<Rightarrow> duration \<Rightarrow> duration option" where
  "duration_checked_sub a b = (if b \<le> a then Some (a - b) else None)"

definition duration_checked_mul :: "duration \<Rightarrow> nat \<Rightarrow> duration option" where
  "duration_checked_mul a n = (if a * n \<le> DURATION_MAX then Some (a * n) else None)"

section \<open>Paths\<close>

text \<open>\<open>Path::join\<close>: an absolute component replaces the path.\<close>

definition path_join :: "string \<Rightarrow> string \<Rightarrow> string" where
  "path_join base name =
     (if starts_with ''/'' name \<or> base = [] then name
      else if last base = CHR ''/'' then base @ name else base @ ''/'' @ name)"

section \<open>Further string operations\<close>

definition trim_end_chars :: "char list \<Rightarrow> string \<Rightarrow> string" where
  "trim_end_chars cs s = rev (dropWhile (\<lambda>x. x \<in> set cs) (rev s))"

definition trim_start_char :: "char \<Rightarrow> string \<Rightarrow> string" where
  "trim_start_char c s = dropWhile (\<lambda>x. x = c) s"

text \<open>\<open>trim_start_matches\<close> of a two-character prefix, removed as often as it occurs.\<close>

fun trim_start_pair :: "char \<Rightarrow> char \<Rightarrow> string \<Rightarrow> string" where
  "trim_start_pair a b (x # y # s) = (if x = a \<and> y = b then trim_start_pair a b s else x # y # s)"
| "trim_start_pair a b s = s"

definition trim_start :: "string \<Rightarrow> string" where
  "trim_start s = strip_white white_prefix s"

definition split_once :: "char \<Rightarrow> string \<Rightarrow> (string \<times> string) option" where
  "split_once c s =
     (if c \<in> set s then Some (takeWhile (\<lambda>x. x \<noteq> c) s, tl (dropWhile (\<lambda>x. x \<noteq> c) s)) else None)"

definition rsplit_once :: "char \<Rightarrow> string \<Rightarrow> (string \<times> string) option" where
  "rsplit_once c s =
     map_option (\<lambda>rest. (take (length s - length rest - 1) s, rest)) (after_last c s)"

fun after_first :: "string \<Rightarrow> string \<Rightarrow> string option" where
  "after_first p [] = strip_prefix p []"
| "after_first p (c # s) = (case strip_prefix p (c # s) of Some r \<Rightarrow> Some r | None \<Rightarrow> after_first p s)"

definition to_ascii_lowercase :: "string \<Rightarrow> string" where
  "to_ascii_lowercase = map (\<lambda>c. if is_ascii_uppercase c then char_of (code c + 32) else c)"

definition eq_ignore_ascii_case :: "string \<Rightarrow> string \<Rightarrow> bool" where
  "eq_ignore_ascii_case a b \<longleftrightarrow> to_ascii_lowercase a = to_ascii_lowercase b"

definition is_ascii_hexdigit :: "char \<Rightarrow> bool" where
  "is_ascii_hexdigit c \<longleftrightarrow> is_ascii_digit c \<or> (97 \<le> code c \<and> code c \<le> 102) \<or> (65 \<le> code c \<and> code c \<le> 70)"

text \<open>\<open>from_str_radix\<close> with radix eight.\<close>

definition parse_octal :: "nat \<Rightarrow> string \<Rightarrow> nat option" where
  "parse_octal maximum s =
     (let digits = (case s of [] \<Rightarrow> [] | c # cs \<Rightarrow> if c = CHR ''+'' then cs else s);
          value = foldl (\<lambda>acc c. acc * 8 + (code c - 48)) 0 digits in
      if digits \<noteq> [] \<and> list_all (\<lambda>c. 48 \<le> code c \<and> code c \<le> 55) digits \<and> value \<le> maximum
      then Some value else None)"

end
