(* ===== verification/World.thy ===== *)
theory World
  imports Repository_Properties Scheduler Agent_Protocol Provider_Api Text
begin

text \<open>
  The control plane and its surroundings. An environment answers what the
  program asks of the outside: the clocks, fresh identifiers, cancellation,
  the iteration order of hash maps, the agents and their connections, the
  operating system, the provider's API, and what the other tasks of the
  process wrote to the database before each repository call. Answers are indexed by a counter that every question advances, so
  an environment may answer the same question differently each time.

  The world holds the database, the counter, the children the local compute
  manager tracks, and the trace of the effects sent outside, each with the
  database at that moment.
\<close>

datatype io_failure = IoNotFound | IoOther

record local_runtime_state =
  rt_schema_version :: u32
  rt_compute_instance_id :: uuid
  rt_local_scope :: string
  rt_process_id :: u32
  rt_linux_boot_id :: string
  rt_start_time_ticks :: u64

record command_output =
  co_success :: bool
  co_code :: "int option"
  co_stdout :: string
  co_stderr :: string

datatype command_outcome =
    CommandTimedOut
  | CommandNotRun io_failure
  | CommandDone command_output

datatype child_wait = WaitTimedOut | WaitFailed io_failure | WaitExited

datatype directory_entry = EntryUnreadable io_failure | DirectoryEntry "string option" bool

datatype effect =
    AgentCalled uuid agent_request
  | AgentSpawned uuid "(string \<times> string) list"
  | ChildKilled uuid
  | ProcessSignalled u32 string
  | RuntimeStateStored string local_runtime_state
  | PodmanCommand "string list"
  | ProviderInstanceCreated uuid create_instance_request
  | ProviderInstanceDeleted "uuid option" u64

record environment =
  env_clock :: "nat \<Rightarrow> timestamp_error + timestamp"
  env_others :: "nat \<Rightarrow> database \<Rightarrow> database"
  env_uuid :: "nat \<Rightarrow> uuid"
  env_uuid_text :: "uuid \<Rightarrow> string"
  env_uuid_simple :: "uuid \<Rightarrow> string"
  env_parse_uuid :: "string \<Rightarrow> uuid option"
  env_connected :: "nat \<Rightarrow> uuid \<Rightarrow> bool"
  env_agent :: "nat \<Rightarrow> uuid \<Rightarrow> agent_request \<Rightarrow> agent_call_error + agent_reply"
  env_child_exited :: "nat \<Rightarrow> uuid \<Rightarrow> io_failure + bool"
  env_child_wait :: "nat \<Rightarrow> uuid \<Rightarrow> child_wait"
  env_child_kill :: "nat \<Rightarrow> uuid \<Rightarrow> io_failure option"
  env_child_reap :: "nat \<Rightarrow> uuid \<Rightarrow> io_failure option"
  env_state_file :: "nat \<Rightarrow> string \<Rightarrow> io_failure + local_runtime_state option"
  env_boot_id :: "nat \<Rightarrow> io_failure + string"
  env_process_stat :: "nat \<Rightarrow> u32 \<Rightarrow> io_failure + string"
  env_process_exists :: "nat \<Rightarrow> u32 \<Rightarrow> bool"
  env_signal :: "nat \<Rightarrow> u32 \<Rightarrow> io_failure + (bool \<times> int option)"
  env_spawn :: "nat \<Rightarrow> uuid \<Rightarrow> io_failure + u32 option"
  env_filesystem :: "nat \<Rightarrow> io_failure option"
  env_command :: "nat \<Rightarrow> string list \<Rightarrow> command_outcome"
  env_directories :: "nat \<Rightarrow> io_failure + directory_entry list"
  env_polls :: "nat \<Rightarrow> nat"
  env_file_size :: "nat \<Rightarrow> string \<Rightarrow> io_failure + nat"
  env_file :: "nat \<Rightarrow> string \<Rightarrow> io_failure + string"
  env_base64 :: "string \<Rightarrow> string"
  env_manifest_json :: "bootstrap_manifest \<Rightarrow> string"
  env_api :: "nat \<Rightarrow> api_request \<Rightarrow> io_failure + api_response"
  env_api_errors :: "string \<Rightarrow> (string option \<times> string) list option"
  env_instant :: "nat \<Rightarrow> nat"
  env_cancelled :: "nat \<Rightarrow> bool"
  env_order :: "nat \<Rightarrow> uuid list \<Rightarrow> uuid list"

record world =
  w_db :: database
  w_tick :: nat
  w_children :: "uuid list"
  w_trace :: "(database \<times> effect) list"

type_synonym ('e, 'a) io = "(world, 'e, 'a) action"

section \<open>Asking and acting\<close>

definition ask :: "(nat \<Rightarrow> 'a) \<Rightarrow> ('e, 'a) io" where
  "ask answer w = (w\<lparr> w_tick := Suc (w_tick w) \<rparr>, Inr (answer (w_tick w)))"

definition emit :: "effect \<Rightarrow> ('e, unit) io" where
  "emit ef w = (w\<lparr> w_trace := w_trace w @ [(w_db w, ef)] \<rparr>, Inr ())"

definition clock_now :: "environment \<Rightarrow> (timestamp_error, timestamp) io" where
  "clock_now e = abind (ask (env_clock e)) alift"

definition is_connected :: "environment \<Rightarrow> uuid \<Rightarrow> ('e, bool) io" where
  "is_connected e compute_id = ask (\<lambda>n. env_connected e n compute_id)"

definition agent_call ::
    "environment \<Rightarrow> uuid \<Rightarrow> agent_request \<Rightarrow> (agent_reply \<Rightarrow> agent_call_error + 'a) \<Rightarrow> (agent_call_error, 'a) io" where
  "agent_call e compute_id request decode =
     abind (emit (AgentCalled compute_id request)) (\<lambda>_.
     abind (ask (\<lambda>n. env_agent e n compute_id request)) (\<lambda>answer.
     alift (rbind answer decode)))"

definition repository ::
    "environment \<Rightarrow> (database, repository_error, 'a) action \<Rightarrow> (repository_error, 'a) io" where
  "repository e m w =
     (case m (env_others e (w_tick w) (w_db w)) of
        (db', r) \<Rightarrow> (w\<lparr> w_db := db', w_tick := Suc (w_tick w) \<rparr>, r))"

section \<open>Other tasks\<close>

text \<open>
  What the client service and the agent server may write while the
  reconciliation worker runs: none of it touches instances or snapshots, and
  of a compute instance only the fields of its agent.
\<close>

inductive task_step :: "database \<Rightarrow> database \<Rightarrow> bool" where
  task_create: "server_create s db = Inr db' \<Longrightarrow> server_wf s \<Longrightarrow> sv_current_snapshot_id s = None
    \<Longrightarrow> task_step db db'"
| task_desired_state: "update_desired_state s prev db = Inr (db', b)
    \<Longrightarrow> unat prev < unat (sv_generation s) \<Longrightarrow> task_step db db'"
| task_spec: "update_spec s prev db = Inr (db', b) \<Longrightarrow> unat prev < unat (sv_generation s)
    \<Longrightarrow> server_spec_ok (sv_spec s) \<Longrightarrow> task_step db db'"
| task_archive: "archive s prev db = Inr (db', b) \<Longrightarrow> unat prev < unat (sv_generation s)
    \<Longrightarrow> task_step db db'"
| task_certificate: "record_agent_certificate ident etoken cert db = Inr (db', b) \<Longrightarrow> task_step db db'"
| task_authenticate: "authenticate_agent ident provider ctoken der now db = Inr (db', a)
    \<Longrightarrow> task_step db db'"

lemma task_step_db_step: "task_step db db' \<Longrightarrow> db_step db db'"
  by (induction rule: task_step.induct) (auto intro: db_step.intros)

definition compute_core :: "compute_row \<Rightarrow> uuid \<times> uuid \<times> int option" where
  "compute_core c = (c_id c, c_server_instance_id c, c_terminated_at_ms c)"

lemma update_compute_Inr:
  assumes "update_compute p f db = Inr (db', b)"
  shows "server_instances db' = server_instances db" "snapshots db' = snapshots db" "servers db' = servers db"
    "compute_instances db' = sql_update p f (compute_instances db)"
  using assms by (auto simp: update_compute_def result_simps)

text \<open>Instances and snapshots are the same, and so is which compute instance is live for which instance.\<close>

definition same_runs :: "database \<Rightarrow> database \<Rightarrow> bool" where
  "same_runs db db' \<longleftrightarrow> server_instances db' = server_instances db \<and> snapshots db' = snapshots db
     \<and> map compute_core (compute_instances db') = map compute_core (compute_instances db)"

lemma same_runs_refl [simp]: "same_runs db db"
  by (simp add: same_runs_def)

lemma same_runs_trans: "same_runs a b \<Longrightarrow> same_runs b c \<Longrightarrow> same_runs a c"
  by (simp add: same_runs_def)

lemma update_compute_same_runs:
  "update_compute p f db = Inr (db', b) \<Longrightarrow> (\<And>r. p r \<Longrightarrow> compute_core (f r) = compute_core r) \<Longrightarrow> same_runs db db'"
  by (simp add: same_runs_def update_compute_Inr map_sql_update_cong)

lemma compute_core_set [simp]:
  "compute_core (record_agent_certificate_set cert r) = compute_core r"
  "compute_core (authenticate_local_set now r) = compute_core r"
  "compute_core (authenticate_akamai_set now r) = compute_core r"
  "compute_core (record_process_id_set p now r) = compute_core r"
  "compute_core (record_provider_instance_set i a now r) = compute_core r"
  "compute_core (request_shutdown_set now r) = compute_core r"
  by (simp_all add: compute_core_def record_agent_certificate_set_def authenticate_local_set_def
      authenticate_akamai_set_def record_process_id_set_def record_provider_instance_set_def
      request_shutdown_set_def)

lemma authenticate_same_runs:
  assumes "authenticate_agent ident provider ctoken der now db = Inr (db', a)"
  shows "same_runs db db'"
  using assms
  by (cases provider; cases der)
     (auto simp: authenticate_agent_def result_simps intro: update_compute_same_runs)

lemma task_step_same_runs: "task_step db db' \<Longrightarrow> same_runs db db'"
proof (induction rule: task_step.induct)
  case (task_create s db db')
  then show ?case
    by (auto simp: same_runs_def server_create_def insert_server_def result_simps split: sum.splits if_splits)
next
  case (task_certificate ident etoken cert db db' b)
  then show ?case by (auto simp: record_agent_certificate_def intro: update_compute_same_runs)
next
  case (task_authenticate ident provider ctoken der now db db' a)
  then show ?case by (rule authenticate_same_runs)
qed (auto simp: same_runs_def update_desired_state_def update_spec_def archive_def Let_def result_simps)

lemma task_steps_same_runs: "task_step\<^sup>*\<^sup>* db db' \<Longrightarrow> same_runs db db'"
  by (induction rule: rtranclp_induct) (auto intro: same_runs_trans task_step_same_runs)

lemma task_steps_reachable: "task_step\<^sup>*\<^sup>* db db' \<Longrightarrow> reachable db \<Longrightarrow> reachable db'"
  by (induction rule: rtranclp_induct) (auto intro: reach_step task_step_db_step)

section \<open>What the outside relies on\<close>

text \<open>
  The environment's documented behaviour: between repository calls only the
  other tasks of the process write, the system clock counts from the Unix
  epoch, and a simple-formatted UUID is 32 hexadecimal digits.
\<close>

definition hex_digit :: "char \<Rightarrow> bool" where
  "hex_digit c \<longleftrightarrow> is_ascii_digit c \<or> (97 \<le> code c \<and> code c \<le> 102)"

definition environment_ok :: "environment \<Rightarrow> bool" where
  "environment_ok e \<longleftrightarrow>
     (\<forall>n db. task_step\<^sup>*\<^sup>* db (env_others e n db))
   \<and> (\<forall>n t. env_clock e n = Inr t \<longrightarrow> 0 \<le> t)
   \<and> (\<forall>u. length (env_uuid_simple e u) = 32 \<and> list_all hex_digit (env_uuid_simple e u))"

text \<open>Parsing inverts the text of a UUID, and nothing with a slash parses as one.\<close>

definition uuid_text_ok :: "environment \<Rightarrow> bool" where
  "uuid_text_ok e \<longleftrightarrow>
     (\<forall>u. env_parse_uuid e (env_uuid_text e u) = Some u)
   \<and> (\<forall>s u. env_parse_uuid e s = Some u \<longrightarrow> CHR ''/'' \<notin> set s)"

lemma uuid_text_okD:
  assumes "uuid_text_ok e"
  shows "env_parse_uuid e (env_uuid_text e u) = Some u" "env_parse_uuid e s = Some u \<Longrightarrow> CHR ''/'' \<notin> set s"
    "CHR ''/'' \<notin> set (env_uuid_text e u)"
  using assms unfolding uuid_text_ok_def by blast+

lemma environment_okD:
  assumes "environment_ok e"
  shows "task_step\<^sup>*\<^sup>* db (env_others e n db)"
    "env_clock e n = Inr t \<Longrightarrow> 0 \<le> t"
    "length (env_uuid_simple e u) = 32" "list_all hex_digit (env_uuid_simple e u)"
  using assms by (simp_all add: environment_ok_def)

section \<open>Operations that leave instances and snapshots alone\<close>

definition owns :: "uuid \<Rightarrow> uuid \<Rightarrow> database \<Rightarrow> bool" where
  "owns compute_id instance_id db \<longleftrightarrow>
     (compute_id, instance_id) \<in> (\<lambda>c. (c_id c, c_server_instance_id c)) ` set (compute_instances db)"

definition runs_kept :: "database \<Rightarrow> database \<Rightarrow> bool" where
  "runs_kept db db' \<longleftrightarrow> server_instances db' = server_instances db \<and> snapshots db' = snapshots db
     \<and> (\<forall>cid iid. owns cid iid db \<longrightarrow> owns cid iid db')"

lemma runs_kept_refl [simp]: "runs_kept db db"
  by (simp add: runs_kept_def)

lemma runs_kept_trans: "runs_kept a b \<Longrightarrow> runs_kept b c \<Longrightarrow> runs_kept a c"
  by (simp add: runs_kept_def)

lemma owns_compute_core: "owns cid iid db \<longleftrightarrow>
    (cid, iid) \<in> (\<lambda>(a, b, _). (a, b)) ` set (map compute_core (compute_instances db))"
  by (simp add: owns_def image_image compute_core_def)

lemma same_runs_kept: "same_runs db db' \<Longrightarrow> runs_kept db db'"
  by (simp add: same_runs_def runs_kept_def owns_compute_core del: set_map)

definition evolves :: "database \<Rightarrow> database \<Rightarrow> bool" where
  "evolves db db' \<longleftrightarrow> db_step\<^sup>*\<^sup>* db db' \<and> runs_kept db db'"

lemma evolves_refl [simp]: "evolves db db"
  by (simp add: evolves_def)

lemma evolves_trans: "evolves a b \<Longrightarrow> evolves b c \<Longrightarrow> evolves a c"
  by (meson evolves_def rtranclp_trans runs_kept_trans)

lemma db_steps_reachable: "db_step\<^sup>*\<^sup>* db db' \<Longrightarrow> reachable db \<Longrightarrow> reachable db'"
  by (induction rule: rtranclp_induct) (auto intro: reach_step)

lemma evolves_reachable: "evolves db db' \<Longrightarrow> reachable db \<Longrightarrow> reachable db'"
  using db_steps_reachable [of db db'] by (simp add: evolves_def)

lemma evolves_tasks: "task_step\<^sup>*\<^sup>* db db' \<Longrightarrow> evolves db db'"
  unfolding evolves_def
  by (auto intro: same_runs_kept task_steps_same_runs elim: rtranclp_mono [THEN predicate2D, rotated]
      dest: task_step_db_step)

lemma update_compute_evolves:
  assumes "update_compute p f db = Inr (db', b)" "db_step db db'"
    "\<And>r. c_id (f r) = c_id r \<and> c_server_instance_id (f r) = c_server_instance_id r"
  shows "evolves db db'"
proof -
  have "map (\<lambda>c. (c_id c, c_server_instance_id c)) (compute_instances db')
      = map (\<lambda>c. (c_id c, c_server_instance_id c)) (compute_instances db)"
    by (simp add: update_compute_Inr(4) [OF assms(1)] map_sql_update_cong assms(3))
  then have "owns cid iid db' = owns cid iid db" for cid iid
    by (simp add: owns_def flip: set_map)
  then show ?thesis
    using update_compute_Inr [OF assms(1)] assms(2) by (auto simp: evolves_def runs_kept_def)
qed

definition in_order :: "database list \<Rightarrow> bool" where
  "in_order dbs \<longleftrightarrow> sorted_wrt (\<lambda>a b. db_step\<^sup>*\<^sup>* a b) dbs"

text \<open>
  From one world to a later one: the databases evolved, in order, and every
  new effect satisfies the predicate.
\<close>

definition contained :: "(effect \<Rightarrow> bool) \<Rightarrow> world \<Rightarrow> world \<Rightarrow> bool" where
  "contained P w w' \<longleftrightarrow> evolves (w_db w) (w_db w')
     \<and> (\<exists>tr. w_trace w' = w_trace w @ tr \<and> (\<forall>(db, ef) \<in> set tr. evolves (w_db w) db \<and> P ef)
          \<and> in_order (map fst tr @ [w_db w']))"

definition acts :: "(effect \<Rightarrow> bool) \<Rightarrow> ('e, 'a) io \<Rightarrow> bool" where
  "acts P m \<longleftrightarrow> (\<forall>w. contained P w (fst (m w)))"

definition changes :: "(database, repository_error, 'a) action \<Rightarrow> bool" where
  "changes m \<longleftrightarrow> (\<forall>db. evolves db (fst (m db)))"

named_theorems acts_intros \<open>operations that leave instances and snapshots alone\<close>

lemma in_order_extend:
  assumes "in_order (xs @ [a])" "in_order (ys @ [b])" "\<And>y. y \<in> set (ys @ [b]) \<Longrightarrow> db_step\<^sup>*\<^sup>* a y"
  shows "in_order ((xs @ ys) @ [b])"
  using assms unfolding in_order_def
  by (auto simp: sorted_wrt_append intro: rtranclp_trans)

lemma contained_trans:
  assumes "contained P a b" "contained P b c"
  shows "contained P a c"
proof -
  obtain tr where 1: "evolves (w_db a) (w_db b)" "w_trace b = w_trace a @ tr"
      "\<forall>(db, ef) \<in> set tr. evolves (w_db a) db \<and> P ef" "in_order (map fst tr @ [w_db b])"
    using assms(1) unfolding contained_def by blast
  obtain tr' where 2: "evolves (w_db b) (w_db c)" "w_trace c = w_trace b @ tr'"
      "\<forall>(db, ef) \<in> set tr'. evolves (w_db b) db \<and> P ef" "in_order (map fst tr' @ [w_db c])"
    using assms(2) unfolding contained_def by blast
  have "\<forall>(db, ef) \<in> set (tr @ tr'). evolves (w_db a) db \<and> P ef"
    using 1 2 by (auto intro: evolves_trans)
  moreover have "in_order (map fst (tr @ tr') @ [w_db c])"
    unfolding map_append by (rule in_order_extend [OF 1(4) 2(4)]) (use 2(1,3) in \<open>auto simp: evolves_def\<close>)
  ultimately show ?thesis
    unfolding contained_def using 1 2 evolves_trans [OF 1(1) 2(1)] by auto
qed

lemma contained_mono: "contained P w w' \<Longrightarrow> (\<And>ef. P ef \<Longrightarrow> Q ef) \<Longrightarrow> contained Q w w'"
  unfolding contained_def by (elim conjE exE, intro conjI exI) auto

lemma contained_quiet: "evolves (w_db w) (w_db w') \<Longrightarrow> w_trace w' = w_trace w \<Longrightarrow> contained P w w'"
  by (simp add: contained_def in_order_def)

lemma actsD: "acts P m \<Longrightarrow> m w = (w', r) \<Longrightarrow> contained P w w'"
  by (metis acts_def fst_conv)

lemma actsI: "(\<And>w w' r. m w = (w', r) \<Longrightarrow> contained P w w') \<Longrightarrow> acts P m"
  unfolding acts_def by (metis prod.collapse)

definition new_effects :: "world \<Rightarrow> world \<Rightarrow> (database \<times> effect) list" where
  "new_effects w w' = drop (length (w_trace w)) (w_trace w')"

lemma acts_new_effects: "acts P m \<Longrightarrow> m w = (w', r) \<Longrightarrow> (db, ef) \<in> set (new_effects w w') \<Longrightarrow> P ef"
  by (drule (1) actsD) (auto simp: contained_def new_effects_def)

lemma acts_mono: "acts P m \<Longrightarrow> (\<And>ef. P ef \<Longrightarrow> Q ef) \<Longrightarrow> acts Q m"
  unfolding acts_def by (blast intro: contained_mono)

lemma acts_pure [acts_intros]:
  "acts P (areturn a)" "acts P (afail x)" "acts P (alift r)" "acts P (ask f)"
  by (simp_all add: acts_def action_defs ask_def contained_quiet)

lemma acts_emit [acts_intros]: "P ef \<Longrightarrow> acts P (emit ef)"
  by (simp add: acts_def emit_def contained_def in_order_def)

lemma acts_abind [acts_intros]:
  assumes "acts P m" "\<And>a. acts P (k a)"
  shows "acts P (abind m k)"
proof (rule actsI)
  fix w w' r
  assume step: "abind m k w = (w', r)"
  obtain w1 r1 where m: "m w = (w1, r1)" by fastforce
  show "contained P w w'"
    using step m actsD [OF assms(1) m] actsD [OF assms(2)]
    by (auto simp: abind_def split: sum.splits intro: contained_trans)
qed

lemma acts_acatch [acts_intros]:
  assumes "acts P m" "\<And>x. acts P (h x)"
  shows "acts P (acatch m h)"
proof (rule actsI)
  fix w w' r
  assume step: "acatch m h w = (w', r)"
  obtain w1 r1 where m: "m w = (w1, r1)" by fastforce
  show "contained P w w'"
    using step m actsD [OF assms(1) m] actsD [OF assms(2)]
    by (auto simp: acatch_def split: sum.splits intro: contained_trans)
qed

lemma fst_amap_err [simp]: "fst (amap_err g m s) = fst (m s)" "fst (attempt m s) = fst (m s)"
  by (simp_all add: amap_err_def attempt_def split: prod.split)

lemma acts_amap_err [acts_intros]: "acts P m \<Longrightarrow> acts P (amap_err g m)"
  by (simp add: acts_def)

lemma acts_attempt [acts_intros]: "acts P m \<Longrightarrow> acts P (attempt m)"
  by (simp add: acts_def)

lemma acts_if [acts_intros]:
  "(b \<Longrightarrow> acts P m) \<Longrightarrow> (\<not> b \<Longrightarrow> acts P n) \<Longrightarrow> acts P (if b then m else n)"
  by simp

lemma acts_case_option [acts_intros]:
  "(x = None \<Longrightarrow> acts P m) \<Longrightarrow> (\<And>a. x = Some a \<Longrightarrow> acts P (k a))
   \<Longrightarrow> acts P (case x of None \<Rightarrow> m | Some a \<Rightarrow> k a)"
  by (cases x) simp_all

lemma acts_case_sum [acts_intros]:
  "(\<And>a. x = Inl a \<Longrightarrow> acts P (m a)) \<Longrightarrow> (\<And>a. x = Inr a \<Longrightarrow> acts P (k a))
   \<Longrightarrow> acts P (case x of Inl a \<Rightarrow> m a | Inr a \<Rightarrow> k a)"
  by (cases x) simp_all

lemma acts_case_prod [acts_intros]:
  "(\<And>a b. x = (a, b) \<Longrightarrow> acts P (k a b)) \<Longrightarrow> acts P (case x of (a, b) \<Rightarrow> k a b)"
  by (cases x) simp

lemma acts_clock_now [acts_intros]: "acts P (clock_now e)"
  unfolding clock_now_def by (intro acts_intros)

lemma acts_is_connected [acts_intros]: "acts P (is_connected e cid)"
  unfolding is_connected_def by (intro acts_intros)

lemma acts_agent_call [acts_intros]: "P (AgentCalled cid request) \<Longrightarrow> acts P (agent_call e cid request decode)"
  unfolding agent_call_def by (intro acts_intros)

lemma acts_repository [acts_intros]:
  assumes "environment_ok e" "changes m"
  shows "acts P (repository e m)"
proof (rule actsI)
  fix w w' r
  assume step: "repository e m w = (w', r)"
  have "evolves (w_db w) (env_others e (w_tick w) (w_db w))"
    using environment_okD(1) [OF assms(1)] by (rule evolves_tasks)
  moreover have "evolves (env_others e (w_tick w) (w_db w)) (w_db w')" "w_trace w' = w_trace w"
    using assms(2) [unfolded changes_def, rule_format, of "env_others e (w_tick w) (w_db w)"] step
    by (auto simp: repository_def split: prod.splits)
  ultimately show "contained P w w'"
    by (auto intro: evolves_trans contained_quiet)
qed

lemma changes_query [acts_intros]: "changes (query q)"
  by (simp add: changes_def query_def)

lemma changes_areturn [acts_intros]: "changes (areturn a)"
  by (simp add: changes_def areturn_def)

lemma changes_transaction:
  "(\<And>db db' a. t db = Inr (db', a) \<Longrightarrow> evolves db db') \<Longrightarrow> changes (transaction t)"
  by (simp add: changes_def transaction_def split: sum.split)

lemma changes_abind [acts_intros]:
  "changes m \<Longrightarrow> (\<And>a. changes (k a)) \<Longrightarrow> changes (abind m k)"
  unfolding changes_def abind_def
  by (auto split: prod.split sum.split) (metis evolves_trans fst_conv)+

lemma changes_if [acts_intros]: "changes m \<Longrightarrow> changes n \<Longrightarrow> changes (if b then m else n)"
  by simp

lemma changes_update_compute:
  assumes "\<And>db db' b. t db = Inr (db', b) \<Longrightarrow> db_step db db'" "\<And>db. t db = update_compute p f db"
    "\<And>r. c_id (f r) = c_id r \<and> c_server_instance_id (f r) = c_server_instance_id r"
  shows "changes (transaction t)"
  by (rule changes_transaction) (metis assms update_compute_evolves)

lemma changes_record_process_id [acts_intros]: "changes (transaction (record_process_id ident pid now))"
  by (rule changes_update_compute [OF db_step.step_process_id record_process_id_def])
     (simp_all add: record_process_id_set_def)

lemma changes_request_shutdown [acts_intros]: "changes (transaction (request_shutdown ident now))"
  by (rule changes_update_compute [OF db_step.step_request_shutdown request_shutdown_def])
     (simp_all add: request_shutdown_set_def)

lemma changes_terminate [acts_intros]: "changes (transaction (terminate ident result None now))"
  by (rule changes_update_compute [OF db_step.step_terminate terminate_def])
     (auto simp: terminate_set_def)

lemma changes_record_provider_instance [acts_intros]:
  "text_ok 256 piid \<Longrightarrow> (\<And>a. addr = Some a \<Longrightarrow> text_ok 64 a \<and> ipv4_parses a)
    \<Longrightarrow> changes (transaction (record_provider_instance ident piid addr now))"
  by (rule changes_update_compute [OF db_step.step_provider_instance record_provider_instance_def])
     (simp_all add: record_provider_instance_set_def)

lemma insert_for_instance_evolves:
  assumes "insert_for_instance ident iid provider ctoken etoken now db = Inr (db', b)"
    "0 \<le> now" "text_ok 256 ctoken" "optional_text_ok 256 etoken" "provider = LocalProcess \<Longrightarrow> etoken = None"
  shows "evolves db db'"
proof -
  have step: "db_step db db'" using assms by (rule db_step.step_insert_compute)
  have "db' = db \<or> db' = db\<lparr> compute_instances := compute_instances db @
      [new_compute_row ident iid provider ctoken etoken now] \<rparr>"
    using assms(1) by (auto simp: insert_for_instance_def execute_Inr split: if_splits sum.splits)
  then have "runs_kept db db'" by (elim disjE) (simp_all add: runs_kept_def owns_def)
  then show ?thesis using step by (simp add: evolves_def r_into_rtranclp)
qed

lemma changes_create_for_instance [acts_intros]:
  assumes "0 \<le> now" "text_ok 256 ctoken" "optional_text_ok 256 etoken" "provider = LocalProcess \<Longrightarrow> etoken = None"
  shows "changes (create_for_instance ident iid provider ctoken etoken now)"
  unfolding create_for_instance_def
  by (intro acts_intros changes_transaction) (erule insert_for_instance_evolves [OF _ assms])

section \<open>An example environment\<close>

text \<open>
  An environment in which nothing is connected, nothing exists and every
  command succeeds: the examples of later theories start from it.
\<close>

definition example_env :: environment where
  "example_env =
     \<lparr> env_clock = (\<lambda>n. Inr (int n)), env_others = (\<lambda>_ db. db), env_uuid = (\<lambda>n. of_nat (n + 100)),
       env_uuid_text = (\<lambda>u. nat_to_string (unat u)), env_uuid_simple = (\<lambda>u. replicate 32 (CHR ''a'')),
       env_parse_uuid = (\<lambda>s. map_option of_nat (parse_unsigned 340282366920938463463374607431768211455 s)),
       env_connected = (\<lambda>_ _. False), env_agent = (\<lambda>_ _ _. Inl NotConnected),
       env_child_exited = (\<lambda>_ _. Inr False), env_child_wait = (\<lambda>_ _. WaitExited),
       env_child_kill = (\<lambda>_ _. None), env_child_reap = (\<lambda>_ _. None),
       env_state_file = (\<lambda>_ _. Inl IoNotFound), env_boot_id = (\<lambda>_. Inr ''boot''),
       env_process_stat = (\<lambda>_ _. Inl IoNotFound), env_process_exists = (\<lambda>_ _. False),
       env_signal = (\<lambda>_ _. Inr (True, Some 0)), env_spawn = (\<lambda>_ _. Inr (Some 7)),
       env_filesystem = (\<lambda>_. None),
       env_command = (\<lambda>_ _. CommandDone \<lparr> co_success = True, co_code = Some 0, co_stdout = [], co_stderr = [] \<rparr>),
       env_directories = (\<lambda>_. Inr []), env_polls = (\<lambda>_. 1),
       env_file_size = (\<lambda>_ _. Inr 1), env_file = (\<lambda>_ _. Inr ''k''), env_base64 = id,
       env_manifest_json = (\<lambda>_. ''{}''), env_api = (\<lambda>_ _. Inl IoOther), env_api_errors = (\<lambda>_. None),
       env_instant = (\<lambda>n. n), env_cancelled = (\<lambda>_. False), env_order = (\<lambda>_ xs. xs) \<rparr>"

definition example_world :: world where
  "example_world = \<lparr> w_db = empty_database, w_tick = 0, w_children = [], w_trace = [] \<rparr>"

lemma example_env_ok: "environment_ok example_env"
  by (simp add: environment_ok_def example_env_def hex_digit_def list_all_iff code_def)

lemma example_env_parse: "env_parse_uuid example_env (env_uuid_text example_env u) = Some u"
proof -
  have "unat u < 2 ^ LENGTH(128)" by (rule unsigned_less)
  then have "unat u \<le> 340282366920938463463374607431768211455" by simp
  then show ?thesis by (simp add: example_env_def parse_unsigned_to_string)
qed

lemma example_env_no_slash:
  assumes "env_parse_uuid example_env s = Some v"
  shows "CHR ''/'' \<notin> set s"
proof -
  have "list_all is_ascii_digit (case s of [] \<Rightarrow> [] | c # cs \<Rightarrow> if c = CHR ''+'' then cs else s)"
    using assms by (simp add: example_env_def parse_unsigned_def Let_def split: if_splits)
  moreover have "\<not> is_ascii_digit (CHR ''/'')" by (simp add: is_ascii_digit_def code_def)
  ultimately show ?thesis by (cases s) (auto simp: list_all_iff split: if_splits)
qed

lemma example_env_uuid: "uuid_text_ok example_env"
  using example_env_parse example_env_no_slash by (simp add: uuid_text_ok_def)

end
