(* ===== verification/Compute_Support.thy ===== *)
theory Compute_Support
  imports World
begin

text \<open>
  What the two compute managers share: connection tokens
  (\<open>infrastructure/compute.rs\<close>), the request for a node's shutdown, and the
  facts that tie a machine to the instance it was created for.
\<close>

definition new_connection_token :: "environment \<Rightarrow> ('e, string) io" where
  "new_connection_token e =
     abind (ask (env_uuid e)) (\<lambda>a.
     abind (ask (env_uuid e)) (\<lambda>b.
     areturn (env_uuid_simple e a @ env_uuid_simple e b)))"

text \<open>A best-effort request for shutdown, whose failure is only logged.\<close>

definition request_node_shutdown :: "environment \<Rightarrow> uuid \<Rightarrow> ('e, unit) io" where
  "request_node_shutdown e compute_id =
     abind (is_connected e compute_id) (\<lambda>connected.
     if connected
     then abind (attempt (agent_call e compute_id NodeShutdown as_shutdown)) (\<lambda>_. areturn ())
     else areturn ())"

lemma acts_request_node_shutdown [acts_intros]:
  "P (AgentCalled ident NodeShutdown) \<Longrightarrow> acts P (request_node_shutdown e ident)"
  unfolding request_node_shutdown_def by (intro acts_intros)

section \<open>Tokens\<close>

definition token_ok :: "string \<Rightarrow> bool" where
  "token_ok t \<longleftrightarrow> length t = 64 \<and> list_all hex_digit t"

lemma token_text_ok: "token_ok t \<Longrightarrow> text_ok 256 t"
proof -
  assume t: "token_ok t"
  then obtain c s where cs: "t = c # s" by (cases t) (auto simp: token_ok_def)
  have "hex_digit c" using t by (simp add: token_ok_def cs)
  then have "\<not> is_blank t"
    unfolding cs by (intro is_blank_Cons_ascii) (auto simp: hex_digit_def white1_def is_ascii_digit_def)
  moreover have "char_count t \<le> 256"
    using char_count_le_length [of t] t by (simp add: token_ok_def)
  moreover have "\<not> contains_nul t"
    using t by (auto simp: token_ok_def contains_nul_def list_all_iff hex_digit_def is_ascii_digit_def code_def
        dest!: bspec [of _ _ "CHR 0x00"])
  ultimately show ?thesis by (simp add: text_ok_def)
qed

lemma triple_new_connection_token:
  "environment_ok e \<Longrightarrow> triple (\<lambda>_. True) (new_connection_token e) (\<lambda>t _. token_ok t) (\<lambda>_ _. True)"
  by (simp add: triple_def new_connection_token_def action_defs ask_def token_ok_def environment_okD)

lemma acts_new_connection_token: "acts P (new_connection_token e)"
  unfolding new_connection_token_def by (intro acts_intros)

lemma acts_bind_fact:
  assumes "acts P m" "triple (\<lambda>_. True) m (\<lambda>a _. Q a) (\<lambda>_ _. True)" "\<And>a. Q a \<Longrightarrow> acts P (k a)"
  shows "acts P (abind m k)"
proof (rule actsI)
  fix w w' r
  assume step: "abind m k w = (w', r)"
  obtain w1 r1 where m: "m w = (w1, r1)" by fastforce
  show "contained P w w'"
  proof (cases r1)
    case (Inl x)
    then show ?thesis using step m actsD [OF assms(1) m] by (simp add: abind_def)
  next
    case (Inr a)
    then have "Q a" using triple_InrD [OF assms(2)] m by blast
    moreover have "k a w1 = (w', r)" using step m Inr by (simp add: abind_def)
    ultimately show ?thesis
      using actsD [OF assms(1) m] actsD [OF assms(3)] by (blast intro: contained_trans)
  qed
qed

lemmas acts_bind_token = acts_bind_fact [OF acts_new_connection_token triple_new_connection_token]

section \<open>The machine of an instance\<close>

lemma decode_compute_instance_id: "decode_compute_instance r = Inr m \<Longrightarrow> ci_id m = c_id r"
  by (auto simp: decode_compute_instance_def decode_optional_def result_simps)

lemma compute_get_id: "compute_get ident db = Inr (Some m) \<Longrightarrow> ci_id m = ident"
  by (auto simp: compute_get_def decode_optional_def result_simps split: option.splits
      dest!: decode_compute_instance_id select_one_SomeD)

lemma get_active_for_instance_owns:
  "get_active_for_instance iid db = Inr (Some m) \<Longrightarrow> owns (ci_id m) iid db"
  by (auto simp: get_active_for_instance_def owns_def decode_optional_def result_simps image_iff
      split: option.splits
      dest!: decode_compute_instance_id select_one_SomeD)

lemma create_for_instance_owns:
  "create_for_instance ident iid provider ctoken etoken now db = (db', Inr (Some m)) \<Longrightarrow> owns (ci_id m) iid db'"
  by (auto simp: create_for_instance_def action_defs insert_for_instance_def owns_def decode_optional_def result_simps
      new_compute_row_def split: sum.splits prod.splits if_splits dest!: compute_get_id)

lemma triple_repository:
  assumes "\<And>db db' a. m db = (db', Inr a) \<Longrightarrow> N a db'"
  shows "triple (\<lambda>_. True) (repository e m) (\<lambda>a w. N a (w_db w)) (\<lambda>_ _. True)"
  by (rule tripleI) (auto simp: repository_def split: prod.splits dest: assms)

lemma triple_amap_err: "triple P m N (\<lambda>_ _. True) \<Longrightarrow> triple P (amap_err g m) N (\<lambda>_ _. True)"
  by (rule tripleI) (auto simp: amap_err_def result_simps split: prod.splits dest: triple_InrD)

lemma triple_acts_owns:
  "acts P m \<Longrightarrow> triple (\<lambda>w. owns a b (w_db w)) m (\<lambda>_ w. owns a b (w_db w)) (\<lambda>_ _. True)"
  by (rule tripleI) (auto dest!: actsD simp: contained_def evolves_def runs_kept_def)

lemma triple_true: "triple P m (\<lambda>_ _. True) (\<lambda>_ _. True)"
  by (simp add: triple_def split: prod.split sum.split)

lemma repository_query_result:
  "repository e (query q) w = (w', Inr a) \<Longrightarrow> q (w_db w') = Inr a"
  by (auto simp: repository_def query_def)

lemma triple_reread:
  assumes "environment_ok e"
  shows "triple (\<lambda>w. owns ident iid (w_db w)) (repository e (query (compute_get ident)))
    (\<lambda>stored w. \<forall>m. stored = Some m \<longrightarrow> owns (ci_id m) iid (w_db w)) (\<lambda>_ _. True)"
proof (rule tripleI)
  fix w w' stored
  assume *: "owns ident iid (w_db w)" "repository e (query (compute_get ident)) w = (w', Inr stored)"
  have "acts (\<lambda>_. False) (repository e (query (compute_get ident)))"
    by (intro acts_intros assms)
  from triple_InrD [OF triple_acts_owns [OF this] *] repository_query_result [OF *(2)]
  show "\<forall>m. stored = Some m \<longrightarrow> owns (ci_id m) iid (w_db w')"
    by (auto dest: compute_get_id)
qed simp

end
