(* ===== verification/Net.thy ===== *)
theory Net
  imports Text "HOL-Library.Code_Target_Nat"
begin

text \<open>
  What the program uses of \<open>std::net\<close>: reading IPv4 and IPv6 addresses and
  socket addresses, printing IPv4 addresses, and which addresses are
  private or loopback.
\<close>

section \<open>IPv4\<close>

type_synonym ipv4 = "nat list"

definition parse_ipv4 :: "string \<Rightarrow> ipv4 option" where
  "parse_ipv4 s = (if ipv4_parses s then Some (map (digits_value 0) (split_on (CHR ''.'') s)) else None)"

fun join_with :: "string \<Rightarrow> string list \<Rightarrow> string" where
  "join_with sep [] = []"
| "join_with sep [s] = s"
| "join_with sep (s # t # ts) = s @ sep @ join_with sep (t # ts)"

definition ipv4_to_string :: "ipv4 \<Rightarrow> string" where
  "ipv4_to_string octets = join_with ''.'' (map nat_to_string octets)"

definition ipv4_is_private :: "ipv4 \<Rightarrow> bool" where
  "ipv4_is_private octets \<longleftrightarrow>
     (case octets of
        a # b # _ \<Rightarrow> a = 10 \<or> (a = 172 \<and> 16 \<le> b \<and> b \<le> 31) \<or> (a = 192 \<and> b = 168)
      | _ \<Rightarrow> False)"

definition ipv4_is_loopback :: "ipv4 \<Rightarrow> bool" where
  "ipv4_is_loopback octets \<longleftrightarrow> (case octets of a # _ \<Rightarrow> a = 127 | _ \<Rightarrow> False)"

lemma split_on_not_Nil: "split_on d s \<noteq> []"
  by (induction s) (auto split: list.split)

lemma join_split_on: "join_with [d] (split_on d s) = s"
proof (induction s)
  case (Cons c s)
  obtain t ts where t: "split_on d s = t # ts" by (cases "split_on d s") (auto simp: split_on_not_Nil)
  show ?case using Cons by (cases ts) (auto simp: t)
qed simp

lemma digit_char_0: "digit_char 0 = CHR ''0''"
  by code_simp

lemma digit_char_code: "is_ascii_digit c \<Longrightarrow> digit_char (code c - 48) = c"
  by (simp add: is_ascii_digit_def digit_char_def code_def)

lemma digits_value_bound: "acc \<le> digits_value acc s"
proof (induction s arbitrary: acc)
  case (Cons c s)
  have "acc \<le> acc * 10 + (code c - 48)" by simp
  then show ?case using Cons [of "acc * 10 + (code c - 48)"] by simp
qed simp

lemma digits_value_pos: "s \<noteq> [] \<Longrightarrow> list_all is_ascii_digit s \<Longrightarrow> hd s \<noteq> CHR ''0'' \<Longrightarrow> 0 < digits_value 0 s"
proof (cases s)
  case (Cons c t)
  assume "list_all is_ascii_digit s" "hd s \<noteq> CHR ''0''"
  then have "0 < code c - 48"
    using Cons digit_char_code [of c] by (cases "code c - 48 = 0") (auto simp: digit_char_0)
  then show ?thesis using digits_value_bound [of "code c - 48" t] Cons by simp
qed simp

lemma nat_to_string_digits_value:
  "s \<noteq> [] \<Longrightarrow> list_all is_ascii_digit s \<Longrightarrow> (length s > 1 \<longrightarrow> hd s \<noteq> CHR ''0'')
   \<Longrightarrow> nat_to_string (digits_value 0 s) = s"
proof (induction s rule: rev_induct)
  case (snoc c s)
  have c: "is_ascii_digit c" using snoc.prems by simp
  have d: "code c - 48 < 10" using c by (auto simp: is_ascii_digit_def)
  show ?case
  proof (cases "s = []")
    case True
    then show ?thesis using d digit_char_code [OF c] by (simp add: nat_to_string.simps)
  next
    case False
    have pos: "0 < digits_value 0 s" using False snoc.prems by (intro digits_value_pos) auto
    have IH: "nat_to_string (digits_value 0 s) = s"
      using False snoc.prems by (intro snoc.IH) (auto simp: neq_Nil_conv)
    have v: "digits_value 0 (s @ [c]) = digits_value 0 s * 10 + (code c - 48)"
      by (simp add: digits_value_append)
    have "nat_to_string (digits_value 0 (s @ [c])) = nat_to_string (digits_value 0 s) @ [digit_char (code c - 48)]"
      unfolding v using pos d by (subst nat_to_string.simps) simp
    then show ?thesis using IH digit_char_code [OF c] by simp
  qed
qed simp

lemma parse_ipv4_to_string:
  assumes "parse_ipv4 s = Some octets"
  shows "ipv4_to_string octets = s" "ipv4_parses s"
proof -
  from assms have p: "ipv4_parses s" "octets = map (digits_value 0) (split_on (CHR ''.'') s)"
    by (auto simp: parse_ipv4_def split: if_splits)
  then have "map nat_to_string octets = split_on (CHR ''.'') s"
    by (auto simp: ipv4_parses_def list_all_iff ipv4_octet_def Let_def intro!: map_idI nat_to_string_digits_value)
  then show "ipv4_to_string octets = s" "ipv4_parses s"
    using join_split_on [of "CHR ''.''" s] p by (simp_all add: ipv4_to_string_def)
qed

section \<open>Readers\<close>

type_synonym 'a reader = "string \<Rightarrow> ('a \<times> string) option"

definition read_char :: "char \<Rightarrow> unit reader" where
  "read_char c s = (case s of [] \<Rightarrow> None | d # ds \<Rightarrow> if d = c then Some ((), ds) else None)"

definition digit_value :: "char \<Rightarrow> nat" where
  "digit_value c =
     (if is_ascii_digit c then code c - 48
      else if 97 \<le> code c \<and> code c \<le> 102 then code c - 87
      else if 65 \<le> code c \<and> code c \<le> 70 then code c - 55
      else 36)"

definition read_number :: "nat \<Rightarrow> nat option \<Rightarrow> bool \<Rightarrow> nat \<Rightarrow> nat reader" where
  "read_number radix max_digits allow_zero_prefix maximum s =
     (let digits = takeWhile (\<lambda>c. digit_value c < radix) s;
          value = foldl (\<lambda>acc c. acc * radix + digit_value c) 0 digits in
      if digits = [] \<or> is_some_and max_digits (\<lambda>m. m < length digits) \<or> maximum < value
         \<or> (\<not> allow_zero_prefix \<and> hd digits = CHR ''0'' \<and> 1 < length digits)
      then None else Some (value, drop (length digits) s))"

text \<open>A part preceded by a separator unless it is the first.\<close>

definition read_separated :: "char \<Rightarrow> nat \<Rightarrow> 'a reader \<Rightarrow> 'a reader" where
  "read_separated sep index part s =
     (if index = 0 then part s else Option.bind (read_char sep s) (\<lambda>(_, rest). part rest))"

primrec read_octets :: "nat \<Rightarrow> nat \<Rightarrow> nat list reader" where
  "read_octets 0 index s = Some ([], s)"
| "read_octets (Suc n) index s =
     Option.bind (read_separated (CHR ''.'') index (read_number 10 (Some 3) False 255) s) (\<lambda>(octet, rest).
     map_option (\<lambda>(octets, rest). (octet # octets, rest)) (read_octets n (Suc index) rest))"

definition read_ipv4 :: "ipv4 reader" where
  "read_ipv4 = read_octets 4 0"

text \<open>
  Up to the given number of 16-bit groups, and whether they ended with an
  embedded IPv4 address.
\<close>

primrec read_groups :: "nat \<Rightarrow> nat \<Rightarrow> string \<Rightarrow> nat list \<times> bool \<times> string" where
  "read_groups 0 index s = ([], False, s)"
| "read_groups (Suc n) index s =
     (case (if 0 < n then read_separated (CHR '':'') index read_ipv4 s else None) of
        Some (octets, rest) \<Rightarrow>
          ([octets ! 0 * 256 + octets ! 1, octets ! 2 * 256 + octets ! 3], True, rest)
      | None \<Rightarrow>
          (case read_separated (CHR '':'') index (read_number 16 (Some 4) True 65535) s of
             None \<Rightarrow> ([], False, s)
           | Some (part, rest) \<Rightarrow>
               (case read_groups n (Suc index) rest of (groups, v4, rest') \<Rightarrow> (part # groups, v4, rest'))))"

type_synonym ipv6 = "nat list"

definition read_ipv6 :: "ipv6 reader" where
  "read_ipv6 s =
     (case read_groups 8 0 s of (head, head_ipv4, rest) \<Rightarrow>
        if length head = 8 then Some (head, rest)
        else if head_ipv4 then None
        else
          Option.bind (read_char (CHR '':'') rest) (\<lambda>(_, rest).
          Option.bind (read_char (CHR '':'') rest) (\<lambda>(_, rest).
          case read_groups (7 - length head) 0 rest of (tail, _, rest) \<Rightarrow>
            Some (head @ replicate (8 - length head - length tail) 0 @ tail, rest))))"

datatype ip_addr = V4 ipv4 | V6 ipv6

record socket_addr =
  sa_ip :: ip_addr
  sa_port :: nat

fun ip_is_loopback :: "ip_addr \<Rightarrow> bool" where
  "ip_is_loopback (V4 octets) = ipv4_is_loopback octets"
| "ip_is_loopback (V6 groups) = (groups = [0, 0, 0, 0, 0, 0, 0, 1])"

definition or_else :: "'a option \<Rightarrow> 'a option \<Rightarrow> 'a option" where
  "or_else a b = (case a of None \<Rightarrow> b | Some _ \<Rightarrow> a)"

definition entire :: "'a reader \<Rightarrow> string \<Rightarrow> 'a option" where
  "entire p s = Option.bind (p s) (\<lambda>(a, rest). if rest = [] then Some a else None)"

definition read_port :: "nat reader" where
  "read_port s = Option.bind (read_char (CHR '':'') s) (\<lambda>(_, rest). read_number 10 None True 65535 rest)"

definition read_scope_id :: "nat reader" where
  "read_scope_id s = Option.bind (read_char (CHR ''%'') s) (\<lambda>(_, rest). read_number 10 None True 4294967295 rest)"

definition read_socket_addr_v4 :: "socket_addr reader" where
  "read_socket_addr_v4 s =
     Option.bind (read_ipv4 s) (\<lambda>(octets, rest).
     Option.bind (read_port rest) (\<lambda>(port, rest).
     Some (\<lparr> sa_ip = V4 octets, sa_port = port \<rparr>, rest)))"

definition read_socket_addr_v6 :: "socket_addr reader" where
  "read_socket_addr_v6 s =
     Option.bind (read_char (CHR ''['') s) (\<lambda>(_, rest).
     Option.bind (read_ipv6 rest) (\<lambda>(groups, rest).
     let rest = (case read_scope_id rest of None \<Rightarrow> rest | Some (_, r) \<Rightarrow> r) in
     Option.bind (read_char (CHR '']'') rest) (\<lambda>(_, rest).
     Option.bind (read_port rest) (\<lambda>(port, rest).
     Some (\<lparr> sa_ip = V6 groups, sa_port = port \<rparr>, rest)))))"

definition parse_socket_addr :: "string \<Rightarrow> socket_addr option" where
  "parse_socket_addr = entire (\<lambda>s. or_else (read_socket_addr_v4 s) (read_socket_addr_v6 s))"

definition parse_ip_addr :: "string \<Rightarrow> ip_addr option" where
  "parse_ip_addr =
     entire (\<lambda>s. or_else (map_option (\<lambda>(a, r). (V4 a, r)) (read_ipv4 s))
                         (map_option (\<lambda>(a, r). (V6 a, r)) (read_ipv6 s)))"

lemma parse_socket_addr_examples:
  "parse_socket_addr ''127.0.0.1:39001'' = Some \<lparr> sa_ip = V4 [127, 0, 0, 1], sa_port = 39001 \<rparr>"
  "parse_socket_addr ''[::1]:39001'' = Some \<lparr> sa_ip = V6 [0, 0, 0, 0, 0, 0, 0, 1], sa_port = 39001 \<rparr>"
  "parse_socket_addr ''127.0.0.01:39001'' = None" "parse_socket_addr ''[1::2::3]:1'' = None"
  by code_simp+

section \<open>Printed values as stored text\<close>

lemma printed_text_ok:
  assumes "list_all (\<lambda>c. is_ascii_digit c \<or> c = CHR ''.'') s" "s \<noteq> []" "length s \<le> n"
  shows "text_ok n s"
proof -
  obtain c t where s: "s = c # t" using assms(2) by (cases s) auto
  have dot: "code (CHR ''.'') = 46" by (simp add: code_def)
  have "\<not> is_blank s"
    unfolding s using assms(1) s by (intro is_blank_Cons_ascii) (auto simp: is_ascii_digit_def white1_def dot)
  moreover have "\<not> contains_nul s"
    using assms(1) by (auto simp: contains_nul_def list_all_iff is_ascii_digit_def code_def)
  ultimately show ?thesis
    using assms(3) char_count_le_length [of s] by (simp add: text_ok_def)
qed

lemma nat_to_string_length: "n < 10 ^ k \<Longrightarrow> 0 < k \<Longrightarrow> length (nat_to_string n) \<le> k"
proof (induction k arbitrary: n)
  case (Suc k)
  show ?case
  proof (cases "n < 10")
    case True
    then show ?thesis by (simp add: nat_to_string.simps)
  next
    case False
    then have "0 < k" using Suc.prems by (cases k) auto
    moreover have "n div 10 < 10 ^ k" using Suc.prems by (simp add: div_less_iff_less_mult mult.commute)
    ultimately show ?thesis using Suc.IH [of "n div 10"] False by (subst nat_to_string.simps) simp
  qed
qed simp

lemma u64_text_ok: "text_ok 256 (u64_to_string w)"
proof -
  have "unat w < 2 ^ LENGTH(64)" by (rule unsigned_less)
  then have "unat w < 10 ^ 20" by simp
  then have "length (nat_to_string (unat w)) \<le> 20" by (rule nat_to_string_length) simp
  then show ?thesis
    unfolding u64_to_string_def using nat_to_string_digits [of "unat w"] by (intro printed_text_ok) (auto simp: list_all_iff)
qed

lemma split_on_parts:
  "set s \<subseteq> insert d (\<Union> (set ` set (split_on d s)))" "length s + 1 = sum_list (map length (split_on d s)) + length (split_on d s)"
proof -
  show "set s \<subseteq> insert d (\<Union> (set ` set (split_on d s)))"
  proof (induction s)
    case (Cons c s)
    then show ?case by (cases "split_on d s") auto
  qed simp
  show "length s + 1 = sum_list (map length (split_on d s)) + length (split_on d s)"
  proof (induction s)
    case (Cons c s)
    then show ?case by (cases "split_on d s") (auto simp: split_on_not_Nil)
  qed simp
qed

lemma ipv4_text_ok:
  assumes "ipv4_parses s"
  shows "text_ok 64 s"
proof (rule printed_text_ok)
  let ?parts = "split_on (CHR ''.'') s"
  have p: "length ?parts = 4" "\<forall>p \<in> set ?parts. ipv4_octet p" using assms by (auto simp: ipv4_parses_def list_all_iff Let_def)
  have "sum_list (map length ?parts) \<le> sum_list (map (\<lambda>_. 3) ?parts)"
    using p(2) by (intro sum_list_mono) (auto simp: ipv4_octet_def)
  then show "length s \<le> 64" using split_on_parts(2) [of s "CHR ''.''"] p(1) by (simp add: sum_list_triv)
  show "s \<noteq> []" using p by auto
  show "list_all (\<lambda>c. is_ascii_digit c \<or> c = CHR ''.'') s"
    using split_on_parts(1) [of s "CHR ''.''"] p(2) by (fastforce simp: list_all_iff ipv4_octet_def)
qed

end
