(* ===== verification/Config.thy ===== *)
theory Config
  imports Net "HOL-Library.List_Lexorder" "HOL-Library.Char_ord"
begin

text \<open>
  \<open>config.rs\<close>: the configuration of the control plane, read from the
  environment of its process. The environment variables and files are a
  record; parsing a URL is the third-party \<open>url\<close> crate's and is one of its
  fields.
\<close>

datatype var_value = NotPresent | NotUnicode string | Value string

record parsed_url =
  url_scheme :: string
  url_host :: "string option"
  url_username :: string
  url_password :: "string option"
  url_query :: "string option"
  url_fragment :: "string option"

datatype file_failure = FileFailure

record process_environment =
  pe_var :: "string \<Rightarrow> var_value"
  pe_file :: "string \<Rightarrow> file_failure + string"
  pe_parse_url :: "string \<Rightarrow> parsed_url option"

datatype config_error =
    EnvironmentError string
  | InvalidInteger string string
  | InvalidSocketMode string
  | SocketModeOutOfRange nat
  | ZeroValue string
  | DurationOutOfRange string
  | MissingValue string
  | BlankValue string
  | NulByteValue string
  | ValueTooLong string nat
  | InvalidScope string string
  | InvalidIdentifierSet string string
  | InvalidPositiveIntegerSet string string
  | InvalidBoolean string string
  | InvalidSocketAddress
  | InvalidRemoteSocketAddress
  | AgentAddressMustBeLoopback socket_addr
  | ZeroAgentPort
  | ZeroRemoteAgentPort
  | InvalidRemotePublicAddress string
  | RemoteAgentListenAddressRequired
  | AkamaiTokenRequired
  | RemoteAgentRequiredForAkamai
  | R2RequiredForAkamai
  | AkamaiRequiredForR2
  | R2TokenRequired
  | ConflictingSecretSources string string
  | SecretFile string string
  | RuntimeEnvironmentFile string
  | RuntimeEnvironmentTooLarge string nat
  | RuntimeEnvironmentEncoding
  | InvalidRuntimeEnvironmentLine nat
  | InvalidRuntimeEnvironmentKey string
  | InvalidRuntimeEnvironmentValue string
  | DuplicateRuntimeEnvironmentKey string
  | EmptyRuntimeEnvironment
  | TooManyRuntimeEnvironmentEntries nat
  | MissingRequiredRuntimeEnvironmentKey string
  | BlankRequiredRuntimeEnvironmentValue string
  | InvalidR2Region
  | InvalidTlsServerName string
  | InvalidUrl string
  | HttpsRequired string
  | InvalidAkamaiApiBaseUrl string
  | InvalidR2ApiBaseUrl string
  | InvalidR2AccountId string
  | InvalidR2Bucket string
  | R2CredentialTtlTooLong duration
  | R2CredentialTtlTooShort duration duration
  | AkamaiScopeTooLong nat
  | AgentCertificateValidityTooShort duration duration
  | InvalidSha256 string

type_synonym 'a config_result = "config_error + 'a"

record remote_agent_config =
  ra_listen_address :: socket_addr
  ra_public_address :: string
  ra_tls_server_name :: string
  ra_tls_certificate :: string
  ra_tls_private_key :: string
  ra_tls_ca_certificate :: string
  ra_client_ca_certificate :: string
  ra_client_ca_private_key :: string
  ra_certificate_work_directory :: string
  ra_certificate_validity :: duration
  ra_openssl_binary :: string
  ra_trust_domain :: string
  ra_node_agent_download_url :: string
  ra_node_agent_sha256 :: string
  ra_max_frame_bytes :: nat
  ra_node_operation_timeout :: duration

record akamai_config =
  ak_api_token :: string
  ak_api_base_url :: string
  ak_authorized_keys_file :: string
  ak_scope :: string
  ak_request_timeout :: duration
  ak_reap_orphans_on_start :: bool
  ak_live_enabled :: bool
  ak_allowed_regions :: "string list"
  ak_allowed_images :: "string list"
  ak_allowed_instance_types :: "string list"
  ak_allowed_firewall_ids :: "u64 list"
  ak_max_active_instances :: nat
  ak_max_instance_lifetime :: duration
  ak_loopback_api :: bool

record r2_config =
  r2_api_token :: string
  r2_api_base_url :: string
  r2_account_id :: string
  r2_parent_access_key_id :: string
  r2_bucket :: string
  r2_temporary_credential_ttl :: duration
  r2_runtime_environment_file :: string
  r2_runtime_environment :: "(string \<times> string) list"
  r2_request_timeout :: duration
  r2_loopback_api :: bool

record config =
  cf_socket_path :: string
  cf_database_url :: string
  cf_socket_mode :: nat
  cf_max_frame_bytes :: nat
  cf_reconcile_interval :: duration
  cf_reconcile_retry :: duration
  cf_shutdown_timeout :: duration
  cf_agent_listen_address :: socket_addr
  cf_agent_command_timeout :: duration
  cf_node_agent_binary :: string
  cf_node_agent_root :: string
  cf_podman_binary :: string
  cf_local_scope :: string
  cf_reap_orphans_on_start :: bool
  cf_local_control_timeout :: duration
  cf_local_process_stop_timeout :: duration
  cf_remote_agent :: "remote_agent_config option"
  cf_akamai :: "akamai_config option"
  cf_r2 :: "r2_config option"

definition mutations_enabled :: "akamai_config \<Rightarrow> bool" where
  "mutations_enabled c \<longleftrightarrow> ak_live_enabled c \<or> ak_loopback_api c"

definition allows_instance_type :: "akamai_config \<Rightarrow> string \<Rightarrow> bool" where
  "allows_instance_type c value \<longleftrightarrow> value \<in> set (ak_allowed_instance_types c)"

definition allows_region :: "akamai_config \<Rightarrow> string \<Rightarrow> bool" where
  "allows_region c value \<longleftrightarrow> value \<in> set (ak_allowed_regions c)"

definition allows_image :: "akamai_config \<Rightarrow> string \<Rightarrow> bool" where
  "allows_image c value \<longleftrightarrow> value \<in> set (ak_allowed_images c)"

definition allows_firewall :: "akamai_config \<Rightarrow> u64 \<Rightarrow> bool" where
  "allows_firewall c value \<longleftrightarrow> value \<in> set (ak_allowed_firewall_ids c)"

definition node_operation_timeout :: "duration \<Rightarrow> duration" where
  "node_operation_timeout agent_call_timeout =
     (case duration_checked_sub agent_call_timeout (from_secs 5) of
        None \<Rightarrow> from_secs 1
      | Some d \<Rightarrow> if d \<noteq> 0 then d else from_secs 1)"

section \<open>Reading variables\<close>

definition optional_string_value :: "process_environment \<Rightarrow> string \<Rightarrow> string option config_result" where
  "optional_string_value e name =
     (case pe_var e name of
        Value value \<Rightarrow> Inr (Some value)
      | NotPresent \<Rightarrow> Inr None
      | NotUnicode _ \<Rightarrow> Inl (EnvironmentError name))"

definition optional_string :: "process_environment \<Rightarrow> string \<Rightarrow> string \<Rightarrow> string config_result" where
  "optional_string e name fallback =
     rbind (optional_string_value e name) (\<lambda>value.
     case value of Some v \<Rightarrow> Inr v | None \<Rightarrow> Inr fallback)"

definition path_or :: "process_environment \<Rightarrow> string \<Rightarrow> string \<Rightarrow> string" where
  "path_or e name fallback =
     (case pe_var e name of Value v \<Rightarrow> v | NotUnicode v \<Rightarrow> v | NotPresent \<Rightarrow> fallback)"

definition validate_non_blank :: "string \<Rightarrow> string \<Rightarrow> nat \<Rightarrow> unit config_result" where
  "validate_non_blank name value maximum =
     rbind (ensure (\<not> is_blank value) (BlankValue name)) (\<lambda>_.
     rbind (ensure (\<not> contains_nul value) (NulByteValue name)) (\<lambda>_.
     ensure (char_count value \<le> maximum) (ValueTooLong name maximum)))"

definition required_non_blank :: "process_environment \<Rightarrow> string \<Rightarrow> nat \<Rightarrow> string config_result" where
  "required_non_blank e name maximum =
     rbind (optional_string_value e name) (\<lambda>value.
     rbind (ok_or value (MissingValue name)) (\<lambda>value.
     rbind (validate_non_blank name value maximum) (\<lambda>_. Inr value)))"

definition required_path :: "process_environment \<Rightarrow> string \<Rightarrow> string config_result" where
  "required_path e name = required_non_blank e name 4096"

definition scope_byte :: "char \<Rightarrow> bool" where
  "scope_byte c \<longleftrightarrow> is_ascii_alphanumeric c \<or> c \<in> {CHR ''.'', CHR ''_'', CHR ''-''}"

definition optional_scope :: "process_environment \<Rightarrow> string \<Rightarrow> string \<Rightarrow> string config_result" where
  "optional_scope e name fallback =
     rbind (optional_string e name fallback) (\<lambda>value.
     rbind (validate_non_blank name value 128) (\<lambda>_.
     rbind (ensure (list_all scope_byte value) (InvalidScope name value)) (\<lambda>_.
     Inr value)))"

definition is_provider_identifier :: "string \<Rightarrow> bool" where
  "is_provider_identifier value \<longleftrightarrow> value \<noteq> []
     \<and> list_all (\<lambda>c. is_ascii_alphanumeric c \<or> c \<in> {CHR ''-'', CHR ''_'', CHR ''/'', CHR ''.''}) value"

definition btree_set :: "'a::linorder list \<Rightarrow> 'a list" where
  "btree_set xs = sort (remdups xs)"

definition comma_separated :: "string \<Rightarrow> string list" where
  "comma_separated raw = filter (\<lambda>v. v \<noteq> []) (map str_trim (split_on (CHR '','') raw))"

definition parse_identifier_set :: "process_environment \<Rightarrow> string \<Rightarrow> string \<Rightarrow> string list config_result" where
  "parse_identifier_set e name fallback =
     rbind (optional_string e name fallback) (\<lambda>raw.
     let values = btree_set (comma_separated raw) in
     rbind (ensure (values \<noteq> [] \<and> list_all is_provider_identifier values) (InvalidIdentifierSet name raw)) (\<lambda>_.
     Inr values))"

primrec parse_all_u64 :: "string list \<Rightarrow> u64 list option" where
  "parse_all_u64 [] = Some []"
| "parse_all_u64 (s # rest) =
     Option.bind (parse_u64 s) (\<lambda>v. map_option (\<lambda>vs. v # vs) (parse_all_u64 rest))"

definition parse_positive_u64_set :: "process_environment \<Rightarrow> string \<Rightarrow> u64 list config_result" where
  "parse_positive_u64_set e name =
     rbind (required_non_blank e name 4096) (\<lambda>raw.
     case map_option btree_set (parse_all_u64 (comma_separated raw)) of
       Some values \<Rightarrow> if values \<noteq> [] \<and> 0 \<notin> set values then Inr values
                      else Inl (InvalidPositiveIntegerSet name raw)
     | None \<Rightarrow> Inl (InvalidPositiveIntegerSet name raw))"

definition parse_bool :: "process_environment \<Rightarrow> string \<Rightarrow> bool \<Rightarrow> bool config_result" where
  "parse_bool e name fallback =
     (case pe_var e name of
        Value value \<Rightarrow>
          if value \<in> {''1'', ''true'', ''TRUE'', ''yes'', ''YES''} then Inr True
          else if value \<in> {''0'', ''false'', ''FALSE'', ''no'', ''NO''} then Inr False
          else Inl (InvalidBoolean name value)
      | NotPresent \<Rightarrow> Inr fallback
      | NotUnicode _ \<Rightarrow> Inl (EnvironmentError name))"

definition parse_socket_mode :: "string option \<Rightarrow> nat config_result" where
  "parse_socket_mode value =
     rbind (case value of
         Some v \<Rightarrow> ok_or (parse_octal 4294967295 (trim_start_pair (CHR ''0'') (CHR ''o'') v)) (InvalidSocketMode v)
       | None \<Rightarrow> Inr 432) (\<lambda>mode.
     rbind (ensure (mode \<le> 511) (SocketModeOutOfRange mode)) (\<lambda>_.
     Inr mode))"

text \<open>\<open>usize\<close> and \<open>u64\<close> are both 64 bits wide.\<close>

definition parse_positive_usize :: "process_environment \<Rightarrow> string \<Rightarrow> nat \<Rightarrow> nat config_result" where
  "parse_positive_usize e name fallback =
     rbind (case pe_var e name of
         Value value \<Rightarrow> ok_or (parse_unsigned 18446744073709551615 value) (InvalidInteger name value)
       | NotPresent \<Rightarrow> Inr fallback
       | NotUnicode _ \<Rightarrow> Inl (EnvironmentError name)) (\<lambda>value.
     rbind (ensure (value \<noteq> 0) (ZeroValue name)) (\<lambda>_.
     Inr value))"

definition parse_positive_duration :: "process_environment \<Rightarrow> string \<Rightarrow> nat \<Rightarrow> duration config_result" where
  "parse_positive_duration e name fallback =
     rbind (case pe_var e name of
         Value value \<Rightarrow> ok_or (parse_unsigned 18446744073709551615 value) (InvalidInteger name value)
       | NotPresent \<Rightarrow> Inr fallback
       | NotUnicode _ \<Rightarrow> Inl (EnvironmentError name)) (\<lambda>seconds.
     rbind (ensure (seconds \<noteq> 0) (ZeroValue name)) (\<lambda>_.
     Inr (from_secs seconds)))"

section \<open>Names and addresses\<close>

definition dns_label_ok :: "string \<Rightarrow> bool" where
  "dns_label_ok label \<longleftrightarrow> label \<noteq> [] \<and> length label \<le> 63
     \<and> \<not> starts_with ''-'' label \<and> \<not> ends_with ''-'' label
     \<and> list_all (\<lambda>c. is_ascii_alphanumeric c \<or> c = CHR ''-'') label"

definition validate_dns_name :: "string \<Rightarrow> unit config_result" where
  "validate_dns_name value =
     ensure (\<not> (length value > 253 \<or> starts_with ''.'' value \<or> ends_with ''.'' value
        \<or> list_ex (\<lambda>label. \<not> dns_label_ok label) (split_on (CHR ''.'') value)))
       (InvalidTlsServerName value)"

definition validate_host_port :: "string \<Rightarrow> unit config_result" where
  "validate_host_port value =
     (case parse_socket_addr value of
        Some address \<Rightarrow> ensure (sa_port address \<noteq> 0) ZeroRemoteAgentPort
      | None \<Rightarrow>
          (case rsplit_once (CHR '':'') value of
             None \<Rightarrow> Inl (InvalidRemotePublicAddress value)
           | Some (host, port) \<Rightarrow>
               rbind (validate_dns_name host) (\<lambda>_.
               rbind (ok_or (parse_unsigned 65535 port) (InvalidRemotePublicAddress value)) (\<lambda>port.
               ensure (port \<noteq> 0) ZeroRemoteAgentPort))))"

definition has_explicit_authority :: "string \<Rightarrow> bool" where
  "has_explicit_authority value \<longleftrightarrow>
     is_some_and (after_first ''://'' value)
       (\<lambda>remainder. takeWhile (\<lambda>c. c \<notin> {CHR ''/'', CHR ''?'', CHR ''#''}) remainder \<noteq> [])"

definition validate_https_url :: "process_environment \<Rightarrow> string \<Rightarrow> string \<Rightarrow> unit config_result" where
  "validate_https_url e name value =
     rbind (ok_or (pe_parse_url e value) (InvalidUrl name)) (\<lambda>url.
     rbind (ensure (url_scheme url = ''https'') (HttpsRequired name)) (\<lambda>_.
     ensure (\<not> (\<not> has_explicit_authority value \<or> url_host url = None \<or> url_username url \<noteq> []
        \<or> url_password url \<noteq> None \<or> url_fragment url \<noteq> None)) (InvalidUrl name)))"

definition host_is_loopback :: "string \<Rightarrow> bool" where
  "host_is_loopback host \<longleftrightarrow> eq_ignore_ascii_case host ''localhost''
     \<or> is_some_and (parse_ip_addr (trim_end_matches (CHR '']'') (trim_start_char (CHR ''['') host))) ip_is_loopback"

definition validate_base_url ::
    "(string \<Rightarrow> config_error) \<Rightarrow> process_environment \<Rightarrow> string \<Rightarrow> bool config_result" where
  "validate_base_url invalid e value =
     rbind (ok_or (pe_parse_url e value) (invalid value)) (\<lambda>url.
     rbind (ensure (\<not> (\<not> has_explicit_authority value \<or> url_username url \<noteq> [] \<or> url_password url \<noteq> None
        \<or> url_query url \<noteq> None \<or> url_fragment url \<noteq> None)) (invalid value)) (\<lambda>_.
     rbind (ok_or (url_host url) (invalid value)) (\<lambda>host.
     if url_scheme url = ''https'' then Inr (host_is_loopback host)
     else if url_scheme url = ''http'' \<and> host_is_loopback host then Inr True
     else Inl (invalid value))))"

definition validate_api_base_url :: "process_environment \<Rightarrow> string \<Rightarrow> bool config_result" where
  "validate_api_base_url = validate_base_url InvalidAkamaiApiBaseUrl"

definition validate_r2_api_base_url :: "process_environment \<Rightarrow> string \<Rightarrow> bool config_result" where
  "validate_r2_api_base_url = validate_base_url InvalidR2ApiBaseUrl"

definition r2_bucket_ok :: "string \<Rightarrow> bool" where
  "r2_bucket_ok value \<longleftrightarrow>
     3 \<le> length value \<and> length value \<le> 63
   \<and> is_ascii_alphanumeric (hd value) \<and> is_ascii_alphanumeric (last value)
   \<and> list_all (\<lambda>c. is_ascii_lowercase c \<or> is_ascii_digit c \<or> c \<in> {CHR ''-'', CHR ''.''}) value
   \<and> \<not> str_contains ''..'' value \<and> \<not> str_contains ''.-'' value \<and> \<not> str_contains ''-.'' value"

definition validate_r2_bucket_name :: "string \<Rightarrow> unit config_result" where
  "validate_r2_bucket_name value = ensure (r2_bucket_ok value) (InvalidR2Bucket value)"

section \<open>Secrets and the runtime environment\<close>

definition read_secret_file :: "process_environment \<Rightarrow> string \<Rightarrow> string \<Rightarrow> string config_result" where
  "read_secret_file e name path =
     (case pe_file e path of
        Inl _ \<Rightarrow> Inl (SecretFile name path)
      | Inr bytes \<Rightarrow>
          if \<not> utf8_valid (map code bytes) then Inl (SecretFile name path)
          else let value = trim_end_chars [CHR 0x0D, CHR 0x0A] bytes in
            rbind (validate_non_blank name value 4096) (\<lambda>_. Inr value))"

definition secret_source :: "process_environment \<Rightarrow> string \<Rightarrow> string \<Rightarrow> string option config_result" where
  "secret_source e direct_name file_name =
     rbind (optional_string_value e direct_name) (\<lambda>direct_token.
     rbind (optional_string_value e file_name) (\<lambda>token_file.
     case direct_token of
       Some value \<Rightarrow>
         (case token_file of
            Some _ \<Rightarrow> Inl (ConflictingSecretSources direct_name file_name)
          | None \<Rightarrow> Inr (Some value))
     | None \<Rightarrow>
         (case token_file of
            Some path \<Rightarrow> rbind (read_secret_file e file_name path) (\<lambda>v. Inr (Some v))
          | None \<Rightarrow> Inr None)))"

definition is_runtime_environment_key :: "string \<Rightarrow> bool" where
  "is_runtime_environment_key key \<longleftrightarrow> key = ''AWS_DEFAULT_REGION''"

definition MAX_RUNTIME_ENVIRONMENT_BYTES :: nat where
  "MAX_RUNTIME_ENVIRONMENT_BYTES = 65536"

definition MAX_RUNTIME_ENVIRONMENT_ENTRIES :: nat where
  "MAX_RUNTIME_ENVIRONMENT_ENTRIES = 64"

definition MAX_RUNTIME_ENVIRONMENT_VALUE_CHARS :: nat where
  "MAX_RUNTIME_ENVIRONMENT_VALUE_CHARS = 16384"

primrec read_environment_lines ::
    "nat \<Rightarrow> string list \<Rightarrow> (string \<times> string) list \<Rightarrow> (string \<times> string) list config_result" where
  "read_environment_lines index [] values = Inr values"
| "read_environment_lines index (raw_line # rest) values =
     (let line = trim_end_matches (CHR 0x0D) raw_line in
      if is_blank line \<or> starts_with ''#'' (trim_start line) then read_environment_lines (Suc index) rest values
      else
        (case split_once (CHR ''='') line of
           None \<Rightarrow> Inl (InvalidRuntimeEnvironmentLine (index + 1))
         | Some (key, value) \<Rightarrow>
             rbind (ensure (is_runtime_environment_key key) (InvalidRuntimeEnvironmentKey key)) (\<lambda>_.
             rbind (ensure (\<not> (contains_nul value \<or> char_count value > MAX_RUNTIME_ENVIRONMENT_VALUE_CHARS))
                (InvalidRuntimeEnvironmentValue key)) (\<lambda>_.
             rbind (ensure (key \<notin> fst ` set values) (DuplicateRuntimeEnvironmentKey key)) (\<lambda>_.
             rbind (ensure (Suc (length values) \<le> MAX_RUNTIME_ENVIRONMENT_ENTRIES)
                (TooManyRuntimeEnvironmentEntries MAX_RUNTIME_ENVIRONMENT_ENTRIES)) (\<lambda>_.
             read_environment_lines (Suc index) rest (values @ [(key, value)])))))))"

definition validate_required_runtime_environment :: "(string \<times> string) list \<Rightarrow> unit config_result" where
  "validate_required_runtime_environment values =
     rbind (ok_or (map_of values ''AWS_DEFAULT_REGION'')
        (MissingRequiredRuntimeEnvironmentKey ''AWS_DEFAULT_REGION'')) (\<lambda>value.
     rbind (ensure (\<not> is_blank value) (BlankRequiredRuntimeEnvironmentValue ''AWS_DEFAULT_REGION'')) (\<lambda>_.
     ensure (map_of values ''AWS_DEFAULT_REGION'' = Some ''auto'') InvalidR2Region))"

definition read_runtime_environment ::
    "process_environment \<Rightarrow> string \<Rightarrow> (string \<times> string) list config_result" where
  "read_runtime_environment e path =
     (case pe_file e path of
        Inl _ \<Rightarrow> Inl (RuntimeEnvironmentFile path)
      | Inr bytes \<Rightarrow>
          rbind (ensure (length bytes \<le> MAX_RUNTIME_ENVIRONMENT_BYTES)
             (RuntimeEnvironmentTooLarge path MAX_RUNTIME_ENVIRONMENT_BYTES)) (\<lambda>_.
          rbind (ensure (utf8_valid (map code bytes)) RuntimeEnvironmentEncoding) (\<lambda>_.
          rbind (read_environment_lines 0 (str_lines bytes) []) (\<lambda>values.
          rbind (ensure (values \<noteq> []) EmptyRuntimeEnvironment) (\<lambda>_.
          rbind (validate_required_runtime_environment values) (\<lambda>_.
          Inr values))))))"

section \<open>The remote agent listener\<close>

definition reject_configured ::
    "process_environment \<Rightarrow> config_error \<Rightarrow> string list \<Rightarrow> unit config_result" where
  "reject_configured e error names =
     try_each (\<lambda>name. rbind (optional_string_value e name) (\<lambda>value. ensure (value = None) error)) names"

definition reject_partial_remote_config :: "process_environment \<Rightarrow> unit config_result" where
  "reject_partial_remote_config e =
     reject_configured e RemoteAgentListenAddressRequired
       [''MCSERVER_CONTROL_PLANE_REMOTE_AGENT_PUBLIC_ADDRESS'',
        ''MCSERVER_CONTROL_PLANE_REMOTE_AGENT_TLS_SERVER_NAME'',
        ''MCSERVER_CONTROL_PLANE_REMOTE_AGENT_TLS_CERTIFICATE'',
        ''MCSERVER_CONTROL_PLANE_REMOTE_AGENT_TLS_PRIVATE_KEY'',
        ''MCSERVER_CONTROL_PLANE_REMOTE_AGENT_TLS_CA_CERTIFICATE'',
        ''MCSERVER_CONTROL_PLANE_AGENT_CLIENT_CA_CERTIFICATE'',
        ''MCSERVER_CONTROL_PLANE_AGENT_CLIENT_CA_PRIVATE_KEY'',
        ''MCSERVER_CONTROL_PLANE_AGENT_CERTIFICATE_WORK_DIRECTORY'',
        ''MCSERVER_CONTROL_PLANE_AGENT_CERTIFICATE_VALIDITY_SECONDS'',
        ''MCSERVER_CONTROL_PLANE_AGENT_TRUST_DOMAIN'',
        ''MCSERVER_CONTROL_PLANE_NODE_AGENT_DOWNLOAD_URL'',
        ''MCSERVER_CONTROL_PLANE_NODE_AGENT_SHA256'']"

definition DEFAULT_AGENT_CERTIFICATE_VALIDITY_SECONDS :: nat where
  "DEFAULT_AGENT_CERTIFICATE_VALIDITY_SECONDS = 2 * 24 * 60 * 60"

definition sha256_ok :: "string \<Rightarrow> bool" where
  "sha256_ok value \<longleftrightarrow> length value = 64 \<and> list_all is_ascii_hexdigit value"

definition configured_remote_agent ::
    "process_environment \<Rightarrow> nat \<Rightarrow> duration \<Rightarrow> string \<Rightarrow> remote_agent_config config_result" where
  "configured_remote_agent e max_frame_bytes agent_command_timeout listen_value =
     rbind (ok_or (parse_socket_addr listen_value) InvalidRemoteSocketAddress) (\<lambda>listen_address.
     rbind (ensure (sa_port listen_address \<noteq> 0) ZeroRemoteAgentPort) (\<lambda>_.
     rbind (required_non_blank e ''MCSERVER_CONTROL_PLANE_REMOTE_AGENT_PUBLIC_ADDRESS'' 512) (\<lambda>public_address.
     rbind (validate_host_port public_address) (\<lambda>_.
     rbind (required_non_blank e ''MCSERVER_CONTROL_PLANE_REMOTE_AGENT_TLS_SERVER_NAME'' 253) (\<lambda>tls_server_name.
     rbind (validate_dns_name tls_server_name) (\<lambda>_.
     rbind (required_path e ''MCSERVER_CONTROL_PLANE_REMOTE_AGENT_TLS_CERTIFICATE'') (\<lambda>tls_certificate.
     rbind (required_path e ''MCSERVER_CONTROL_PLANE_REMOTE_AGENT_TLS_PRIVATE_KEY'') (\<lambda>tls_private_key.
     rbind (required_path e ''MCSERVER_CONTROL_PLANE_REMOTE_AGENT_TLS_CA_CERTIFICATE'') (\<lambda>tls_ca_certificate.
     rbind (required_path e ''MCSERVER_CONTROL_PLANE_AGENT_CLIENT_CA_CERTIFICATE'') (\<lambda>client_ca_certificate.
     rbind (required_path e ''MCSERVER_CONTROL_PLANE_AGENT_CLIENT_CA_PRIVATE_KEY'') (\<lambda>client_ca_private_key.
     let certificate_work_directory =
       path_or e ''MCSERVER_CONTROL_PLANE_AGENT_CERTIFICATE_WORK_DIRECTORY'' ''/run/mcserver/agent-pki'' in
     rbind (parse_positive_duration e ''MCSERVER_CONTROL_PLANE_AGENT_CERTIFICATE_VALIDITY_SECONDS''
        DEFAULT_AGENT_CERTIFICATE_VALIDITY_SECONDS) (\<lambda>certificate_validity.
     let openssl_binary = path_or e ''MCSERVER_CONTROL_PLANE_OPENSSL_BINARY'' ''openssl'' in
     rbind (required_non_blank e ''MCSERVER_CONTROL_PLANE_AGENT_TRUST_DOMAIN'' 253) (\<lambda>trust_domain.
     rbind (validate_dns_name trust_domain) (\<lambda>_.
     rbind (required_non_blank e ''MCSERVER_CONTROL_PLANE_NODE_AGENT_DOWNLOAD_URL'' 4096) (\<lambda>node_agent_download_url.
     rbind (validate_https_url e ''MCSERVER_CONTROL_PLANE_NODE_AGENT_DOWNLOAD_URL'' node_agent_download_url) (\<lambda>_.
     rbind (required_non_blank e ''MCSERVER_CONTROL_PLANE_NODE_AGENT_SHA256'' 64) (\<lambda>node_agent_sha256.
     rbind (ensure (sha256_ok node_agent_sha256) (InvalidSha256 node_agent_sha256)) (\<lambda>_.
     Inr \<lparr> ra_listen_address = listen_address, ra_public_address = public_address,
       ra_tls_server_name = tls_server_name, ra_tls_certificate = tls_certificate,
       ra_tls_private_key = tls_private_key, ra_tls_ca_certificate = tls_ca_certificate,
       ra_client_ca_certificate = client_ca_certificate, ra_client_ca_private_key = client_ca_private_key,
       ra_certificate_work_directory = certificate_work_directory,
       ra_certificate_validity = certificate_validity, ra_openssl_binary = openssl_binary,
       ra_trust_domain = trust_domain, ra_node_agent_download_url = node_agent_download_url,
       ra_node_agent_sha256 = to_ascii_lowercase node_agent_sha256,
       ra_max_frame_bytes = max_frame_bytes,
       ra_node_operation_timeout = node_operation_timeout agent_command_timeout \<rparr>))))))))))))))))))"

definition read_remote_agent_config ::
    "process_environment \<Rightarrow> nat \<Rightarrow> duration \<Rightarrow> remote_agent_config option config_result" where
  "read_remote_agent_config e max_frame_bytes agent_command_timeout =
     rbind (optional_string_value e ''MCSERVER_CONTROL_PLANE_REMOTE_AGENT_LISTEN_ADDRESS'') (\<lambda>listen_value.
     case listen_value of
       None \<Rightarrow> rbind (reject_partial_remote_config e) (\<lambda>_. Inr None)
     | Some listen_value \<Rightarrow>
         rbind (configured_remote_agent e max_frame_bytes agent_command_timeout listen_value) (\<lambda>c. Inr (Some c)))"

section \<open>The Akamai provider\<close>

definition duration_checked_add :: "duration \<Rightarrow> duration \<Rightarrow> duration option" where
  "duration_checked_add a b = (if a + b \<le> DURATION_MAX then Some (a + b) else None)"

definition AGENT_CERTIFICATE_SHUTDOWN_BUFFER_SECONDS :: nat where
  "AGENT_CERTIFICATE_SHUTDOWN_BUFFER_SECONDS = 60 * 60"

definition akamai_setting_names :: "string list" where
  "akamai_setting_names =
     [''MCSERVER_AKAMAI_API_BASE_URL'', ''MCSERVER_AKAMAI_AUTHORIZED_KEYS_FILE'', ''MCSERVER_AKAMAI_SCOPE'',
      ''MCSERVER_AKAMAI_REQUEST_TIMEOUT_SECONDS'', ''MCSERVER_AKAMAI_REAP_ORPHANS_ON_START'',
      ''MCSERVER_AKAMAI_LIVE_ENABLED'', ''MCSERVER_AKAMAI_ALLOWED_REGIONS'', ''MCSERVER_AKAMAI_ALLOWED_IMAGES'',
      ''MCSERVER_AKAMAI_ALLOWED_INSTANCE_TYPES'', ''MCSERVER_AKAMAI_ALLOWED_FIREWALL_IDS'',
      ''MCSERVER_AKAMAI_MAX_ACTIVE_INSTANCES'', ''MCSERVER_AKAMAI_MAX_INSTANCE_LIFETIME_SECONDS'']"

definition read_akamai_config ::
    "process_environment \<Rightarrow> remote_agent_config option \<Rightarrow> akamai_config option config_result" where
  "read_akamai_config e remote_agent =
     rbind (secret_source e ''MCSERVER_AKAMAI_API_TOKEN'' ''MCSERVER_AKAMAI_API_TOKEN_FILE'') (\<lambda>api_token.
     case api_token of
       None \<Rightarrow> rbind (reject_configured e AkamaiTokenRequired akamai_setting_names) (\<lambda>_. Inr None)
     | Some api_token \<Rightarrow>
         rbind (validate_non_blank ''MCSERVER_AKAMAI_API_TOKEN'' api_token 4096) (\<lambda>_.
         rbind (ok_or remote_agent RemoteAgentRequiredForAkamai) (\<lambda>remote_agent.
         rbind (optional_string e ''MCSERVER_AKAMAI_API_BASE_URL'' ''https://api.linode.com/v4'') (\<lambda>api_base_url.
         rbind (validate_api_base_url e api_base_url) (\<lambda>loopback_api.
         rbind (required_path e ''MCSERVER_AKAMAI_AUTHORIZED_KEYS_FILE'') (\<lambda>authorized_keys_file.
         rbind (optional_scope e ''MCSERVER_AKAMAI_SCOPE'' ''default'') (\<lambda>scope.
         rbind (ensure (char_count scope \<le> 35) (AkamaiScopeTooLong 35)) (\<lambda>_.
         rbind (parse_positive_duration e ''MCSERVER_AKAMAI_REQUEST_TIMEOUT_SECONDS'' 30) (\<lambda>request_timeout.
         rbind (parse_bool e ''MCSERVER_AKAMAI_REAP_ORPHANS_ON_START'' False) (\<lambda>reap_orphans_on_start.
         rbind (parse_bool e ''MCSERVER_AKAMAI_LIVE_ENABLED'' False) (\<lambda>live_enabled.
         rbind (parse_identifier_set e ''MCSERVER_AKAMAI_ALLOWED_REGIONS'' ''jp-tyo-3'') (\<lambda>allowed_regions.
         rbind (parse_identifier_set e ''MCSERVER_AKAMAI_ALLOWED_IMAGES'' ''linode/debian13'') (\<lambda>allowed_images.
         rbind (parse_identifier_set e ''MCSERVER_AKAMAI_ALLOWED_INSTANCE_TYPES'' ''g6-nanode-1'') (\<lambda>allowed_instance_types.
         rbind (parse_positive_u64_set e ''MCSERVER_AKAMAI_ALLOWED_FIREWALL_IDS'') (\<lambda>allowed_firewall_ids.
         rbind (parse_positive_usize e ''MCSERVER_AKAMAI_MAX_ACTIVE_INSTANCES'' 1) (\<lambda>max_active_instances.
         rbind (parse_positive_duration e ''MCSERVER_AKAMAI_MAX_INSTANCE_LIFETIME_SECONDS'' (12 * 60 * 60)) (\<lambda>max_instance_lifetime.
         rbind (ok_or (duration_checked_add max_instance_lifetime (from_secs AGENT_CERTIFICATE_SHUTDOWN_BUFFER_SECONDS))
            (DurationOutOfRange ''MCSERVER_AKAMAI_MAX_INSTANCE_LIFETIME_SECONDS'')) (\<lambda>minimum_certificate_validity.
         rbind (ensure (minimum_certificate_validity \<le> ra_certificate_validity remote_agent)
            (AgentCertificateValidityTooShort (ra_certificate_validity remote_agent) minimum_certificate_validity)) (\<lambda>_.
         Inr (Some \<lparr> ak_api_token = api_token, ak_api_base_url = trim_end_matches (CHR ''/'') api_base_url,
           ak_authorized_keys_file = authorized_keys_file, ak_scope = scope, ak_request_timeout = request_timeout,
           ak_reap_orphans_on_start = reap_orphans_on_start, ak_live_enabled = live_enabled,
           ak_allowed_regions = allowed_regions, ak_allowed_images = allowed_images,
           ak_allowed_instance_types = allowed_instance_types, ak_allowed_firewall_ids = allowed_firewall_ids,
           ak_max_active_instances = max_active_instances, ak_max_instance_lifetime = max_instance_lifetime,
           ak_loopback_api = loopback_api \<rparr>))))))))))))))))))))"

section \<open>Temporary storage credentials\<close>

definition r2_setting_names :: "string list" where
  "r2_setting_names =
     [''MCSERVER_R2_API_BASE_URL'', ''MCSERVER_R2_ACCOUNT_ID'', ''MCSERVER_R2_PARENT_ACCESS_KEY_ID'',
      ''MCSERVER_R2_BUCKET'', ''MCSERVER_R2_TEMPORARY_CREDENTIAL_TTL_SECONDS'',
      ''MCSERVER_R2_RUNTIME_ENVIRONMENT_FILE'', ''MCSERVER_R2_REQUEST_TIMEOUT_SECONDS'']"

definition MAX_R2_TEMPORARY_CREDENTIAL_TTL_SECONDS :: nat where
  "MAX_R2_TEMPORARY_CREDENTIAL_TTL_SECONDS = 7 * 24 * 60 * 60"

definition r2_account_ok :: "string \<Rightarrow> bool" where
  "r2_account_ok account_id \<longleftrightarrow> length account_id = 32 \<and> list_all is_ascii_hexdigit account_id"

definition read_r2_config ::
    "process_environment \<Rightarrow> akamai_config option \<Rightarrow> duration \<Rightarrow> r2_config option config_result" where
  "read_r2_config e akamai agent_command_timeout =
     rbind (secret_source e ''MCSERVER_R2_API_TOKEN'' ''MCSERVER_R2_API_TOKEN_FILE'') (\<lambda>api_token.
     case api_token of
       None \<Rightarrow>
         rbind (map_result (optional_string_value e) r2_setting_names) (\<lambda>values.
         rbind (ensure (list_all (\<lambda>v. v = None) values) R2TokenRequired) (\<lambda>_.
         rbind (ensure (akamai = None) R2RequiredForAkamai) (\<lambda>_.
         Inr None)))
     | Some api_token \<Rightarrow>
         rbind (ok_or akamai AkamaiRequiredForR2) (\<lambda>akamai.
         rbind (validate_non_blank ''MCSERVER_R2_API_TOKEN'' api_token 4096) (\<lambda>_.
         rbind (optional_string e ''MCSERVER_R2_API_BASE_URL'' ''https://api.cloudflare.com/client/v4'') (\<lambda>api_base_url.
         rbind (validate_r2_api_base_url e api_base_url) (\<lambda>loopback_api.
         rbind (required_non_blank e ''MCSERVER_R2_ACCOUNT_ID'' 32) (\<lambda>account_id.
         rbind (ensure (r2_account_ok account_id) (InvalidR2AccountId account_id)) (\<lambda>_.
         rbind (required_non_blank e ''MCSERVER_R2_PARENT_ACCESS_KEY_ID'' 256) (\<lambda>parent_access_key_id.
         rbind (required_non_blank e ''MCSERVER_R2_BUCKET'' 63) (\<lambda>bucket.
         rbind (validate_r2_bucket_name bucket) (\<lambda>_.
         rbind (parse_positive_duration e ''MCSERVER_R2_TEMPORARY_CREDENTIAL_TTL_SECONDS'' (13 * 60 * 60)) (\<lambda>temporary_credential_ttl.
         rbind (ensure (as_secs temporary_credential_ttl \<le> MAX_R2_TEMPORARY_CREDENTIAL_TTL_SECONDS)
            (R2CredentialTtlTooLong (from_secs MAX_R2_TEMPORARY_CREDENTIAL_TTL_SECONDS))) (\<lambda>_.
         let shutdown_buffer = max agent_command_timeout (from_secs AGENT_CERTIFICATE_SHUTDOWN_BUFFER_SECONDS) in
         rbind (ok_or (duration_checked_add (ak_max_instance_lifetime akamai) shutdown_buffer)
            (DurationOutOfRange ''MCSERVER_R2_TEMPORARY_CREDENTIAL_TTL_SECONDS'')) (\<lambda>minimum_ttl.
         rbind (ensure (minimum_ttl \<le> temporary_credential_ttl)
            (R2CredentialTtlTooShort temporary_credential_ttl minimum_ttl)) (\<lambda>_.
         rbind (required_path e ''MCSERVER_R2_RUNTIME_ENVIRONMENT_FILE'') (\<lambda>runtime_environment_file.
         rbind (read_runtime_environment e runtime_environment_file) (\<lambda>runtime_environment.
         rbind (parse_positive_duration e ''MCSERVER_R2_REQUEST_TIMEOUT_SECONDS'' 30) (\<lambda>request_timeout.
         Inr (Some \<lparr> r2_api_token = api_token, r2_api_base_url = trim_end_matches (CHR ''/'') api_base_url,
           r2_account_id = account_id, r2_parent_access_key_id = parent_access_key_id, r2_bucket = bucket,
           r2_temporary_credential_ttl = temporary_credential_ttl,
           r2_runtime_environment_file = runtime_environment_file,
           r2_runtime_environment = runtime_environment, r2_request_timeout = request_timeout,
           r2_loopback_api = loopback_api \<rparr>))))))))))))))))))"

section \<open>The configuration\<close>

definition config_from_env :: "process_environment \<Rightarrow> config config_result" where
  "config_from_env e =
     (let socket_path = path_or e ''MCSERVER_CONTROL_PLANE_SOCKET'' ''/run/mcserver/control-plane.sock'' in
     rbind (optional_string e ''MCSERVER_CONTROL_PLANE_DATABASE_URL''
        ''sqlite:///var/lib/mcserver/control-plane.db?mode=rwc'') (\<lambda>database_url.
     rbind (optional_string_value e ''MCSERVER_CONTROL_PLANE_SOCKET_MODE'') (\<lambda>socket_mode.
     rbind (parse_socket_mode socket_mode) (\<lambda>socket_mode.
     rbind (parse_positive_usize e ''MCSERVER_CONTROL_PLANE_MAX_FRAME_BYTES'' 1048576) (\<lambda>max_frame_bytes.
     rbind (parse_positive_duration e ''MCSERVER_CONTROL_PLANE_RECONCILE_INTERVAL_SECONDS'' 30) (\<lambda>reconcile_interval.
     rbind (parse_positive_duration e ''MCSERVER_CONTROL_PLANE_RECONCILE_RETRY_SECONDS'' 5) (\<lambda>reconcile_retry.
     rbind (parse_positive_duration e ''MCSERVER_CONTROL_PLANE_SHUTDOWN_TIMEOUT_SECONDS'' 15) (\<lambda>shutdown_timeout.
     rbind (optional_string e ''MCSERVER_CONTROL_PLANE_AGENT_LISTEN_ADDRESS'' ''127.0.0.1:39001'') (\<lambda>listen_value.
     rbind (ok_or (parse_socket_addr listen_value) InvalidSocketAddress) (\<lambda>agent_listen_address.
     rbind (ensure (ip_is_loopback (sa_ip agent_listen_address)) (AgentAddressMustBeLoopback agent_listen_address)) (\<lambda>_.
     rbind (ensure (sa_port agent_listen_address \<noteq> 0) ZeroAgentPort) (\<lambda>_.
     rbind (parse_positive_duration e ''MCSERVER_CONTROL_PLANE_AGENT_COMMAND_TIMEOUT_SECONDS'' 900) (\<lambda>agent_command_timeout.
     let node_agent_binary = path_or e ''MCSERVER_CONTROL_PLANE_NODE_AGENT_BINARY'' ''mcserver-node-agent'';
         node_agent_root = path_or e ''MCSERVER_CONTROL_PLANE_NODE_AGENT_ROOT'' ''/var/lib/mcserver/local-agents'';
         podman_binary = path_or e ''MCSERVER_CONTROL_PLANE_PODMAN_BINARY'' ''podman'' in
     rbind (optional_scope e ''MCSERVER_CONTROL_PLANE_LOCAL_SCOPE'' ''default'') (\<lambda>local_scope.
     rbind (parse_bool e ''MCSERVER_CONTROL_PLANE_REAP_ORPHANS_ON_START'' True) (\<lambda>reap_orphans_on_start.
     rbind (parse_positive_duration e ''MCSERVER_CONTROL_PLANE_LOCAL_CONTROL_TIMEOUT_SECONDS'' 30) (\<lambda>local_control_timeout.
     rbind (parse_positive_duration e ''MCSERVER_CONTROL_PLANE_LOCAL_PROCESS_STOP_TIMEOUT_SECONDS'' 10) (\<lambda>local_process_stop_timeout.
     rbind (read_remote_agent_config e max_frame_bytes agent_command_timeout) (\<lambda>remote_agent.
     rbind (read_akamai_config e remote_agent) (\<lambda>akamai.
     rbind (read_r2_config e akamai agent_command_timeout) (\<lambda>r2.
     Inr \<lparr> cf_socket_path = socket_path, cf_database_url = database_url, cf_socket_mode = socket_mode,
       cf_max_frame_bytes = max_frame_bytes, cf_reconcile_interval = reconcile_interval,
       cf_reconcile_retry = reconcile_retry, cf_shutdown_timeout = shutdown_timeout,
       cf_agent_listen_address = agent_listen_address, cf_agent_command_timeout = agent_command_timeout,
       cf_node_agent_binary = node_agent_binary, cf_node_agent_root = node_agent_root,
       cf_podman_binary = podman_binary, cf_local_scope = local_scope,
       cf_reap_orphans_on_start = reap_orphans_on_start, cf_local_control_timeout = local_control_timeout,
       cf_local_process_stop_timeout = local_process_stop_timeout, cf_remote_agent = remote_agent,
       cf_akamai = akamai, cf_r2 = r2 \<rparr>))))))))))))))))))))"

section \<open>What an accepted configuration guarantees\<close>

definition remote_agent_ok :: "remote_agent_config \<Rightarrow> bool" where
  "remote_agent_ok ra \<longleftrightarrow>
     sa_port (ra_listen_address ra) \<noteq> 0 \<and> validate_host_port (ra_public_address ra) = Inr ()
   \<and> validate_dns_name (ra_tls_server_name ra) = Inr () \<and> validate_dns_name (ra_trust_domain ra) = Inr ()
   \<and> sha256_ok (ra_node_agent_sha256 ra) \<and> list_all (\<lambda>c. \<not> is_ascii_uppercase c) (ra_node_agent_sha256 ra)
   \<and> 0 < ra_certificate_validity ra"

definition akamai_ok :: "remote_agent_config \<Rightarrow> akamai_config \<Rightarrow> bool" where
  "akamai_ok ra ak \<longleftrightarrow>
     ak_max_instance_lifetime ak + from_secs 3600 \<le> ra_certificate_validity ra
   \<and> 0 < ak_max_active_instances ak \<and> 0 < ak_max_instance_lifetime ak
   \<and> list_all scope_byte (ak_scope ak) \<and> ak_scope ak \<noteq> [] \<and> char_count (ak_scope ak) \<le> 35
   \<and> ak_allowed_regions ak \<noteq> [] \<and> ak_allowed_images ak \<noteq> [] \<and> ak_allowed_instance_types ak \<noteq> []
   \<and> ak_allowed_firewall_ids ak \<noteq> [] \<and> 0 \<notin> set (ak_allowed_firewall_ids ak)"

definition r2_ok :: "duration \<Rightarrow> akamai_config \<Rightarrow> r2_config \<Rightarrow> bool" where
  "r2_ok agent_command_timeout ak r2 \<longleftrightarrow>
     ak_max_instance_lifetime ak + max agent_command_timeout (from_secs 3600) \<le> r2_temporary_credential_ttl r2
   \<and> as_secs (r2_temporary_credential_ttl r2) \<le> 7 * 24 * 3600
   \<and> r2_bucket_ok (r2_bucket r2) \<and> r2_account_ok (r2_account_id r2)
   \<and> r2_runtime_environment r2 = [(''AWS_DEFAULT_REGION'', ''auto'')]"

definition config_ok :: "config \<Rightarrow> bool" where
  "config_ok c \<longleftrightarrow>
     ip_is_loopback (sa_ip (cf_agent_listen_address c)) \<and> sa_port (cf_agent_listen_address c) \<noteq> 0
   \<and> cf_socket_mode c \<le> 511 \<and> 0 < cf_max_frame_bytes c
   \<and> 0 < cf_reconcile_interval c \<and> 0 < cf_reconcile_retry c \<and> 0 < cf_agent_command_timeout c
   \<and> list_all scope_byte (cf_local_scope c) \<and> cf_local_scope c \<noteq> []
   \<and> (\<forall>ra. cf_remote_agent c = Some ra \<longrightarrow> remote_agent_ok ra
        \<and> ra_node_operation_timeout ra = node_operation_timeout (cf_agent_command_timeout c))
   \<and> (case cf_akamai c of
        None \<Rightarrow> cf_r2 c = None
      | Some ak \<Rightarrow> \<exists>ra r2. cf_remote_agent c = Some ra \<and> cf_r2 c = Some r2 \<and> akamai_ok ra ak
          \<and> r2_ok (cf_agent_command_timeout c) ak r2)"

lemma from_secs_pos [simp]: "0 < from_secs n \<longleftrightarrow> 0 < n"
  by (simp add: from_secs_def)

lemma parse_positive_duration_pos: "parse_positive_duration e name d = Inr t \<Longrightarrow> 0 < t"
  by (auto simp: parse_positive_duration_def result_simps)

lemma parse_positive_usize_pos: "parse_positive_usize e name d = Inr n \<Longrightarrow> 0 < n"
  by (auto simp: parse_positive_usize_def result_simps)

lemma to_ascii_lowercase_sha256:
  assumes "sha256_ok s"
  shows "sha256_ok (to_ascii_lowercase s)" "list_all (\<lambda>c. \<not> is_ascii_uppercase c) (to_ascii_lowercase s)"
proof -
  have "is_ascii_hexdigit (char_of (code c + 32))" if "is_ascii_hexdigit c" "is_ascii_uppercase c" for c
    using that by (auto simp: is_ascii_hexdigit_def is_ascii_uppercase_def is_ascii_digit_def code_def)
  then show "sha256_ok (to_ascii_lowercase s)"
    using assms by (auto simp: sha256_ok_def to_ascii_lowercase_def list_all_iff)
  have "\<not> is_ascii_uppercase (char_of (code c + 32))" if "is_ascii_uppercase c" for c
    using that by (auto simp: is_ascii_uppercase_def code_def)
  then show "list_all (\<lambda>c. \<not> is_ascii_uppercase c) (to_ascii_lowercase s)"
    by (auto simp: to_ascii_lowercase_def list_all_iff)
qed

lemma configured_remote_agent_ok:
  assumes "configured_remote_agent e frame timeout v = Inr ra"
  shows "remote_agent_ok ra \<and> ra_node_operation_timeout ra = node_operation_timeout timeout"
  using assms unfolding configured_remote_agent_def Let_def
  by (simp only: result_simps sum.inject, elim exE conjE, hypsubst)
     (simp add: remote_agent_ok_def to_ascii_lowercase_sha256 parse_positive_duration_pos)

lemma remote_agent_config_ok:
  assumes "read_remote_agent_config e frame timeout = Inr (Some ra)"
  shows "remote_agent_ok ra \<and> ra_node_operation_timeout ra = node_operation_timeout timeout"
  using assms configured_remote_agent_ok
  by (auto simp: read_remote_agent_config_def result_simps split: option.splits)

lemma btree_set_simps: "btree_set xs = [] \<longleftrightarrow> xs = []" "set (btree_set xs) = set xs"
  by (simp_all add: btree_set_def flip: set_empty)

lemma optional_scope_Inr: "optional_scope e name d = Inr s \<Longrightarrow> list_all scope_byte s \<and> s \<noteq> []"
  by (auto simp: optional_scope_def validate_non_blank_def result_simps)

lemma parse_identifier_set_Inr: "parse_identifier_set e name d = Inr vs \<Longrightarrow> vs \<noteq> []"
  by (auto simp: parse_identifier_set_def Let_def result_simps)

lemma parse_positive_u64_set_Inr: "parse_positive_u64_set e name = Inr vs \<Longrightarrow> vs \<noteq> [] \<and> 0 \<notin> set vs"
  by (auto simp: parse_positive_u64_set_def result_simps split: option.splits if_splits)

lemma akamai_config_ok:
  assumes "read_akamai_config e remote = Inr (Some ak)"
  shows "\<exists>ra. remote = Some ra \<and> akamai_ok ra ak"
  using assms
  by (auto simp: read_akamai_config_def akamai_ok_def result_simps parse_positive_duration_pos parse_positive_usize_pos
      duration_checked_add_def AGENT_CERTIFICATE_SHUTDOWN_BUFFER_SECONDS_def
      dest: optional_scope_Inr parse_identifier_set_Inr parse_positive_u64_set_Inr split: option.splits if_splits)

definition only_region :: "(string \<times> string) list \<Rightarrow> bool" where
  "only_region vs \<longleftrightarrow> set (map fst vs) \<subseteq> {''AWS_DEFAULT_REGION''} \<and> distinct (map fst vs)"

lemma only_region_snoc:
  "only_region vs \<Longrightarrow> is_runtime_environment_key key \<Longrightarrow> key \<notin> fst ` set vs \<Longrightarrow> only_region (vs @ [(key, v)])"
  by (auto simp: only_region_def is_runtime_environment_key_def)

lemma read_environment_lines_keys:
  "read_environment_lines n ls vs = Inr ws \<Longrightarrow> only_region vs \<Longrightarrow> only_region ws"
proof (induction ls arbitrary: n vs)
  case (Cons l ls)
  show ?case
    using Cons.prems
    by (auto simp: Let_def result_simps split: if_splits option.splits)
       (blast intro: Cons.IH only_region_snoc)+
qed simp

lemma only_region_single: "only_region vs \<Longrightarrow> map_of vs ''AWS_DEFAULT_REGION'' = Some v \<Longrightarrow> vs = [(''AWS_DEFAULT_REGION'', v)]"
proof (cases vs)
  case (Cons w ws)
  assume *: "only_region vs" "map_of vs ''AWS_DEFAULT_REGION'' = Some v"
  have "ws = []" using * Cons by (cases ws) (auto simp: only_region_def)
  then show ?thesis using * Cons by (cases w) (auto simp: only_region_def)
qed simp

lemma read_runtime_environment_Inr:
  assumes "read_runtime_environment e path = Inr vs"
  shows "vs = [(''AWS_DEFAULT_REGION'', ''auto'')]"
proof (rule only_region_single)
  have "only_region []" by (simp add: only_region_def)
  with assms show "only_region vs"
    by (auto simp: read_runtime_environment_def result_simps split: sum.splits dest: read_environment_lines_keys)
  show "map_of vs ''AWS_DEFAULT_REGION'' = Some ''auto''"
    using assms
    by (auto simp: read_runtime_environment_def validate_required_runtime_environment_def result_simps
        split: sum.splits)
qed

lemma r2_config_ok:
  assumes "read_r2_config e akamai timeout = Inr (Some r2)"
  shows "\<exists>ak. akamai = Some ak \<and> r2_ok timeout ak r2"
  using assms
  by (auto simp: read_r2_config_def r2_ok_def result_simps duration_checked_add_def Let_def
      AGENT_CERTIFICATE_SHUTDOWN_BUFFER_SECONDS_def MAX_R2_TEMPORARY_CREDENTIAL_TTL_SECONDS_def
      validate_r2_bucket_name_def dest: read_runtime_environment_Inr split: option.splits if_splits)

lemma r2_config_None: "read_r2_config e akamai timeout = Inr None \<Longrightarrow> akamai = None"
  by (auto simp: read_r2_config_def result_simps Let_def split: option.splits)

section \<open>Accepted configurations\<close>


text \<open>An environment that configures the Akamai provider and its storage.\<close>

definition example_url :: "string \<Rightarrow> parsed_url" where
  "example_url host = \<lparr> url_scheme = ''https'', url_host = Some host, url_username = [], url_password = None,
     url_query = None, url_fragment = None \<rparr>"

definition example_variables :: "(string \<times> string) list" where
  "example_variables =
     [(''MCSERVER_CONTROL_PLANE_REMOTE_AGENT_LISTEN_ADDRESS'', ''0.0.0.0:4''),
      (''MCSERVER_CONTROL_PLANE_REMOTE_AGENT_PUBLIC_ADDRESS'', ''mc.example:4''),
      (''MCSERVER_CONTROL_PLANE_REMOTE_AGENT_TLS_SERVER_NAME'', ''mc.example''),
      (''MCSERVER_CONTROL_PLANE_REMOTE_AGENT_TLS_CERTIFICATE'', ''/c''),
      (''MCSERVER_CONTROL_PLANE_REMOTE_AGENT_TLS_PRIVATE_KEY'', ''/k''),
      (''MCSERVER_CONTROL_PLANE_REMOTE_AGENT_TLS_CA_CERTIFICATE'', ''/a''),
      (''MCSERVER_CONTROL_PLANE_AGENT_CLIENT_CA_CERTIFICATE'', ''/c''),
      (''MCSERVER_CONTROL_PLANE_AGENT_CLIENT_CA_PRIVATE_KEY'', ''/p''),
      (''MCSERVER_CONTROL_PLANE_AGENT_TRUST_DOMAIN'', ''mc.example''),
      (''MCSERVER_CONTROL_PLANE_NODE_AGENT_DOWNLOAD_URL'', ''https://d''),
      (''MCSERVER_CONTROL_PLANE_NODE_AGENT_SHA256'', replicate 64 (CHR ''A'')),
      (''MCSERVER_AKAMAI_API_TOKEN'', ''t''),
      (''MCSERVER_AKAMAI_AUTHORIZED_KEYS_FILE'', ''/k''),
      (''MCSERVER_AKAMAI_ALLOWED_FIREWALL_IDS'', ''7''),
      (''MCSERVER_R2_API_TOKEN'', ''t''),
      (''MCSERVER_R2_ACCOUNT_ID'', replicate 32 (CHR ''a'')),
      (''MCSERVER_R2_PARENT_ACCESS_KEY_ID'', ''p''),
      (''MCSERVER_R2_BUCKET'', ''worlds''),
      (''MCSERVER_R2_RUNTIME_ENVIRONMENT_FILE'', ''/r'')]"

definition example_environment :: process_environment where
  "example_environment =
     \<lparr> pe_var = (\<lambda>name. case map_of example_variables name of None \<Rightarrow> NotPresent | Some v \<Rightarrow> Value v),
       pe_file = (\<lambda>path. Inr ''AWS_DEFAULT_REGION=auto''),
       pe_parse_url = (\<lambda>s. Some (example_url ''h'')) \<rparr>"


end
