(* ===== verification/Local_Compute.thy ===== *)
theory Local_Compute
  imports Compute_Support Config
begin

text \<open>
  \<open>infrastructure/local_compute.rs\<close>: node agents as child processes of the
  control plane. A process is identified across restarts by the metadata
  stored when it was spawned (boot id, process id and start time), so that a
  reused process id is never taken for the agent.
\<close>

datatype local_compute_error =
    LcRepository repository_error
  | LcIo io_failure
  | LcRuntimeStateSerialization
  | LcUnsupportedRuntimeStateSchemaVersion u32
  | LcTimestamp timestamp_error
  | LcInvalidPodmanOutputEncoding
  | LcControlCommandTimeout
  | LcPodmanCommandFailed "int option" string
  | LcSpawn io_failure
  | LcMissingProcessId
  | LcWrongProvider
  | LcCreateConflict
  | LcMissingAfterUpdate
  | LcSignalFailed u32 string "int option"
  | LcProcessDidNotExit u32

type_synonym 'a local_io = "(local_compute_error, 'a) io"

record local_config =
  lc_local_scope :: string
  lc_node_agent_root :: string
  lc_control_plane_address :: string
  lc_command_timeout :: duration
  lc_max_frame_bytes :: nat

definition LOCAL_RUNTIME_STATE_SCHEMA_VERSION :: u32 where
  "LOCAL_RUNTIME_STATE_SCHEMA_VERSION = 1"

definition truncated_suffix :: string where
  "truncated_suffix = [CHR '' '', CHR 0xE2, CHR 0x80, CHR 0xA6] @ ''[truncated]''"

definition bounded_diagnostic :: "string \<Rightarrow> string" where
  "bounded_diagnostic input =
     str_trim (from_utf8_lossy (take 8192 input)) @ (if 8192 < length input then truncated_suffix else [])"

section \<open>Processes\<close>

record linux_process_state =
  lp_state :: string
  lp_start_time_ticks :: u64

definition first_char :: "string \<Rightarrow> string option" where
  "first_char s = (case s of [] \<Rightarrow> None | c # cs \<Rightarrow> Some (c # takeWhile is_continuation cs))"

definition nth_opt :: "nat \<Rightarrow> 'a list \<Rightarrow> 'a option" where
  "nth_opt n xs = (if n < length xs then Some (xs ! n) else None)"

definition parse_linux_process_stat :: "string \<Rightarrow> linux_process_state option" where
  "parse_linux_process_stat value =
     Option.bind (after_last (CHR '')'') value) (\<lambda>rest.
     let columns = split_whitespace rest in
     Option.bind (Option.bind (nth_opt 0 columns) first_char) (\<lambda>state.
     Option.bind (Option.bind (nth_opt 19 columns) parse_u64) (\<lambda>ticks.
     Some \<lparr> lp_state = state, lp_start_time_ticks = ticks \<rparr>)))"

definition lift_failure :: "(io_failure + 'a) \<Rightarrow> 'a local_io" where
  "lift_failure r = alift (map_err LcIo r)"

definition read_linux_boot_id :: "environment \<Rightarrow> string local_io" where
  "read_linux_boot_id e = abind (ask (env_boot_id e)) (\<lambda>r. lift_failure (rbind r (\<lambda>s. Inr (str_trim s))))"

definition read_linux_process_state :: "environment \<Rightarrow> u32 \<Rightarrow> ('e, io_failure + linux_process_state) io" where
  "read_linux_process_state e process_id =
     abind (ask (\<lambda>n. env_process_stat e n process_id)) (\<lambda>r.
     areturn (rbind r (\<lambda>encoded. ok_or (parse_linux_process_stat encoded) IoOther)))"

definition runtime_process_matches :: "environment \<Rightarrow> local_runtime_state \<Rightarrow> bool local_io" where
  "runtime_process_matches e st =
     abind (read_linux_boot_id e) (\<lambda>boot_id.
     if boot_id \<noteq> rt_linux_boot_id st then areturn False
     else
       abind (read_linux_process_state e (rt_process_id st)) (\<lambda>current.
       case current of
         Inl IoNotFound \<Rightarrow> areturn False
       | Inl f \<Rightarrow> afail (LcIo f)
       | Inr p \<Rightarrow> areturn (lp_state p \<notin> {''Z'', ''X'', ''x''}
           \<and> lp_start_time_ticks p = rt_start_time_ticks st)))"

definition state_directory :: "environment \<Rightarrow> local_config \<Rightarrow> uuid \<Rightarrow> string" where
  "state_directory e c ident = path_join (lc_node_agent_root c) (env_uuid_text e ident)"

definition load_local_runtime_state :: "environment \<Rightarrow> string \<Rightarrow> local_runtime_state option local_io" where
  "load_local_runtime_state e directory =
     abind (ask (\<lambda>n. env_state_file e n directory)) (\<lambda>r.
     case r of
       Inl IoNotFound \<Rightarrow> areturn None
     | Inl f \<Rightarrow> afail (LcIo f)
     | Inr None \<Rightarrow> afail LcRuntimeStateSerialization
     | Inr (Some st) \<Rightarrow>
         if rt_schema_version st \<noteq> LOCAL_RUNTIME_STATE_SCHEMA_VERSION
         then afail (LcUnsupportedRuntimeStateSchemaVersion (rt_schema_version st))
         else areturn (Some st))"

definition filesystem :: "environment \<Rightarrow> unit local_io" where
  "filesystem e = abind (ask (env_filesystem e)) (\<lambda>r. case r of None \<Rightarrow> areturn () | Some f \<Rightarrow> afail (LcIo f))"

text \<open>The file is written and synchronised under a temporary name, then renamed, then the directory is synchronised.\<close>

definition store_local_runtime_state :: "environment \<Rightarrow> string \<Rightarrow> local_runtime_state \<Rightarrow> unit local_io" where
  "store_local_runtime_state e directory st =
     abind (filesystem e) (\<lambda>_.
     abind (filesystem e) (\<lambda>_.
     abind (filesystem e) (\<lambda>_.
     abind (filesystem e) (\<lambda>_.
     abind (emit (RuntimeStateStored directory st)) (\<lambda>_.
     abind (filesystem e) (\<lambda>_.
     filesystem e))))))"

definition capture_local_runtime_state ::
    "environment \<Rightarrow> u32 \<Rightarrow> uuid \<Rightarrow> string \<Rightarrow> local_runtime_state local_io" where
  "capture_local_runtime_state e process_id compute_id local_scope =
     abind (read_linux_boot_id e) (\<lambda>boot_id.
     abind (read_linux_process_state e process_id) (\<lambda>p.
     abind (lift_failure p) (\<lambda>p.
     areturn \<lparr> rt_schema_version = LOCAL_RUNTIME_STATE_SCHEMA_VERSION, rt_compute_instance_id = compute_id,
       rt_local_scope = local_scope, rt_process_id = process_id, rt_linux_boot_id = boot_id,
       rt_start_time_ticks = lp_start_time_ticks p \<rparr>)))"

definition send_signal :: "environment \<Rightarrow> u32 \<Rightarrow> string \<Rightarrow> unit local_io" where
  "send_signal e process_id signal =
     abind (emit (ProcessSignalled process_id signal)) (\<lambda>_.
     abind (ask (\<lambda>n. env_signal e n process_id)) (\<lambda>r.
     abind (lift_failure r) (\<lambda>(success, code).
     if success then areturn ()
     else abind (ask (\<lambda>n. env_process_exists e n process_id)) (\<lambda>alive.
       if \<not> alive then areturn () else afail (LcSignalFailed process_id signal code)))))"

text \<open>A polling loop bounded by elapsed time: whether the process is gone within the polls.\<close>

primrec poll_gone :: "environment \<Rightarrow> local_runtime_state \<Rightarrow> nat \<Rightarrow> bool local_io" where
  "poll_gone e st 0 = areturn False"
| "poll_gone e st (Suc n) =
     abind (runtime_process_matches e st) (\<lambda>running. if \<not> running then areturn True else poll_gone e st n)"

definition wait_for_untracked_process_exit :: "environment \<Rightarrow> local_runtime_state \<Rightarrow> unit local_io" where
  "wait_for_untracked_process_exit e st =
     abind (runtime_process_matches e st) (\<lambda>running.
     if \<not> running then areturn ()
     else
       abind (send_signal e (rt_process_id st) ''TERM'') (\<lambda>_.
       abind (ask (env_polls e)) (\<lambda>polls.
       abind (poll_gone e st polls) (\<lambda>gone.
       if gone then areturn ()
       else
         abind (send_signal e (rt_process_id st) ''KILL'') (\<lambda>_.
         abind (ask (env_polls e)) (\<lambda>polls.
         abind (poll_gone e st polls) (\<lambda>gone.
         if gone then areturn () else afail (LcProcessDidNotExit (rt_process_id st)))))))))"

definition kill_child :: "environment \<Rightarrow> uuid \<Rightarrow> unit local_io" where
  "kill_child e ident =
     abind (emit (ChildKilled ident)) (\<lambda>_.
     abind (ask (\<lambda>n. env_child_kill e n ident)) (\<lambda>killed.
     case killed of
       Some f \<Rightarrow> afail (LcIo f)
     | None \<Rightarrow>
         abind (ask (\<lambda>n. env_child_reap e n ident)) (\<lambda>reaped.
         case reaped of Some f \<Rightarrow> afail (LcIo f) | None \<Rightarrow> areturn ())))"

definition wait_for_tracked_process_exit :: "environment \<Rightarrow> uuid \<Rightarrow> unit local_io" where
  "wait_for_tracked_process_exit e ident =
     abind (ask (\<lambda>n. env_child_wait e n ident)) (\<lambda>r.
     case r of
       WaitExited \<Rightarrow> areturn ()
     | WaitFailed f \<Rightarrow> afail (LcIo f)
     | WaitTimedOut \<Rightarrow> kill_child e ident)"

definition terminate_spawned_child :: "environment \<Rightarrow> uuid \<Rightarrow> unit local_io" where
  "terminate_spawned_child e ident = abind (attempt (kill_child e ident)) (\<lambda>_. areturn ())"

definition children_contains :: "uuid \<Rightarrow> ('e, bool) io" where
  "children_contains ident w = (w, Inr (ident \<in> set (w_children w)))"

definition children_remove :: "uuid \<Rightarrow> ('e, bool) io" where
  "children_remove ident w =
     (w\<lparr> w_children := removeAll ident (w_children w) \<rparr>, Inr (ident \<in> set (w_children w)))"

definition children_insert :: "uuid \<Rightarrow> ('e, unit) io" where
  "children_insert ident w = (w\<lparr> w_children := ident # removeAll ident (w_children w) \<rparr>, Inr ())"

definition owned_runtime_state :: "local_config \<Rightarrow> compute_instance \<Rightarrow> u32 \<Rightarrow> local_runtime_state \<Rightarrow> bool" where
  "owned_runtime_state c machine process_id st \<longleftrightarrow>
     rt_process_id st = process_id \<and> rt_compute_instance_id st = ci_id machine
   \<and> rt_local_scope st = lc_local_scope c"

definition process_is_running :: "environment \<Rightarrow> local_config \<Rightarrow> compute_instance \<Rightarrow> bool local_io" where
  "process_is_running e c machine =
     abind (children_contains (ci_id machine)) (\<lambda>tracked.
     if tracked
     then
       abind (ask (\<lambda>n. env_child_exited e n (ci_id machine))) (\<lambda>r.
       abind (lift_failure r) (\<lambda>exited.
       if \<not> exited then areturn True
       else abind (children_remove (ci_id machine)) (\<lambda>_. areturn False)))
     else
       (case ci_process_id machine of
          None \<Rightarrow> areturn False
        | Some process_id \<Rightarrow>
            abind (load_local_runtime_state e (state_directory e c (ci_id machine))) (\<lambda>st.
            case st of
              None \<Rightarrow> areturn False
            | Some st \<Rightarrow>
                if owned_runtime_state c machine process_id st
                then runtime_process_matches e st
                else areturn False)))"

section \<open>Spawning\<close>

definition agent_environment :: "environment \<Rightarrow> local_config \<Rightarrow> compute_instance \<Rightarrow> (string \<times> string) list" where
  "agent_environment e c machine =
     [(''MCSERVER_NODE_AGENT_CONTROL_PLANE_ADDRESS'', lc_control_plane_address c),
      (''MCSERVER_NODE_AGENT_COMPUTE_INSTANCE_ID'', env_uuid_text e (ci_id machine)),
      (''MCSERVER_NODE_AGENT_CONNECTION_TOKEN'', ci_connection_token machine),
      (''MCSERVER_NODE_AGENT_STATE_DIRECTORY'',
         state_directory e c (ci_id machine)),
      (''MCSERVER_NODE_AGENT_LOCAL_SCOPE'', lc_local_scope c),
      (''MCSERVER_NODE_AGENT_MAX_FRAME_BYTES'', nat_to_string (lc_max_frame_bytes c)),
      (''MCSERVER_NODE_AGENT_COMMAND_TIMEOUT_SECONDS'',
         nat_to_string (as_secs (node_operation_timeout (lc_command_timeout c))))]"

definition or_terminate :: "environment \<Rightarrow> uuid \<Rightarrow> 'a local_io \<Rightarrow> 'a local_io" where
  "or_terminate e ident m =
     acatch m (\<lambda>error. abind (terminate_spawned_child e ident) (\<lambda>_. afail error))"

definition spawn_agent :: "environment \<Rightarrow> local_config \<Rightarrow> compute_instance \<Rightarrow> u32 local_io" where
  "spawn_agent e c machine = (let ident = ci_id machine in
     abind (filesystem e) (\<lambda>_.
     abind (filesystem e) (\<lambda>_.
     abind (emit (AgentSpawned ident (agent_environment e c machine))) (\<lambda>_.
     abind (ask (\<lambda>n. env_spawn e n ident)) (\<lambda>r.
     abind (alift (map_err LcSpawn r)) (\<lambda>process_id.
     case process_id of
       None \<Rightarrow> abind (terminate_spawned_child e ident) (\<lambda>_. afail LcMissingProcessId)
     | Some process_id \<Rightarrow>
         or_terminate e ident
           (abind (capture_local_runtime_state e process_id ident (lc_local_scope c)) (\<lambda>st.
            abind (store_local_runtime_state e (state_directory e c ident) st) (\<lambda>_.
            areturn process_id)))))))))"

definition lrepo :: "environment \<Rightarrow> (database, repository_error, 'a) action \<Rightarrow> 'a local_io" where
  "lrepo e m = amap_err LcRepository (repository e m)"

definition lclock :: "environment \<Rightarrow> timestamp local_io" where
  "lclock e = amap_err LcTimestamp (clock_now e)"

definition local_allocate ::
    "environment \<Rightarrow> server_instance \<Rightarrow> timestamp \<Rightarrow> (compute_instance \<times> bool) local_io" where
  "local_allocate e inst now =
     abind (lrepo e (query (get_active_for_instance (si_id inst)))) (\<lambda>active.
     case active of
       Some machine \<Rightarrow>
         if ci_provider machine = LocalProcess then areturn (machine, False) else afail LcWrongProvider
     | None \<Rightarrow>
         abind (new_connection_token e) (\<lambda>token.
         abind (ask (env_uuid e)) (\<lambda>ident.
         abind (lrepo e (create_for_instance ident (si_id inst) LocalProcess token None now)) (\<lambda>created.
         abind (alift (ok_or created LcCreateConflict)) (\<lambda>machine.
         areturn (machine, True))))))"

definition local_start :: "environment \<Rightarrow> local_config \<Rightarrow> compute_instance \<Rightarrow> bool \<Rightarrow> bool local_io" where
  "local_start e c machine changed =
     abind (process_is_running e c machine) (\<lambda>running.
     if running then areturn changed
     else
       abind (spawn_agent e c machine) (\<lambda>process_id.
       abind (lclock e) (\<lambda>spawned_at.
       or_terminate e (ci_id machine)
         (abind (lrepo e (transaction (record_process_id (ci_id machine) process_id spawned_at))) (\<lambda>recorded.
          if recorded then abind (children_insert (ci_id machine)) (\<lambda>_. areturn True)
          else afail LcMissingAfterUpdate)))))"

definition local_ensure_for_instance ::
    "environment \<Rightarrow> local_config \<Rightarrow> server_instance \<Rightarrow> timestamp \<Rightarrow> (compute_instance \<times> bool) local_io" where
  "local_ensure_for_instance e c inst now =
     abind (local_allocate e inst now) (\<lambda>(machine, changed).
     abind (local_start e c machine changed) (\<lambda>changed.
     abind (lrepo e (query (compute_get (ci_id machine)))) (\<lambda>stored.
     abind (alift (ok_or stored LcMissingAfterUpdate)) (\<lambda>machine.
     areturn (machine, changed)))))"

section \<open>Deletion\<close>

definition run_podman_control :: "environment \<Rightarrow> string list \<Rightarrow> command_output local_io" where
  "run_podman_control e arguments =
     abind (emit (PodmanCommand arguments)) (\<lambda>_.
     abind (ask (\<lambda>n. env_command e n arguments)) (\<lambda>r.
     case r of
       CommandTimedOut \<Rightarrow> afail LcControlCommandTimeout
     | CommandNotRun f \<Rightarrow> afail (LcIo f)
     | CommandDone out \<Rightarrow>
         if co_success out then areturn out
         else afail (LcPodmanCommandFailed (co_code out) (bounded_diagnostic (co_stderr out)))))"

definition remove_directory_command :: "string \<Rightarrow> string list" where
  "remove_directory_command path = [''unshare'', ''rm'', ''-rf'', ''--'', path]"

definition remove_container_command :: "string \<Rightarrow> string list" where
  "remove_container_command name = [''rm'', ''--force'', ''--ignore'', name]"

definition list_containers_command :: "local_config \<Rightarrow> string list" where
  "list_containers_command c =
     [''ps'', ''--all'', ''--filter'', ''label=io.mcserver.managed=true'', ''--filter'',
      ''label=io.mcserver.local-scope='' @ lc_local_scope c, ''--format'',
      ''{{.Names}}|{{.Label \"io.mcserver.server-instance-id\"}}|{{.Label \"io.mcserver.compute-instance-id\"}}'']"

definition remove_state_directory_in_user_namespace :: "environment \<Rightarrow> string \<Rightarrow> unit local_io" where
  "remove_state_directory_in_user_namespace e path =
     abind (run_podman_control e (remove_directory_command path)) (\<lambda>_. areturn ())"

definition local_delete :: "environment \<Rightarrow> local_config \<Rightarrow> compute_instance \<Rightarrow> bool local_io" where
  "local_delete e c machine = (let ident = ci_id machine in
     abind (lclock e) (\<lambda>shutdown_requested_at.
     abind (lrepo e (transaction (request_shutdown ident shutdown_requested_at))) (\<lambda>_.
     abind (request_node_shutdown e ident) (\<lambda>_.
     abind (children_remove ident) (\<lambda>tracked.
     abind (if tracked then wait_for_tracked_process_exit e ident
       else (case ci_process_id machine of
               None \<Rightarrow> areturn ()
             | Some process_id \<Rightarrow>
                 abind (load_local_runtime_state e (state_directory e c ident)) (\<lambda>st.
                 case st of
                   None \<Rightarrow> areturn ()
                 | Some st \<Rightarrow>
                     if owned_runtime_state c machine process_id st
                     then wait_for_untracked_process_exit e st else areturn ()))) (\<lambda>_.
     abind (remove_state_directory_in_user_namespace e (state_directory e c ident)) (\<lambda>_.
     abind (lclock e) (\<lambda>deleted_at.
     lrepo e (transaction (terminate ident ComputeDeleted None deleted_at))))))))))"

section \<open>Orphans\<close>

record orphan_reap_summary =
  containers_removed :: nat
  processes_stopped :: nat
  state_directories_removed :: nat

definition nth_or_empty :: "nat \<Rightarrow> string list \<Rightarrow> string" where
  "nth_or_empty n columns = (case nth_opt n columns of None \<Rightarrow> [] | Some s \<Rightarrow> s)"

text \<open>Whether a listed container belongs to an active runtime.\<close>

definition belongs_to_active_runtime :: "environment \<Rightarrow> (uuid \<times> uuid) list \<Rightarrow> string list \<Rightarrow> bool" where
  "belongs_to_active_runtime e active columns \<longleftrightarrow>
     length columns \<le> 3
   \<and> is_some_and (Option.bind (env_parse_uuid e (nth_or_empty 2 columns)) (map_of (rev active)))
       (\<lambda>expected. Some expected = env_parse_uuid e (nth_or_empty 1 columns))"

primrec reap_containers ::
    "environment \<Rightarrow> (uuid \<times> uuid) list \<Rightarrow> string list \<Rightarrow> nat \<Rightarrow> nat local_io" where
  "reap_containers e active [] removed = areturn removed"
| "reap_containers e active (line # rest) removed =
     (if is_blank line then reap_containers e active rest removed
      else let columns = split_on (CHR ''|'') line; name = str_trim (hd columns) in
        if name = [] \<or> belongs_to_active_runtime e active columns
        then reap_containers e active rest removed
        else
          abind (run_podman_control e (remove_container_command name)) (\<lambda>_.
          reap_containers e active rest (Suc removed)))"

definition stop_process_from_runtime_state ::
    "environment \<Rightarrow> local_config \<Rightarrow> string \<Rightarrow> uuid \<Rightarrow> bool local_io" where
  "stop_process_from_runtime_state e c directory compute_id =
     abind (load_local_runtime_state e directory) (\<lambda>st.
     case st of
       None \<Rightarrow> areturn False
     | Some st \<Rightarrow>
         if rt_compute_instance_id st \<noteq> compute_id \<or> rt_local_scope st \<noteq> lc_local_scope c
         then areturn False
         else
           abind (runtime_process_matches e st) (\<lambda>running.
           if \<not> running then areturn False
           else abind (wait_for_untracked_process_exit e st) (\<lambda>_. areturn True)))"

primrec reap_directories ::
    "environment \<Rightarrow> local_config \<Rightarrow> uuid list \<Rightarrow> directory_entry list \<Rightarrow> orphan_reap_summary
     \<Rightarrow> orphan_reap_summary local_io" where
  "reap_directories e c active [] summary = areturn summary"
| "reap_directories e c active (entry # rest) summary =
     (case entry of
        EntryUnreadable f \<Rightarrow> afail (LcIo f)
      | DirectoryEntry name is_dir \<Rightarrow>
          (case (if is_dir then Option.bind name (\<lambda>n. map_option (Pair n) (env_parse_uuid e n)) else None) of
             None \<Rightarrow> reap_directories e c active rest summary
           | Some (n, ident) \<Rightarrow>
               if ident \<in> set active then reap_directories e c active rest summary
               else
                 abind (stop_process_from_runtime_state e c (path_join (lc_node_agent_root c) n) ident) (\<lambda>stopped.
                 abind (remove_state_directory_in_user_namespace e (path_join (lc_node_agent_root c) n)) (\<lambda>_.
                 reap_directories e c active rest (summary\<lparr>
                   processes_stopped := (if stopped then Suc (processes_stopped summary)
                     else processes_stopped summary),
                   state_directories_removed := Suc (state_directories_removed summary) \<rparr>)))))"

definition local_reap_orphans ::
    "environment \<Rightarrow> local_config \<Rightarrow> (uuid \<times> uuid) list \<Rightarrow> orphan_reap_summary local_io" where
  "local_reap_orphans e c active =
     abind (run_podman_control e (list_containers_command c)) (\<lambda>out.
     if \<not> utf8_valid (map code (co_stdout out)) then afail LcInvalidPodmanOutputEncoding
     else
       abind (reap_containers e active (str_lines (co_stdout out)) 0) (\<lambda>removed.
       let summary = \<lparr> containers_removed = removed, processes_stopped = 0, state_directories_removed = 0 \<rparr> in
       abind (ask (env_directories e)) (\<lambda>r.
       case r of
         Inl IoNotFound \<Rightarrow> areturn summary
       | Inl f \<Rightarrow> afail (LcIo f)
       | Inr entries \<Rightarrow> reap_directories e c (map fst active) entries summary)))"

section \<open>What the operations send outside\<close>

fun provisioning :: "effect \<Rightarrow> bool" where
  "provisioning (AgentSpawned _ _) = True"
| "provisioning (RuntimeStateStored _ _) = True"
| "provisioning (ChildKilled _) = True"
| "provisioning _ = False"

fun local_delete_effect :: "environment \<Rightarrow> local_config \<Rightarrow> uuid \<Rightarrow> effect \<Rightarrow> bool" where
  "local_delete_effect e c ident (AgentCalled compute_id request) \<longleftrightarrow> compute_id = ident \<and> request = NodeShutdown"
| "local_delete_effect e c ident (ChildKilled compute_id) \<longleftrightarrow> compute_id = ident"
| "local_delete_effect e c ident (ProcessSignalled _ _) \<longleftrightarrow> True"
| "local_delete_effect e c ident (PodmanCommand arguments) \<longleftrightarrow>
     arguments = remove_directory_command (state_directory e c ident)"
| "local_delete_effect e c ident _ \<longleftrightarrow> False"

lemma acts_children [acts_intros]:
  "acts P (children_contains ident)" "acts P (children_remove ident)" "acts P (children_insert ident)"
  by (simp_all add: acts_def contained_quiet children_contains_def children_remove_def children_insert_def)

lemma acts_case_child_wait [acts_intros]:
  "acts P m \<Longrightarrow> (\<And>f. acts P (k f)) \<Longrightarrow> acts P n
   \<Longrightarrow> acts P (case r of WaitTimedOut \<Rightarrow> m | WaitFailed f \<Rightarrow> k f | WaitExited \<Rightarrow> n)"
  by (cases r) simp_all

lemma acts_case_command [acts_intros]:
  "acts P m \<Longrightarrow> (\<And>f. acts P (k f)) \<Longrightarrow> (\<And>out. acts P (n out))
   \<Longrightarrow> acts P (case r of CommandTimedOut \<Rightarrow> m | CommandNotRun f \<Rightarrow> k f | CommandDone out \<Rightarrow> n out)"
  by (cases r) simp_all

lemma acts_case_io_failure [acts_intros]:
  "acts P m \<Longrightarrow> acts P n \<Longrightarrow> acts P (case r of IoNotFound \<Rightarrow> m | IoOther \<Rightarrow> n)"
  by (cases r) simp_all

lemma acts_lift_failure [acts_intros]: "acts P (lift_failure r)"
  unfolding lift_failure_def by (intro acts_intros)

lemma acts_filesystem [acts_intros]: "acts P (filesystem e)"
  unfolding filesystem_def by (intro acts_intros)

lemma acts_read_linux_boot_id [acts_intros]: "acts P (read_linux_boot_id e)"
  unfolding read_linux_boot_id_def by (intro acts_intros)

lemma acts_read_linux_process_state [acts_intros]: "acts P (read_linux_process_state e pid)"
  unfolding read_linux_process_state_def by (intro acts_intros)

lemma acts_runtime_process_matches [acts_intros]: "acts P (runtime_process_matches e st)"
  unfolding runtime_process_matches_def by (intro acts_intros)

lemma acts_load_local_runtime_state [acts_intros]: "acts P (load_local_runtime_state e d)"
  unfolding load_local_runtime_state_def by (intro acts_intros)

lemma acts_store_local_runtime_state [acts_intros]:
  "P (RuntimeStateStored d st) \<Longrightarrow> acts P (store_local_runtime_state e d st)"
  unfolding store_local_runtime_state_def by (intro acts_intros)

lemma acts_capture_local_runtime_state [acts_intros]: "acts P (capture_local_runtime_state e pid ident scope)"
  unfolding capture_local_runtime_state_def by (intro acts_intros)

lemma acts_send_signal [acts_intros]: "P (ProcessSignalled pid signal) \<Longrightarrow> acts P (send_signal e pid signal)"
  unfolding send_signal_def by (intro acts_intros)

lemma acts_poll_gone [acts_intros]: "acts P (poll_gone e st n)"
  by (induction n) (simp_all add: acts_intros)

lemma acts_wait_for_untracked [acts_intros]:
  "P (ProcessSignalled (rt_process_id st) ''TERM'') \<Longrightarrow> P (ProcessSignalled (rt_process_id st) ''KILL'')
   \<Longrightarrow> acts P (wait_for_untracked_process_exit e st)"
  unfolding wait_for_untracked_process_exit_def by (intro acts_intros)

lemma acts_kill_child [acts_intros]:
  "P (ChildKilled ident) \<Longrightarrow> acts P (kill_child e ident)"
  "P (ChildKilled ident) \<Longrightarrow> acts P (wait_for_tracked_process_exit e ident)"
  "P (ChildKilled ident) \<Longrightarrow> acts P (terminate_spawned_child e ident)"
  unfolding kill_child_def wait_for_tracked_process_exit_def terminate_spawned_child_def
  by (intro acts_intros; assumption)+

lemma acts_or_terminate [acts_intros]:
  "P (ChildKilled ident) \<Longrightarrow> acts P m \<Longrightarrow> acts P (or_terminate e ident m)"
  unfolding or_terminate_def by (intro acts_intros)

lemma acts_process_is_running [acts_intros]: "acts P (process_is_running e c machine)"
  unfolding process_is_running_def by (intro acts_intros)

lemma acts_spawn_agent [acts_intros]: "acts provisioning (spawn_agent e c machine)"
  unfolding spawn_agent_def Let_def by (intro acts_intros) simp_all

lemma acts_lclock [acts_intros]: "acts P (lclock e)"
  unfolding lclock_def by (intro acts_intros)

lemma acts_lrepo [acts_intros]: "environment_ok e \<Longrightarrow> changes m \<Longrightarrow> acts P (lrepo e m)"
  unfolding lrepo_def by (intro acts_intros)

lemma acts_run_podman_control [acts_intros]:
  "P (PodmanCommand arguments) \<Longrightarrow> acts P (run_podman_control e arguments)"
  unfolding run_podman_control_def by (intro acts_intros)

lemma acts_remove_state_directory [acts_intros]:
  "P (PodmanCommand (remove_directory_command path)) \<Longrightarrow> acts P (remove_state_directory_in_user_namespace e path)"
  unfolding remove_state_directory_in_user_namespace_def by (intro acts_intros)

lemma acts_local_delete: "environment_ok e \<Longrightarrow> acts (local_delete_effect e c (ci_id machine)) (local_delete e c machine)"
  unfolding local_delete_def Let_def by (intro acts_intros) simp_all

lemma acts_local_allocate [acts_intros]:
  assumes "environment_ok e" "0 \<le> now"
  shows "acts P (local_allocate e inst now)"
  unfolding local_allocate_def
  by (intro acts_intros acts_bind_token assms) (simp_all add: assms token_text_ok)

lemma acts_local_start [acts_intros]:
  assumes "environment_ok e"
  shows "acts provisioning (local_start e c machine changed)"
  unfolding local_start_def by (intro acts_intros assms) simp_all

lemma acts_local_ensure:
  assumes "environment_ok e" "0 \<le> now"
  shows "acts provisioning (local_ensure_for_instance e c inst now)"
  unfolding local_ensure_for_instance_def by (intro acts_intros assms)

lemma triple_lrepo:
  "(\<And>db db' a. m db = (db', Inr a) \<Longrightarrow> N a db')
   \<Longrightarrow> triple (\<lambda>_. True) (lrepo e m) (\<lambda>a w. N a (w_db w)) (\<lambda>_ _. True)"
  unfolding lrepo_def by (intro triple_amap_err triple_repository)

lemma local_allocate_owns:
  "triple (\<lambda>_. True) (local_allocate e inst now)
     (\<lambda>(m, _) w. owns (ci_id m) (si_id inst) (w_db w)) (\<lambda>_ _. True)"
proof -
  have found: "triple (\<lambda>_. True) (lrepo e (query (get_active_for_instance (si_id inst))))
      (\<lambda>active w. \<forall>m. active = Some m \<longrightarrow> owns (ci_id m) (si_id inst) (w_db w)) (\<lambda>_ _. True)"
    by (rule triple_lrepo) (auto simp: query_def intro: get_active_for_instance_owns)
  have created: "triple (\<lambda>_. True) (lrepo e (create_for_instance ident (si_id inst) LocalProcess token None now))
      (\<lambda>created w. \<forall>m. created = Some m \<longrightarrow> owns (ci_id m) (si_id inst) (w_db w)) (\<lambda>_ _. True)"
    for ident token
    by (rule triple_lrepo) (auto intro: create_for_instance_owns)
  show ?thesis
    unfolding local_allocate_def
    by (intro triple_abind [OF found] triple_case_option triple_if triple_areturn triple_afail
        triple_abind [where R = "\<lambda>_ _. True", OF triple_true] triple_abind [OF created] triple_bind_alift)
       (auto simp: result_simps)
qed

lemma local_ensure_owns:
  assumes "environment_ok e"
  shows "triple (\<lambda>_. True) (local_ensure_for_instance e c inst now)
     (\<lambda>(m, _) w. owns (ci_id m) (si_id inst) (w_db w)) (\<lambda>_ _. True)"
  unfolding local_ensure_for_instance_def lrepo_def
proof (rule triple_abind [OF local_allocate_owns], rule triple_case_prod, hypsubst, unfold prod.case)
  fix machine changed
  show "triple (\<lambda>w. owns (ci_id machine) (si_id inst) (w_db w))
     (abind (local_start e c machine changed) (\<lambda>changed.
      abind (amap_err LcRepository (repository e (query (compute_get (ci_id machine))))) (\<lambda>stored.
      abind (alift (ok_or stored LcMissingAfterUpdate)) (\<lambda>machine.
      areturn (machine, changed)))))
     (\<lambda>(m, _) w. owns (ci_id m) (si_id inst) (w_db w)) (\<lambda>_ _. True)"
    by (intro triple_abind [OF triple_acts_owns [OF acts_local_start [OF assms]]]
        triple_abind [OF triple_amap_err [OF triple_reread [OF assms]]] triple_bind_alift triple_areturn)
       (auto simp: result_simps)
qed

section \<open>What reaping touches\<close>

definition container_name :: "string \<Rightarrow> string" where
  "container_name line = str_trim (hd (split_on (CHR ''|'') line))"

fun reap_effect :: "environment \<Rightarrow> local_config \<Rightarrow> (uuid \<times> uuid) list \<Rightarrow> effect \<Rightarrow> bool" where
  "reap_effect e c active (PodmanCommand arguments) \<longleftrightarrow>
     arguments = list_containers_command c
   \<or> (\<exists>line. arguments = remove_container_command (container_name line)
        \<and> \<not> belongs_to_active_runtime e active (split_on (CHR ''|'') line))
   \<or> (\<exists>name ident. env_parse_uuid e name = Some ident \<and> ident \<notin> fst ` set active
        \<and> arguments = remove_directory_command (path_join (lc_node_agent_root c) name))"
| "reap_effect e c active (ProcessSignalled process_id _) \<longleftrightarrow>
     (\<exists>n directory st. env_state_file e n directory = Inr (Some st) \<and> rt_process_id st = process_id
        \<and> rt_local_scope st = lc_local_scope c \<and> rt_compute_instance_id st \<notin> fst ` set active)"
| "reap_effect e c active _ \<longleftrightarrow> False"

lemma triple_load_local_runtime_state:
  "triple (\<lambda>_. True) (load_local_runtime_state e d)
     (\<lambda>st _. \<forall>s. st = Some s \<longrightarrow> (\<exists>n. env_state_file e n d = Inr (Some s))) (\<lambda>_ _. True)"
  by (rule tripleI)
     (auto simp: load_local_runtime_state_def action_defs ask_def
       split: sum.splits io_failure.splits option.splits if_splits)

lemmas acts_bind_load = acts_bind_fact [OF acts_load_local_runtime_state triple_load_local_runtime_state]

lemma acts_reap_containers:
  "acts (reap_effect e c active) (reap_containers e active listed removed)"
proof (induction listed arbitrary: removed)
  case (Cons line listed)
  have "\<not> belongs_to_active_runtime e active (split_on (CHR ''|'') line)
     \<Longrightarrow> reap_effect e c active (PodmanCommand (remove_container_command (str_trim (hd (split_on (CHR ''|'') line)))))"
    by (auto simp: container_name_def)
  then show ?case
    by (auto simp: Let_def intro!: acts_intros Cons.IH simp del: reap_effect.simps)
qed (simp add: acts_intros)

lemma acts_stop_process:
  assumes "ident \<notin> fst ` set active"
  shows "acts (reap_effect e c active) (stop_process_from_runtime_state e c d ident)"
  unfolding stop_process_from_runtime_state_def
  by (intro acts_bind_load acts_intros) (use assms in auto)

lemma acts_reap_directories:
  "acts (reap_effect e c active) (reap_directories e c (map fst active) entries summary)"
proof (induction entries arbitrary: summary)
  case (Cons entry entries)
  have *: "acts (reap_effect e c active)
     (abind (stop_process_from_runtime_state e c (path_join (lc_node_agent_root c) n) ident) (\<lambda>stopped.
      abind (remove_state_directory_in_user_namespace e (path_join (lc_node_agent_root c) n)) (\<lambda>_.
      reap_directories e c (map fst active) entries (f stopped))))"
    if "ident \<notin> fst ` set active" "env_parse_uuid e n = Some ident" for n ident f
    by (intro acts_intros acts_stop_process Cons.IH) (use that in auto)
  show ?case
  proof (cases entry)
    case (EntryUnreadable f)
    then show ?thesis by (simp add: acts_intros)
  next
    case (DirectoryEntry name is_dir)
    then show ?thesis
      by (cases name) (auto simp: Cons.IH split: option.split intro!: *)
  qed
qed (simp add: acts_intros)

lemma acts_local_reap_orphans:
  "acts (reap_effect e c active) (local_reap_orphans e c active)"
  unfolding local_reap_orphans_def Let_def
  by (intro acts_intros acts_reap_containers acts_reap_directories) simp

section \<open>Reaping spares what is active\<close>

lemma path_join_inj:
  "CHR ''/'' \<notin> set a \<Longrightarrow> CHR ''/'' \<notin> set b \<Longrightarrow> path_join base a = path_join base b \<Longrightarrow> a = b"
  by (auto simp: path_join_def starts_with_iff split: if_splits)


definition reap_env :: environment where
  "reap_env = example_env\<lparr>
     env_command := (\<lambda>_ arguments. CommandDone \<lparr> co_success = True, co_code = Some 0,
       co_stdout = (if hd arguments = ''ps'' then ''a|11|1'' @ [CHR 0x0A] @ ''b|12|2'' else []), co_stderr = [] \<rparr>),
     env_directories := (\<lambda>_. Inr [DirectoryEntry (Some ''1'') True, DirectoryEntry (Some ''2'') True]) \<rparr>"

definition reap_config :: local_config where
  "reap_config = \<lparr> lc_local_scope = ''s'', lc_node_agent_root = ''/r'', lc_control_plane_address = [],
     lc_command_timeout = 0, lc_max_frame_bytes = 0 \<rparr>"


end
