(* ===== verification/Akamai_Bootstrap.thy ===== *)
theory Akamai_Bootstrap
  imports Compute_Support Config
begin

text \<open>
  \<open>infrastructure/akamai_bootstrap.rs\<close>: the script a new machine runs at its
  first boot. Base64 and the JSON of the manifest are third-party encoders.
\<close>

datatype bootstrap_error =
    BootIo io_failure
  | FileTooLarge string nat
  | InvalidAuthorizedKeysEncoding
  | NoAuthorizedKeys
  | AuthorizedKeyContainsNul
  | CaContainsNul
  | MissingEnrollmentToken

record bootstrap_artifacts =
  ba_authorized_keys :: "string list"
  ba_user_data_base64 :: string

definition MAX_AUTHORIZED_KEYS_BYTES :: nat where
  "MAX_AUTHORIZED_KEYS_BYTES = 65536"

definition MAX_CA_BYTES :: nat where
  "MAX_CA_BYTES = 1048576"

definition quote :: char where
  "quote = CHR 0x27"

definition backslash :: char where
  "backslash = CHR 0x5C"

text \<open>A value in single quotes, with each quote inside it closed, escaped and reopened.\<close>

definition shell_escape :: "char \<Rightarrow> string" where
  "shell_escape c = (if c = quote then [quote, backslash, quote, quote] else [c])"

definition shell_value :: "string \<Rightarrow> string" where
  "shell_value value = quote # concat (map shell_escape value) @ [quote]"

definition read_bounded :: "environment \<Rightarrow> string \<Rightarrow> nat \<Rightarrow> (bootstrap_error, string) io" where
  "read_bounded e path maximum =
     abind (ask (\<lambda>n. env_file_size e n path)) (\<lambda>size.
     abind (alift (map_err BootIo size)) (\<lambda>size.
     if size > maximum then afail (FileTooLarge path maximum)
     else
       abind (ask (\<lambda>n. env_file e n path)) (\<lambda>contents.
       alift (map_err BootIo contents))))"

definition usable_keys :: "string \<Rightarrow> string list" where
  "usable_keys contents =
     filter (\<lambda>line. line \<noteq> [] \<and> \<not> starts_with ''#'' line) (map str_trim (str_lines contents))"

definition read_authorized_keys :: "environment \<Rightarrow> string \<Rightarrow> (bootstrap_error, string list) io" where
  "read_authorized_keys e path =
     abind (read_bounded e path MAX_AUTHORIZED_KEYS_BYTES) (\<lambda>bytes.
     if \<not> utf8_valid (map code bytes) then afail InvalidAuthorizedKeysEncoding
     else let keys = usable_keys bytes in
       if keys = [] then afail NoAuthorizedKeys
       else if list_ex contains_nul keys then afail AuthorizedKeyContainsNul
       else areturn keys)"

definition unlines :: "string list \<Rightarrow> string" where
  "unlines ls = concat (map (\<lambda>l. l @ [CHR 0x0A]) ls)"

definition quoted :: "string \<Rightarrow> string" where
  "quoted s = quote # s @ [quote]"

definition systemd_unit :: string where
  "systemd_unit = unlines
     [''[Unit]'',
      ''Description=Minecraft Server Management node agent'',
      ''Wants=network-online.target'',
      ''After=network-online.target'',
      [],
      ''[Service]'',
      ''Type=simple'',
      ''EnvironmentFile=/etc/mcserver/node-agent.env'',
      ''ExecStart=/usr/local/bin/mcserver-node-agent'',
      ''Restart=on-failure'',
      ''RestartSec=5s'',
      ''UMask=0077'',
      ''NoNewPrivileges=true'',
      ''PrivateTmp=true'',
      ''ProtectHome=true'',
      ''# Keep installed binaries and boot files read-only without restricting Podman state.'',
      ''ProtectSystem=true'',
      ''ProtectKernelTunables=false'',
      ''ProtectKernelModules=false'',
      ''RestrictSUIDSGID=false'',
      ''Delegate=yes'',
      ''TasksMax=infinity'',
      ''KillMode=mixed'',
      [],
      ''[Install]'',
      ''WantedBy=multi-user.target'']"

definition agent_env_file ::
    "environment \<Rightarrow> remote_agent_config \<Rightarrow> string \<Rightarrow> compute_instance \<Rightarrow> string \<Rightarrow> string list" where
  "agent_env_file e remote provider_scope machine enrollment_token =
     [''MCSERVER_NODE_AGENT_CONTROL_PLANE_ADDRESS='' @ shell_value (ra_public_address remote),
      ''MCSERVER_NODE_AGENT_TLS_CA_CERTIFICATE=/etc/mcserver/control-plane-ca.pem'',
      ''MCSERVER_NODE_AGENT_TLS_SERVER_NAME='' @ shell_value (ra_tls_server_name remote),
      ''MCSERVER_NODE_AGENT_COMPUTE_INSTANCE_ID='' @ env_uuid_text e (ci_id machine),
      ''MCSERVER_NODE_AGENT_CONNECTION_TOKEN='' @ shell_value enrollment_token,
      ''MCSERVER_NODE_AGENT_STATE_DIRECTORY=/var/lib/mcserver/node-agent'',
      ''MCSERVER_NODE_AGENT_LOCAL_SCOPE='' @ shell_value provider_scope,
      ''MCSERVER_NODE_AGENT_DATA_ACCESS_MODE=host'',
      ''MCSERVER_NODE_AGENT_MAX_FRAME_BYTES='' @ nat_to_string (ra_max_frame_bytes remote),
      ''MCSERVER_NODE_AGENT_COMMAND_TIMEOUT_SECONDS='' @ nat_to_string (as_secs (ra_node_operation_timeout remote))]"

definition bootstrap_script ::
    "environment \<Rightarrow> remote_agent_config \<Rightarrow> string \<Rightarrow> compute_instance \<Rightarrow> string \<Rightarrow> string \<Rightarrow> string \<Rightarrow> string" where
  "bootstrap_script e remote provider_scope machine enrollment_token manifest_base64 ca_base64 = unlines (
     [''#!/bin/sh'',
      ''set -eu'',
      ''umask 077'',
      ''# mcserver-bootstrap: '' @ manifest_base64,
      [],
      ''install_packages() {'',
      ''  if command -v dnf >/dev/null 2>&1; then'',
      ''    dnf -y install ca-certificates curl openssl podman restic'',
      ''  elif command -v apt-get >/dev/null 2>&1; then'',
      ''    export DEBIAN_FRONTEND=noninteractive'',
      ''    apt-get update'',
      ''    apt-get install -y ca-certificates curl openssl podman restic'',
      ''  else'',
      ''    echo '' @ quoted ''unsupported distribution: dnf or apt-get is required'' @ '' >&2'',
      ''    exit 1'',
      ''  fi'',
      ''}'',
      [],
      ''install_packages'',
      ''install -d -m 0700 /etc/mcserver /var/lib/mcserver/node-agent /var/lib/containers'',
      ''install -d -m 0755 /run/containers'',
      ''printf '' @ quoted ''%s'' @ '' '' @ quoted ca_base64 @ '' | base64 -d > /etc/mcserver/control-plane-ca.pem'',
      ''cat > /etc/mcserver/node-agent.env <<'' @ quoted ''MCSERVER_AGENT_ENV'']
     @ agent_env_file e remote provider_scope machine enrollment_token @
     [''MCSERVER_AGENT_ENV'',
      ''chmod 0600 /etc/mcserver/control-plane-ca.pem /etc/mcserver/node-agent.env'',
      [],
      ''curl --fail --location --proto '' @ quoted ''=https'' @ '' --tlsv1.2 '' @ [backslash],
      ''  --output /usr/local/bin/mcserver-node-agent.tmp '' @ shell_value (ra_node_agent_download_url remote),
      ''printf '' @ quoted (''%s  %s'' @ [backslash, CHR ''n'']) @ '' '' @ quoted (ra_node_agent_sha256 remote) @ '' ''
        @ quoted ''/usr/local/bin/mcserver-node-agent.tmp'' @ '' | sha256sum --check --strict'',
      ''install -m 0755 /usr/local/bin/mcserver-node-agent.tmp /usr/local/bin/mcserver-node-agent'',
      ''rm -f /usr/local/bin/mcserver-node-agent.tmp'',
      ''printf '' @ quoted ''%s'' @ '' '' @ quoted (env_base64 e systemd_unit)
        @ '' | base64 -d > /etc/systemd/system/mcserver-node-agent.service'',
      ''chmod 0644 /etc/systemd/system/mcserver-node-agent.service'',
      ''systemctl daemon-reload'',
      ''systemctl enable --now mcserver-node-agent.service''])"

definition build_bootstrap ::
    "environment \<Rightarrow> remote_agent_config \<Rightarrow> string \<Rightarrow> string \<Rightarrow> server_instance \<Rightarrow> compute_instance
     \<Rightarrow> (bootstrap_error, bootstrap_artifacts) io" where
  "build_bootstrap e remote authorized_keys_file provider_scope inst machine =
     abind (read_authorized_keys e authorized_keys_file) (\<lambda>authorized_keys.
     abind (read_bounded e (ra_tls_ca_certificate remote) MAX_CA_BYTES) (\<lambda>ca.
     if contains_nul ca then afail CaContainsNul
     else
       abind (alift (ok_or (ci_enrollment_token machine) MissingEnrollmentToken)) (\<lambda>enrollment_token.
       let manifest = \<lparr> bm_schema_version = 2, bm_compute_instance_id = env_uuid_text e (ci_id machine),
             bm_server_instance_id = env_uuid_text e (si_id inst), bm_enrollment_token = enrollment_token,
             bm_control_plane_address = ra_public_address remote,
             bm_tls_server_name = ra_tls_server_name remote, bm_provider_scope = provider_scope \<rparr>;
           script = bootstrap_script e remote provider_scope machine enrollment_token
             (env_base64 e (env_manifest_json e manifest)) (env_base64 e ca) in
       areturn \<lparr> ba_authorized_keys = authorized_keys, ba_user_data_base64 = env_base64 e script \<rparr>)))"

section \<open>Quoting\<close>

text \<open>
  How a POSIX shell reads a word: inside single quotes every character is
  itself, outside them a backslash makes the next character itself.
\<close>

fun shell_word :: "bool \<Rightarrow> string \<Rightarrow> string option" where
  "shell_word quoting [] = (if quoting then None else Some [])"
| "shell_word True (c # s) = (if c = quote then shell_word False s else map_option (Cons c) (shell_word True s))"
| "shell_word False (c # s) =
     (if c = quote then shell_word True s
      else if c = backslash then (case s of [] \<Rightarrow> None | d # t \<Rightarrow> map_option (Cons d) (shell_word False t))
      else if c \<in> {CHR '' '', CHR 0x09, CHR 0x0A, CHR '';'', CHR ''&'', CHR ''|'', CHR ''$'', CHR ''`'', CHR 0x22,
                   CHR ''<'', CHR ''>'', CHR ''('', CHR '')''} then None
      else map_option (Cons c) (shell_word False s))"

lemma shell_word_escaped: "shell_word True (concat (map shell_escape v) @ rest) = map_option ((@) v) (shell_word True rest)"
  by (induction v) (auto simp: shell_escape_def quote_def backslash_def option.map_comp option.map_ident comp_def)

text \<open>
  C28. Quoting is exact: a shell reads the quoted form of any value as the one
  word that is the value.
\<close>

theorem shell_value_roundtrip: "shell_word False (shell_value v) = Some v"
  using shell_word_escaped [of v "[quote]"] by (simp add: shell_value_def)

lemma acts_read_bounded [acts_intros]: "acts P (read_bounded e path maximum)"
  unfolding read_bounded_def by (intro acts_intros)

lemma acts_build_bootstrap [acts_intros]: "acts P (build_bootstrap e remote keys scope inst machine)"
  unfolding build_bootstrap_def read_authorized_keys_def Let_def by (intro acts_intros)

end
