(* ===== verification/Akamai_Compute.thy ===== *)
theory Akamai_Compute
  imports Akamai_Bootstrap
begin

text \<open>
  \<open>infrastructure/akamai_compute.rs\<close>: machines rented from the provider. The
  client's calls go through the environment's API answers; the manager
  checks the provider's answers before it acts on them.
\<close>

record configuration_mismatch =
  cm_provider_instance_id :: u64
  cm_expected_region :: string
  cm_observed_region :: string
  cm_expected_type :: string
  cm_observed_type :: string
  cm_expected_image :: string
  cm_observed_image :: string

datatype akamai_error =
    AkWrongProvider
  | LiveOperationsDisabled
  | RegionNotAllowed string
  | ImageNotAllowed string
  | InstanceTypeNotAllowed string
  | FirewallNotAllowed u64
  | ActiveInstanceLimitReached nat nat
  | ActiveInstanceLimitExceeded nat nat
  | AkCreateConflict
  | AkMissingAfterUpdate
  | ProviderInstanceLost uuid
  | InvalidProviderId
  | DuplicateProviderLabel string
  | ProviderOwnershipMismatch u64 string
  | ProviderConfigurationMismatch configuration_mismatch
  | DiskEncryptionEnabled u64
  | InstanceTypeIdentityMismatch string string
  | FirewallIdentityMismatch u64 u64
  | FirewallDisabled u64 string
  | RequiredFirewallMissing u64 u64
  | ImageIdentityMismatch string string
  | ImageUnavailable string string
  | ImageDeprecated string
  | ImageMissingCloudInit string
  | RegionIdentityMismatch string string
  | RegionMissingMetadata string
  | AkHttp
  | AkApi nat string
  | RateLimited "duration option" string
  | AkBootstrap bootstrap_error
  | AkRepository repository_error
  | AkTimestamp timestamp_error

type_synonym 'a akamai_io = "(akamai_error, 'a) io"

record akamai_manager =
  am_config :: akamai_config
  am_remote :: remote_agent_config

definition MANAGED_TAG :: string where
  "MANAGED_TAG = ''mcserver-managed''"

definition MAX_API_ERROR_BODY_BYTES :: nat where
  "MAX_API_ERROR_BODY_BYTES = 65536"

fun akamai_retry_after :: "akamai_error \<Rightarrow> duration option" where
  "akamai_retry_after (RateLimited retry_after _) = retry_after"
| "akamai_retry_after _ = None"

section \<open>The API client\<close>

definition call_api :: "environment \<Rightarrow> api_request \<Rightarrow> api_response akamai_io" where
  "call_api e request =
     abind (ask (\<lambda>n. env_api e n request)) (\<lambda>r.
     alift (map_err (\<lambda>_. AkHttp) r))"

text \<open>An error body is read chunk by chunk up to the limit.\<close>

fun bounded_body :: "string \<Rightarrow> string list \<Rightarrow> bool \<Rightarrow> akamai_error + string" where
  "bounded_body acc [] fails =
     (if length acc < MAX_API_ERROR_BODY_BYTES \<and> fails then Inl AkHttp else Inr acc)"
| "bounded_body acc (chunk # rest) fails =
     (if length acc < MAX_API_ERROR_BODY_BYTES
      then bounded_body (acc @ take (MAX_API_ERROR_BODY_BYTES - length acc) chunk) rest fails
      else Inr acc)"

definition describe_api_error :: "string option \<times> string \<Rightarrow> string" where
  "describe_api_error = (\<lambda>(field, reason). case field of Some f \<Rightarrow> f @ '': '' @ reason | None \<Rightarrow> reason)"

definition api_error_message :: "environment \<Rightarrow> string \<Rightarrow> string" where
  "api_error_message e bounded =
     (case env_api_errors e bounded of
        Some errors \<Rightarrow> join_with ''; '' (map describe_api_error errors)
      | None \<Rightarrow> from_utf8_lossy bounded)"

definition checked_response :: "environment \<Rightarrow> api_response \<Rightarrow> akamai_error + api_response" where
  "checked_response e response =
     (if 200 \<le> status response \<and> status response < 300 then Inr response
      else
        let retry_after = map_option (\<lambda>v. from_secs (unat v)) (Option.bind (retry_after_header response) parse_u64) in
        rbind (bounded_body [] (error_chunks response) (chunk_failure response)) (\<lambda>bounded.
        let errors = api_error_message e bounded in
        if status response = 429 then Inl (RateLimited retry_after errors)
        else Inl (AkApi (status response) errors)))"

definition checked_call :: "environment \<Rightarrow> api_request \<Rightarrow> api_response akamai_io" where
  "checked_call e request = abind (call_api e request) (\<lambda>r. alift (checked_response e r))"

fun body_instances :: "api_body \<Rightarrow> akamai_error + (provider_instance list \<times> u64)" where
  "body_instances (BodyInstances items pages) = Inr (items, case pages of None \<Rightarrow> 1 | Some p \<Rightarrow> p)"
| "body_instances _ = Inl AkHttp"

fun body_instance :: "api_body \<Rightarrow> akamai_error + provider_instance" where
  "body_instance (BodyInstance i) = Inr i"
| "body_instance _ = Inl AkHttp"

fun body_image :: "api_body \<Rightarrow> akamai_error + provider_image" where
  "body_image (BodyImage i) = Inr i"
| "body_image _ = Inl AkHttp"

fun body_region :: "api_body \<Rightarrow> akamai_error + provider_region" where
  "body_region (BodyRegion r) = Inr r"
| "body_region _ = Inl AkHttp"

fun body_type :: "api_body \<Rightarrow> akamai_error + string" where
  "body_type (BodyType t) = Inr t"
| "body_type _ = Inl AkHttp"

fun body_firewall :: "api_body \<Rightarrow> akamai_error + provider_firewall" where
  "body_firewall (BodyFirewall f) = Inr f"
| "body_firewall _ = Inl AkHttp"

fun body_firewalls :: "api_body \<Rightarrow> akamai_error + provider_firewall list" where
  "body_firewalls (BodyFirewalls fs) = Inr fs"
| "body_firewalls _ = Inl AkHttp"

definition fetch :: "environment \<Rightarrow> api_request \<Rightarrow> (api_body \<Rightarrow> akamai_error + 'a) \<Rightarrow> 'a akamai_io" where
  "fetch e request decode = abind (checked_call e request) (\<lambda>r. alift (decode (body r)))"

lemma next_page_less: "\<not> max pages 1 \<le> page \<Longrightarrow> unat (page + 1) = Suc (unat page)" for page :: u64
proof -
  assume "\<not> max pages 1 \<le> page"
  then have "page < max pages 1" by (simp only: not_le)
  then have "unat page < unat (max pages 1)" by (rule word_less_nat_alt [THEN iffD1])
  moreover have "unat (max pages 1) < 2 ^ LENGTH(64)" by (rule unsigned_less)
  ultimately have "unat page + unat (1 :: u64) < 2 ^ LENGTH(64)" by simp
  then show ?thesis by (simp add: unat_add_lem [THEN iffD1])
qed

text \<open>The pages of a listing, from the given one to the last the provider names.\<close>

function list_pages ::
    "environment \<Rightarrow> list_filter \<Rightarrow> (provider_instance \<Rightarrow> bool) \<Rightarrow> u64 \<Rightarrow> provider_instance list
     \<Rightarrow> provider_instance list akamai_io" where
  "list_pages e flt keep page acc =
     abind (fetch e (ListInstances flt page) body_instances) (\<lambda>(items, pages).
     let acc = acc @ filter keep items in
     if max pages 1 \<le> page then areturn acc
     else list_pages e flt keep (page + 1) acc)"
  by auto

termination
proof (relation "measure (\<lambda>(_, _, _, page, _). 2 ^ 64 - unat page)", goal_cases)
  case (2 e flt keep page acc pages)
  moreover have "unat page < 2 ^ LENGTH(64)" by (rule unsigned_less)
  ultimately show ?case using next_page_less by auto
qed simp

declare list_pages.simps [simp del]

definition scope_tag_of :: "string \<Rightarrow> string" where
  "scope_tag_of scope = ''mcserver-scope-'' @ scope"

definition list_managed_instances :: "environment \<Rightarrow> string \<Rightarrow> provider_instance list akamai_io" where
  "list_managed_instances e scope =
     list_pages e (FilterTagContains MANAGED_TAG)
       (\<lambda>i. MANAGED_TAG \<in> set (pi_tags i) \<and> scope_tag_of scope \<in> set (pi_tags i)) 1 []"

definition find_instance_by_label :: "environment \<Rightarrow> string \<Rightarrow> provider_instance option akamai_io" where
  "find_instance_by_label e label =
     abind (list_pages e (FilterLabel label) (\<lambda>i. pi_label i = label) 1 []) (\<lambda>instances.
     case instances of
       [] \<Rightarrow> areturn None
     | [i] \<Rightarrow> areturn (Some i)
     | _ \<Rightarrow> afail (DuplicateProviderLabel label))"

definition create_instance :: "environment \<Rightarrow> uuid \<Rightarrow> create_instance_request \<Rightarrow> provider_instance akamai_io" where
  "create_instance e compute_id request =
     abind (emit (ProviderInstanceCreated compute_id request)) (\<lambda>_.
     fetch e (PostInstance request) body_instance)"

definition get_image :: "environment \<Rightarrow> string \<Rightarrow> provider_image akamai_io" where
  "get_image e image_id = fetch e (GetImage image_id) body_image"

definition get_region :: "environment \<Rightarrow> string \<Rightarrow> provider_region akamai_io" where
  "get_region e region_id = fetch e (GetRegion region_id) body_region"

definition get_instance :: "environment \<Rightarrow> u64 \<Rightarrow> provider_instance option akamai_io" where
  "get_instance e ident =
     abind (call_api e (GetInstance ident)) (\<lambda>r.
     if status r = 404 then areturn None
     else abind (alift (checked_response e r)) (\<lambda>r.
       alift (rbind (body_instance (body r)) (\<lambda>i. Inr (Some i)))))"

definition delete_instance :: "environment \<Rightarrow> uuid option \<Rightarrow> u64 \<Rightarrow> unit akamai_io" where
  "delete_instance e compute_id ident =
     abind (emit (ProviderInstanceDeleted compute_id ident)) (\<lambda>_.
     abind (call_api e (DeleteInstance ident)) (\<lambda>r.
     if status r = 404 then areturn ()
     else abind (alift (checked_response e r)) (\<lambda>_. areturn ())))"

definition verify_bootstrap_compatibility :: "environment \<Rightarrow> string \<Rightarrow> string \<Rightarrow> unit akamai_io" where
  "verify_bootstrap_compatibility e image_id region_id =
     abind (get_image e image_id) (\<lambda>img.
     if im_id img \<noteq> image_id then afail (ImageIdentityMismatch image_id (im_id img))
     else if im_status img \<noteq> ''available'' then afail (ImageUnavailable image_id (im_status img))
     else if im_deprecated img then afail (ImageDeprecated image_id)
     else if ''cloud-init'' \<notin> set (im_capabilities img) then afail (ImageMissingCloudInit image_id)
     else
       abind (get_region e region_id) (\<lambda>region.
       if rg_id region \<noteq> region_id then afail (RegionIdentityMismatch region_id (rg_id region))
       else if ''Metadata'' \<notin> set (rg_capabilities region) then afail (RegionMissingMetadata region_id)
       else areturn ()))"

definition verify_instance_type :: "environment \<Rightarrow> string \<Rightarrow> unit akamai_io" where
  "verify_instance_type e type_id =
     abind (fetch e (GetType type_id) body_type) (\<lambda>observed.
     if observed \<noteq> type_id then afail (InstanceTypeIdentityMismatch type_id observed) else areturn ())"

definition verify_firewall :: "environment \<Rightarrow> u64 \<Rightarrow> unit akamai_io" where
  "verify_firewall e firewall_id =
     abind (fetch e (GetFirewall firewall_id) body_firewall) (\<lambda>firewall.
     if fw_id firewall \<noteq> firewall_id then afail (FirewallIdentityMismatch firewall_id (fw_id firewall))
     else if fw_status firewall \<noteq> ''enabled'' then afail (FirewallDisabled firewall_id (fw_status firewall))
     else areturn ())"

definition verify_instance_firewall :: "environment \<Rightarrow> u64 \<Rightarrow> u64 \<Rightarrow> unit akamai_io" where
  "verify_instance_firewall e provider_instance_id firewall_id =
     abind (fetch e (ListInstanceFirewalls provider_instance_id) body_firewalls) (\<lambda>firewalls.
     case find (\<lambda>f. fw_id f = firewall_id) firewalls of
       None \<Rightarrow> afail (RequiredFirewallMissing provider_instance_id firewall_id)
     | Some firewall \<Rightarrow>
         if fw_status firewall \<noteq> ''enabled'' then afail (FirewallDisabled firewall_id (fw_status firewall))
         else areturn ())"

section \<open>Provider instances\<close>

definition provider_label :: "environment \<Rightarrow> uuid \<Rightarrow> string" where
  "provider_label e compute_id = ''mcserver-'' @ env_uuid_text e compute_id"

definition scope_tag :: "akamai_manager \<Rightarrow> string" where
  "scope_tag m = scope_tag_of (ak_scope (am_config m))"

definition is_owned_by :: "provider_instance \<Rightarrow> string \<Rightarrow> string \<Rightarrow> bool" where
  "is_owned_by i expected_label tag \<longleftrightarrow>
     pi_label i = expected_label \<and> MANAGED_TAG \<in> set (pi_tags i) \<and> tag \<in> set (pi_tags i)"

definition verify_configuration :: "provider_instance \<Rightarrow> string \<Rightarrow> string \<Rightarrow> string \<Rightarrow> akamai_error + unit" where
  "verify_configuration i region instance_type img =
     (if pi_region i \<noteq> region \<or> pi_instance_type i \<noteq> instance_type \<or> pi_image i \<noteq> img
      then Inl (ProviderConfigurationMismatch
        \<lparr> cm_provider_instance_id = pi_id i, cm_expected_region = region, cm_observed_region = pi_region i,
          cm_expected_type = instance_type, cm_observed_type = pi_instance_type i,
          cm_expected_image = img, cm_observed_image = pi_image i \<rparr>)
      else if pi_disk_encryption i \<noteq> EncryptionDisabled then Inl (DiskEncryptionEnabled (pi_id i))
      else Inr ())"

fun find_public :: "string list \<Rightarrow> string option" where
  "find_public [] = None"
| "find_public (address # rest) =
     (case parse_ipv4 address of
        Some octets \<Rightarrow>
          if \<not> ipv4_is_private octets \<and> \<not> ipv4_is_loopback octets
          then Some (ipv4_to_string octets) else find_public rest
      | None \<Rightarrow> find_public rest)"

definition provider_public_ipv4 :: "provider_instance \<Rightarrow> string option" where
  "provider_public_ipv4 i = find_public (pi_ipv4 i)"

section \<open>The manager\<close>

definition as_millis :: "duration \<Rightarrow> int" where
  "as_millis d = int (d div 1000000)"

definition saturating_sub_i64 :: "int \<Rightarrow> int \<Rightarrow> int" where
  "saturating_sub_i64 a b = max (- 9223372036854775808) (min i64_max (a - b))"

definition akamai_lifetime_exceeded :: "akamai_manager \<Rightarrow> compute_instance \<Rightarrow> timestamp \<Rightarrow> bool" where
  "akamai_lifetime_exceeded m machine now \<longleftrightarrow>
     ci_provider machine = Akamai
   \<and> min i64_max (as_millis (ak_max_instance_lifetime (am_config m))) \<le> saturating_sub_i64 now (ci_created_at machine)"

definition require_live_operations_enabled :: "akamai_manager \<Rightarrow> akamai_error + unit" where
  "require_live_operations_enabled m = ensure (mutations_enabled (am_config m)) LiveOperationsDisabled"

definition validate_spec :: "akamai_manager \<Rightarrow> string \<Rightarrow> string \<Rightarrow> string \<Rightarrow> u64 \<Rightarrow> akamai_error + unit" where
  "validate_spec m region instance_type img firewall_id =
     rbind (ensure (allows_region (am_config m) region) (RegionNotAllowed region)) (\<lambda>_.
     rbind (ensure (allows_image (am_config m) img) (ImageNotAllowed img)) (\<lambda>_.
     rbind (ensure (allows_instance_type (am_config m) instance_type) (InstanceTypeNotAllowed instance_type)) (\<lambda>_.
     ensure (allows_firewall (am_config m) firewall_id) (FirewallNotAllowed firewall_id))))"

primrec each :: "('a \<Rightarrow> unit akamai_io) \<Rightarrow> 'a list \<Rightarrow> unit akamai_io" where
  "each f [] = areturn ()"
| "each f (x # xs) = abind (f x) (\<lambda>_. each f xs)"

definition preflight :: "environment \<Rightarrow> akamai_manager \<Rightarrow> nat akamai_io" where
  "preflight e m = (let c = am_config m in
     abind (each (\<lambda>region. each (\<lambda>img. verify_bootstrap_compatibility e img region) (ak_allowed_images c))
        (ak_allowed_regions c)) (\<lambda>_.
     abind (each (verify_instance_type e) (ak_allowed_instance_types c)) (\<lambda>_.
     abind (each (verify_firewall e) (ak_allowed_firewall_ids c)) (\<lambda>_.
     abind (list_managed_instances e (ak_scope c)) (\<lambda>managed.
     if length managed > ak_max_active_instances c
     then afail (ActiveInstanceLimitExceeded (length managed) (ak_max_active_instances c))
     else areturn (length managed))))))"

definition verify_provider_configuration ::
    "environment \<Rightarrow> provider_instance \<Rightarrow> string \<Rightarrow> string \<Rightarrow> string \<Rightarrow> u64 \<Rightarrow> unit akamai_io" where
  "verify_provider_configuration e i region instance_type img firewall_id =
     abind (alift (verify_configuration i region instance_type img)) (\<lambda>_.
     verify_instance_firewall e (pi_id i) firewall_id)"

record provisioning_request =
  pr_label :: string
  pr_region :: string
  pr_instance_type :: string
  pr_image :: string
  pr_firewall_id :: u64
  pr_instance :: server_instance
  pr_compute :: compute_instance
  pr_allow_create :: bool

definition creation_request :: "akamai_manager \<Rightarrow> provisioning_request \<Rightarrow> bootstrap_artifacts \<Rightarrow> create_instance_request" where
  "creation_request m r bootstrap =
     \<lparr> cr_region = pr_region r, cr_instance_type = pr_instance_type r, cr_image = pr_image r,
       cr_label = pr_label r, cr_booted = True, cr_authorized_keys = ba_authorized_keys bootstrap,
       cr_tags = [MANAGED_TAG, scope_tag m], cr_firewall_id = pr_firewall_id r,
       cr_disk_encryption = EncryptionDisabled, cr_user_data = ba_user_data_base64 bootstrap \<rparr>"

definition provision_instance :: "environment \<Rightarrow> akamai_manager \<Rightarrow> provisioning_request \<Rightarrow> provider_instance akamai_io" where
  "provision_instance e m r = (let c = am_config m in
     if \<not> pr_allow_create r then afail (ProviderInstanceLost (si_id (pr_instance r)))
     else
       abind (alift (require_live_operations_enabled m)) (\<lambda>_.
       abind (verify_bootstrap_compatibility e (pr_image r) (pr_region r)) (\<lambda>_.
       abind (verify_instance_type e (pr_instance_type r)) (\<lambda>_.
       abind (verify_firewall e (pr_firewall_id r)) (\<lambda>_.
       abind (list_managed_instances e (ak_scope c)) (\<lambda>managed.
       if ak_max_active_instances c \<le> length managed
       then afail (ActiveInstanceLimitReached (length managed) (ak_max_active_instances c))
       else
         abind (amap_err AkBootstrap (build_bootstrap e (am_remote m) (ak_authorized_keys_file c) (ak_scope c)
            (pr_instance r) (pr_compute r))) (\<lambda>bootstrap.
         abind (create_instance e (ci_id (pr_compute r)) (creation_request m r bootstrap)) (\<lambda>created.
         abind (verify_provider_configuration e created (pr_region r) (pr_instance_type r) (pr_image r)
            (pr_firewall_id r)) (\<lambda>_.
         areturn created)))))))))"

definition find_or_create_instance ::
    "environment \<Rightarrow> akamai_manager \<Rightarrow> provisioning_request \<Rightarrow> provider_instance akamai_io" where
  "find_or_create_instance e m r =
     abind (find_instance_by_label e (pr_label r)) (\<lambda>existing.
     case existing of
       Some i \<Rightarrow>
         if \<not> is_owned_by i (pr_label r) (scope_tag m)
         then afail (ProviderOwnershipMismatch (pi_id i) (pr_label r))
         else
           abind (verify_provider_configuration e i (pr_region r) (pr_instance_type r) (pr_image r)
              (pr_firewall_id r)) (\<lambda>_.
           areturn i)
     | None \<Rightarrow> provision_instance e m r)"

definition arepo :: "environment \<Rightarrow> (database, repository_error, 'a) action \<Rightarrow> 'a akamai_io" where
  "arepo e m = amap_err AkRepository (repository e m)"

definition aclock :: "environment \<Rightarrow> timestamp akamai_io" where
  "aclock e = amap_err AkTimestamp (clock_now e)"

definition akamai_allocate ::
    "environment \<Rightarrow> akamai_manager \<Rightarrow> server_instance \<Rightarrow> timestamp \<Rightarrow> (compute_instance \<times> bool) akamai_io" where
  "akamai_allocate e m inst now =
     abind (arepo e (query (get_active_for_instance (si_id inst)))) (\<lambda>active.
     case active of
       Some machine \<Rightarrow> if ci_provider machine = Akamai then areturn (machine, False) else afail AkWrongProvider
     | None \<Rightarrow>
         abind (alift (require_live_operations_enabled m)) (\<lambda>_.
         abind (new_connection_token e) (\<lambda>connection_token.
         abind (new_connection_token e) (\<lambda>enrollment_token.
         abind (ask (env_uuid e)) (\<lambda>ident.
         abind (arepo e (create_for_instance ident (si_id inst) Akamai connection_token (Some enrollment_token) now)) (\<lambda>created.
         abind (alift (ok_or created AkCreateConflict)) (\<lambda>machine.
         areturn (machine, True))))))))"

definition locate_instance ::
    "environment \<Rightarrow> akamai_manager \<Rightarrow> provisioning_request \<Rightarrow> provider_instance akamai_io" where
  "locate_instance e m r =
     (case ci_provider_instance_id (pr_compute r) of
        Some provider_id \<Rightarrow>
          abind (alift (ok_or (parse_u64 provider_id) InvalidProviderId)) (\<lambda>provider_id.
          abind (get_instance e provider_id) (\<lambda>found.
          case found of
            Some i \<Rightarrow>
              if is_owned_by i (pr_label r) (scope_tag m)
              then
                abind (verify_provider_configuration e i (pr_region r) (pr_instance_type r) (pr_image r)
                   (pr_firewall_id r)) (\<lambda>_.
                areturn i)
              else afail (ProviderOwnershipMismatch (pi_id i) (pr_label r))
          | None \<Rightarrow> find_or_create_instance e m r))
      | None \<Rightarrow> find_or_create_instance e m r)"

definition record_location ::
    "environment \<Rightarrow> compute_instance \<Rightarrow> provider_instance \<Rightarrow> bool \<Rightarrow> bool akamai_io" where
  "record_location e machine provider changed =
     (let provider_id = u64_to_string (pi_id provider); address = provider_public_ipv4 provider in
      if ci_provider_instance_id machine \<noteq> Some provider_id \<or> ci_public_ipv4 machine \<noteq> address
      then
        abind (aclock e) (\<lambda>observed_at.
        abind (arepo e (transaction (record_provider_instance (ci_id machine) provider_id address observed_at))) (\<lambda>recorded.
        if recorded then areturn True else afail AkMissingAfterUpdate))
      else areturn changed)"

definition akamai_ensure_for_instance ::
    "environment \<Rightarrow> akamai_manager \<Rightarrow> server_instance \<Rightarrow> timestamp \<Rightarrow> (compute_instance \<times> bool) akamai_io" where
  "akamai_ensure_for_instance e m inst now =
     (case compute (si_resolved_spec inst) of
        ComputeLocal \<Rightarrow> afail AkWrongProvider
      | ComputeAkamai region instance_type img firewall_id \<Rightarrow>
          abind (alift (validate_spec m region instance_type img firewall_id)) (\<lambda>_.
          abind (akamai_allocate e m inst now) (\<lambda>(machine, changed).
          abind (locate_instance e m \<lparr> pr_label = provider_label e (ci_id machine), pr_region = region,
             pr_instance_type = instance_type, pr_image = img, pr_firewall_id = firewall_id,
             pr_instance = inst, pr_compute = machine, pr_allow_create = (si_data_prepared_at inst = None) \<rparr>) (\<lambda>provider.
          abind (record_location e machine provider changed) (\<lambda>changed.
          abind (arepo e (query (compute_get (ci_id machine)))) (\<lambda>stored.
          abind (alift (ok_or stored AkMissingAfterUpdate)) (\<lambda>machine.
          areturn (machine, changed))))))))"

definition owned_provider_id ::
    "environment \<Rightarrow> akamai_manager \<Rightarrow> compute_instance \<Rightarrow> u64 option akamai_io" where
  "owned_provider_id e m machine = (let label = provider_label e (ci_id machine) in
     (case ci_provider_instance_id machine of
        Some text \<Rightarrow>
          abind (alift (ok_or (parse_u64 text) InvalidProviderId)) (\<lambda>provider_id.
          abind (get_instance e provider_id) (\<lambda>found.
          case found of
            Some i \<Rightarrow>
              if is_owned_by i label (scope_tag m) then areturn (Some provider_id)
              else afail (ProviderOwnershipMismatch (pi_id i) label)
          | None \<Rightarrow> areturn None))
      | None \<Rightarrow>
          abind (find_instance_by_label e label) (\<lambda>found.
          case found of
            Some i \<Rightarrow>
              if is_owned_by i label (scope_tag m) then areturn (Some (pi_id i))
              else afail (ProviderOwnershipMismatch (pi_id i) label)
          | None \<Rightarrow> areturn None)))"

definition akamai_delete :: "environment \<Rightarrow> akamai_manager \<Rightarrow> compute_instance \<Rightarrow> bool akamai_io" where
  "akamai_delete e m machine =
     (if ci_provider machine \<noteq> Akamai then afail AkWrongProvider
      else
        abind (aclock e) (\<lambda>now.
        abind (arepo e (transaction (request_shutdown (ci_id machine) now))) (\<lambda>_.
        abind (request_node_shutdown e (ci_id machine)) (\<lambda>_.
        abind (owned_provider_id e m machine) (\<lambda>provider_id.
        abind (case provider_id of
            None \<Rightarrow> areturn ()
          | Some provider_id \<Rightarrow> delete_instance e (Some (ci_id machine)) provider_id) (\<lambda>_.
        abind (aclock e) (\<lambda>deleted_at.
        arepo e (transaction (terminate (ci_id machine) ComputeDeleted None deleted_at)))))))))"

record akamai_reap_summary =
  instances_adopted :: nat
  instances_deleted :: nat

definition reaped_label :: "environment \<Rightarrow> provider_instance \<Rightarrow> uuid option" where
  "reaped_label e i = Option.bind (strip_prefix ''mcserver-'' (pi_label i)) (env_parse_uuid e)"

definition keeps_provider_instance :: "provider_instance \<Rightarrow> compute_instance \<Rightarrow> bool" where
  "keeps_provider_instance i machine \<longleftrightarrow>
     (case ci_provider_instance_id machine of None \<Rightarrow> True | Some text \<Rightarrow> parse_u64 text = Some (pi_id i))"

primrec reap_instances ::
    "environment \<Rightarrow> compute_instance list \<Rightarrow> provider_instance list \<Rightarrow> akamai_reap_summary
     \<Rightarrow> akamai_reap_summary akamai_io" where
  "reap_instances e active [] summary = areturn summary"
| "reap_instances e active (i # rest) summary =
     (case Option.bind (reaped_label e i) (\<lambda>compute_id. find (\<lambda>c. ci_id c = compute_id) active) of
        Some machine \<Rightarrow>
          if keeps_provider_instance i machine
          then
            if ci_provider_instance_id machine = None
            then
              abind (aclock e) (\<lambda>now.
              abind (arepo e (transaction (record_provider_instance (ci_id machine) (u64_to_string (pi_id i))
                 (provider_public_ipv4 i) now))) (\<lambda>_.
              reap_instances e active rest (summary\<lparr> instances_adopted := Suc (instances_adopted summary) \<rparr>)))
            else reap_instances e active rest summary
          else
            abind (delete_instance e None (pi_id i)) (\<lambda>_.
            reap_instances e active rest (summary\<lparr> instances_deleted := Suc (instances_deleted summary) \<rparr>))
      | None \<Rightarrow>
          abind (delete_instance e None (pi_id i)) (\<lambda>_.
          reap_instances e active rest (summary\<lparr> instances_deleted := Suc (instances_deleted summary) \<rparr>)))"

definition akamai_reap_orphans ::
    "environment \<Rightarrow> akamai_manager \<Rightarrow> compute_instance list \<Rightarrow> akamai_reap_summary akamai_io" where
  "akamai_reap_orphans e m active =
     abind (alift (require_live_operations_enabled m)) (\<lambda>_.
     abind (list_managed_instances e (ak_scope (am_config m))) (\<lambda>managed.
     reap_instances e active managed \<lparr> instances_adopted = 0, instances_deleted = 0 \<rparr>))"

section \<open>What the provider reported\<close>

definition reported :: "environment \<Rightarrow> provider_instance \<Rightarrow> bool" where
  "reported e i \<longleftrightarrow>
     (\<exists>n flt page r items pages. env_api e n (ListInstances flt page) = Inr r
        \<and> body r = BodyInstances items pages \<and> i \<in> set items)"

text \<open>The provider named the instance, or answered a question about it, as one this machine owns.\<close>

definition reported_owned :: "environment \<Rightarrow> string \<Rightarrow> string \<Rightarrow> u64 \<Rightarrow> bool" where
  "reported_owned e label tag ident \<longleftrightarrow>
     (\<exists>i. reported e i \<and> pi_id i = ident \<and> is_owned_by i label tag)
   \<or> (\<exists>n r i. env_api e n (GetInstance ident) = Inr r \<and> body r = BodyInstance i \<and> is_owned_by i label tag)"

lemma reportedI:
  "env_api e n (ListInstances flt page) = Inr r \<Longrightarrow> body r = BodyInstances items pages \<Longrightarrow> i \<in> set items
   \<Longrightarrow> reported e i"
  unfolding reported_def by blast

lemma call_api_Inr: "call_api e request w = (w', Inr r) \<Longrightarrow> \<exists>n. env_api e n request = Inr r"
  by (auto simp: call_api_def action_defs ask_def result_simps)

lemma checked_response_Inr: "checked_response e r = Inr r' \<Longrightarrow> r' = r"
  by (auto simp: checked_response_def Let_def result_simps split: if_splits)

lemma fetch_Inr:
  "fetch e request decode w = (w', Inr a) \<Longrightarrow> \<exists>n r. env_api e n request = Inr r \<and> decode (body r) = Inr a"
  by (auto simp: fetch_def checked_call_def abind_def alift_def split: prod.splits sum.splits
      dest!: call_api_Inr checked_response_Inr)

lemma body_instances_Inr: "body_instances b = Inr (items, pages) \<Longrightarrow> \<exists>p. b = BodyInstances items p"
  by (cases b) auto

lemma body_instance_Inr: "body_instance b = Inr i \<Longrightarrow> b = BodyInstance i"
  by (cases b) auto

lemma list_pages_reported:
  assumes "list_pages e flt keep page acc w = (w', Inr is)" "i \<in> set is" "i \<notin> set acc"
  shows "reported e i \<and> keep i"
  using assms
proof (induction e flt keep page acc arbitrary: w rule: list_pages.induct)
  case (1 e flt keep page acc)
  obtain items pages w1 where f: "fetch e (ListInstances flt page) body_instances w = (w1, Inr (items, pages))"
    using "1.prems"(1)
    by (subst (asm) list_pages.simps) (auto simp: abind_def split: prod.splits sum.splits)
  show ?case
  proof (cases "i \<in> set items \<and> keep i")
    case True
    then show ?thesis using fetch_Inr [OF f] by (auto intro: reportedI dest!: body_instances_Inr)
  next
    case False
    have "list_pages e flt keep page acc w =
        (let acc = acc @ filter keep items in
         if max pages 1 \<le> page then areturn acc else list_pages e flt keep (page + 1) acc) w1"
      by (subst list_pages.simps) (simp add: abind_def f)
    then have rest: "if max pages 1 \<le> page then is = acc @ filter keep items
        else list_pages e flt keep (page + 1) (acc @ filter keep items) w1 = (w', Inr is)"
      using "1.prems"(1) by (auto simp: Let_def areturn_def split: if_splits)
    show ?thesis
    proof (cases "max pages 1 \<le> page")
      case True
      then show ?thesis using rest "1.prems"(2,3) False by auto
    next
      case more: False
      then have r: "list_pages e flt keep (page + 1) (acc @ filter keep items) w1 = (w', Inr is)" using rest by simp
      show ?thesis
        using "1.IH" [OF _ more r "1.prems"(2)] False "1.prems"(3) by auto
    qed
  qed
qed

lemma find_instance_by_label_reported:
  "find_instance_by_label e label w = (w', Inr (Some i)) \<Longrightarrow> reported e i \<and> pi_label i = label"
  by (auto simp: find_instance_by_label_def abind_def areturn_def afail_def
      split: prod.splits sum.splits list.splits dest: list_pages_reported)

lemma list_managed_instances_reported:
  "list_managed_instances e scope w = (w', Inr is) \<Longrightarrow> i \<in> set is
   \<Longrightarrow> reported e i \<and> MANAGED_TAG \<in> set (pi_tags i) \<and> scope_tag_of scope \<in> set (pi_tags i)"
  unfolding list_managed_instances_def by (drule (1) list_pages_reported) auto

lemma get_instance_reported:
  "get_instance e ident w = (w', Inr (Some i)) \<Longrightarrow> \<exists>n r. env_api e n (GetInstance ident) = Inr r \<and> body r = BodyInstance i"
  by (auto simp: get_instance_def abind_def areturn_def alift_def result_simps split: prod.splits sum.splits if_splits
      dest!: call_api_Inr checked_response_Inr body_instance_Inr)

lemma owned_provider_id_reported:
  "triple (\<lambda>_. True) (owned_provider_id e m machine)
     (\<lambda>r _. \<forall>ident. r = Some ident \<longrightarrow> reported_owned e (provider_label e (ci_id machine)) (scope_tag m) ident)
     (\<lambda>_ _. True)"
  by (rule tripleI)
     (auto simp: owned_provider_id_def Let_def abind_def areturn_def afail_def alift_def result_simps reported_owned_def
       split: option.splits prod.splits sum.splits if_splits
       dest!: get_instance_reported find_instance_by_label_reported)

section \<open>What the manager sends outside\<close>

lemma acts_call_api [acts_intros]: "acts P (call_api e request)"
  unfolding call_api_def by (intro acts_intros)

lemma acts_fetch [acts_intros]: "acts P (fetch e request decode)"
  unfolding fetch_def checked_call_def by (intro acts_intros)

lemma acts_list_pages [acts_intros]: "acts P (list_pages e flt keep page acc)"
proof (induction e flt keep page acc rule: list_pages.induct)
  case (1 e flt keep page acc)
  show ?case
    by (subst list_pages.simps, unfold Let_def) (intro acts_intros; rule "1.IH"; simp)
qed

lemma acts_list_managed_instances [acts_intros]: "acts P (list_managed_instances e scope)"
  unfolding list_managed_instances_def by (intro acts_intros)

lemma acts_case_list [acts_intros]:
  "acts P m \<Longrightarrow> (\<And>x xs. acts P (k x xs)) \<Longrightarrow> acts P (case l of [] \<Rightarrow> m | x # xs \<Rightarrow> k x xs)"
  by (cases l) simp_all

lemma acts_client [acts_intros]:
  "acts P (find_instance_by_label e label)" "acts P (get_instance e ident)"
  "acts P (verify_instance_type e type_id)" "acts P (verify_firewall e fw)"
  "acts P (verify_instance_firewall e ident fw)"
  unfolding find_instance_by_label_def get_instance_def verify_instance_type_def verify_firewall_def
    verify_instance_firewall_def
  by (intro acts_intros)+

lemma acts_verify_bootstrap_compatibility [acts_intros]: "acts P (verify_bootstrap_compatibility e img region)"
  unfolding verify_bootstrap_compatibility_def get_image_def get_region_def by (intro acts_intros)

lemma acts_verify_provider_configuration [acts_intros]: "acts P (verify_provider_configuration e i region ty img fw)"
  unfolding verify_provider_configuration_def by (intro acts_intros)

lemma acts_create_instance [acts_intros]:
  "P (ProviderInstanceCreated cid request) \<Longrightarrow> acts P (create_instance e cid request)"
  unfolding create_instance_def by (intro acts_intros)

lemma acts_delete_instance [acts_intros]:
  "P (ProviderInstanceDeleted cid ident) \<Longrightarrow> acts P (delete_instance e cid ident)"
  unfolding delete_instance_def by (intro acts_intros)

lemma acts_aclock [acts_intros]: "acts P (aclock e)"
  unfolding aclock_def by (intro acts_intros)

lemma acts_arepo [acts_intros]: "environment_ok e \<Longrightarrow> changes m \<Longrightarrow> acts P (arepo e m)"
  unfolding arepo_def by (intro acts_intros)

lemma acts_owned_provider_id: "acts P (owned_provider_id e m machine)"
  unfolding owned_provider_id_def Let_def by (intro acts_intros)

fun akamai_delete_effect :: "environment \<Rightarrow> akamai_manager \<Rightarrow> uuid \<Rightarrow> effect \<Rightarrow> bool" where
  "akamai_delete_effect e m ident (AgentCalled compute_id request) \<longleftrightarrow> compute_id = ident \<and> request = NodeShutdown"
| "akamai_delete_effect e m ident (ProviderInstanceDeleted compute_id provider_id) \<longleftrightarrow>
     compute_id = Some ident \<and> reported_owned e (provider_label e ident) (scope_tag m) provider_id"
| "akamai_delete_effect e m ident _ \<longleftrightarrow> False"

lemma acts_akamai_delete:
  "environment_ok e \<Longrightarrow> acts (akamai_delete_effect e m (ci_id machine)) (akamai_delete e m machine)"
  unfolding akamai_delete_def
  by (intro acts_bind_fact [OF acts_owned_provider_id owned_provider_id_reported] acts_intros) simp_all

text \<open>
  A machine is created only for an instance whose data was never prepared,
  with live operations enabled, from the allow lists, under the machine's
  label and tags, and while fewer than the allowed number are reported.
\<close>

definition room_for_another :: "environment \<Rightarrow> akamai_manager \<Rightarrow> bool" where
  "room_for_another e m \<longleftrightarrow>
     (\<exists>w w' managed. list_managed_instances e (ak_scope (am_config m)) w = (w', Inr managed)
        \<and> length managed < ak_max_active_instances (am_config m))"

lemma room_for_anotherI:
  "list_managed_instances e (ak_scope (am_config m)) w = (w', Inr managed)
   \<Longrightarrow> \<not> ak_max_active_instances (am_config m) \<le> length managed \<Longrightarrow> room_for_another e m"
  unfolding room_for_another_def not_le by blast

fun akamai_ensure_effect :: "environment \<Rightarrow> akamai_manager \<Rightarrow> server_instance \<Rightarrow> effect \<Rightarrow> bool" where
  "akamai_ensure_effect e m inst (ProviderInstanceCreated compute_id request) \<longleftrightarrow>
     si_data_prepared_at inst = None \<and> mutations_enabled (am_config m) \<and> room_for_another e m
   \<and> compute (si_resolved_spec inst) =
       ComputeAkamai (cr_region request) (cr_instance_type request) (cr_image request) (cr_firewall_id request)
   \<and> allows_region (am_config m) (cr_region request) \<and> allows_instance_type (am_config m) (cr_instance_type request)
   \<and> allows_image (am_config m) (cr_image request) \<and> allows_firewall (am_config m) (cr_firewall_id request)
   \<and> cr_label request = provider_label e compute_id \<and> cr_tags request = [MANAGED_TAG, scope_tag m]
   \<and> cr_disk_encryption request = EncryptionDisabled"
| "akamai_ensure_effect e m inst _ \<longleftrightarrow> False"

lemma acts_bind_listing:
  assumes "\<And>managed. (\<exists>w w'. list_managed_instances e scope w = (w', Inr managed)) \<Longrightarrow> acts P (k managed)"
  shows "acts P (abind (list_managed_instances e scope) k)"
proof (rule acts_bind_fact [OF acts_list_managed_instances])
  show "triple (\<lambda>_. True) (list_managed_instances e scope)
      (\<lambda>managed _. \<exists>w w'. list_managed_instances e scope w = (w', Inr managed)) (\<lambda>_ _. True)"
    by (rule tripleI) auto
qed (rule assms)

lemma acts_bind_alift: "(\<And>a. r = Inr a \<Longrightarrow> acts P (k a)) \<Longrightarrow> acts P (abind (alift r) k)"
  by (rule acts_bind_fact [where Q = "\<lambda>a. r = Inr a"]) (auto intro: acts_intros triple_alift)

definition request_matches :: "environment \<Rightarrow> akamai_manager \<Rightarrow> server_instance \<Rightarrow> provisioning_request \<Rightarrow> bool" where
  "request_matches e m inst r \<longleftrightarrow>
     pr_instance r = inst \<and> pr_allow_create r = (si_data_prepared_at inst = None)
   \<and> pr_label r = provider_label e (ci_id (pr_compute r))
   \<and> compute (si_resolved_spec inst) =
       ComputeAkamai (pr_region r) (pr_instance_type r) (pr_image r) (pr_firewall_id r)
   \<and> validate_spec m (pr_region r) (pr_instance_type r) (pr_image r) (pr_firewall_id r) = Inr ()"

lemma acts_provision_instance:
  assumes "request_matches e m inst r"
  shows "acts (akamai_ensure_effect e m inst) (provision_instance e m r)"
  unfolding provision_instance_def Let_def
  by (intro acts_if acts_bind_alift acts_bind_listing acts_intros)
     (use assms in \<open>auto simp: request_matches_def creation_request_def validate_spec_def
        require_live_operations_enabled_def result_simps intro: room_for_anotherI\<close>)

lemma acts_locate_instance:
  assumes "request_matches e m inst r"
  shows "acts (akamai_ensure_effect e m inst) (locate_instance e m r)"
  unfolding locate_instance_def find_or_create_instance_def
  by (intro acts_intros acts_provision_instance assms)

lemma acts_akamai_allocate:
  assumes "environment_ok e" "0 \<le> now"
  shows "acts P (akamai_allocate e m inst now)"
  unfolding akamai_allocate_def
  by (intro acts_bind_token acts_intros assms) (simp_all add: assms token_text_ok)

lemma find_public_ok: "find_public as = Some a \<Longrightarrow> text_ok 64 a \<and> ipv4_parses a"
proof (induction as)
  case (Cons x xs)
  then show ?case
    using parse_ipv4_to_string [of x] by (auto split: option.splits if_splits intro: ipv4_text_ok)
qed simp

lemma acts_record_location [acts_intros]: "environment_ok e \<Longrightarrow> acts P (record_location e machine provider changed)"
  unfolding record_location_def Let_def
  by (intro acts_intros) (auto simp: u64_text_ok provider_public_ipv4_def dest: find_public_ok)

lemma acts_akamai_ensure:
  assumes "environment_ok e" "0 \<le> now"
  shows "acts (akamai_ensure_effect e m inst) (akamai_ensure_for_instance e m inst now)"
proof (cases "compute (si_resolved_spec inst)")
  case ComputeLocal
  then show ?thesis by (simp add: akamai_ensure_for_instance_def acts_intros)
next
  case (ComputeAkamai region ty img fw)
  show ?thesis
    unfolding akamai_ensure_for_instance_def ComputeAkamai compute_spec.case
    by (intro acts_bind_alift acts_abind [OF acts_akamai_allocate] acts_abind [OF acts_locate_instance] acts_intros assms)
       (auto simp: request_matches_def ComputeAkamai)
qed

section \<open>The machine of an instance\<close>

lemma triple_arepo:
  "(\<And>db db' a. m db = (db', Inr a) \<Longrightarrow> N a db')
   \<Longrightarrow> triple (\<lambda>_. True) (arepo e m) (\<lambda>a w. N a (w_db w)) (\<lambda>_ _. True)"
  unfolding arepo_def by (intro triple_amap_err triple_repository)

lemma akamai_allocate_owns:
  "triple (\<lambda>_. True) (akamai_allocate e m inst now)
     (\<lambda>(c, _) w. owns (ci_id c) (si_id inst) (w_db w)) (\<lambda>_ _. True)"
proof -
  have found: "triple (\<lambda>_. True) (arepo e (query (get_active_for_instance (si_id inst))))
      (\<lambda>active w. \<forall>c. active = Some c \<longrightarrow> owns (ci_id c) (si_id inst) (w_db w)) (\<lambda>_ _. True)"
    by (rule triple_arepo) (auto simp: query_def intro: get_active_for_instance_owns)
  have created: "triple (\<lambda>_. True) (arepo e (create_for_instance ident (si_id inst) Akamai token etoken now))
      (\<lambda>created w. \<forall>c. created = Some c \<longrightarrow> owns (ci_id c) (si_id inst) (w_db w)) (\<lambda>_ _. True)"
    for ident token etoken
    by (rule triple_arepo) (auto intro: create_for_instance_owns)
  show ?thesis
    unfolding akamai_allocate_def
    by (intro triple_abind [OF found] triple_case_option triple_if triple_areturn triple_afail
        triple_abind [where R = "\<lambda>_ _. True", OF triple_true] triple_abind [OF created] triple_bind_alift)
       (auto simp: result_simps)
qed

lemma akamai_ensure_owns:
  assumes "environment_ok e"
  shows "triple (\<lambda>_. True) (akamai_ensure_for_instance e m inst now)
     (\<lambda>(c, _) w. owns (ci_id c) (si_id inst) (w_db w)) (\<lambda>_ _. True)"
proof (cases "compute (si_resolved_spec inst)")
  case ComputeLocal
  then show ?thesis by (simp add: akamai_ensure_for_instance_def triple_afail)
next
  case (ComputeAkamai region ty img fw)
  show ?thesis
    unfolding akamai_ensure_for_instance_def ComputeAkamai compute_spec.case arepo_def
  proof (rule triple_bind_alift, rule triple_abind [OF akamai_allocate_owns], rule triple_case_prod, hypsubst,
      unfold prod.case)
    fix u machine changed
    assume ok: "validate_spec m region ty img fw = Inr u"
    let ?r = "\<lparr> pr_label = provider_label e (ci_id machine), pr_region = region, pr_instance_type = ty,
      pr_image = img, pr_firewall_id = fw, pr_instance = inst, pr_compute = machine,
      pr_allow_create = (si_data_prepared_at inst = None) \<rparr>"
    have matches: "request_matches e m inst ?r" using ok by (simp add: request_matches_def ComputeAkamai)
    show "triple (\<lambda>w. owns (ci_id machine) (si_id inst) (w_db w))
       (abind (locate_instance e m ?r) (\<lambda>provider.
        abind (record_location e machine provider changed) (\<lambda>changed.
        abind (amap_err AkRepository (repository e (query (compute_get (ci_id machine))))) (\<lambda>stored.
        abind (alift (ok_or stored AkMissingAfterUpdate)) (\<lambda>machine.
        areturn (machine, changed))))))
       (\<lambda>(c, _) w. owns (ci_id c) (si_id inst) (w_db w)) (\<lambda>_ _. True)"
      by (intro triple_abind [OF triple_acts_owns [OF acts_locate_instance [OF matches]]]
          triple_abind [OF triple_acts_owns [OF acts_record_location [OF assms]]]
          triple_abind [OF triple_amap_err [OF triple_reread [OF assms]]] triple_bind_alift triple_areturn)
         (auto simp: result_simps)
  qed simp
qed

section \<open>What reaping touches\<close>

fun akamai_reap_effect :: "environment \<Rightarrow> akamai_manager \<Rightarrow> compute_instance list \<Rightarrow> effect \<Rightarrow> bool" where
  "akamai_reap_effect e m active (ProviderInstanceDeleted compute_id ident) \<longleftrightarrow> compute_id = None
     \<and> (\<exists>i. reported e i \<and> pi_id i = ident \<and> MANAGED_TAG \<in> set (pi_tags i) \<and> scope_tag m \<in> set (pi_tags i)
          \<and> (\<forall>c \<in> set active. Some (ci_id c) = reaped_label e i \<longrightarrow>
               find (\<lambda>c'. ci_id c' = ci_id c) active = Some c \<longrightarrow> \<not> keeps_provider_instance i c))"
| "akamai_reap_effect e m active _ \<longleftrightarrow> False"

lemma acts_reap_instances:
  assumes "environment_ok e"
    "\<forall>i \<in> set managed. reported e i \<and> MANAGED_TAG \<in> set (pi_tags i) \<and> scope_tag m \<in> set (pi_tags i)"
  shows "acts (akamai_reap_effect e m active) (reap_instances e active managed summary)"
  using assms(2)
proof (induction managed arbitrary: summary)
  case (Cons i managed)
  have IH: "acts (akamai_reap_effect e m active) (reap_instances e active managed s)" for s
    using Cons by simp
  have gone: "akamai_reap_effect e m active (ProviderInstanceDeleted None (pi_id i))"
    if "\<forall>c. Option.bind (reaped_label e i) (\<lambda>cid. find (\<lambda>c. ci_id c = cid) active) = Some c
          \<longrightarrow> \<not> keeps_provider_instance i c"
    using that Cons.prems by (auto intro!: exI [of _ i] dest!: sym [of "Some _" "reaped_label e i"])
  show ?case
    by (auto split: option.split intro!: acts_intros IH gone assms simp del: akamai_reap_effect.simps
        simp: u64_text_ok provider_public_ipv4_def dest: find_public_ok)
qed (simp add: acts_intros)

lemma acts_akamai_reap_orphans:
  assumes "environment_ok e"
  shows "acts (akamai_reap_effect e m active) (akamai_reap_orphans e m active)"
  unfolding akamai_reap_orphans_def
  by (intro acts_intros acts_bind_listing acts_reap_instances assms)
     (auto simp: scope_tag_def dest: list_managed_instances_reported)

end
