(* ===== verification/Compute_Manager.thy ===== *)
theory Compute_Manager
  imports Local_Compute Akamai_Compute
begin

text \<open>
  \<open>infrastructure/compute.rs\<close>: the manager the reconciler calls, which picks
  the backend of an instance by its specification and of a machine by its
  provider. What a backend promises its caller is a locale, interpreted on
  the local backend, the Akamai backend and the manager itself.
\<close>

datatype compute_error =
    CmLocal local_compute_error
  | CmAkamai akamai_error
  | AkamaiNotConfigured

record compute_manager =
  cm_local :: local_config
  cm_akamai :: "akamai_manager option"

definition compute_ensure_for_instance ::
    "environment \<Rightarrow> compute_manager \<Rightarrow> server_instance \<Rightarrow> timestamp
     \<Rightarrow> (compute_error, compute_instance \<times> bool) io" where
  "compute_ensure_for_instance e cm inst now =
     (case compute (si_resolved_spec inst) of
        ComputeLocal \<Rightarrow> amap_err CmLocal (local_ensure_for_instance e (cm_local cm) inst now)
      | ComputeAkamai _ _ _ _ \<Rightarrow>
          abind (alift (ok_or (cm_akamai cm) AkamaiNotConfigured)) (\<lambda>manager.
          amap_err CmAkamai (akamai_ensure_for_instance e manager inst now)))"

definition compute_lifetime_exceeded :: "compute_manager \<Rightarrow> compute_instance \<Rightarrow> timestamp \<Rightarrow> bool" where
  "compute_lifetime_exceeded cm machine now \<longleftrightarrow>
     (case ci_provider machine of
        LocalProcess \<Rightarrow> False
      | Akamai \<Rightarrow> is_some_and (cm_akamai cm) (\<lambda>manager. akamai_lifetime_exceeded manager machine now))"

definition compute_delete :: "environment \<Rightarrow> compute_manager \<Rightarrow> compute_instance \<Rightarrow> (compute_error, bool) io" where
  "compute_delete e cm machine =
     (case ci_provider machine of
        LocalProcess \<Rightarrow> amap_err CmLocal (local_delete e (cm_local cm) machine)
      | Akamai \<Rightarrow>
          abind (alift (ok_or (cm_akamai cm) AkamaiNotConfigured)) (\<lambda>manager.
          amap_err CmAkamai (akamai_delete e manager machine)))"

fun compute_retry_after :: "compute_error \<Rightarrow> duration option" where
  "compute_retry_after (CmAkamai error) = akamai_retry_after error"
| "compute_retry_after _ = None"

section \<open>What a backend promises\<close>

definition trace_ok :: "(database \<Rightarrow> effect \<Rightarrow> bool) \<Rightarrow> world \<Rightarrow> bool" where
  "trace_ok A w \<longleftrightarrow> (\<forall>(db, ef) \<in> set (w_trace w). A db ef)"

text \<open>A world whose effects were all allowed where they were sent, in the order of its databases.\<close>

definition well :: "(database \<Rightarrow> effect \<Rightarrow> bool) \<Rightarrow> (database \<Rightarrow> bool) \<Rightarrow> world \<Rightarrow> bool" where
  "well A I w \<longleftrightarrow> trace_ok A w \<and> in_order (map fst (w_trace w) @ [w_db w]) \<and> I (w_db w)"

definition stable :: "(database \<Rightarrow> bool) \<Rightarrow> bool" where
  "stable I \<longleftrightarrow> (\<forall>db db'. I db \<longrightarrow> evolves db db' \<longrightarrow> I db')"

lemma stableD: "stable I \<Longrightarrow> evolves db db' \<Longrightarrow> I db \<Longrightarrow> I db'"
  by (simp add: stable_def)

lemma well_contained:
  assumes "well A I w" "contained P w w'" "stable I" "\<And>db ef. I db \<Longrightarrow> P ef \<Longrightarrow> A db ef"
  shows "well A I w'"
proof -
  obtain tr where tr: "evolves (w_db w) (w_db w')" "w_trace w' = w_trace w @ tr"
      "\<forall>(db, ef) \<in> set tr. evolves (w_db w) db \<and> P ef" "in_order (map fst tr @ [w_db w'])"
    using assms(2) unfolding contained_def by blast
  have "in_order (map fst (w_trace w') @ [w_db w'])"
    unfolding tr(2) map_append
    by (rule in_order_extend [OF _ tr(4)]) (use assms(1) tr in \<open>auto simp: well_def evolves_def\<close>)
  moreover have "I db" if "(db, ef) \<in> set tr" for db ef
    using that tr(3) assms(1,3) by (auto simp: well_def intro: stableD)
  moreover have "I (w_db w')" using assms(1,3) tr(1) by (auto simp: well_def intro: stableD)
  ultimately show ?thesis
    using assms(1,4) tr by (fastforce simp: well_def trace_ok_def)
qed

lemma triple_acts:
  assumes "acts P m" "stable I" "\<And>db ef. I db \<Longrightarrow> P ef \<Longrightarrow> A db ef"
  shows "triple (well A I) m (\<lambda>_. well A I) (\<lambda>_. well A I)"
  by (rule tripleI) (metis well_contained actsD assms)+

locale compute_backend =
  fixes e :: environment
    and ensure_machine :: "server_instance \<Rightarrow> timestamp \<Rightarrow> ('e, compute_instance \<times> bool) io"
    and delete_machine :: "compute_instance \<Rightarrow> ('e, bool) io"
    and ensure_effect :: "server_instance \<Rightarrow> effect \<Rightarrow> bool"
    and delete_effect :: "uuid \<Rightarrow> effect \<Rightarrow> bool"
  assumes ensure_acts: "environment_ok e \<Longrightarrow> 0 \<le> now \<Longrightarrow> acts (ensure_effect inst) (ensure_machine inst now)"
    and ensure_owns: "environment_ok e \<Longrightarrow>
      triple (\<lambda>_. True) (ensure_machine inst now)
        (\<lambda>(m, _) w. owns (ci_id m) (si_id inst) (w_db w)) (\<lambda>_ _. True)"
    and delete_acts: "environment_ok e \<Longrightarrow> acts (delete_effect (ci_id machine)) (delete_machine machine)"
begin

lemma ensure_triple:
  assumes "environment_ok e" "0 \<le> now" "stable I" "\<And>db ef. I db \<Longrightarrow> ensure_effect inst ef \<Longrightarrow> A db ef"
  shows "triple (well A I) (ensure_machine inst now)
    (\<lambda>(m, _). well A (\<lambda>db. I db \<and> owns (ci_id m) (si_id inst) db)) (\<lambda>_. well A I)"
proof -
  have kept: "triple (well A I) (ensure_machine inst now) (\<lambda>_. well A I) (\<lambda>_. well A I)"
    using assms by (intro triple_acts [OF ensure_acts]) auto
  show ?thesis
  proof (rule tripleI)
    fix w w' a
    assume pre: "well A I w" and run: "ensure_machine inst now w = (w', Inr a)"
    show "(case a of (m, _) \<Rightarrow> well A (\<lambda>db. I db \<and> owns (ci_id m) (si_id inst) db)) w'"
      using triple_InrD [OF kept pre run] triple_InrD [OF ensure_owns [OF assms(1)] _ run]
      by (cases a) (auto simp: well_def)
  qed (rule triple_InlD [OF kept])
qed

lemma delete_triple:
  assumes "environment_ok e" "stable I" "\<And>db ef. I db \<Longrightarrow> delete_effect (ci_id machine) ef \<Longrightarrow> A db ef"
  shows "triple (well A I) (delete_machine machine) (\<lambda>_. well A I) (\<lambda>_. well A I)"
  by (rule triple_acts [OF delete_acts [OF assms(1)] assms(2,3)])

end

interpretation local_backend: compute_backend e "local_ensure_for_instance e c" "local_delete e c"
  "\<lambda>_. provisioning" "local_delete_effect e c"
  by unfold_locales (auto intro: acts_local_ensure local_ensure_owns acts_local_delete)

interpretation akamai_backend: compute_backend e "akamai_ensure_for_instance e m" "akamai_delete e m"
  "akamai_ensure_effect e m" "akamai_delete_effect e m"
  by unfold_locales (auto intro: acts_akamai_ensure akamai_ensure_owns acts_akamai_delete)

definition compute_ensure_effect :: "environment \<Rightarrow> compute_manager \<Rightarrow> server_instance \<Rightarrow> effect \<Rightarrow> bool" where
  "compute_ensure_effect e cm inst ef \<longleftrightarrow> provisioning ef
     \<or> is_some_and (cm_akamai cm) (\<lambda>m. akamai_ensure_effect e m inst ef)"

definition compute_delete_effect :: "environment \<Rightarrow> compute_manager \<Rightarrow> uuid \<Rightarrow> effect \<Rightarrow> bool" where
  "compute_delete_effect e cm ident ef \<longleftrightarrow> local_delete_effect e (cm_local cm) ident ef
     \<or> is_some_and (cm_akamai cm) (\<lambda>m. akamai_delete_effect e m ident ef)"

lemma acts_compute_ensure:
  assumes "environment_ok e" "0 \<le> now"
  shows "acts (compute_ensure_effect e cm inst) (compute_ensure_for_instance e cm inst now)"
  unfolding compute_ensure_for_instance_def
  by (cases "compute (si_resolved_spec inst)")
     (auto simp: compute_ensure_effect_def is_some_and_def result_simps
       intro!: acts_amap_err acts_bind_alift acts_mono [OF acts_local_ensure] acts_mono [OF acts_akamai_ensure] assms)

lemma acts_compute_delete:
  assumes "environment_ok e"
  shows "acts (compute_delete_effect e cm (ci_id machine)) (compute_delete e cm machine)"
  unfolding compute_delete_def
  by (cases "ci_provider machine")
     (auto simp: compute_delete_effect_def is_some_and_def result_simps
       intro!: acts_amap_err acts_bind_alift acts_mono [OF acts_local_delete] acts_mono [OF acts_akamai_delete] assms)

lemma compute_ensure_owns:
  assumes "environment_ok e"
  shows "triple (\<lambda>_. True) (compute_ensure_for_instance e cm inst now)
     (\<lambda>(c, _) w. owns (ci_id c) (si_id inst) (w_db w)) (\<lambda>_ _. True)"
  unfolding compute_ensure_for_instance_def
  by (cases "compute (si_resolved_spec inst)")
     (auto intro!: triple_amap_err triple_bind_alift local_ensure_owns akamai_ensure_owns assms)

interpretation backend: compute_backend e "compute_ensure_for_instance e cm" "compute_delete e cm"
  "compute_ensure_effect e cm" "compute_delete_effect e cm"
  by unfold_locales (auto intro: acts_compute_ensure compute_ensure_owns acts_compute_delete)

end
