(* ===== verification/Reconciler.thy ===== *)
theory Reconciler
  imports Compute_Manager
begin

text \<open>
  One reconciliation of a server (\<open>reconciliation.rs\<close>): compare the desired
  state with the live instance, its machine and what the agent on it
  reports, and take the next step towards it. Every step re-reads the
  database, performs at most one transition and reports whether something
  changed, is stable, or has to be waited for.
\<close>

datatype reconcile_error =
    ReRepository repository_error
  | ReDomain validation_error
  | ReTimestamp timestamp_error
  | ReCompute compute_error
  | ReAgent agent_call_error
  | DidNotConverge uuid
  | WritableDataLost uuid

datatype step_outcome = StepChanged | StepStable | StepAwaiting

datatype reconcile_outcome = OutcomeStable | OutcomeRetry

type_synonym 'a reconcile_io = "(reconcile_error, 'a) io"

definition MAX_IMMEDIATE_TRANSITIONS :: nat where
  "MAX_IMMEDIATE_TRANSITIONS = 32"

fun reconcile_retry_after :: "reconcile_error \<Rightarrow> duration option" where
  "reconcile_retry_after (ReCompute error) = compute_retry_after error"
| "reconcile_retry_after _ = None"

text \<open>
  The text of an error; the texts of the errors of other components, which
  end in texts of the libraries, are a parameter.
\<close>

fun reconcile_error_text :: "(uuid \<Rightarrow> string) \<Rightarrow> (reconcile_error \<Rightarrow> string) \<Rightarrow> reconcile_error \<Rightarrow> string" where
  "reconcile_error_text show_id nested (DidNotConverge server_id) =
     ''server reconciliation did not converge for '' @ show_id server_id"
| "reconcile_error_text show_id nested (WritableDataLost instance_id) =
     ''writable data for server instance '' @ show_id instance_id @ '' has no surviving compute instance''"
| "reconcile_error_text show_id nested (ReRepository x) =
     ''reconciliation persistence operation failed: '' @ nested (ReRepository x)"
| "reconcile_error_text show_id nested (ReDomain x) =
     ''reconciliation domain transition failed: '' @ nested (ReDomain x)"
| "reconcile_error_text show_id nested (ReTimestamp x) =
     ''reconciliation timestamp operation failed: '' @ nested (ReTimestamp x)"
| "reconcile_error_text show_id nested (ReCompute x) = ''compute operation failed: '' @ nested (ReCompute x)"
| "reconcile_error_text show_id nested (ReAgent x) = ''node-agent operation failed: '' @ nested (ReAgent x)"

definition identity :: "server_instance \<Rightarrow> instance_identity" where
  "identity inst = \<lparr> server_instance_id = si_id inst, fencing_token = si_fencing_token inst \<rparr>"

definition to_agent_process :: "process_spec \<Rightarrow> agent_process_spec" where
  "to_agent_process p =
     \<lparr> ap_container_image = container_image p, ap_server_type = server_type p, ap_version = version p,
       ap_host_port = host_port p, ap_stop_timeout_seconds = stop_timeout_seconds p,
       ap_accept_eula = accept_eula p, ap_environment = environment p \<rparr>"

definition rrepo :: "environment \<Rightarrow> (database, repository_error, 'a) action \<Rightarrow> 'a reconcile_io" where
  "rrepo e m = amap_err ReRepository (repository e m)"

definition rclock :: "environment \<Rightarrow> timestamp reconcile_io" where
  "rclock e = amap_err ReTimestamp (clock_now e)"

definition rcall ::
    "environment \<Rightarrow> uuid \<Rightarrow> agent_request \<Rightarrow> (agent_reply \<Rightarrow> agent_call_error + 'a) \<Rightarrow> 'a reconcile_io" where
  "rcall e compute_id request decode = amap_err ReAgent (agent_call e compute_id request decode)"

definition inspect :: "environment \<Rightarrow> server_instance \<Rightarrow> compute_instance \<Rightarrow> agent_inspect_result reconcile_io" where
  "inspect e inst machine = rcall e (ci_id machine) (AgentInspect (identity inst)) as_inspect"

definition persist_observations ::
    "environment \<Rightarrow> server_instance \<Rightarrow> agent_inspect_result \<Rightarrow> timestamp \<Rightarrow> bool reconcile_io" where
  "persist_observations e inst seen now =
     (if ir_data_prepared seen \<and> si_data_prepared_at inst = None
      then abind (rrepo e (transaction (mark_data_prepared (si_id inst) now))) (\<lambda>_. areturn True)
      else if si_process_observed_at inst = None \<or> si_process_running inst \<noteq> ir_process_running seen
      then abind (rrepo e (transaction (observe_process (si_id inst) (ir_process_running seen) now)))
             (\<lambda>_. areturn True)
      else areturn False)"

section \<open>A server that should run\<close>

text \<open>Writable data that is neither published nor still on the machine.\<close>

definition writable_data_lost :: "server_instance \<Rightarrow> agent_inspect_result \<Rightarrow> bool" where
  "writable_data_lost inst seen \<longleftrightarrow>
     si_data_prepared_at inst \<noteq> None \<and> si_result_snapshot_id inst = None \<and> \<not> ir_data_prepared seen"

definition restore_params :: "server \<Rightarrow> server_instance \<Rightarrow> restore_data_params" where
  "restore_params server inst =
     \<lparr> rd_instance = identity inst, rd_server_id = sv_id server,
       rd_repository = data_spec.repository (data (si_resolved_spec inst)),
       rd_source_snapshot_id = si_source_snapshot_id inst \<rparr>"

definition start_params :: "server_instance \<Rightarrow> start_server_params" where
  "start_params inst =
     \<lparr> ss_instance = identity inst, ss_process = to_agent_process (process (si_resolved_spec inst)) \<rparr>"

definition stop_for_lifetime :: "environment \<Rightarrow> server \<Rightarrow> timestamp \<Rightarrow> step_outcome reconcile_io" where
  "stop_for_lifetime e server provisioned_at =
     (case server_set_desired_state Stopped provisioned_at server of
        (stopped, Inl x) \<Rightarrow> afail (ReDomain x)
      | (stopped, Inr _) \<Rightarrow>
          abind (rrepo e (transaction (update_desired_state stopped (sv_generation server)))) (\<lambda>_.
          areturn StepChanged))"

definition advance_running ::
    "environment \<Rightarrow> server \<Rightarrow> server_instance \<Rightarrow> compute_instance \<Rightarrow> step_outcome reconcile_io" where
  "advance_running e server inst machine =
     abind (inspect e inst machine) (\<lambda>seen.
     if writable_data_lost inst seen then afail (WritableDataLost (si_id inst))
     else
       abind (rclock e) (\<lambda>observed_at.
       abind (persist_observations e inst seen observed_at) (\<lambda>persisted.
       if persisted then areturn StepChanged
       else if \<not> ir_data_prepared seen
       then
         abind (rcall e (ci_id machine) (DataRestore (restore_params server inst)) as_changed) (\<lambda>_.
         abind (rclock e) (\<lambda>prepared_at.
         abind (rrepo e (transaction (mark_data_prepared (si_id inst) prepared_at))) (\<lambda>_.
         areturn StepChanged)))
       else if \<not> ir_process_running seen
       then
         abind (rcall e (ci_id machine) (ServerStart (start_params inst)) as_changed) (\<lambda>_.
         abind (rclock e) (\<lambda>started_at.
         abind (rrepo e (transaction (observe_process (si_id inst) True started_at))) (\<lambda>_.
         areturn StepChanged)))
       else areturn StepStable)))"

definition reconcile_running ::
    "environment \<Rightarrow> compute_manager \<Rightarrow> server \<Rightarrow> server_instance \<Rightarrow> step_outcome reconcile_io" where
  "reconcile_running e cm server inst =
     abind (rclock e) (\<lambda>provisioned_at.
     abind (amap_err ReCompute (compute_ensure_for_instance e cm inst provisioned_at)) (\<lambda>(machine, changed).
     if changed then areturn StepChanged
     else if compute_lifetime_exceeded cm machine provisioned_at
     then stop_for_lifetime e server provisioned_at
     else
       abind (is_connected e (ci_id machine)) (\<lambda>connected.
       if \<not> connected then areturn StepAwaiting
       else advance_running e server inst machine)))"

section \<open>A server that should stop\<close>

definition data_is_safe_to_discard :: "server_instance \<Rightarrow> bool" where
  "data_is_safe_to_discard inst \<longleftrightarrow> si_data_prepared_at inst = None \<or> si_result_snapshot_id inst \<noteq> None"

definition stop_params :: "server_instance \<Rightarrow> stop_server_params" where
  "stop_params inst =
     \<lparr> sp_instance = identity inst,
       sp_stop_timeout_seconds = stop_timeout_seconds (process (si_resolved_spec inst)) \<rparr>"

definition snapshot_params :: "server \<Rightarrow> server_instance \<Rightarrow> snapshot_data_params" where
  "snapshot_params server inst =
     \<lparr> sd_instance = identity inst, sd_server_id = sv_id server,
       sd_repository = data_spec.repository (data (si_resolved_spec inst)) \<rparr>"

text \<open>No machine is left: the instance is over, unless its data went with the machine.\<close>

definition complete_instance :: "environment \<Rightarrow> server_instance \<Rightarrow> step_outcome reconcile_io" where
  "complete_instance e inst =
     (if si_data_prepared_at inst \<noteq> None \<and> si_result_snapshot_id inst = None
      then afail (WritableDataLost (si_id inst))
      else
        abind (rclock e) (\<lambda>now.
        abind (rrepo e (transaction (complete (si_id inst) Completed now))) (\<lambda>completed.
        areturn (if completed then StepChanged else StepStable))))"

definition delete_machine :: "environment \<Rightarrow> compute_manager \<Rightarrow> compute_instance \<Rightarrow> step_outcome reconcile_io" where
  "delete_machine e cm machine =
     abind (amap_err ReCompute (compute_delete e cm machine)) (\<lambda>deleted.
     areturn (if deleted then StepChanged else StepAwaiting))"

definition commit_snapshot :: "environment \<Rightarrow> server_instance \<Rightarrow> string \<Rightarrow> step_outcome reconcile_io" where
  "commit_snapshot e inst snapshot_id =
     abind (rclock e) (\<lambda>committed_at.
     abind (rrepo e (transaction (commit (si_id inst) (si_fencing_token inst) snapshot_id committed_at))) (\<lambda>_.
     areturn StepChanged))"

definition publish_data ::
    "environment \<Rightarrow> server \<Rightarrow> server_instance \<Rightarrow> compute_instance \<Rightarrow> string option \<Rightarrow> step_outcome reconcile_io" where
  "publish_data e server inst machine last_snapshot_id =
     (case last_snapshot_id of
        Some snapshot_id \<Rightarrow> commit_snapshot e inst snapshot_id
      | None \<Rightarrow>
          abind (rcall e (ci_id machine) (DataSnapshot (snapshot_params server inst)) as_snapshot)
            (commit_snapshot e inst))"

definition advance_stopping ::
    "environment \<Rightarrow> compute_manager \<Rightarrow> server \<Rightarrow> server_instance \<Rightarrow> compute_instance \<Rightarrow> step_outcome reconcile_io" where
  "advance_stopping e cm server inst machine =
     abind (inspect e inst machine) (\<lambda>seen.
     if writable_data_lost inst seen then afail (WritableDataLost (si_id inst))
     else
       abind (rclock e) (\<lambda>observed_at.
       abind (persist_observations e inst seen observed_at) (\<lambda>persisted.
       if persisted then areturn StepChanged
       else if ir_process_running seen
       then
         abind (rcall e (ci_id machine) (ServerStop (stop_params inst)) as_changed) (\<lambda>_.
         abind (rclock e) (\<lambda>stopped_at.
         abind (rrepo e (transaction (observe_process (si_id inst) False stopped_at))) (\<lambda>_.
         areturn StepChanged)))
       else if si_data_prepared_at inst \<noteq> None \<and> si_result_snapshot_id inst = None
       then publish_data e server inst machine (ir_last_snapshot_id seen)
       else
         abind (rcall e (ci_id machine) (InstanceCleanup (identity inst)) as_changed) (\<lambda>cleaned.
         if cleaned then areturn StepChanged
         else delete_machine e cm machine))))"

definition discard_now :: "environment \<Rightarrow> server_instance \<Rightarrow> compute_instance \<Rightarrow> bool reconcile_io" where
  "discard_now e inst machine =
     (if data_is_safe_to_discard inst
      then if ci_shutdown_requested_at machine \<noteq> None then areturn True
           else abind (is_connected e (ci_id machine)) (\<lambda>connected. areturn (\<not> connected))
      else areturn False)"

definition stop_with_machine ::
    "environment \<Rightarrow> compute_manager \<Rightarrow> server \<Rightarrow> server_instance \<Rightarrow> compute_instance \<Rightarrow> step_outcome reconcile_io" where
  "stop_with_machine e cm server inst machine =
     abind (discard_now e inst machine) (\<lambda>discard.
     if discard then delete_machine e cm machine
     else
       abind (rclock e) (\<lambda>provisioned_at.
       abind (amap_err ReCompute (compute_ensure_for_instance e cm inst provisioned_at)) (\<lambda>(_, changed).
       if changed then areturn StepChanged
       else
         abind (is_connected e (ci_id machine)) (\<lambda>connected.
         if \<not> connected then areturn StepAwaiting
         else advance_stopping e cm server inst machine))))"

definition reconcile_stopping ::
    "environment \<Rightarrow> compute_manager \<Rightarrow> server \<Rightarrow> server_instance \<Rightarrow> step_outcome reconcile_io" where
  "reconcile_stopping e cm server inst =
     abind (rrepo e (query (get_active_for_instance (si_id inst)))) (\<lambda>active.
     case active of
       None \<Rightarrow> complete_instance e inst
     | Some machine \<Rightarrow> stop_with_machine e cm server inst machine)"

section \<open>One step, and steps until blocked\<close>

definition create_instance_for :: "environment \<Rightarrow> server \<Rightarrow> step_outcome reconcile_io" where
  "create_instance_for e server =
     (if sv_desired_state server = Running
      then
        abind (rclock e) (\<lambda>now.
        abind (ask (env_uuid e)) (\<lambda>ident.
        abind (rrepo e (create_for_running_server ident (sv_id server) now)) (\<lambda>created.
        areturn (if created \<noteq> None then StepChanged else StepStable))))
      else areturn StepStable)"

definition request_stop_of :: "environment \<Rightarrow> server \<Rightarrow> server_instance \<Rightarrow> bool reconcile_io" where
  "request_stop_of e server inst =
     (if sv_desired_state server = Stopped \<and> si_stop_requested_at inst = None
      then abind (rclock e) (\<lambda>now. rrepo e (transaction (request_stop (si_id inst) now)))
      else areturn False)"

definition reconcile_once :: "environment \<Rightarrow> compute_manager \<Rightarrow> uuid \<Rightarrow> step_outcome reconcile_io" where
  "reconcile_once e cm server_id =
     abind (rrepo e (query (server_get server_id))) (\<lambda>found.
     case found of
       None \<Rightarrow> areturn StepStable
     | Some server \<Rightarrow>
         abind (rrepo e (query (get_active_for_server server_id))) (\<lambda>active.
         case active of
           None \<Rightarrow> create_instance_for e server
         | Some inst \<Rightarrow>
             abind (request_stop_of e server inst) (\<lambda>requested.
             if requested then areturn StepChanged
             else if si_stop_requested_at inst \<noteq> None then reconcile_stopping e cm server inst
             else reconcile_running e cm server inst)))"

primrec reconcile_steps :: "environment \<Rightarrow> compute_manager \<Rightarrow> uuid \<Rightarrow> nat \<Rightarrow> reconcile_outcome reconcile_io" where
  "reconcile_steps e cm server_id 0 = afail (DidNotConverge server_id)"
| "reconcile_steps e cm server_id (Suc n) =
     abind (reconcile_once e cm server_id) (\<lambda>outcome.
     case outcome of
       StepChanged \<Rightarrow> reconcile_steps e cm server_id n
     | StepStable \<Rightarrow> areturn OutcomeStable
     | StepAwaiting \<Rightarrow> areturn OutcomeRetry)"

definition reconcile_until_blocked :: "environment \<Rightarrow> compute_manager \<Rightarrow> uuid \<Rightarrow> reconcile_outcome reconcile_io" where
  "reconcile_until_blocked e cm server_id = reconcile_steps e cm server_id MAX_IMMEDIATE_TRANSITIONS"

end
