(* ===== verification/Reconcile_Safety.thy ===== *)
theory Reconcile_Safety
  imports Reconciler
begin

text \<open>
  What reconciliation may do to the outside, whatever the outside answers:
  every command to an agent and every destructive effect is checked against
  the database at the moment it is sent. The invariant is carried through
  the operations of the reconciler by triples.
\<close>

section \<open>The life of an instance\<close>

text \<open>
  A result is published only for an instance that was told to stop and whose
  data had been prepared; an instance terminates only after a stop request
  and never with prepared data that is not published.
\<close>

definition lifecycle :: "instance_row \<Rightarrow> bool" where
  "lifecycle r \<longleftrightarrow>
     (i_result_snapshot_id r \<noteq> None \<longrightarrow> i_stop_requested_at_ms r \<noteq> None \<and> i_data_prepared_at_ms r \<noteq> None)
   \<and> (i_terminated_at_ms r \<noteq> None \<longrightarrow> i_stop_requested_at_ms r \<noteq> None
        \<and> (i_data_prepared_at_ms r = None \<or> i_result_snapshot_id r \<noteq> None))"

definition orderly :: "database \<Rightarrow> bool" where
  "orderly db \<longleftrightarrow> reachable db \<and> (\<forall>r \<in> set (server_instances db). lifecycle r)"

text \<open>The live instance a reader gets from the database.\<close>

definition current :: "server_instance \<Rightarrow> database \<Rightarrow> bool" where
  "current inst db \<longleftrightarrow>
     (\<exists>r \<in> set (server_instances db). i_terminated_at_ms r = None \<and> decode_instance r = Inr inst)"

lemma orderlyD: "orderly db \<Longrightarrow> reachable db" "orderly db \<Longrightarrow> db_inv db"
    "orderly db \<Longrightarrow> r \<in> set (server_instances db) \<Longrightarrow> lifecycle r"
  by (simp_all add: orderly_def reachable_inv)

lemma currentE:
  assumes "current inst db" "orderly db"
  obtains r where "r \<in> set (server_instances db)" "i_terminated_at_ms r = None" "inst = instance_of_row r"
    "\<And>x. x \<in> set (server_instances db) \<Longrightarrow> i_id x = si_id inst \<Longrightarrow> x = r"
proof -
  obtain r where r: "r \<in> set (server_instances db)" "i_terminated_at_ms r = None" "decode_instance r = Inr inst"
    using assms(1) by (auto simp: current_def)
  have i: "inst = instance_of_row r" using inv_decodes(2) [OF orderlyD(2) [OF assms(2)] r(1)] r(3) by simp
  have "distinct (map i_id (server_instances db))"
    using schema_rows(2) orderlyD(2) [OF assms(2)] by (simp add: db_inv_def)
  then have "x = r" if "x \<in> set (server_instances db)" "i_id x = si_id inst" for x
    using that r(1) by (simp add: i instance_of_row_def distinct_map inj_on_def)
  then show thesis using that r i by blast
qed

lemma stable_conj: "stable I \<Longrightarrow> stable J \<Longrightarrow> stable (\<lambda>db. I db \<and> J db)"
  unfolding stable_def by blast

lemma stable_orderly: "stable orderly"
  unfolding stable_def orderly_def by (metis evolves_reachable evolves_def runs_kept_def)

lemma stable_current: "stable (current inst)"
  unfolding stable_def current_def evolves_def runs_kept_def by simp

lemma stable_owns: "stable (owns cid iid)"
  unfolding stable_def evolves_def runs_kept_def by simp

lemma stable_const: "stable (\<lambda>_. b)"
  by (simp add: stable_def)

lemmas stable_rules = stable_conj stable_orderly stable_current stable_owns stable_const

lemma update_instance_Inr:
  assumes "update_instance p f db = Inr (db', b)"
  shows "server_instances db' = sql_update p f (server_instances db)"
    "b \<longleftrightarrow> rows_affected p (server_instances db) = 1"
  using assms by (auto simp: update_instance_def result_simps)

lemma orderly_update_instance:
  assumes "orderly db" "update_instance p f db = Inr (db', b)" "db_step db db'"
    "\<And>r. r \<in> set (server_instances db) \<Longrightarrow> p r \<Longrightarrow> lifecycle r \<Longrightarrow> lifecycle (f r)"
  shows "orderly db'"
  using assms(1,3,4) update_instance_Inr(1) [OF assms(2)]
  by (auto simp: orderly_def sql_update_def intro: reach_step)

lemma orderly_request_stop: "orderly db \<Longrightarrow> request_stop ident now db = Inr (db', b) \<Longrightarrow> orderly db'"
  by (erule orderly_update_instance [where p = "request_stop_where ident" and f = "request_stop_set now" and b = b], simp only: request_stop_def,
      erule db_step.step_request_stop) (auto simp: lifecycle_def request_stop_set_def)

lemma orderly_mark_data_prepared: "orderly db \<Longrightarrow> mark_data_prepared ident now db = Inr (db', b) \<Longrightarrow> orderly db'"
  by (erule orderly_update_instance [where p = "active_where ident" and f = "mark_data_prepared_set now" and b = b], simp only: mark_data_prepared_def,
      erule db_step.step_mark_data_prepared) (auto simp: lifecycle_def mark_data_prepared_set_def active_where_def)

lemma orderly_observe_process: "orderly db \<Longrightarrow> observe_process ident running now db = Inr (db', b) \<Longrightarrow> orderly db'"
  by (erule orderly_update_instance [where p = "active_where ident" and f = "observe_process_set running now" and b = b], simp only: observe_process_def,
      erule db_step.step_observe_process) (auto simp: lifecycle_def observe_process_set_def)

lemma orderly_complete:
  assumes "orderly db" "current inst db" "si_stop_requested_at inst \<noteq> None" "data_is_safe_to_discard inst"
    "complete (si_id inst) result now db = Inr (db', b)"
  shows "orderly db'"
  using assms(1) assms(5) [unfolded complete_def] db_step.step_complete [OF assms(5)]
proof (rule orderly_update_instance)
  fix x
  assume x: "x \<in> set (server_instances db)" "active_where (si_id inst) x" "lifecycle x"
  obtain r where "inst = instance_of_row r" "x = r"
    using currentE [OF assms(2,1)] x by (metis active_where_def)
  then show "lifecycle (complete_set result now x)"
    using x(3) assms(3,4) by (simp add: lifecycle_def complete_set_def data_is_safe_to_discard_def instance_of_row_def)
qed

lemma orderly_commit:
  assumes "orderly db" "current inst db" "si_stop_requested_at inst \<noteq> None" "si_data_prepared_at inst \<noteq> None"
    "commit (si_id inst) token snap now db = Inr (db', b)"
  shows "orderly db'"
proof -
  have reach: "reachable db'"
    using assms(1) db_step.step_commit [OF assms(5)] by (auto simp: orderly_def intro: reach_step)
  show ?thesis
    using orderlyD(2) [OF assms(1)] assms(5)
  proof (cases rule: commit_cases)
    case (published i s)
    have "lifecycle (publish_instance_set snap t x)"
      if x: "x \<in> set (server_instances db)" "publish_instance_where (si_id inst) (uint token) x" for x t
    proof -
      obtain r where "inst = instance_of_row r" "x = r"
        using currentE [OF assms(2,1)] x by (metis publish_instance_where_def)
      then show ?thesis
        using orderlyD(3) [OF assms(1) x(1)] assms(3,4) x(2)
        by (simp add: lifecycle_def publish_instance_set_def instance_of_row_def publish_instance_where_def)
    qed
    then show ?thesis
      using reach publish_Inr [OF published(10)] orderlyD(3) [OF assms(1)]
      by (auto simp: orderly_def sql_update_def)
  qed (use assms(1) in simp)
qed

lemma orderly_insert:
  assumes "orderly db" "insert_for_running_server ident sid now db = Inr (db', b)"
  shows "orderly db'"
proof -
  have reach: "reachable db'"
    using assms(1) db_step.step_insert_instance [OF assms(2)] by (auto simp: orderly_def intro: reach_step)
  show ?thesis
    using assms(2)
  proof (cases rule: insert_for_running_server_cases)
    case (some s)
    then show ?thesis
      using reach assms(1) by (auto simp: orderly_def lifecycle_def new_instance_row_def)
  qed (use assms(1) in simp)
qed

lemma request_stop_applies:
  assumes "orderly db" "current inst db" "si_stop_requested_at inst = None"
    "request_stop (si_id inst) now db = Inr (db', b)"
  shows b
proof -
  obtain r where r: "r \<in> set (server_instances db)" "i_terminated_at_ms r = None" "inst = instance_of_row r"
    using currentE [OF assms(2,1)] by metis
  have "distinct (map i_id (server_instances db))"
    using schema_rows(2) orderlyD(2) [OF assms(1)] by (simp add: db_inv_def)
  then have "rows_affected (request_stop_where (si_id inst)) (server_instances db) = 1"
    by (rule rows_affected_key [OF _ r(1)])
       (use r assms(3) in \<open>auto simp: request_stop_where_def instance_of_row_def\<close>)
  then show ?thesis using update_instance_Inr(2) assms(4) by (auto simp: request_stop_def)
qed

section \<open>What may be sent\<close>

definition discardable :: "server_instance \<Rightarrow> bool" where
  "discardable inst \<longleftrightarrow> si_stop_requested_at inst \<noteq> None \<and> data_is_safe_to_discard inst"

text \<open>
  What an agent may be asked for an instance. Data is restored only before
  it was ever prepared, a server starts only on prepared data and before a
  stop is requested, a snapshot is taken only after the request, and data
  is discarded only when the instance stops and has nothing unpublished.
\<close>

fun request_allowed :: "server_instance \<Rightarrow> agent_request \<Rightarrow> bool" where
  "request_allowed inst (AgentInspect i) \<longleftrightarrow> i = identity inst"
| "request_allowed inst (DataRestore p) \<longleftrightarrow>
     rd_instance p = identity inst \<and> rd_server_id p = si_server_id inst
   \<and> rd_repository p = data_spec.repository (data (si_resolved_spec inst))
   \<and> rd_source_snapshot_id p = si_source_snapshot_id inst
   \<and> si_stop_requested_at inst = None \<and> si_data_prepared_at inst = None"
| "request_allowed inst (ServerStart p) \<longleftrightarrow>
     p = start_params inst \<and> si_stop_requested_at inst = None \<and> si_data_prepared_at inst \<noteq> None"
| "request_allowed inst (ServerStop p) \<longleftrightarrow> p = stop_params inst \<and> si_stop_requested_at inst \<noteq> None"
| "request_allowed inst (DataSnapshot p) \<longleftrightarrow>
     sd_instance p = identity inst \<and> sd_server_id p = si_server_id inst
   \<and> sd_repository p = data_spec.repository (data (si_resolved_spec inst))
   \<and> si_stop_requested_at inst \<noteq> None \<and> si_data_prepared_at inst \<noteq> None \<and> si_result_snapshot_id inst = None"
| "request_allowed inst (InstanceCleanup i) \<longleftrightarrow> i = identity inst \<and> discardable inst"
| "request_allowed inst NodeShutdown \<longleftrightarrow> discardable inst"

text \<open>
  What may be sent with the database as it is. Effects on a machine are
  those of the live instance that owns it.
\<close>

definition machine_of :: "uuid \<Rightarrow> server_instance \<Rightarrow> database \<Rightarrow> bool" where
  "machine_of cid inst db \<longleftrightarrow> current inst db \<and> owns cid (si_id inst) db"

fun effect_allowed :: "environment \<Rightarrow> compute_manager \<Rightarrow> database \<Rightarrow> effect \<Rightarrow> bool" where
  "effect_allowed e cm db (AgentCalled cid request) \<longleftrightarrow> (\<exists>inst. machine_of cid inst db \<and> request_allowed inst request)"
| "effect_allowed e cm db (PodmanCommand arguments) \<longleftrightarrow>
     (\<exists>cid inst. machine_of cid inst db \<and> discardable inst
        \<and> arguments = remove_directory_command (state_directory e (cm_local cm) cid))"
| "effect_allowed e cm db (ProviderInstanceDeleted compute_id provider_id) \<longleftrightarrow>
     (\<exists>cid inst m. compute_id = Some cid \<and> machine_of cid inst db \<and> discardable inst
        \<and> cm_akamai cm = Some m \<and> reported_owned e (provider_label e cid) (scope_tag m) provider_id)"
| "effect_allowed e cm db (ProviderInstanceCreated cid request) \<longleftrightarrow>
     (\<exists>inst m. current inst db \<and> cm_akamai cm = Some m
        \<and> akamai_ensure_effect e m inst (ProviderInstanceCreated cid request))"
| "effect_allowed e cm db _ \<longleftrightarrow> True"

definition allowed :: "environment \<Rightarrow> compute_manager \<Rightarrow> database \<Rightarrow> effect \<Rightarrow> bool" where
  "allowed e cm db ef \<longleftrightarrow> orderly db \<and> effect_allowed e cm db ef"

lemma allowed_ensure:
  assumes "orderly db" "current inst db" "compute_ensure_effect e cm inst ef"
  shows "allowed e cm db ef"
  using assms
  by (cases ef)
     (auto simp: allowed_def compute_ensure_effect_def is_some_and_def simp del: akamai_ensure_effect.simps(1) split: option.splits)

lemma allowed_delete:
  assumes "orderly db" "machine_of cid inst db" "discardable inst" "compute_delete_effect e cm cid ef"
  shows "allowed e cm db ef"
  using assms
  by (cases ef) (auto simp: allowed_def compute_delete_effect_def is_some_and_def split: option.splits)

section \<open>Triples of the building blocks\<close>

lemma well_mono: "well A I w \<Longrightarrow> (\<And>db. I db \<Longrightarrow> J db) \<Longrightarrow> well A J w"
  by (simp add: well_def)

text \<open>An operation that fails leaves an orderly world.\<close>

abbreviation safely :: "(database \<Rightarrow> effect \<Rightarrow> bool) \<Rightarrow> (world \<Rightarrow> bool) \<Rightarrow> ('e, 'a) io \<Rightarrow> ('a \<Rightarrow> world \<Rightarrow> bool) \<Rightarrow> bool"
  where "safely A P m N \<equiv> triple P m N (\<lambda>_. well A orderly)"

text \<open>What other tasks keep, of orderly databases.\<close>

definition tidy :: "(database \<Rightarrow> bool) \<Rightarrow> bool" where
  "tidy I \<longleftrightarrow> stable I \<and> (\<forall>db. I db \<longrightarrow> orderly db)"

lemma tidyD: "tidy I \<Longrightarrow> stable I" "tidy I \<Longrightarrow> I db \<Longrightarrow> orderly db" "tidy I \<Longrightarrow> well A I w \<Longrightarrow> well A orderly w"
  by (auto simp: tidy_def elim: well_mono)

definition at_instance :: "server_instance \<Rightarrow> database \<Rightarrow> bool" where
  "at_instance inst db \<longleftrightarrow> orderly db \<and> current inst db"

definition at_machine :: "uuid \<Rightarrow> server_instance \<Rightarrow> database \<Rightarrow> bool" where
  "at_machine cid inst db \<longleftrightarrow> at_instance inst db \<and> owns cid (si_id inst) db"

lemma tidy_rules: "tidy orderly" "tidy (at_instance inst)" "tidy (at_machine cid inst)"
  unfolding tidy_def at_instance_def at_machine_def by (intro conjI stable_rules; simp)+

lemma at_machineD: "at_machine cid inst db \<Longrightarrow> at_instance inst db" "at_machine cid inst db \<Longrightarrow> machine_of cid inst db"
    "at_instance inst db \<Longrightarrow> orderly db" "at_instance inst db \<Longrightarrow> current inst db"
  by (simp_all add: at_machine_def at_instance_def machine_of_def)

lemma allowed_call:
  "at_machine cid inst db \<Longrightarrow> request_allowed inst request \<Longrightarrow> allowed e cm db (AgentCalled cid request)"
  by (auto simp: allowed_def dest: at_machineD)

lemma safely_acts:
  assumes "acts P m" "tidy I" "\<And>db ef. I db \<Longrightarrow> P ef \<Longrightarrow> A db ef"
  shows "safely A (well A I) m (\<lambda>_. well A I)"
  by (rule triple_weaken [OF triple_acts [OF assms(1) tidyD(1) [OF assms(2)] assms(3)]]) (auto intro: tidyD(3) [OF assms(2)])

lemma safely_quiet:
  assumes "acts (\<lambda>_. False) m" "tidy I"
  shows "safely A (well A I) m (\<lambda>_. well A I)"
  by (rule safely_acts [OF assms]) simp

lemma triple_fact:
  "triple (\<lambda>_. True) m F (\<lambda>_ _. True) \<Longrightarrow> triple P m N E \<Longrightarrow> triple P m (\<lambda>a s. F a s \<and> N a s) E"
  by (rule tripleI) (blast dest: triple_InrD, erule (2) triple_InlD)

lemma safely_case: "(\<And>s. P s \<Longrightarrow> C \<and> Q s) \<Longrightarrow> (C \<Longrightarrow> safely A Q m N) \<Longrightarrow> safely A P m N"
  by (auto simp: triple_def)

lemma triple_bind_fact:
  assumes "triple P m (\<lambda>a s. F a \<and> R s) E" "\<And>a. F a \<Longrightarrow> triple R (k a) N E"
  shows "triple P (abind m k) N E"
  by (rule triple_abind [OF assms(1)]) (use assms(2) in \<open>auto simp: triple_def\<close>)

lemma safely_pre: "safely A (well A I) m N \<Longrightarrow> (\<And>db. J db \<Longrightarrow> I db) \<Longrightarrow> safely A (well A J) m N"
  by (erule triple_weaken) (auto elim: well_mono)

lemma safely_bind_clock:
  assumes "environment_ok e" "tidy I" "\<And>now. 0 \<le> now \<Longrightarrow> safely A (well A I) (k now) N"
  shows "safely A (well A I) (abind (rclock e) k) N"
proof -
  have "triple (\<lambda>_. True) (rclock e) (\<lambda>now _. 0 \<le> now) (\<lambda>_ _. True)"
    using environment_okD(2) [OF assms(1)]
    by (auto simp: triple_def rclock_def clock_now_def action_defs ask_def split: prod.splits sum.splits)
       (metis map_err_eq_Inr)
  moreover have "safely A (well A I) (rclock e) (\<lambda>_. well A I)"
    unfolding rclock_def by (intro safely_quiet acts_intros assms)
  ultimately have "safely A (well A I) (rclock e) (\<lambda>now w. 0 \<le> now \<and> well A I w)" by (rule triple_fact)
  then show ?thesis by (rule triple_bind_fact) (rule assms(3))
qed

lemma safely_call:
  assumes "tidy I" "\<And>db. I db \<Longrightarrow> A db (AgentCalled cid request)"
  shows "safely A (well A I) (rcall e cid request decode) (\<lambda>_. well A I)"
  unfolding rcall_def
  by (rule safely_acts [where P = "\<lambda>ef. ef = AgentCalled cid request"]) (auto intro: acts_intros assms)

text \<open>A repository call: other tasks write first, then the operation runs.\<close>

lemma well_repository:
  assumes "environment_ok e" "stable I" "well A I w" "repository e m w = (w', r)"
    "\<And>db db'. I db \<Longrightarrow> m db = (db', r) \<Longrightarrow> db_step\<^sup>*\<^sup>* db db' \<and> J db'"
  shows "well A J w'"
proof -
  let ?db = "env_others e (w_tick w) (w_db w)"
  have ev: "evolves (w_db w) ?db" by (rule evolves_tasks) (rule environment_okD(1) [OF assms(1)])
  have I: "I ?db" using stableD [OF assms(2) ev] assms(3) by (simp add: well_def)
  obtain db' where m: "m ?db = (db', r)" and w': "w_db w' = db'" "w_trace w' = w_trace w"
    using assms(4) by (auto simp: repository_def split: prod.splits)
  have "db_step\<^sup>*\<^sup>* (w_db w) db'" using ev assms(5) [OF I m] by (auto simp: evolves_def)
  then have "in_order (map fst (w_trace w) @ [db'])"
    using assms(3) by (auto simp: well_def in_order_def sorted_wrt_append intro: rtranclp_trans)
  then show ?thesis using assms(3) assms(5) [OF I m] by (simp add: well_def trace_ok_def w')
qed

lemma safely_repository:
  assumes "environment_ok e" "tidy I"
    "\<And>db db' a. I db \<Longrightarrow> m db = (db', Inr a) \<Longrightarrow> db_step\<^sup>*\<^sup>* db db' \<and> J a db'"
    "\<And>db db' x. I db \<Longrightarrow> m db = (db', Inl x) \<Longrightarrow> db_step\<^sup>*\<^sup>* db db' \<and> orderly db'"
  shows "safely A (well A I) (rrepo e m) (\<lambda>a. well A (J a))"
proof (rule tripleI)
  fix w w' a
  assume pre: "well A I w" and "rrepo e m w = (w', Inr a)"
  then have run: "repository e m w = (w', Inr a)"
    by (auto simp: rrepo_def amap_err_def result_simps split: prod.splits)
  from assms(1) tidyD(1) [OF assms(2)] pre run assms(3) show "well A (J a) w'" by (rule well_repository)
next
  fix w w' x
  assume pre: "well A I w" and "rrepo e m w = (w', Inl x)"
  then obtain y where run: "repository e m w = (w', Inl y)"
    by (auto simp: rrepo_def amap_err_def result_simps split: prod.splits)
  from assms(1) tidyD(1) [OF assms(2)] pre run assms(4) show "well A orderly w'" by (rule well_repository)
qed

lemma safely_read:
  assumes "environment_ok e" "tidy I" "\<And>db a. I db \<Longrightarrow> q db = Inr a \<Longrightarrow> J a db"
  shows "safely A (well A I) (rrepo e (query q)) (\<lambda>a. well A (J a))"
  by (rule safely_repository [OF assms(1,2)]) (use assms(3) tidyD(2) [OF assms(2)] in \<open>auto simp: query_def\<close>)

lemma safely_write:
  assumes "environment_ok e" "tidy I" "\<And>db db' a. I db \<Longrightarrow> t db = Inr (db', a) \<Longrightarrow> db_step db db' \<and> J a db'"
  shows "safely A (well A I) (rrepo e (transaction t)) (\<lambda>a. well A (J a))"
  by (rule safely_repository [OF assms(1,2)])
     (use assms(3) tidyD(2) [OF assms(2)] in \<open>auto simp: transaction_def split: sum.splits prod.splits\<close>)

section \<open>The reconciler's operations\<close>

lemma safely_done: "tidy I \<Longrightarrow> safely A (well A I) (areturn a) (\<lambda>_. well A orderly)"
  by (rule triple_areturn) (erule tidyD)

lemma safely_fail: "tidy I \<Longrightarrow> safely A (well A I) (afail x) N"
  by (rule triple_afail) (erule tidyD)

lemma safely_is_connected: "tidy I \<Longrightarrow> safely A (well A I) (is_connected e cid) (\<lambda>_. well A I)"
  by (intro safely_quiet acts_intros)

lemma safely_inspect:
  "safely (allowed e cm) (well (allowed e cm) (at_machine (ci_id machine) inst)) (inspect e inst machine)
     (\<lambda>_. well (allowed e cm) (at_machine (ci_id machine) inst))"
  unfolding inspect_def by (rule safely_call) (auto intro: tidy_rules allowed_call)

lemma safely_mark_data_prepared:
  assumes "environment_ok e" "tidy I"
  shows "safely A (well A I) (rrepo e (transaction (mark_data_prepared ident now))) (\<lambda>_. well A orderly)"
  by (rule safely_write [OF assms]) (auto intro: db_step.intros orderly_mark_data_prepared tidyD [OF assms(2)])

lemma safely_observe_process:
  assumes "environment_ok e" "tidy I"
  shows "safely A (well A I) (rrepo e (transaction (observe_process ident running now))) (\<lambda>_. well A orderly)"
  by (rule safely_write [OF assms]) (auto intro: db_step.intros orderly_observe_process tidyD [OF assms(2)])

lemma safely_persist_observations:
  assumes "environment_ok e" "tidy I"
  shows "safely A (well A I) (persist_observations e inst seen now)
    (\<lambda>persisted w. well A orderly w \<and> (\<not> persisted \<longrightarrow> well A I w
       \<and> (ir_data_prepared seen \<longrightarrow> si_data_prepared_at inst \<noteq> None)))"
  unfolding persist_observations_def
  by (intro triple_if triple_abind [OF safely_mark_data_prepared [OF assms]]
      triple_abind [OF safely_observe_process [OF assms]] triple_areturn) (auto intro: tidyD(3) [OF assms(2)])

lemma current_lifecycle:
  "at_instance inst db \<Longrightarrow> si_result_snapshot_id inst \<noteq> None
   \<Longrightarrow> si_stop_requested_at inst \<noteq> None \<and> si_data_prepared_at inst \<noteq> None"
proof -
  assume *: "at_instance inst db" "si_result_snapshot_id inst \<noteq> None"
  then obtain r where "r \<in> set (server_instances db)" "inst = instance_of_row r"
    using currentE [OF at_machineD(4,3)] by metis
  with * show ?thesis using orderlyD(3) [OF at_machineD(3)] by (auto simp: lifecycle_def instance_of_row_def)
qed

text \<open>An instance whose result is published was told to stop.\<close>

lemma safely_running:
  assumes "si_stop_requested_at inst = None"
    "si_result_snapshot_id inst = None \<Longrightarrow> safely A (well A (at_machine cid inst)) m N"
  shows "safely A (well A (at_machine cid inst)) m N"
proof (rule safely_case [of _ "si_result_snapshot_id inst = None"])
  show "si_result_snapshot_id inst = None \<and> well A (at_machine cid inst) w" if "well A (at_machine cid inst) w" for w
    using that current_lifecycle [OF at_machineD(1), of cid inst "w_db w"] assms(1)
    by (cases "si_result_snapshot_id inst") (auto simp: well_def)
qed (rule assms(2))

lemma safely_restore:
  assumes env: "environment_ok e" and server: "sv_id server = si_server_id inst"
    and "si_stop_requested_at inst = None" "si_data_prepared_at inst = None"
  shows "safely (allowed e cm) (well (allowed e cm) (at_machine cid inst))
    (abind (rcall e cid (DataRestore (restore_params server inst)) as_changed) (\<lambda>_.
     abind (rclock e) (\<lambda>prepared_at.
     abind (rrepo e (transaction (mark_data_prepared (si_id inst) prepared_at))) (\<lambda>_.
     areturn StepChanged)))) (\<lambda>_. well (allowed e cm) orderly)"
proof (rule triple_abind [OF safely_call [OF tidy_rules(3)]])
  show "allowed e cm db (AgentCalled cid (DataRestore (restore_params server inst)))" if "at_machine cid inst db" for db
    by (rule allowed_call [OF that]) (use assms in \<open>auto simp: restore_params_def\<close>)
qed (intro safely_bind_clock [OF env tidy_rules(3)]
     triple_abind [OF safely_mark_data_prepared [OF env tidy_rules(3)]] safely_done tidy_rules)

lemma safely_start:
  assumes env: "environment_ok e" and "si_stop_requested_at inst = None" "si_data_prepared_at inst \<noteq> None"
  shows "safely (allowed e cm) (well (allowed e cm) (at_machine cid inst))
    (abind (rcall e cid (ServerStart (start_params inst)) as_changed) (\<lambda>_.
     abind (rclock e) (\<lambda>started_at.
     abind (rrepo e (transaction (observe_process (si_id inst) True started_at))) (\<lambda>_.
     areturn StepChanged)))) (\<lambda>_. well (allowed e cm) orderly)"
proof (rule triple_abind [OF safely_call [OF tidy_rules(3)]])
  show "allowed e cm db (AgentCalled cid (ServerStart (start_params inst)))" if "at_machine cid inst db" for db
    by (rule allowed_call [OF that]) (use assms in auto)
qed (intro safely_bind_clock [OF env tidy_rules(3)]
     triple_abind [OF safely_observe_process [OF env tidy_rules(3)]] safely_done tidy_rules)

lemma safely_bind_persist:
  assumes "environment_ok e" "tidy I" "safely A (well A orderly) (k True) N"
    "(ir_data_prepared seen \<Longrightarrow> si_data_prepared_at inst \<noteq> None) \<Longrightarrow> safely A (well A I) (k False) N"
  shows "safely A (well A I) (abind (persist_observations e inst seen now) k) N"
proof (rule triple_abind [OF safely_persist_observations [OF assms(1,2)]])
  fix persisted
  show "safely A (\<lambda>w. well A orderly w \<and> (\<not> persisted \<longrightarrow> well A I w
      \<and> (ir_data_prepared seen \<longrightarrow> si_data_prepared_at inst \<noteq> None))) (k persisted) N"
  proof (cases persisted)
    case True
    then show ?thesis using triple_weaken [OF assms(3)] by simp
  next
    case False
    have "safely A (\<lambda>w. well A orderly w \<and> well A I w
        \<and> (ir_data_prepared seen \<longrightarrow> si_data_prepared_at inst \<noteq> None)) (k False) N"
      by (rule safely_case [of _ "ir_data_prepared seen \<longrightarrow> si_data_prepared_at inst \<noteq> None" "well A I"])
         (use assms(4) in auto)
    with False show ?thesis by simp
  qed
qed

lemma safely_advance_running:
  assumes env: "environment_ok e" and "sv_id server = si_server_id inst" "si_stop_requested_at inst = None"
  shows "safely (allowed e cm) (well (allowed e cm) (at_machine (ci_id machine) inst))
    (advance_running e server inst machine) (\<lambda>_. well (allowed e cm) orderly)"
  unfolding advance_running_def
  by (rule safely_running [OF assms(3)], rule triple_abind [OF safely_inspect],
      rule triple_if [OF safely_fail [OF tidy_rules(3)]],
      rule safely_bind_clock [OF env tidy_rules(3)], rule safely_bind_persist [OF env tidy_rules(3)])
     (auto intro!: safely_done safely_restore safely_start assms tidy_rules triple_if simp: writable_data_lost_def)

lemma safely_stop_for_lifetime:
  assumes env: "environment_ok e" and I: "tidy I" and "sv_desired_state server \<noteq> Stopped"
  shows "safely A (well A I) (stop_for_lifetime e server now) (\<lambda>_. well A orderly)"
proof (cases "server_set_desired_state Stopped now server")
  case (Pair stopped r)
  show ?thesis
  proof (cases r)
    case (Inl x)
    then show ?thesis by (simp add: stop_for_lifetime_def Pair safely_fail [OF I])
  next
    case (Inr b)
    then have b: "b" using Pair assms(3)
      by (auto simp: server_set_desired_state_def Let_def split: if_splits option.splits)
    have newer: "unat (sv_generation server) < unat (sv_generation stopped)"
      using run_command_versions [of "SetDesiredState Stopped" now server stopped] Pair Inr b
      by (simp add: next_version_def)
    have "changes (transaction (update_desired_state stopped (sv_generation server)))"
      by (rule changes_transaction) (auto intro!: evolves_tasks r_into_rtranclp task_step.task_desired_state newer)
    then have "safely A (well A I) (rrepo e (transaction (update_desired_state stopped (sv_generation server)))) (\<lambda>_. well A I)"
      unfolding rrepo_def by (intro safely_quiet acts_intros I env)
    then show ?thesis
      by (simp add: stop_for_lifetime_def Pair Inr) (erule triple_abind, rule safely_done [OF I])
  qed
qed

lemma triple_amap_fail: "triple P m N (\<lambda>_. E) \<Longrightarrow> triple P (amap_err g m) N (\<lambda>_. E)"
  by (rule tripleI) (auto simp: amap_err_def result_simps split: prod.splits dest: triple_InrD triple_InlD)

lemma safely_ensure:
  assumes "environment_ok e" "0 \<le> now" "tidy I" "\<And>db. I db \<Longrightarrow> current inst db"
    "\<And>machine changed. safely (allowed e cm)
       (well (allowed e cm) (\<lambda>db. I db \<and> owns (ci_id machine) (si_id inst) db)) (k (machine, changed)) N"
  shows "safely (allowed e cm) (well (allowed e cm) I)
    (abind (amap_err ReCompute (compute_ensure_for_instance e cm inst now)) k) N"
proof -
  have "triple (well (allowed e cm) I) (compute_ensure_for_instance e cm inst now)
      (\<lambda>(m, _). well (allowed e cm) (\<lambda>db. I db \<and> owns (ci_id m) (si_id inst) db))
      (\<lambda>_. well (allowed e cm) I)"
    by (rule backend.ensure_triple [OF assms(1,2) tidyD(1) [OF assms(3)]]) (rule allowed_ensure [OF tidyD(2) [OF assms(3)] assms(4)])
  then have "safely (allowed e cm) (well (allowed e cm) I)
      (amap_err ReCompute (compute_ensure_for_instance e cm inst now))
      (\<lambda>(m, _). well (allowed e cm) (\<lambda>db. I db \<and> owns (ci_id m) (si_id inst) db))"
    by (rule triple_amap_fail [THEN triple_weaken]) (auto intro: tidyD(3) [OF assms(3)])
  then show ?thesis by (rule triple_abind) (use assms(5) in auto)
qed

lemma safely_reconcile_running:
  assumes env: "environment_ok e" and "sv_id server = si_server_id inst" "si_stop_requested_at inst = None"
    "sv_desired_state server \<noteq> Stopped"
  shows "safely (allowed e cm) (well (allowed e cm) (at_instance inst))
    (reconcile_running e cm server inst) (\<lambda>_. well (allowed e cm) orderly)"
  unfolding reconcile_running_def
  by (rule safely_bind_clock [OF env tidy_rules(2)], rule safely_ensure [OF env _ tidy_rules(2) at_machineD(4)],
      assumption, assumption, unfold prod.case at_machine_def [symmetric])
     (intro triple_if triple_abind [OF safely_is_connected] safely_done safely_stop_for_lifetime
        safely_advance_running assms tidy_rules)

lemma safely_complete_instance:
  assumes env: "environment_ok e" and stop: "si_stop_requested_at inst \<noteq> None"
  shows "safely A (well A (at_instance inst)) (complete_instance e inst) (\<lambda>_. well A orderly)"
proof -
  have "safely A (well A (at_instance inst)) (rrepo e (transaction (complete (si_id inst) Completed now))) (\<lambda>_. well A orderly)"
    if "data_is_safe_to_discard inst" for now
    by (rule safely_write [OF env tidy_rules(2)])
       (use that stop in \<open>auto intro: db_step.intros orderly_complete dest: at_machineD\<close>)
  then show ?thesis
    unfolding complete_instance_def
    by (intro triple_if safely_fail safely_bind_clock [OF env] tidy_rules)
       (auto simp: data_is_safe_to_discard_def intro!: triple_abind intro: safely_done tidy_rules)
qed

lemma safely_delete_machine:
  assumes "environment_ok e" "discardable inst"
  shows "safely (allowed e cm) (well (allowed e cm) (at_machine (ci_id machine) inst))
    (delete_machine e cm machine) (\<lambda>_. well (allowed e cm) orderly)"
proof -
  have "triple (well (allowed e cm) (at_machine (ci_id machine) inst)) (compute_delete e cm machine)
      (\<lambda>_. well (allowed e cm) (at_machine (ci_id machine) inst)) (\<lambda>_. well (allowed e cm) (at_machine (ci_id machine) inst))"
    by (rule backend.delete_triple [OF assms(1) tidyD(1) [OF tidy_rules(3)]])
       (auto intro: allowed_delete [OF _ _ assms(2)] dest: at_machineD)
  then have "safely (allowed e cm) (well (allowed e cm) (at_machine (ci_id machine) inst))
      (amap_err ReCompute (compute_delete e cm machine)) (\<lambda>_. well (allowed e cm) (at_machine (ci_id machine) inst))"
    by (rule triple_amap_fail [THEN triple_weaken]) (auto intro: tidyD(3) [OF tidy_rules(3)])
  then show ?thesis
    unfolding delete_machine_def by (rule triple_abind) (rule safely_done [OF tidy_rules(3)])
qed

lemma safely_commit_snapshot:
  assumes env: "environment_ok e" and "si_stop_requested_at inst \<noteq> None" "si_data_prepared_at inst \<noteq> None"
  shows "safely A (well A (at_machine cid inst)) (commit_snapshot e inst snap) (\<lambda>_. well A orderly)"
proof -
  have "safely A (well A (at_machine cid inst))
      (rrepo e (transaction (commit (si_id inst) (si_fencing_token inst) snap now))) (\<lambda>_. well A orderly)" for now
    by (rule safely_write [OF env tidy_rules(3)])
       (use assms in \<open>auto intro: db_step.intros orderly_commit dest: at_machineD\<close>)
  then show ?thesis
    unfolding commit_snapshot_def
    by - (rule safely_bind_clock [OF env tidy_rules(3)], rule triple_abind, assumption, rule safely_done [OF tidy_rules(1)])
qed

lemma safely_publish_data:
  assumes env: "environment_ok e" and server: "sv_id server = si_server_id inst"
    and "si_stop_requested_at inst \<noteq> None" "si_data_prepared_at inst \<noteq> None" "si_result_snapshot_id inst = None"
  shows "safely (allowed e cm) (well (allowed e cm) (at_machine (ci_id machine) inst))
    (publish_data e server inst machine last_snapshot) (\<lambda>_. well (allowed e cm) orderly)"
proof -
  have "allowed e cm db (AgentCalled (ci_id machine) (DataSnapshot (snapshot_params server inst)))"
    if "at_machine (ci_id machine) inst db" for db
    by (rule allowed_call [OF that]) (use assms in \<open>auto simp: snapshot_params_def\<close>)
  then show ?thesis
    unfolding publish_data_def
    by (intro triple_case_option triple_abind [OF safely_call [OF tidy_rules(3)]] safely_commit_snapshot assms)
qed

lemma safely_stop:
  assumes env: "environment_ok e" and "si_stop_requested_at inst \<noteq> None"
  shows "safely (allowed e cm) (well (allowed e cm) (at_machine cid inst))
    (abind (rcall e cid (ServerStop (stop_params inst)) as_changed) (\<lambda>_.
     abind (rclock e) (\<lambda>stopped_at.
     abind (rrepo e (transaction (observe_process (si_id inst) False stopped_at))) (\<lambda>_.
     areturn StepChanged)))) (\<lambda>_. well (allowed e cm) orderly)"
proof (rule triple_abind [OF safely_call [OF tidy_rules(3)]])
  show "allowed e cm db (AgentCalled cid (ServerStop (stop_params inst)))" if "at_machine cid inst db" for db
    by (rule allowed_call [OF that]) (use assms in auto)
qed (intro safely_bind_clock [OF env tidy_rules(3)]
     triple_abind [OF safely_observe_process [OF env tidy_rules(3)]] safely_done tidy_rules)

lemma safely_cleanup:
  assumes env: "environment_ok e" and "discardable inst"
  shows "safely (allowed e cm) (well (allowed e cm) (at_machine (ci_id machine) inst))
    (abind (rcall e (ci_id machine) (InstanceCleanup (identity inst)) as_changed) (\<lambda>cleaned.
     if cleaned then areturn StepChanged else delete_machine e cm machine)) (\<lambda>_. well (allowed e cm) orderly)"
proof (rule triple_abind [OF safely_call [OF tidy_rules(3)]])
  show "allowed e cm db (AgentCalled (ci_id machine) (InstanceCleanup (identity inst)))"
    if "at_machine (ci_id machine) inst db" for db
    by (rule allowed_call [OF that]) (use assms in auto)
qed (intro triple_if safely_done safely_delete_machine assms tidy_rules)

lemma safely_advance_stopping:
  assumes env: "environment_ok e" and "sv_id server = si_server_id inst" "si_stop_requested_at inst \<noteq> None"
  shows "safely (allowed e cm) (well (allowed e cm) (at_machine (ci_id machine) inst))
    (advance_stopping e cm server inst machine) (\<lambda>_. well (allowed e cm) orderly)"
  unfolding advance_stopping_def
  by (rule triple_abind [OF safely_inspect], rule triple_if [OF safely_fail [OF tidy_rules(3)]],
      rule safely_bind_clock [OF env tidy_rules(3)], rule safely_bind_persist [OF env tidy_rules(3)])
     (use assms(3) in \<open>auto intro!: safely_done safely_stop safely_publish_data safely_cleanup assms tidy_rules triple_if
        simp: discardable_def data_is_safe_to_discard_def\<close>)

lemma safely_discard_now:
  "tidy I \<Longrightarrow> safely A (well A I) (discard_now e inst machine)
     (\<lambda>discard w. (discard \<longrightarrow> data_is_safe_to_discard inst) \<and> well A I w)"
  unfolding discard_now_def
  by (intro triple_if triple_abind [OF safely_is_connected] triple_areturn) simp_all

lemma safely_stop_with_machine:
  assumes env: "environment_ok e" and "sv_id server = si_server_id inst" "si_stop_requested_at inst \<noteq> None"
  shows "safely (allowed e cm) (well (allowed e cm) (at_machine (ci_id machine) inst))
    (stop_with_machine e cm server inst machine) (\<lambda>_. well (allowed e cm) orderly)"
  unfolding stop_with_machine_def
proof (rule triple_bind_fact [OF safely_discard_now [OF tidy_rules(3)]], rule triple_if)
  fix discard
  assume "discard \<longrightarrow> data_is_safe_to_discard inst" "discard"
  then show "safely (allowed e cm) (well (allowed e cm) (at_machine (ci_id machine) inst))
      (delete_machine e cm machine) (\<lambda>_. well (allowed e cm) orderly)"
    using assms(3) by (intro safely_delete_machine env) (simp add: discardable_def)
qed (rule safely_bind_clock [OF env tidy_rules(3)], rule safely_ensure [OF env _ tidy_rules(3)], assumption,
    erule at_machineD(1) [THEN at_machineD(4)], unfold prod.case,
    rule safely_pre [where I = "at_machine (ci_id machine) inst"],
    intro triple_if triple_abind [OF safely_is_connected] safely_done tidy_rules safely_advance_stopping assms, simp)

lemma safely_reconcile_stopping:
  assumes env: "environment_ok e" and "sv_id server = si_server_id inst" "si_stop_requested_at inst \<noteq> None"
  shows "safely (allowed e cm) (well (allowed e cm) (at_instance inst))
    (reconcile_stopping e cm server inst) (\<lambda>_. well (allowed e cm) orderly)"
  unfolding reconcile_stopping_def
proof (rule triple_abind [OF safely_read [OF env tidy_rules(2),
        where J = "\<lambda>active db. at_instance inst db \<and> (\<forall>m. active = Some m \<longrightarrow> at_machine (ci_id m) inst db)"]])
  show "at_instance inst db \<and> (\<forall>m. active = Some m \<longrightarrow> at_machine (ci_id m) inst db)"
    if "at_instance inst db" "get_active_for_instance (si_id inst) db = Inr active" for db active
    using that get_active_for_instance_owns by (auto simp: at_machine_def)
next
  fix active
  show "safely (allowed e cm) (well (allowed e cm) (\<lambda>db. at_instance inst db \<and>
      (\<forall>m. active = Some m \<longrightarrow> at_machine (ci_id m) inst db)))
    (case active of None \<Rightarrow> complete_instance e inst | Some machine \<Rightarrow> stop_with_machine e cm server inst machine)
    (\<lambda>_. well (allowed e cm) orderly)"
    by (cases active; hypsubst; unfold option.case)
       (rule safely_pre [OF safely_complete_instance [OF env assms(3)]]
          safely_pre [OF safely_stop_with_machine [OF assms]], simp)+
qed

lemma create_for_running_server_orderly:
  assumes "orderly db" "create_for_running_server ident sid now db = (db', r)"
  shows "db_step\<^sup>*\<^sup>* db db' \<and> orderly db'"
proof (cases "insert_for_running_server ident sid now db")
  case (Inl x)
  then show ?thesis using assms by (auto simp: create_for_running_server_def action_defs)
next
  case (Inr p)
  then obtain db1 b where ins: "insert_for_running_server ident sid now db = Inr (db1, b)" by (cases p) auto
  then have "db' = db1"
    using assms(2) by (auto simp: create_for_running_server_def action_defs split: if_splits sum.splits)
  then show ?thesis
    using orderly_insert [OF assms(1) ins] db_step.step_insert_instance [OF ins] by auto
qed

lemma safely_create_instance_for:
  assumes env: "environment_ok e"
  shows "safely A (well A orderly) (create_instance_for e server) (\<lambda>_. well A orderly)"
proof -
  have "safely A (well A orderly) (rrepo e (create_for_running_server ident sid now)) (\<lambda>_. well A orderly)" for ident sid now
    by (rule safely_repository [OF env tidy_rules(1)]) (auto dest: create_for_running_server_orderly)
  moreover have "safely A (well A orderly) (ask f) (\<lambda>_. well A orderly)" for f :: "nat \<Rightarrow> uuid"
    by (intro safely_quiet acts_intros tidy_rules)
  ultimately show ?thesis
    unfolding create_instance_for_def
    by (intro triple_if safely_bind_clock [OF env tidy_rules(1)] safely_done tidy_rules)
       (rule triple_abind, assumption, rule triple_abind, assumption, rule safely_done [OF tidy_rules(1)])
qed

text \<open>A stop is requested exactly when it is due, so a running server is never stopping behind the reconciler's back.\<close>

lemma safely_request_stop_of:
  assumes env: "environment_ok e"
  shows "safely A (well A (at_instance inst)) (request_stop_of e server inst)
    (\<lambda>requested. well A (\<lambda>db. orderly db \<and> (\<not> requested \<longrightarrow> at_instance inst db
       \<and> (si_stop_requested_at inst = None \<longrightarrow> sv_desired_state server \<noteq> Stopped))))"
  unfolding request_stop_of_def
proof (rule triple_if)
  assume due: "sv_desired_state server = Stopped \<and> si_stop_requested_at inst = None"
  have "safely A (well A (at_instance inst)) (rrepo e (transaction (request_stop (si_id inst) now)))
      (\<lambda>requested. well A (\<lambda>db. orderly db \<and> (\<not> requested \<longrightarrow> at_instance inst db
       \<and> (si_stop_requested_at inst = None \<longrightarrow> sv_desired_state server \<noteq> Stopped))))" for now
    by (rule safely_write [OF env tidy_rules(2)])
       (use due in \<open>auto intro: db_step.intros orderly_request_stop dest: at_machineD request_stop_applies\<close>)
  then show "safely A (well A (at_instance inst)) (abind (rclock e) (\<lambda>now. rrepo e (transaction (request_stop (si_id inst) now))))
      (\<lambda>requested. well A (\<lambda>db. orderly db \<and> (\<not> requested \<longrightarrow> at_instance inst db
       \<and> (si_stop_requested_at inst = None \<longrightarrow> sv_desired_state server \<noteq> Stopped))))"
    by - (rule safely_bind_clock [OF env tidy_rules(2)], assumption)
qed (rule triple_areturn, auto elim!: well_mono dest: at_machineD)

lemma decode_instance_server: "decode_instance r = Inr inst \<Longrightarrow> si_server_id inst = i_server_id r"
  by (auto simp: decode_instance_def instance_rehydrate_def result_simps)

lemma get_active_for_server_current:
  "get_active_for_server sid db = Inr (Some inst) \<Longrightarrow> current inst db \<and> si_server_id inst = sid"
  by (auto simp: get_active_for_server_def decode_optional_def current_def result_simps split: option.splits
      dest!: select_one_SomeD dest: decode_instance_server)

lemma server_get_id: "server_get sid db = Inr (Some server) \<Longrightarrow> sv_id server = sid"
  by (auto simp: server_get_def decode_optional_def decode_server_def server_rehydrate_def result_simps split: option.splits
      dest!: select_one_SomeD)

lemma safely_bind_found:
  assumes "environment_ok e" "\<And>server :: server. sv_id server = sid \<Longrightarrow> safely A (well A orderly) (k (Some server)) N"
    "safely A (well A orderly) (k None) N"
  shows "safely A (well A orderly) (abind (rrepo e (query (server_get sid))) k) N"
proof -
  have "safely A (well A orderly) (rrepo e (query (server_get sid)))
      (\<lambda>found. well A (\<lambda>db. (\<forall>server. found = Some server \<longrightarrow> sv_id server = sid) \<and> orderly db))"
    by (rule safely_read [OF assms(1) tidy_rules(1)]) (auto dest: server_get_id)
  then have "safely A (well A orderly) (rrepo e (query (server_get sid)))
      (\<lambda>found w. (\<forall>server. found = Some server \<longrightarrow> sv_id server = sid) \<and> well A orderly w)"
    by (rule triple_weaken) (auto simp: well_def)
  then show ?thesis
  proof (rule triple_bind_fact)
    show "safely A (well A orderly) (k found) N" if "\<forall>server. found = Some server \<longrightarrow> sv_id server = sid" for found
      using that assms(2,3) by (cases found) auto
  qed
qed

lemma safely_bind_active:
  assumes "environment_ok e" "safely A (well A orderly) (k None) N"
    "\<And>inst :: server_instance. si_server_id inst = sid \<Longrightarrow> safely A (well A (at_instance inst)) (k (Some inst)) N"
  shows "safely A (well A orderly) (abind (rrepo e (query (get_active_for_server sid))) k) N"
proof (rule triple_abind [OF safely_read [OF assms(1) tidy_rules(1),
        where J = "\<lambda>active db. orderly db \<and> (\<forall>inst. active = Some inst \<longrightarrow> si_server_id inst = sid \<and> at_instance inst db)"]])
  show "orderly db \<and> (\<forall>inst. active = Some inst \<longrightarrow> si_server_id inst = sid \<and> at_instance inst db)"
    if "orderly db" "get_active_for_server sid db = Inr active" for db active
    using that by (auto simp: at_instance_def dest: get_active_for_server_current)
next
  fix active
  show "safely A (well A (\<lambda>db. orderly db \<and> (\<forall>inst. active = Some inst \<longrightarrow> si_server_id inst = sid \<and> at_instance inst db))) (k active) N"
  proof (cases active)
    case None
    then show ?thesis using assms(2) by simp
  next
    case (Some inst)
    then have "si_server_id inst = sid \<and> well A (at_instance inst) w"
      if "well A (\<lambda>db. orderly db \<and> (\<forall>inst. active = Some inst \<longrightarrow> si_server_id inst = sid \<and> at_instance inst db)) w" for w
      using that by (simp add: well_def)
    then show ?thesis using assms(3) unfolding Some by (rule safely_case)
  qed
qed

lemma safely_reconcile_once:
  assumes env: "environment_ok e"
  shows "safely (allowed e cm) (well (allowed e cm) orderly) (reconcile_once e cm sid) (\<lambda>_. well (allowed e cm) orderly)"
  unfolding reconcile_once_def
proof (rule safely_bind_found [OF env]; simp only: option.case)
  show "safely (allowed e cm) (well (allowed e cm) orderly) (areturn StepStable) (\<lambda>_. well (allowed e cm) orderly)"
    by (rule safely_done [OF tidy_rules(1)])
next
  fix server :: server
  assume sid: "sv_id server = sid"
  show "safely (allowed e cm) (well (allowed e cm) orderly)
     (abind (rrepo e (query (get_active_for_server sid))) (\<lambda>active.
       case active of None \<Rightarrow> create_instance_for e server
       | Some inst \<Rightarrow> abind (request_stop_of e server inst) (\<lambda>requested.
           if requested then areturn StepChanged
           else if si_stop_requested_at inst \<noteq> None then reconcile_stopping e cm server inst
           else reconcile_running e cm server inst))) (\<lambda>_. well (allowed e cm) orderly)"
  proof (rule safely_bind_active [OF env]; simp only: option.case)
    fix inst :: server_instance
    assume inst: "si_server_id inst = sid"
    show "safely (allowed e cm) (well (allowed e cm) (at_instance inst))
       (abind (request_stop_of e server inst) (\<lambda>requested.
           if requested then areturn StepChanged
           else if si_stop_requested_at inst \<noteq> None then reconcile_stopping e cm server inst
           else reconcile_running e cm server inst)) (\<lambda>_. well (allowed e cm) orderly)"
    proof (rule triple_abind [OF safely_request_stop_of [OF env]], rule triple_if)
      fix requested
      assume r: "\<not> requested"
      show "safely (allowed e cm) (well (allowed e cm) (\<lambda>db. orderly db \<and> (\<not> requested \<longrightarrow> at_instance inst db
            \<and> (si_stop_requested_at inst = None \<longrightarrow> sv_desired_state server \<noteq> Stopped))))
          (if si_stop_requested_at inst \<noteq> None then reconcile_stopping e cm server inst
           else reconcile_running e cm server inst) (\<lambda>_. well (allowed e cm) orderly)"
      proof (rule safely_case [of _ "si_stop_requested_at inst = None \<longrightarrow> sv_desired_state server \<noteq> Stopped"
            "well (allowed e cm) (at_instance inst)"], goal_cases)
        case (1 w)
        with r show ?case by (simp add: well_def)
      next
        case 2
        then show ?case
          by (intro triple_if safely_reconcile_stopping safely_reconcile_running env) (simp_all add: inst sid)
      qed
    qed (rule safely_pre [OF safely_done [OF tidy_rules(1)]], simp)
  qed (rule safely_create_instance_for [OF env])
qed

lemma safely_reconcile_steps:
  assumes "environment_ok e"
  shows "safely (allowed e cm) (well (allowed e cm) orderly) (reconcile_steps e cm sid n) (\<lambda>_. well (allowed e cm) orderly)"
proof (induction n)
  case 0
  then show ?case by (simp add: safely_fail [OF tidy_rules(1)])
next
  case (Suc n)
  then have "safely (allowed e cm) (well (allowed e cm) orderly)
      (case outcome of StepChanged \<Rightarrow> reconcile_steps e cm sid n | StepStable \<Rightarrow> areturn OutcomeStable
       | StepAwaiting \<Rightarrow> areturn OutcomeRetry) (\<lambda>_. well (allowed e cm) orderly)" for outcome
    by (cases outcome) (simp_all add: safely_done [OF tidy_rules(1)])
  then show ?case
    unfolding reconcile_steps.simps by (rule triple_abind [OF safely_reconcile_once [OF assms]])
qed

lemma safely_reconcile_until_blocked:
  "environment_ok e \<Longrightarrow>
   safely (allowed e cm) (well (allowed e cm) orderly) (reconcile_until_blocked e cm sid) (\<lambda>_. well (allowed e cm) orderly)"
  unfolding reconcile_until_blocked_def by (rule safely_reconcile_steps)

end
