(* ===== verification/Reconcile_Worker.thy ===== *)
theory Reconcile_Worker
  imports Reconcile_Safety
begin

text \<open>
  The reconciliation worker (\<open>ReconcileWorker\<close> in \<open>reconciliation.rs\<close>): it
  reconciles a server when it is notified, when a retry is due and at every
  resynchronisation, and keeps the retries of the servers that could not be
  brought to rest. The select loop is a sequence of the events it wakes up
  for; the sequence ends when the worker is cancelled or the queue closed.
\<close>

record retry_state =
  rs_consecutive_failures :: u32
  rs_retry_at :: nat

type_synonym retries = "(uuid \<times> retry_state) list"

record reconcile_worker =
  rw_compute_manager :: compute_manager
  rw_retry_interval :: duration

text \<open>The addition of a duration to an instant panics when the instant cannot be represented.\<close>

datatype worker_panic = InstantOverflow

definition instant_add :: "nat \<Rightarrow> duration \<Rightarrow> worker_panic + nat" where
  "instant_add now delay =
     (if as_secs (now + delay) \<le> 9223372036854775807 then Inr (now + delay) else Inl InstantOverflow)"

definition MAX_ERROR_RETRY_DELAY :: duration where
  "MAX_ERROR_RETRY_DELAY = from_secs 300"

definition error_retry_delay :: "duration \<Rightarrow> u32 \<Rightarrow> duration" where
  "error_retry_delay base consecutive_failures =
     (let exponent = min (unat consecutive_failures - 1) 6;
          multiplier = 2 ^ exponent in
      min (case duration_checked_mul base multiplier of None \<Rightarrow> MAX_ERROR_RETRY_DELAY | Some delay \<Rightarrow> delay)
        MAX_ERROR_RETRY_DELAY)"

definition saturating_succ :: "u32 \<Rightarrow> u32" where
  "saturating_succ n = (if n = - 1 then n else n + 1)"

definition retry_delay :: "reconcile_worker \<Rightarrow> reconcile_error \<Rightarrow> u32 \<Rightarrow> duration" where
  "retry_delay rw error consecutive_failures =
     (case reconcile_retry_after error of
        Some delay \<Rightarrow> min (max delay (rw_retry_interval rw)) MAX_ERROR_RETRY_DELAY
      | None \<Rightarrow> error_retry_delay (rw_retry_interval rw) consecutive_failures)"

section \<open>Pending retries\<close>

definition pending_remove :: "uuid \<Rightarrow> retries \<Rightarrow> retries" where
  "pending_remove server_id pending = filter (\<lambda>(i, _). i \<noteq> server_id) pending"

definition pending_insert :: "uuid \<Rightarrow> retry_state \<Rightarrow> retries \<Rightarrow> retries" where
  "pending_insert server_id state pending = (server_id, state) # pending_remove server_id pending"

definition previous_failures :: "uuid \<Rightarrow> retries \<Rightarrow> u32" where
  "previous_failures server_id pending =
     (case map_of pending server_id of None \<Rightarrow> 0 | Some state \<Rightarrow> rs_consecutive_failures state)"

section \<open>Reconciling and scheduling\<close>

definition record_reconcile_error ::
    "environment \<Rightarrow> (reconcile_error \<Rightarrow> string) \<Rightarrow> uuid \<Rightarrow> reconcile_error \<Rightarrow> ('e, unit) io" where
  "record_reconcile_error e nested server_id error =
     abind (attempt (repository e (query (get_active_for_server server_id)))) (\<lambda>active.
     case active of
       Inr (Some inst) \<Rightarrow>
         abind (attempt (clock_now e)) (\<lambda>clock.
         case clock of
           Inl _ \<Rightarrow> areturn ()
         | Inr now \<Rightarrow>
             abind (attempt (repository e (transaction
               (record_error (si_id inst) (reconcile_error_text (env_uuid_text e) nested error) now)))) (\<lambda>_.
             areturn ()))
     | _ \<Rightarrow> areturn ())"

definition reconcile_and_schedule ::
    "environment \<Rightarrow> (reconcile_error \<Rightarrow> string) \<Rightarrow> reconcile_worker \<Rightarrow> uuid \<Rightarrow> u32 \<Rightarrow> retries
     \<Rightarrow> (worker_panic, retries) io" where
  "reconcile_and_schedule e nested rw server_id failures pending =
     abind (attempt (reconcile_until_blocked e (rw_compute_manager rw) server_id)) (\<lambda>outcome.
     case outcome of
       Inr OutcomeStable \<Rightarrow> areturn pending
     | Inr OutcomeRetry \<Rightarrow>
         abind (ask (env_instant e)) (\<lambda>now.
         abind (alift (instant_add now (rw_retry_interval rw))) (\<lambda>retry_at.
         areturn (pending_insert server_id
           \<lparr> rs_consecutive_failures = 0, rs_retry_at = retry_at \<rparr> pending)))
     | Inl error \<Rightarrow>
         let consecutive_failures = saturating_succ failures;
             delay = retry_delay rw error consecutive_failures in
         abind (ask (env_instant e)) (\<lambda>now.
         abind (alift (instant_add now delay)) (\<lambda>retry_at.
         abind (record_reconcile_error e nested server_id error) (\<lambda>_.
         areturn (pending_insert server_id
           \<lparr> rs_consecutive_failures = consecutive_failures, rs_retry_at = retry_at \<rparr> pending)))))"

definition visit ::
    "environment \<Rightarrow> (reconcile_error \<Rightarrow> string) \<Rightarrow> reconcile_worker \<Rightarrow> uuid \<Rightarrow> retries \<Rightarrow> (worker_panic, retries) io" where
  "visit e nested rw server_id pending =
     reconcile_and_schedule e nested rw server_id (previous_failures server_id pending)
       (pending_remove server_id pending)"

section \<open>The events of the select loop\<close>

datatype worker_event = RequestReceived reconcile_request | RetryTick | ResyncTick

definition resolve_request :: "environment \<Rightarrow> reconcile_request \<Rightarrow> ('e, uuid option) io" where
  "resolve_request e request =
     (case request of
        RequestServer server_id \<Rightarrow> areturn (Some server_id)
      | RequestServerInstance instance_id \<Rightarrow>
          abind (attempt (repository e (query (instance_get instance_id)))) (\<lambda>found.
          areturn (case found of Inr (Some inst) \<Rightarrow> Some (si_server_id inst) | _ \<Rightarrow> None)))"

primrec visit_due ::
    "environment \<Rightarrow> (reconcile_error \<Rightarrow> string) \<Rightarrow> reconcile_worker \<Rightarrow> uuid list \<Rightarrow> retries \<Rightarrow> (worker_panic, retries) io" where
  "visit_due e nested rw [] pending = areturn pending"
| "visit_due e nested rw (server_id # rest) pending =
     abind (ask (env_cancelled e)) (\<lambda>cancelled.
     if cancelled then areturn pending
     else abind (visit e nested rw server_id pending) (visit_due e nested rw rest))"

primrec visit_listed ::
    "environment \<Rightarrow> (reconcile_error \<Rightarrow> string) \<Rightarrow> reconcile_worker \<Rightarrow> nat \<Rightarrow> server list \<Rightarrow> retries
     \<Rightarrow> (worker_panic, retries) io" where
  "visit_listed e nested rw now [] pending = areturn pending"
| "visit_listed e nested rw now (server # rest) pending =
     abind (ask (env_cancelled e)) (\<lambda>cancelled.
     if cancelled then areturn pending
     else if is_some_and (map_of pending (sv_id server)) (\<lambda>state. now < rs_retry_at state)
     then visit_listed e nested rw now rest pending
     else abind (visit e nested rw (sv_id server) pending) (visit_listed e nested rw now rest))"

definition due :: "nat \<Rightarrow> retries \<Rightarrow> uuid list" where
  "due now pending = map fst (filter (\<lambda>(_, state). rs_retry_at state \<le> now) pending)"

fun worker_step ::
    "environment \<Rightarrow> (reconcile_error \<Rightarrow> string) \<Rightarrow> reconcile_worker \<Rightarrow> worker_event \<Rightarrow> retries \<Rightarrow> (worker_panic, retries) io" where
  "worker_step e nested rw (RequestReceived request) pending =
     abind (resolve_request e request) (\<lambda>resolved.
     case resolved of
       None \<Rightarrow> areturn pending
     | Some server_id \<Rightarrow> visit e nested rw server_id pending)"
| "worker_step e nested rw RetryTick pending =
     abind (ask (env_instant e)) (\<lambda>now.
     abind (ask (\<lambda>n. env_order e n (due now pending))) (\<lambda>server_ids.
     visit_due e nested rw server_ids pending))"
| "worker_step e nested rw ResyncTick pending =
     abind (attempt (repository e (query list_for_reconciliation))) (\<lambda>listed.
     case listed of
       Inl _ \<Rightarrow> areturn pending
     | Inr found \<Rightarrow>
         abind (ask (env_instant e)) (\<lambda>now.
         visit_listed e nested rw now found pending))"

primrec worker_run ::
    "environment \<Rightarrow> (reconcile_error \<Rightarrow> string) \<Rightarrow> reconcile_worker \<Rightarrow> worker_event list \<Rightarrow> retries \<Rightarrow> (worker_panic, retries) io" where
  "worker_run e nested rw [] pending = areturn pending"
| "worker_run e nested rw (event # events) pending =
     abind (worker_step e nested rw event pending) (worker_run e nested rw events)"

section \<open>Every event keeps the invariant\<close>

lemma record_error_orderly:
  assumes "orderly db" "record_error ident (c # cs) now db = Inr (db', u)" "is_ascii_alphabetic c"
  shows "db_step\<^sup>*\<^sup>* db db' \<and> orderly db'"
proof (cases "\<exists>r \<in> set (server_instances db). active_where ident r")
  case True
  let ?m = "truncate_chars 8192 (c # cs)"
  obtain b where upd: "update_instance (active_where ident) (record_error_set ?m now) db = Inr (db', b)"
    using assms(2) by (auto simp: record_error_def result_simps)
  from True obtain r where "r \<in> set (server_instances db)" "active_where ident r" by blast
  then have "record_error_set ?m now r \<in> set (server_instances db')"
    using update_instance_Inr(1) [OF upd] by (auto simp: sql_update_def)
  moreover have "schema db'" using upd by (auto simp: update_instance_def result_simps)
  ultimately have "instance_row_check (record_error_set ?m now r)" by (rule schema_rows(5) [rotated])
  then have m: "sql_text 8192 ?m"
    by (simp add: instance_row_check_def record_error_set_def null_or_def del: truncate_chars.simps)
  have "\<not> is_continuation c" "code c < 128" "\<not> white1 (code c)"
    using assms(3) by (auto simp: ascii_defs is_continuation_def white1_def)
  moreover have "?m = c # truncate_chars 8191 cs" if "\<not> is_continuation c"
    using that truncate_chars.simps(2) [of "Suc 8191" c cs] by simp
  ultimately have "\<not> is_blank ?m" by (simp add: is_blank_Cons_ascii)
  with m have step: "db_step db db'"
    using assms(2) by (intro db_step.step_record_error) (auto simp: text_ok_def sql_text_def)
  moreover have "orderly db'"
    by (rule orderly_update_instance [OF assms(1) upd step]) (auto simp: lifecycle_def record_error_set_def)
  ultimately show ?thesis by auto
next
  case False
  then have "db' = db"
    using assms(2) by (auto simp: record_error_def update_instance_def result_simps sql_update_id)
  then show ?thesis using assms(1) by simp
qed

text \<open>Every operation of the worker keeps a world orderly, whether it returns or panics.\<close>

abbreviation keeps_orderly :: "environment \<Rightarrow> compute_manager \<Rightarrow> ('e, 'a) io \<Rightarrow> bool" where
  "keeps_orderly e cm m \<equiv> keeps (well (allowed e cm) orderly) m"

lemma keeps_triple: "keeps P m \<longleftrightarrow> triple P m (\<lambda>_. P) (\<lambda>_. P)"
  by (auto simp: keeps_def triple_def split: prod.splits sum.splits) (metis prod.collapse sum.exhaust)

lemma keeps_quiet [keeps_intros]: "keeps_orderly e cm (ask f)" "keeps_orderly e cm (clock_now e')"
  unfolding keeps_triple by (intro safely_quiet acts_intros tidy_rules)+

lemma keeps_read [keeps_intros]: "environment_ok e \<Longrightarrow> keeps_orderly e cm (repository e (query q))"
  unfolding keeps_triple by (intro safely_quiet acts_intros tidy_rules)

lemma reconcile_error_text_ascii:
  "\<exists>c cs. reconcile_error_text show_id nested error = c # cs \<and> is_ascii_alphabetic c"
  by (cases error) (simp_all add: ascii_defs)

lemma keeps_record_error [keeps_intros]:
  assumes "environment_ok e"
  shows "keeps_orderly e cm (repository e (transaction (record_error ident (reconcile_error_text show_id nested error) now)))"
proof -
  obtain c cs where msg: "reconcile_error_text show_id nested error = c # cs" "is_ascii_alphabetic c"
    using reconcile_error_text_ascii by blast
  have "db_step\<^sup>*\<^sup>* db db' \<and> orderly db'"
    if "orderly db" "transaction (record_error ident (c # cs) now) db = (db', r)" for db db' r
    using that record_error_orderly [OF that(1) _ msg(2)] by (auto simp: transaction_def split: sum.splits)
  then show ?thesis
    using well_repository [OF assms tidyD(1) [OF tidy_rules(1)]] unfolding msg(1)
    by (intro keeps_triple [THEN iffD2] tripleI) blast+
qed

lemma keeps_record_reconcile_error [keeps_intros]:
  "environment_ok e \<Longrightarrow> keeps_orderly e cm (record_reconcile_error e nested sid error)"
  unfolding record_reconcile_error_def by (intro keeps_intros)

lemma keeps_case_outcome [keeps_intros]:
  "keeps P m \<Longrightarrow> keeps P n \<Longrightarrow> keeps P (case x of OutcomeStable \<Rightarrow> m | OutcomeRetry \<Rightarrow> n)"
  by (cases x) simp_all

lemma keeps_reconcile_and_schedule [keeps_intros]:
  assumes "environment_ok e"
  shows "keeps_orderly e (rw_compute_manager rw) (reconcile_and_schedule e nested rw sid failures pending)"
proof -
  have "keeps_orderly e (rw_compute_manager rw) (reconcile_until_blocked e (rw_compute_manager rw) sid)"
    unfolding keeps_triple by (rule safely_reconcile_until_blocked [OF assms])
  then show ?thesis
    unfolding reconcile_and_schedule_def Let_def by (intro keeps_intros assms)
qed

lemma keeps_visit [keeps_intros]:
  "environment_ok e \<Longrightarrow> keeps_orderly e (rw_compute_manager rw) (visit e nested rw sid pending)"
  unfolding visit_def by (intro keeps_intros)

lemma keeps_visit_due [keeps_intros]:
  "environment_ok e \<Longrightarrow> keeps_orderly e (rw_compute_manager rw) (visit_due e nested rw ids pending)"
  by (induction ids arbitrary: pending) (simp_all, (intro keeps_intros; simp)+)

lemma keeps_visit_listed [keeps_intros]:
  "environment_ok e \<Longrightarrow> keeps_orderly e (rw_compute_manager rw) (visit_listed e nested rw now found pending)"
proof (induction found arbitrary: pending)
  case (Cons server found)
  then show ?case unfolding visit_listed.simps by (intro keeps_intros) simp_all
qed (simp add: keeps_intros)

lemma keeps_case_request [keeps_intros]:
  "(\<And>i. keeps P (m i)) \<Longrightarrow> (\<And>i. keeps P (n i)) \<Longrightarrow> keeps P (case r of RequestServer i \<Rightarrow> m i | RequestServerInstance i \<Rightarrow> n i)"
  by (cases r) simp_all

lemma keeps_worker_step:
  "environment_ok e \<Longrightarrow> keeps_orderly e (rw_compute_manager rw) (worker_step e nested rw event pending)"
  by (cases event) (simp_all add: resolve_request_def, (intro keeps_intros; simp)+)

lemma keeps_worker_run:
  "environment_ok e \<Longrightarrow> keeps_orderly e (rw_compute_manager rw) (worker_run e nested rw events pending)"
  by (induction events arbitrary: pending) (simp_all, (intro keeps_intros keeps_worker_step; simp)+)

end
