(* ===== verification/Example_Worker.thy ===== *)
theory Example_Worker
  imports Reconcile_Worker
begin

text \<open>
  A concrete run of the worker: a server whose first instance published its
  snapshot and terminated, and whose second instance is restored and about
  to start. The worker starts it, a client then asks for a stop, and the
  worker stops it, publishes its snapshot and begins to clean up.
\<close>

text \<open>The database after a write, or as it was when the write fails.\<close>

definition after :: "(database \<Rightarrow> repository_error + (database \<times> 'a)) \<Rightarrow> database \<Rightarrow> database" where
  "after t db = (case t db of Inl _ \<Rightarrow> db | Inr (db', _) \<Rightarrow> db')"

lemma after_reachable:
  "reachable db \<Longrightarrow> (\<And>db' a. t db = Inr (db', a) \<Longrightarrow> db_step db db') \<Longrightarrow> reachable (after t db)"
  by (auto simp: after_def split: sum.split intro: reach_step)

definition run_instance1 :: instance_row where
  "run_instance1 = ex_instance\<lparr> i_data_prepared_at_ms := Some 3500, i_stop_requested_at_ms := Some 4000,
     i_process_observed_at_ms := Some 6000, i_result_snapshot_id := Some ex_snapshot,
     i_terminated_at_ms := Some 6000, i_terminal_result := Some ''completed'', i_updated_at_ms := 6000 \<rparr>"

definition run_instance2 :: instance_row where
  "run_instance2 = ex_instance\<lparr> i_id := 8, i_fencing_token := 2, i_source_snapshot_id := Some ex_snapshot,
     i_data_prepared_at_ms := Some 7300, i_process_observed_at_ms := Some 7400,
     i_created_at_ms := 7000, i_updated_at_ms := 7400 \<rparr>"

definition run_machine :: compute_row where
  "run_machine = (new_compute_row 9 8 LocalProcess ''t'' None 7100)\<lparr> c_process_id := Some 77, c_updated_at_ms := 7200 \<rparr>"

definition run_db :: database where
  "run_db = \<lparr> servers = [ex_row\<lparr> s_next_fencing_token := 3, s_current_snapshot_id := Some ex_snapshot, s_updated_at_ms := 5000 \<rparr>],
     server_instances = [run_instance1, run_instance2], compute_instances = [run_machine],
     snapshots = [\<lparr> n_id = ex_snapshot, n_server_id = 1, n_server_instance_id = 7,
       n_fencing_token = 1, n_created_at_ms = 5000 \<rparr>] \<rparr>"

definition run_db_steps :: "database \<Rightarrow> database" where
  "run_db_steps db =
     after (observe_process 8 False 7400) (after (mark_data_prepared 8 7300)
     (after (record_process_id 9 77 7200) (after (insert_for_instance 9 8 LocalProcess ''t'' None 7100)
     (after (insert_for_running_server 8 1 7000) (after (complete 7 Completed 6000)
     (after (commit 7 1 ex_snapshot 5000) (after (request_stop 7 4000) db)))))))"

definition run_stopped :: server where
  "run_stopped = ex_server_running\<lparr> sv_generation := 3, sv_desired_state := Stopped \<rparr>"

definition run_others :: "nat \<Rightarrow> database \<Rightarrow> database" where
  "run_others n db = (if n = 12 then after (update_desired_state run_stopped 2) db else db)"

definition run_agent :: "nat \<Rightarrow> uuid \<Rightarrow> agent_request \<Rightarrow> agent_call_error + agent_reply" where
  "run_agent n cid request =
     (case request of
        AgentInspect _ \<Rightarrow> Inr (InspectReply
          \<lparr> ir_data_prepared = True, ir_process_running = False, ir_last_snapshot_id = Some ''b'' \<rparr>)
      | InstanceCleanup _ \<Rightarrow> Inl CallTimeout
      | _ \<Rightarrow> Inr (ChangedReply True))"

definition run_env :: environment where
  "run_env = example_env\<lparr> env_others := run_others, env_connected := (\<lambda>_ _. True), env_agent := run_agent \<rparr>"

definition run_config :: local_config where
  "run_config = \<lparr> lc_local_scope = ''s'', lc_node_agent_root = ''/r'', lc_control_plane_address = [],
     lc_command_timeout = 0, lc_max_frame_bytes = 0 \<rparr>"

definition run_worker :: reconcile_worker where
  "run_worker = \<lparr> rw_compute_manager = \<lparr> cm_local = run_config, cm_akamai = None \<rparr>, rw_retry_interval = from_secs 5 \<rparr>"

definition run_world :: world where
  "run_world = \<lparr> w_db = run_db, w_tick = 0, w_children = [9], w_trace = [] \<rparr>"

definition run_nested :: "reconcile_error \<Rightarrow> string" where
  "run_nested _ = ''timeout''"

definition run_result :: "world \<times> (worker_panic + retries)" where
  "run_result = worker_run run_env run_nested run_worker [RequestReceived (RequestServer 1)] [] run_world"

text \<open>What the run sends: the second start of the server, and the clean-up after its stop.\<close>

definition run_checks :: "world \<Rightarrow> bool" where
  "run_checks w \<longleftrightarrow> length (w_trace w) = 6
     \<and> (case w_trace w ! 1 of
          (db, AgentCalled _ (ServerStart p)) \<Rightarrow> server_instance_id (ss_instance p) = 8 \<and> run_instance1 \<in> set (server_instances db)
            \<and> list_all (\<lambda>r. i_server_id r = 1) (server_instances db)
        | _ \<Rightarrow> False)
     \<and> (case w_trace w ! 5 of
          (_, AgentCalled _ (InstanceCleanup i)) \<Rightarrow> server_instance_id i = 8
        | _ \<Rightarrow> False)"

lemma run_db_eq: "run_db_steps ex_db4 = run_db"
  by code_simp

lemma run_machine_step:
  assumes "insert_for_instance 9 8 LocalProcess ''t'' None 7100 db = Inr (db', b)"
  shows "db_step db db'"
proof -
  have t: "text_ok 256 ''t''" by code_simp
  show ?thesis by (rule db_step.step_insert_compute [OF assms _ t]) simp_all
qed

lemma run_db_reachable: "reachable run_db"
  unfolding run_db_eq [symmetric] run_db_steps_def
  by (intro after_reachable ex_reach4) (auto intro: db_step.intros run_machine_step)

lemma run_db_orderly: "orderly run_db"
  using run_db_reachable
  by (simp add: orderly_def run_db_def run_instance1_def run_instance2_def ex_instance_def lifecycle_def)

lemma run_env_ok: "environment_ok run_env" "uuid_text_ok run_env"
proof -
  have "task_step\<^sup>*\<^sup>* db (run_others n db)" for n db
    by (auto simp: run_others_def after_def run_stopped_def ex_server_running_def split: sum.splits
        intro!: r_into_rtranclp task_step.task_desired_state)
  then show "environment_ok run_env"
    using example_env_ok by (simp add: environment_ok_def run_env_def)
  show "uuid_text_ok run_env" using example_env_uuid by (simp add: uuid_text_ok_def run_env_def)
qed

lemma run_checked: "run_checks (fst run_result)"
  by code_simp

lemma run_trace:
  obtains db cid p db' cid' i where "length (w_trace (fst run_result)) = 6"
    "w_trace (fst run_result) ! 1 = (db, AgentCalled cid (ServerStart p))" "server_instance_id (ss_instance p) = 8"
    "run_instance1 \<in> set (server_instances db)" "list_all (\<lambda>r. i_server_id r = 1) (server_instances db)"
    "w_trace (fst run_result) ! 5 = (db', AgentCalled cid' (InstanceCleanup i))" "server_instance_id i = 8"
  using run_checked
  by (auto simp: run_checks_def split: prod.splits effect.splits agent_request.splits)

end
