(* ===== verification/Reconcile_Properties.thy ===== *)
theory Reconcile_Properties
  imports Example_Worker
begin

text \<open>
  What the worker guarantees over a whole run: the order in which machines
  are started, snapshots published and data discarded, whatever the agents,
  the provider, the clock and the other tasks do.
\<close>

section \<open>The history of an instance row\<close>

definition continues :: "instance_row \<Rightarrow> instance_row \<Rightarrow> bool" where
  "continues r r' \<longleftrightarrow>
     i_id r' = i_id r \<and> i_server_id r' = i_server_id r \<and> i_fencing_token r' = i_fencing_token r
   \<and> i_resolved_spec r' = i_resolved_spec r \<and> i_source_snapshot_id r' = i_source_snapshot_id r
   \<and> (i_data_prepared_at_ms r \<noteq> None \<longrightarrow> i_data_prepared_at_ms r' = i_data_prepared_at_ms r)
   \<and> (i_stop_requested_at_ms r \<noteq> None \<longrightarrow> i_stop_requested_at_ms r' = i_stop_requested_at_ms r)
   \<and> (i_result_snapshot_id r \<noteq> None \<longrightarrow> i_result_snapshot_id r' = i_result_snapshot_id r)
   \<and> (i_terminated_at_ms r \<noteq> None \<longrightarrow> r' = r)"

definition rows_continue :: "database \<Rightarrow> database \<Rightarrow> bool" where
  "rows_continue db db' \<longleftrightarrow>
     (\<forall>r \<in> set (server_instances db). \<exists>r' \<in> set (server_instances db'). continues r r')"

lemma continues_refl [simp]: "continues r r"
  by (simp add: continues_def)

lemma continues_trans: "continues a b \<Longrightarrow> continues b c \<Longrightarrow> continues a c"
  by (auto simp: continues_def)

lemma rows_continue_refl [simp]: "rows_continue db db"
  unfolding rows_continue_def by (blast intro: continues_refl)

lemma rows_continue_trans: "rows_continue a b \<Longrightarrow> rows_continue b c \<Longrightarrow> rows_continue a c"
  unfolding rows_continue_def by (meson continues_trans)

lemma rows_continue_same: "server_instances db' = server_instances db \<Longrightarrow> rows_continue db db'"
  unfolding rows_continue_def by (auto intro: continues_refl)

lemma rows_continue_update:
  assumes "server_instances db' = sql_update p f (server_instances db)"
    "\<And>r. r \<in> set (server_instances db) \<Longrightarrow> p r \<Longrightarrow> continues r (f r)"
  shows "rows_continue db db'"
  unfolding rows_continue_def
proof
  fix r
  assume r: "r \<in> set (server_instances db)"
  show "\<exists>r' \<in> set (server_instances db'). continues r r'"
    by (rule bexI [of _ "if p r then f r else r"]) (use assms r in \<open>auto simp: sql_update_def\<close>)
qed

lemma rows_continue_update_instance:
  "update_instance p f db = Inr (db', b) \<Longrightarrow> (\<And>r. p r \<Longrightarrow> continues r (f r)) \<Longrightarrow> rows_continue db db'"
  by (rule rows_continue_update [where p = p and f = f]) (auto simp: update_instance_Inr)

lemma rows_continue_commit:
  assumes inv: "db_inv db" and op: "commit ident token snap now db = Inr (db', b)"
  shows "rows_continue db db'"
  using inv op
proof (cases rule: commit_cases)
  case (published i s)
  have keys: "distinct (map i_id (server_instances db))"
    using inv schema_rows(2) by (simp add: db_inv_def)
  have "continues r (publish_instance_set snap t r)"
    if "r \<in> set (server_instances db)" "publish_instance_where ident (uint token) r" for r t
  proof -
    have "r = i"
      using that published(3,4) keys by (auto simp: publish_instance_where_def distinct_map inj_on_def)
    then show ?thesis using published(5,7) by (simp add: continues_def publish_instance_set_def)
  qed
  moreover have "server_instances db' = sql_update (publish_instance_where ident (uint token))
      (publish_instance_set snap (max (max now (i_updated_at_ms i)) (s_updated_at_ms s))) (server_instances db)"
    using publish_Inr [OF published(10)] by simp
  ultimately show ?thesis by (intro rows_continue_update)
qed simp

lemma rows_continue_insert:
  assumes "insert_for_running_server ident sid now db = Inr (db', b)"
  shows "rows_continue db db'"
  using assms
  by (cases rule: insert_for_running_server_cases) (auto simp: rows_continue_def intro!: bexI continues_refl)

lemma update_servers_instances:
  "server_create s db = Inr db' \<Longrightarrow> server_instances db' = server_instances db"
  "update_desired_state s prev db = Inr (db', b) \<Longrightarrow> server_instances db' = server_instances db"
  "update_spec s prev db = Inr (db', b) \<Longrightarrow> server_instances db' = server_instances db"
  "archive s prev db = Inr (db', b) \<Longrightarrow> server_instances db' = server_instances db"
  by (auto simp: server_create_def insert_server_def update_desired_state_def update_spec_def archive_def
      Let_def result_simps split: sum.splits if_splits)

lemma update_computes_instances:
  "insert_for_instance ident iid provider ctoken etoken now db = Inr (db', b) \<Longrightarrow> server_instances db' = server_instances db"
  "record_process_id ident pid now db = Inr (db', b) \<Longrightarrow> server_instances db' = server_instances db"
  "record_provider_instance ident piid addr now db = Inr (db', b) \<Longrightarrow> server_instances db' = server_instances db"
  "record_agent_certificate ident et cert db = Inr (db', b) \<Longrightarrow> server_instances db' = server_instances db"
  "request_shutdown ident now db = Inr (db', b) \<Longrightarrow> server_instances db' = server_instances db"
  "terminate ident cresult message now db = Inr (db', b) \<Longrightarrow> server_instances db' = server_instances db"
  by (auto simp: insert_for_instance_def execute_Inr record_process_id_def record_provider_instance_def
      record_agent_certificate_def request_shutdown_def terminate_def update_compute_Inr
      split: if_splits sum.splits)

lemma more_computes_instances:
  "record_failure ident message now db = Inr (db', u) \<Longrightarrow> server_instances db' = server_instances db"
  "authenticate_agent ident provider ctoken der now db = Inr (db', a) \<Longrightarrow> server_instances db' = server_instances db"
proof -
  show "record_failure ident message now db = Inr (db', u) \<Longrightarrow> server_instances db' = server_instances db"
    by (auto simp: record_failure_def result_simps update_compute_Inr split: prod.splits)
  show "authenticate_agent ident provider ctoken der now db = Inr (db', a) \<Longrightarrow> server_instances db' = server_instances db"
    by (drule authenticate_same_runs) (simp add: same_runs_def)
qed

lemma db_step_rows: "db_step db db' \<Longrightarrow> db_inv db \<Longrightarrow> rows_continue db db'"
proof (induction rule: db_step.induct)
  case (step_request_stop ident now db db' b)
  then show ?case
    by (intro rows_continue_update_instance [of "request_stop_where ident" "request_stop_set now" _ _ b])
       (auto simp: request_stop_def continues_def request_stop_where_def request_stop_set_def)
next
  case (step_mark_data_prepared ident now db db' b)
  then show ?case
    by (intro rows_continue_update_instance [of "active_where ident" "mark_data_prepared_set now" _ _ b])
       (auto simp: mark_data_prepared_def continues_def coalesce_def mark_data_prepared_set_def active_where_def)
next
  case (step_observe_process ident running now db db' b)
  then show ?case
    by (intro rows_continue_update_instance [of "active_where ident" "observe_process_set running now" _ _ b])
       (auto simp: observe_process_def continues_def observe_process_set_def active_where_def)
next
  case (step_record_error ident message now db db' u)
  then show ?case
    by (auto simp: record_error_def result_simps continues_def record_error_set_def active_where_def
        intro!: rows_continue_update_instance [of "active_where ident" "record_error_set (truncate_chars 8192 message) now"])
next
  case (step_complete ident result now db db' b)
  then show ?case
    by (intro rows_continue_update_instance [of "active_where ident" "complete_set result now" _ _ b])
       (auto simp: complete_def continues_def complete_set_def active_where_def)
next
  case step_commit
  then show ?case by (blast intro: rows_continue_commit)
next
  case step_insert_instance
  then show ?case by (blast intro: rows_continue_insert)
qed (blast intro: rows_continue_same update_servers_instances update_computes_instances more_computes_instances)+

lemma db_steps_rows: "db_step\<^sup>*\<^sup>* db db' \<Longrightarrow> db_inv db \<Longrightarrow> rows_continue db db'"
proof (induction rule: rtranclp_induct)
  case (step y z)
  moreover have "db_inv y" using repositories.inv_steps [OF step.hyps(1) step.prems] .
  ultimately show ?case by (blast intro: rows_continue_trans db_step_rows)
qed simp

section \<open>The trace of a run\<close>

lemma run_well:
  assumes "environment_ok e" "orderly (w_db w)" "w_trace w = []" "worker_run e nested rw events pending w = (w', r)"
  shows "well (allowed e (rw_compute_manager rw)) orderly w'"
proof -
  have "well (allowed e (rw_compute_manager rw)) orderly w"
    using assms(2,3) by (simp add: well_def trace_ok_def in_order_def)
  then show ?thesis by (rule keepsD [OF keeps_worker_run [OF assms(1)] _ assms(4)])
qed

lemma well_entries:
  assumes "well A orderly w" "j < k" "k < length (w_trace w)"
    "w_trace w ! j = (db, ef)" "w_trace w ! k = (db', ef')"
  shows "A db ef" "A db' ef'" "db_step\<^sup>*\<^sup>* db db'"
proof -
  have "(db, ef) \<in> set (w_trace w)" "(db', ef') \<in> set (w_trace w)"
    using assms nth_mem [of j "w_trace w"] nth_mem [of k "w_trace w"] by auto
  then show "A db ef" "A db' ef'" using assms(1) by (auto simp: well_def trace_ok_def)
  have "sorted_wrt (\<lambda>a b. db_step\<^sup>*\<^sup>* a b) (map fst (w_trace w))"
    using assms(1) by (auto simp: well_def in_order_def sorted_wrt_append)
  then show "db_step\<^sup>*\<^sup>* db db'"
    using sorted_wrt_nth_less [of _ "map fst (w_trace w)" j k] assms(2-5) by simp
qed

lemma well_continues:
  assumes "well (allowed e cm) orderly w" "j < k" "k < length (w_trace w)"
    "w_trace w ! j = (db, ef)" "w_trace w ! k = (db', ef')" "x \<in> set (server_instances db)"
  shows "\<exists>x' \<in> set (server_instances db'). continues x x'"
proof -
  have "orderly db" using well_entries(1) [OF assms(1-5)] by (simp add: allowed_def)
  then show ?thesis
    using db_steps_rows [OF well_entries(3) [OF assms(1-5)] orderlyD(2)] assms(6) by (simp add: rows_continue_def)
qed

text \<open>The instance a start is for: live, not told to stop, with its data in place.\<close>

definition start_of :: "database \<Rightarrow> uuid \<Rightarrow> start_server_params \<Rightarrow> instance_row \<Rightarrow> bool" where
  "start_of db cid p r \<longleftrightarrow>
     r \<in> set (server_instances db) \<and> i_id r = server_instance_id (ss_instance p)
   \<and> i_fencing_token r = uint (fencing_token (ss_instance p)) \<and> owns cid (i_id r) db
   \<and> ss_process p = to_agent_process (process (i_resolved_spec r))
   \<and> i_terminated_at_ms r = None \<and> i_stop_requested_at_ms r = None \<and> i_data_prepared_at_ms r \<noteq> None"

lemma start_row:
  assumes "allowed e cm db (AgentCalled cid (ServerStart p))"
  obtains r where "start_of db cid p r"
proof -
  obtain inst where db: "orderly db" and inst: "current inst db" "owns cid (si_id inst) db" "p = start_params inst"
      "si_stop_requested_at inst = None" "si_data_prepared_at inst \<noteq> None"
    using assms by (auto simp: allowed_def machine_of_def)
  obtain r where r: "r \<in> set (server_instances db)" "i_terminated_at_ms r = None" "inst = instance_of_row r"
    using currentE [OF inst(1) db] by metis
  have "uint (word_of_int (i_fencing_token r) :: u64) = i_fencing_token r"
    using db_inv_rows(2) [OF orderlyD(2) [OF db] r(1)] by (intro uint_word_of_int_i64) (auto simp: instance_row_ok_def)
  then show thesis
    using that [of r] r inst by (simp add: start_of_def start_params_def identity_def instance_of_row_def)
qed

text \<open>The effects that destroy the data of an instance.\<close>

fun discards :: "environment \<Rightarrow> compute_manager \<Rightarrow> database \<Rightarrow> uuid \<Rightarrow> effect \<Rightarrow> bool" where
  "discards e cm db iid (AgentCalled cid (InstanceCleanup i)) \<longleftrightarrow> server_instance_id i = iid"
| "discards e cm db iid (AgentCalled cid NodeShutdown) \<longleftrightarrow> owns cid iid db"
| "discards e cm db iid (PodmanCommand arguments) \<longleftrightarrow>
     (\<exists>cid. owns cid iid db \<and> arguments = remove_directory_command (state_directory e (cm_local cm) cid))"
| "discards e cm db iid (ProviderInstanceDeleted compute_id _) \<longleftrightarrow>
     (\<exists>cid. compute_id = Some cid \<and> owns cid iid db)"
| "discards e cm db iid _ \<longleftrightarrow> False"

lemma owns_unique: "orderly db \<Longrightarrow> owns cid a db \<Longrightarrow> owns cid b db \<Longrightarrow> a = b"
  using schema_rows(3) [of db] orderlyD(2) [of db] by (auto simp: owns_def db_inv_def distinct_map inj_on_def)

lemma state_directory_inj:
  assumes "uuid_text_ok e"
    "remove_directory_command (state_directory e c a) = remove_directory_command (state_directory e c b)"
  shows "a = b"
proof -
  have "env_uuid_text e a = env_uuid_text e b"
    using assms(2) path_join_inj [OF uuid_text_okD(3,3) [OF assms(1)]]
    by (simp add: remove_directory_command_def state_directory_def)
  then show ?thesis using uuid_text_okD(1) [OF assms(1)] by (metis option.inject)
qed

lemma discard_instance:
  assumes "allowed e cm db ef" "discards e cm db iid ef"
    "uuid_text_ok e"
  shows "\<exists>inst. current inst db \<and> si_id inst = iid \<and> discardable inst"
proof (cases "(e, cm, db, iid, ef)" rule: discards.cases)
  case (3 a b c d arguments)
  then obtain cid cid' inst where *: "owns cid iid db" "machine_of cid' inst db" "discardable inst"
      "remove_directory_command (state_directory e (cm_local cm) cid) =
       remove_directory_command (state_directory e (cm_local cm) cid')"
    using assms(1,2) by (auto simp: allowed_def)
  have "cid = cid'" by (rule state_directory_inj [OF assms(3) *(4)])
  then show ?thesis using * assms(1) owns_unique by (auto simp: machine_of_def allowed_def)
qed (use assms(1,2) in \<open>auto simp: allowed_def machine_of_def identity_def dest: owns_unique\<close>)

lemma discard_row:
  assumes "allowed e cm db ef" "discards e cm db iid ef"
    "uuid_text_ok e"
  obtains r where "r \<in> set (server_instances db)" "i_id r = iid" "i_stop_requested_at_ms r \<noteq> None"
    "i_data_prepared_at_ms r = None \<or> i_result_snapshot_id r \<noteq> None"
proof -
  obtain inst where inst: "current inst db" "si_id inst = iid" "discardable inst"
    using discard_instance [OF assms] by blast
  have "orderly db" using assms(1) by (simp add: allowed_def)
  then obtain r where "r \<in> set (server_instances db)" "inst = instance_of_row r"
    using currentE [OF inst(1)] by metis
  then show thesis
    using that [of r] inst by (auto simp: discardable_def data_is_safe_to_discard_def instance_of_row_def)
qed

section \<open>Properties of a run\<close>

text \<open>
  C2. Whatever the agents, the provider, the clock, the operating system and
  the other tasks of the process do, in every run of the worker each effect
  is allowed by the database at the moment it is sent: agents are commanded
  only for the live instance that owns their machine and in the order
  restore, start, stop, snapshot, clean up that the stored instance permits,
  machines are created only for instances without data, and machines and
  directories are removed only when the instance was told to stop and has no
  unpublished data. The database the run leaves is orderly again: an
  instance is terminated only after a stop request and with its data
  published.
\<close>

theorem worker_effects_allowed:
  assumes "environment_ok e" "orderly (w_db w)" "w_trace w = []"
    "worker_run e nested rw events pending w = (w', r)"
  shows "list_all (\<lambda>(db, ef). allowed e (rw_compute_manager rw) db ef) (w_trace w') \<and> orderly (w_db w')"
  using run_well [OF assms] by (auto simp: well_def trace_ok_def list_all_iff)

theorem worker_effects_allowed_witness:
  "length (w_trace (fst run_result)) = 6
   \<and> list_all (\<lambda>(db, ef). allowed run_env (rw_compute_manager run_worker) db ef) (w_trace (fst run_result))"
proof -
  obtain w' r where run: "run_result = (w', r)" by fastforce
  show ?thesis
    using worker_effects_allowed [OF run_env_ok(1) _ _ run [unfolded run_result_def]] run_db_orderly run_trace
    by (auto simp: run_world_def run)
qed

text \<open>
  C1. No data is lost: when the worker cleans up an instance, shuts its node
  down, deletes its provider machine or removes its directory after a server
  was started in that instance, a snapshot of the instance has been
  published, under the fencing token of the start, and it is the result
  recorded for the instance.
\<close>

theorem discarded_data_was_published:
  assumes "environment_ok e" "uuid_text_ok e" "orderly (w_db w)" "w_trace w = []"
    "worker_run e nested rw events pending w = (w', r)" "j < k" "k < length (w_trace w')"
    "w_trace w' ! j = (db, AgentCalled cid (ServerStart p))" "w_trace w' ! k = (db', ef)"
    "discards e (rw_compute_manager rw) db' (server_instance_id (ss_instance p)) ef"
  shows "\<exists>n \<in> set (snapshots db'). n_server_instance_id n = server_instance_id (ss_instance p)
    \<and> n_fencing_token n = uint (fencing_token (ss_instance p))
    \<and> (\<exists>x \<in> set (server_instances db'). i_id x = server_instance_id (ss_instance p)
         \<and> i_result_snapshot_id x = Some (n_id n))"
proof -
  note well = run_well [OF assms(1,3,4,5)]
  note entries = well_entries [OF well assms(6-9)]
  obtain x where x: "start_of db cid p x" using entries(1) by (rule start_row)
  obtain y where y: "y \<in> set (server_instances db')" "continues x y"
    using well_continues [OF well assms(6-9)] x by (auto simp: start_of_def)
  obtain z where z: "z \<in> set (server_instances db')" "i_id z = server_instance_id (ss_instance p)"
      "i_data_prepared_at_ms z = None \<or> i_result_snapshot_id z \<noteq> None"
    using discard_row [OF entries(2) assms(10,2)] by metis
  have db': "orderly db'" using entries(2) by (simp add: allowed_def)
  have "z = y"
    using schema_rows(2) orderlyD(2) [OF db'] z(1,2) y x
    by (auto simp: db_inv_def distinct_map inj_on_def continues_def start_of_def)
  then have result: "i_result_snapshot_id y \<noteq> None" and ids: "i_id y = server_instance_id (ss_instance p)"
      "i_fencing_token y = uint (fencing_token (ss_instance p))"
    using z(3) x y(2) by (auto simp: continues_def start_of_def)
  have "results_published (instance_core ` set (server_instances db')) (set (snapshots db'))"
    using reachable_ledger [OF orderlyD(1) [OF db']] by (simp add: ledger_def)
  then have "\<exists>n \<in> set (snapshots db'). published_by (instance_core y) n"
    using y(1) result unfolding results_published_def by auto
  then show ?thesis using y(1) ids by (auto simp: published_by_def)
qed

theorem discarded_data_was_published_witness:
  "\<exists>n \<in> set (snapshots (fst (w_trace (fst run_result) ! 5))). n_server_instance_id n = 8"
proof -
  obtain w' r where run: "run_result = (w', r)" by fastforce
  obtain db cid p db' cid' i where t: "length (w_trace w') = 6"
      "w_trace w' ! 1 = (db, AgentCalled cid (ServerStart p))" "server_instance_id (ss_instance p) = 8"
      "w_trace w' ! 5 = (db', AgentCalled cid' (InstanceCleanup i))" "server_instance_id i = 8"
    by (rule run_trace) (simp add: run)
  show ?thesis
    using discarded_data_was_published [OF run_env_ok _ _ run [unfolded run_result_def] _ _ t(2,4)] run_db_orderly t
    by (auto simp: run_world_def run)
qed

lemma earlier_run:
  assumes "orderly db" "x \<in> set (server_instances db)" "i_terminated_at_ms x = None"
    "y \<in> set (server_instances db)" "i_server_id y = i_server_id x" "i_id y \<noteq> i_id x"
    "i_data_prepared_at_ms y \<noteq> None"
  shows "i_fencing_token y < i_fencing_token x" "i_terminated_at_ms y \<noteq> None"
    "\<exists>n \<in> set (snapshots db). published_by (instance_core y) n"
proof -
  note L = reachable_ledger [OF orderlyD(1) [OF assms(1)]]
  have x: "instance_core x \<in> instance_core ` set (server_instances db)" "h_active (instance_core x)"
    and y: "instance_core y \<in> instance_core ` set (server_instances db)"
    using assms by auto
  have "i_fencing_token y \<noteq> i_fencing_token x"
  proof
    assume "i_fencing_token y = i_fencing_token x"
    then have "instance_core y = instance_core x" using token_inj [OF L y x(1)] assms(5) by simp
    then have "h_id (instance_core y) = h_id (instance_core x)" by simp
    then show False using assms(6) by simp
  qed
  then show less: "i_fencing_token y < i_fencing_token x"
    using live_tops_instances [OF L x y] assms(5) by simp
  then show over: "i_terminated_at_ms y \<noteq> None"
    using live_tops_instances [OF L y _ x(1)] assms(5) by auto
  have "h_result (instance_core y) \<noteq> None"
    using orderlyD(3) [OF assms(1,4)] over assms(7) by (auto simp: lifecycle_def)
  then show "\<exists>n \<in> set (snapshots db). published_by (instance_core y) n"
    using L y unfolding ledger_def results_published_def by blast
qed

text \<open>
  C3. The runs of a server follow each other: when the worker starts a
  server in an instance, every other instance of the server that ever had
  its data prepared is terminated, has a smaller fencing token and has
  published a snapshot, and the instance being started was created from a
  snapshot at least as new as that one, so no earlier run's data is passed
  over.
\<close>

theorem runs_follow_each_other:
  assumes "environment_ok e" "orderly (w_db w)" "w_trace w = []"
    "worker_run e nested rw events pending w = (w', r)"
    "(db, AgentCalled cid (ServerStart p)) \<in> set (w_trace w')"
    "y \<in> set (server_instances db)" "i_data_prepared_at_ms y \<noteq> None"
    "i_id y \<noteq> server_instance_id (ss_instance p)"
  shows "\<exists>x. start_of db cid p x \<and> (i_server_id y = i_server_id x \<longrightarrow>
      i_terminated_at_ms y \<noteq> None \<and> i_fencing_token y < i_fencing_token x
    \<and> (\<exists>n \<in> set (snapshots db). n_server_instance_id n = i_id y \<and> i_result_snapshot_id y = Some (n_id n))
    \<and> (\<exists>s \<in> set (snapshots db). i_source_snapshot_id x = Some (n_id s) \<and> n_server_id s = i_server_id x
         \<and> i_fencing_token y \<le> n_fencing_token s))"
proof -
  have ok: "allowed e (rw_compute_manager rw) db (AgentCalled cid (ServerStart p))"
    using run_well [OF assms(1-4)] assms(5) by (auto simp: well_def trace_ok_def)
  then have db: "orderly db" by (simp add: allowed_def)
  obtain x where x: "start_of db cid p x" using ok by (rule start_row)
  then have live: "x \<in> set (server_instances db)" "i_terminated_at_ms x = None" "i_id y \<noteq> i_id x"
    using assms(8) by (simp_all add: start_of_def)
  have "newest (i_server_id x) (i_source_snapshot_id x) {n \<in> set (snapshots db). n_fencing_token n < i_fencing_token x}"
    using reachable_ledger [OF orderlyD(1) [OF db]] live(1) by (auto simp: ledger_def lineage_def)
  moreover note earlier_run [OF db live(1,2) assms(6) _ live(3) assms(7)]
  ultimately show ?thesis
    using x by (intro exI [of _ x]) (auto simp: newest_def published_by_def split: option.splits; force)
qed

theorem runs_follow_each_other_witness:
  "\<exists>cid p x. start_of (fst (w_trace (fst run_result) ! 1)) cid p x \<and> i_fencing_token run_instance1 < i_fencing_token x"
proof -
  obtain w' r where run: "run_result = (w', r)" by fastforce
  obtain db cid p where t: "length (w_trace w') = 6"
      "w_trace w' ! 1 = (db, AgentCalled cid (ServerStart p))" "server_instance_id (ss_instance p) = 8"
      "run_instance1 \<in> set (server_instances db)" "list_all (\<lambda>r. i_server_id r = 1) (server_instances db)"
    by (rule run_trace) (simp add: run)
  have mem: "(db, AgentCalled cid (ServerStart p)) \<in> set (w_trace w')" using t(1,2) nth_mem [of 1 "w_trace w'"] by simp
  have "i_data_prepared_at_ms run_instance1 \<noteq> None" "i_id run_instance1 \<noteq> 8"
    by (simp_all add: run_instance1_def ex_instance_def)
  then obtain x where "start_of db cid p x" "i_server_id run_instance1 = i_server_id x \<longrightarrow> i_fencing_token run_instance1 < i_fencing_token x"
    using runs_follow_each_other [OF run_env_ok(1) _ _ run [unfolded run_result_def] mem t(4)] run_db_orderly t(3)
    by (auto simp: run_world_def)
  moreover from this(1) have "i_server_id run_instance1 = i_server_id x"
    using t(4,5) by (simp add: list_all_iff start_of_def)
  ultimately show ?thesis unfolding run fst_conv t(2) by blast
qed

end
