(* ===== verification/Reconcile_Lifecycle.thy ===== *)
theory Reconcile_Lifecycle
  imports Reconcile_Properties
begin

text \<open>
  The life of an instance as an abstract state machine, which the worker's
  writes to the instance table refine. The machine has no way from prepared,
  unpublished data to the end of an instance.
\<close>

datatype phase = Provisioning | Active | Cancelled | Stopping | Published | Ended

definition phase :: "instance_row \<Rightarrow> phase" where
  "phase r =
     (if i_terminated_at_ms r \<noteq> None then Ended
      else if i_result_snapshot_id r \<noteq> None then Published
      else if i_stop_requested_at_ms r \<noteq> None
      then if i_data_prepared_at_ms r \<noteq> None then Stopping else Cancelled
      else if i_data_prepared_at_ms r \<noteq> None then Active else Provisioning)"

inductive phase_step :: "phase \<Rightarrow> phase \<Rightarrow> bool" where
  data_restored: "phase_step Provisioning Active"
| stop_before_data: "phase_step Provisioning Cancelled"
| stop_with_data: "phase_step Active Stopping"
| data_found: "phase_step Cancelled Stopping"
| snapshot_published: "phase_step Stopping Published"
| nothing_to_keep: "phase_step Cancelled Ended"
| data_kept: "phase_step Published Ended"

inductive_cases phase_step_EndedE: "phase_step Ended p"

lemma phase_steps:
  "phase_step\<^sup>*\<^sup>* Provisioning p" "p \<noteq> Provisioning \<Longrightarrow> p \<noteq> Cancelled \<Longrightarrow> phase_step\<^sup>*\<^sup>* Active p"
  "p \<noteq> Provisioning \<Longrightarrow> p \<noteq> Active \<Longrightarrow> phase_step\<^sup>*\<^sup>* Cancelled p"
  "p \<in> {Stopping, Published, Ended} \<Longrightarrow> phase_step\<^sup>*\<^sup>* Stopping p"
  "p \<in> {Published, Ended} \<Longrightarrow> phase_step\<^sup>*\<^sup>* Published p"
proof -
  have published: "phase_step\<^sup>*\<^sup>* Published p" if "p \<in> {Published, Ended}" for p
    using that by (auto intro: r_into_rtranclp phase_step.intros)
  have stopping: "phase_step\<^sup>*\<^sup>* Stopping p" if "p \<in> {Stopping, Published, Ended}" for p
    using that published by (auto intro: converse_rtranclp_into_rtranclp phase_step.snapshot_published)
  have active: "phase_step\<^sup>*\<^sup>* Active p" if "p \<noteq> Provisioning" "p \<noteq> Cancelled" for p
    using that stopping by (cases p) (auto intro: converse_rtranclp_into_rtranclp phase_step.stop_with_data)
  have cancelled: "phase_step\<^sup>*\<^sup>* Cancelled p" if "p \<noteq> Provisioning" "p \<noteq> Active" for p
    using that stopping by (cases p) (auto intro: converse_rtranclp_into_rtranclp phase_step.data_found)
  show "phase_step\<^sup>*\<^sup>* Provisioning p"
    using active cancelled
    by (cases p) (auto intro: converse_rtranclp_into_rtranclp phase_step.data_restored phase_step.stop_before_data)
  show "p \<noteq> Provisioning \<Longrightarrow> p \<noteq> Cancelled \<Longrightarrow> phase_step\<^sup>*\<^sup>* Active p" by (rule active)
  show "p \<noteq> Provisioning \<Longrightarrow> p \<noteq> Active \<Longrightarrow> phase_step\<^sup>*\<^sup>* Cancelled p" by (rule cancelled)
  show "p \<in> {Stopping, Published, Ended} \<Longrightarrow> phase_step\<^sup>*\<^sup>* Stopping p" by (rule stopping)
  show "p \<in> {Published, Ended} \<Longrightarrow> phase_step\<^sup>*\<^sup>* Published p" by (rule published)
qed

lemma phase_continues:
  assumes "continues r r'" "lifecycle r" "lifecycle r'"
  shows "phase_step\<^sup>*\<^sup>* (phase r) (phase r')"
proof (cases "phase r")
  case Ended
  then show ?thesis using assms(1) by (auto simp: phase_def continues_def split: if_splits)
qed (use assms in \<open>simp_all add: phase_steps(1)\<close>,
     (rule phase_steps; auto simp: phase_def continues_def lifecycle_def split: if_splits)+)

lemma well_final:
  assumes "well A orderly w" "(db, ef) \<in> set (w_trace w)"
  shows "A db ef" "db_step\<^sup>*\<^sup>* db (w_db w)"
  using assms by (auto simp: well_def trace_ok_def in_order_def sorted_wrt_append)



end
