(* ===== verification/Retry_Properties.thy ===== *)
theory Retry_Properties
  imports Example_Worker Config
begin

text \<open>
  Retries of the reconciliation worker: the delays it chooses, what it
  remembers for each server, and that its loop never panics while instants
  and intervals stay within what an instant can represent.
\<close>

section \<open>Delays\<close>

lemma max_delay_representable: "MAX_ERROR_RETRY_DELAY \<le> DURATION_MAX"
  by (simp add: MAX_ERROR_RETRY_DELAY_def DURATION_MAX_def from_secs_def)

lemma error_retry_delay_formula:
  "error_retry_delay base n = min (base * 2 ^ min (unat n - 1) 6) MAX_ERROR_RETRY_DELAY"
  using max_delay_representable by (simp add: error_retry_delay_def duration_checked_mul_def Let_def)



section \<open>What is remembered\<close>

lemma map_of_pending_remove: "map_of (pending_remove i p) j = (if j = i then None else map_of p j)"
  by (induction p) (auto simp: pending_remove_def)

lemma map_of_pending_insert: "map_of (pending_insert i s p) j = (if j = i then Some s else map_of p j)"
  by (simp add: pending_insert_def map_of_pending_remove)

lemma instant_add_Inr: "instant_add now d = Inr t \<Longrightarrow> t = now + d"
  by (simp add: instant_add_def split: if_splits)

text \<open>
  C20. A visit to a server leaves the retries of every other server alone.
  The visited server has no retry when it came to rest; it is retried after
  the configured interval, with its failures forgotten, when it has to wait;
  and after a failure it is retried after the delay for that failure, with
  one more failure counted.
\<close>

theorem visit_schedules:
  assumes "visit e nested rw sid pending w = (w', Inr pending')"
  shows "(\<forall>j. j \<noteq> sid \<longrightarrow> map_of pending' j = map_of pending j)
   \<and> (case snd (reconcile_until_blocked e (rw_compute_manager rw) sid w) of
        Inr OutcomeStable \<Rightarrow> map_of pending' sid = None
      | Inr OutcomeRetry \<Rightarrow> \<exists>n. map_of pending' sid = Some
          \<lparr> rs_consecutive_failures = 0, rs_retry_at = env_instant e n + rw_retry_interval rw \<rparr>
      | Inl error \<Rightarrow> \<exists>n. let failures = saturating_succ (previous_failures sid pending) in
          map_of pending' sid = Some \<lparr> rs_consecutive_failures = failures,
            rs_retry_at = env_instant e n + retry_delay rw error failures \<rparr>)"
proof -
  obtain w1 r1 where run: "reconcile_until_blocked e (rw_compute_manager rw) sid w = (w1, r1)" by fastforce
  show ?thesis
  proof (cases r1)
    case (Inl error)
    then show ?thesis
      using assms run
      by (auto simp: visit_def reconcile_and_schedule_def attempt_def abind_def ask_def alift_def areturn_def Let_def
          map_of_pending_insert map_of_pending_remove
          split: prod.splits sum.splits dest!: instant_add_Inr)
  next
    case (Inr outcome)
    then show ?thesis
      using assms run
      by (cases outcome)
         (auto simp: visit_def reconcile_and_schedule_def attempt_def abind_def ask_def alift_def areturn_def
          map_of_pending_insert map_of_pending_remove
          split: prod.splits sum.splits dest!: instant_add_Inr)
  qed
qed

theorem visit_schedules_witness:
  "\<exists>w' pending'. visit example_env run_nested run_worker 1 [(1, \<lparr> rs_consecutive_failures = 3, rs_retry_at = 9 \<rparr>),
      (2, \<lparr> rs_consecutive_failures = 1, rs_retry_at = 5 \<rparr>)] example_world = (w', Inr pending')
    \<and> map_of pending' 2 = Some \<lparr> rs_consecutive_failures = 1, rs_retry_at = 5 \<rparr>"
proof -
  let ?p = "[(1, \<lparr> rs_consecutive_failures = 3, rs_retry_at = 9 \<rparr>), (2, \<lparr> rs_consecutive_failures = 1, rs_retry_at = 5 \<rparr>)]"
  have "\<not> isl (snd (visit example_env run_nested run_worker 1 ?p example_world))" by code_simp
  then obtain w' pending' where run: "visit example_env run_nested run_worker 1 ?p example_world = (w', Inr pending')"
    by (metis isl_def prod.collapse sum.exhaust_sel)
  have "(2 :: uuid) \<noteq> 1" by simp
  then show ?thesis using visit_schedules [OF run] run by auto
qed

section \<open>The loop never panics\<close>

text \<open>An operation that always returns.\<close>

definition returns :: "('e, 'a) io \<Rightarrow> bool" where
  "returns m \<longleftrightarrow> triple (\<lambda>_. True) m (\<lambda>_ _. True) (\<lambda>_ _. False)"

named_theorems returns_intros \<open>operations that always return\<close>

lemma returns_abind [returns_intros]: "returns m \<Longrightarrow> (\<And>a. returns (k a)) \<Longrightarrow> returns (abind m k)"
  unfolding returns_def by (rule triple_abind)

lemma returns_pure [returns_intros]: "returns (areturn a)" "returns (ask f)" "returns (attempt m)"
  by (auto simp: returns_def triple_def areturn_def ask_def attempt_def split: prod.split)

lemma returns_bind_ask: "(\<And>n. returns (k (f n))) \<Longrightarrow> returns (abind (ask f) k)"
  by (auto simp: returns_def triple_def abind_def ask_def)

lemma returns_alift: "r = Inr a \<Longrightarrow> returns (alift r)"
  by (simp add: returns_def triple_def alift_def)

lemma returns_case [returns_intros]:
  "returns m \<Longrightarrow> (\<And>a. returns (k a)) \<Longrightarrow> returns (case x of None \<Rightarrow> m | Some a \<Rightarrow> k a)"
  "(\<And>a. returns (f a)) \<Longrightarrow> (\<And>a. returns (g a)) \<Longrightarrow> returns (case y of Inl a \<Rightarrow> f a | Inr a \<Rightarrow> g a)"
  "returns m \<Longrightarrow> returns n \<Longrightarrow> returns (if b then m else n)"
  "returns m \<Longrightarrow> returns n \<Longrightarrow> returns (case z of OutcomeStable \<Rightarrow> m | OutcomeRetry \<Rightarrow> n)"
  by (cases x; cases y; cases z; simp)+

lemma returns_resolve_request [returns_intros]: "returns (resolve_request e request)"
  unfolding resolve_request_def by (cases request) (auto intro!: returns_intros)

lemma returns_record_reconcile_error [returns_intros]: "returns (record_reconcile_error e nested sid error)"
  unfolding record_reconcile_error_def by (intro returns_intros)

text \<open>Instants and the retry interval leave room for a delay.\<close>

definition instants_ok :: "environment \<Rightarrow> reconcile_worker \<Rightarrow> bool" where
  "instants_ok e rw \<longleftrightarrow> rw_retry_interval rw \<le> from_secs 4611686018427387904
     \<and> (\<forall>n. env_instant e n < from_secs 4611686018427387904)"

lemma instant_add_returns:
  assumes "instants_ok e rw" "d \<le> max (rw_retry_interval rw) MAX_ERROR_RETRY_DELAY"
  shows "returns (alift (instant_add (env_instant e n) d))"
proof -
  have "env_instant e n < from_secs 4611686018427387904" "d \<le> from_secs 4611686018427387904"
    using assms by (auto simp: instants_ok_def from_secs_def MAX_ERROR_RETRY_DELAY_def)
  then have "env_instant e n + d < from_secs 9223372036854775808"
    by (simp add: from_secs_def)
  then have "as_secs (env_instant e n + d) \<le> 9223372036854775807"
    by (simp add: as_secs_def from_secs_def)
  then show ?thesis by (intro returns_alift) (simp add: instant_add_def)
qed

lemma retry_delay_le: "retry_delay rw error n \<le> max (rw_retry_interval rw) MAX_ERROR_RETRY_DELAY"
  by (auto simp: retry_delay_def error_retry_delay_formula split: option.split)

lemma returns_visit [returns_intros]:
  assumes "instants_ok e rw"
  shows "returns (visit e nested rw sid pending)"
  unfolding visit_def reconcile_and_schedule_def Let_def
  by (intro returns_abind returns_case returns_pure returns_bind_ask returns_record_reconcile_error
      instant_add_returns [OF assms] retry_delay_le) simp

lemma returns_visit_due: "instants_ok e rw \<Longrightarrow> returns (visit_due e nested rw ids pending)"
  by (induction ids arbitrary: pending) (auto intro!: returns_intros)

lemma returns_visit_listed: "instants_ok e rw \<Longrightarrow> returns (visit_listed e nested rw now found pending)"
proof (induction found arbitrary: pending)
  case (Cons server found)
  then show ?case unfolding visit_listed.simps by (intro returns_intros) simp_all
qed (simp add: returns_intros)

lemma returns_worker_step: "instants_ok e rw \<Longrightarrow> returns (worker_step e nested rw event pending)"
  by (cases event) (auto intro!: returns_intros returns_visit_due returns_visit_listed)

lemma returns_worker_run: "instants_ok e rw \<Longrightarrow> returns (worker_run e nested rw events pending)"
  by (induction events arbitrary: pending) (auto intro!: returns_intros returns_worker_step)

text \<open>
  C19. The worker survives everything its surroundings answer: while the
  monotonic clock and the retry interval are below half of what an instant
  can represent, processing any sequence of events returns, whatever fails
  on the way.
\<close>

theorem worker_run_returns:
  assumes "instants_ok e rw"
  shows "\<exists>w' pending'. worker_run e nested rw events pending w = (w', Inr pending')"
proof -
  obtain w' r where run: "worker_run e nested rw events pending w = (w', r)" by fastforce
  show ?thesis
  proof (cases r)
    case (Inl x)
    then show ?thesis
      using triple_InlD [OF returns_worker_run [OF assms, unfolded returns_def]] run by blast
  qed (use run in blast)
qed

theorem worker_run_returns_witness:
  "\<exists>w' pending'. worker_run (run_env\<lparr> env_instant := \<lambda>_. 7 \<rparr>) run_nested run_worker
     [ResyncTick, RetryTick] [] run_world = (w', Inr pending')"
  by (rule worker_run_returns) (simp add: instants_ok_def run_worker_def from_secs_def)



end
