(* ===== verification/Akamai_Properties.thy ===== *)
theory Akamai_Properties
  imports Akamai_Compute Example_Run
begin

text \<open>
  What the Akamai manager may do to the provider: the machines it creates,
  the ones it deletes, and how many requests a listing takes.
\<close>

section \<open>An account with one image, region, type and firewall\<close>

definition account_machine :: "u64 \<Rightarrow> string \<Rightarrow> string list \<Rightarrow> provider_instance" where
  "account_machine ident label tags =
     \<lparr> pi_id = ident, pi_label = label, pi_region = ''r'', pi_instance_type = ''t'', pi_image = ''i'',
       pi_disk_encryption = EncryptionDisabled, pi_ipv4 = [''203.0.113.9''], pi_tags = tags \<rparr>"

definition account_tags :: "string list" where
  "account_tags = [MANAGED_TAG, ''mcserver-scope-s'']"

text \<open>The listings of the account have two pages, with the given machines on the second.\<close>

fun account_answer :: "provider_instance list \<Rightarrow> api_request \<Rightarrow> api_body" where
  "account_answer listed (ListInstances _ page) = BodyInstances (if page = 2 then listed else []) (Some 2)"
| "account_answer listed (PostInstance r) = BodyInstance (account_machine 5 (cr_label r) (cr_tags r))"
| "account_answer listed (GetImage i) = BodyImage
     \<lparr> im_id = i, im_status = ''available'', im_deprecated = False, im_capabilities = [''cloud-init''] \<rparr>"
| "account_answer listed (GetRegion r) = BodyRegion \<lparr> rg_id = r, rg_capabilities = [''Metadata''] \<rparr>"
| "account_answer listed (GetType t) = BodyType t"
| "account_answer listed (GetFirewall f) = BodyFirewall \<lparr> fw_id = f, fw_status = ''enabled'' \<rparr>"
| "account_answer listed (ListInstanceFirewalls _) = BodyFirewalls [\<lparr> fw_id = 3, fw_status = ''enabled'' \<rparr>]"
| "account_answer listed _ = BodyOther"

definition account_env :: "provider_instance list \<Rightarrow> environment" where
  "account_env listed = example_env\<lparr> env_api := (\<lambda>_ request. Inr
     \<lparr> status = 200, retry_after_header = None, body = account_answer listed request,
       error_chunks = [], chunk_failure = False \<rparr>) \<rparr>"

definition account_config :: akamai_config where
  "account_config = \<lparr> ak_api_token = ''a'', ak_api_base_url = ''u'', ak_authorized_keys_file = ''k'', ak_scope = ''s'',
     ak_request_timeout = 1, ak_reap_orphans_on_start = True, ak_live_enabled = True, ak_allowed_regions = [''r''],
     ak_allowed_images = [''i''], ak_allowed_instance_types = [''t''], ak_allowed_firewall_ids = [3],
     ak_max_active_instances = 1, ak_max_instance_lifetime = 1, ak_loopback_api = False \<rparr>"

definition account_remote :: remote_agent_config where
  "account_remote = \<lparr> ra_listen_address = \<lparr> sa_ip = V4 [0, 0, 0, 0], sa_port = 1 \<rparr>, ra_public_address = ''p'', ra_tls_server_name = ''n'',
     ra_tls_certificate = [], ra_tls_private_key = [], ra_tls_ca_certificate = [], ra_client_ca_certificate = [],
     ra_client_ca_private_key = [], ra_certificate_work_directory = [], ra_certificate_validity = 1,
     ra_openssl_binary = [], ra_trust_domain = [], ra_node_agent_download_url = ''d'', ra_node_agent_sha256 = ''h'',
     ra_max_frame_bytes = 1, ra_node_operation_timeout = 1 \<rparr>"

definition account_manager :: akamai_manager where
  "account_manager = \<lparr> am_config = account_config, am_remote = account_remote \<rparr>"

definition account_instance :: server_instance where
  "account_instance =
     \<lparr> si_id = 7, si_server_id = 1, si_server_generation = 2,
       si_resolved_spec = ex_spec\<lparr> compute := ComputeAkamai ''r'' ''t'' ''i'' 3 \<rparr>, si_fencing_token = 1,
       si_source_snapshot_id = None, si_data_prepared_at = None, si_process_running = False,
       si_process_observed_at = None, si_result_snapshot_id = None, si_stop_requested_at = None,
       si_terminated_at = None, si_terminal_result = None, si_last_error = None,
       si_created_at = 3000, si_updated_at = 3000 \<rparr>"

definition account_world :: world where
  "account_world = example_world\<lparr> w_db := \<lparr> servers = [ex_row\<lparr> s_next_fencing_token := 2 \<rparr>],
     server_instances = [ex_instance\<lparr> i_resolved_spec := si_resolved_spec account_instance \<rparr>],
     compute_instances = [new_compute_row 9 7 Akamai ''t'' (Some ''e'') 3100], snapshots = [] \<rparr> \<rparr>"

lemma account_env_ok: "environment_ok (account_env listed)"
  using example_env_ok by (simp add: environment_ok_def account_env_def)

section \<open>Creation\<close>

text \<open>
  C31. Ensuring the machine of an instance sends nothing to the provider but
  creations, and each creation is within the limits the operator set: live
  operations are enabled; region, type, image and firewall are those of the
  specification and on the allow lists; the machine carries the label of its
  compute record and the tags of this installation; some listing answered by
  the provider left room for another machine; and the data of the instance
  was not prepared yet, so that a machine that held it is never replaced.
\<close>

theorem akamai_creates_within_limits:
  assumes "environment_ok e" "0 \<le> now"
    and "akamai_ensure_for_instance e m inst now w = (w', r)"
  shows "list_all (\<lambda>(_, ef). akamai_ensure_effect e m inst ef) (new_effects w w')"
  using acts_new_effects [OF acts_akamai_ensure [OF assms(1,2)] assms(3)] by (fastforce simp: list_all_iff)

theorem akamai_creates_within_limits_witness:
  "let w' = fst (akamai_ensure_for_instance (account_env []) account_manager account_instance 4000 account_world) in
     list_all (\<lambda>(_, ef). akamai_ensure_effect (account_env []) account_manager account_instance ef)
       (new_effects account_world w')
   \<and> length (new_effects account_world w') = 1"
proof -
  obtain w' r where run: "akamai_ensure_for_instance (account_env []) account_manager account_instance 4000 account_world = (w', r)"
    by fastforce
  have "length (new_effects account_world (fst
      (akamai_ensure_for_instance (account_env []) account_manager account_instance 4000 account_world))) = 1"
    by code_simp
  then show ?thesis
    using akamai_creates_within_limits [OF account_env_ok _ run] by (simp add: run)
qed

section \<open>Deletion\<close>

text \<open>
  C32. Deleting the machine of a compute record asks the agent of that record
  to shut down and deletes at the provider only a machine the provider
  reported with the label of the record and the tags of this installation.
\<close>

theorem akamai_deletes_only_owned:
  assumes "environment_ok e" "akamai_delete e m machine w = (w', r)"
  shows "list_all (\<lambda>(_, ef). akamai_delete_effect e m (ci_id machine) ef) (new_effects w w')"
  using acts_new_effects [OF acts_akamai_delete [OF assms(1)] assms(2)] by (fastforce simp: list_all_iff)


definition account_compute :: compute_instance where
  "account_compute =
     \<lparr> ci_id = 9, ci_server_instance_id = 7, ci_provider = Akamai, ci_provider_instance_id = None,
       ci_public_ipv4 = None, ci_connection_token = ''t'', ci_enrollment_token = Some ''e'',
       ci_process_id = None, ci_agent_connected_at = None, ci_shutdown_requested_at = None,
       ci_terminated_at = None, ci_terminal_result = None, ci_failure_message = None,
       ci_created_at = 3100, ci_updated_at = 3100 \<rparr>"

text \<open>The machine of the compute record, and one of a record that is gone.\<close>

definition account_machines :: "provider_instance list" where
  "account_machines = [account_machine 5 ''mcserver-9'' account_tags, account_machine 6 ''mcserver-10'' account_tags]"

theorem akamai_deletes_only_owned_witness:
  "let w' = fst (akamai_delete (account_env [hd account_machines]) account_manager account_compute account_world) in
     list_all (\<lambda>(_, ef). akamai_delete_effect (account_env [hd account_machines]) account_manager 9 ef)
       (new_effects account_world w')
   \<and> ProviderInstanceDeleted (Some 9) 5 \<in> set (map snd (new_effects account_world w'))"
proof -
  let ?e = "account_env [hd account_machines]"
  obtain w' r where run: "akamai_delete ?e account_manager account_compute account_world = (w', r)" by fastforce
  have "ProviderInstanceDeleted (Some 9) 5 \<in> set (map snd (new_effects account_world
      (fst (akamai_delete ?e account_manager account_compute account_world))))"
    by code_simp
  moreover have "ci_id account_compute = 9" by (simp add: account_compute_def)
  ultimately show ?thesis
    using akamai_deletes_only_owned [OF account_env_ok run] by (simp add: run)
qed

text \<open>
  C33. Reaping deletes only machines the provider listed with the tags of this
  installation and that no active compute record stands behind: none has
  their label, or the one that has is recorded with another machine.
\<close>

theorem akamai_reap_spares_active:
  assumes "environment_ok e" "akamai_reap_orphans e m active w = (w', r)"
  shows "list_all (\<lambda>(_, ef). akamai_reap_effect e m active ef) (new_effects w w')"
  using acts_new_effects [OF acts_akamai_reap_orphans [OF assms(1)] assms(2)] by (fastforce simp: list_all_iff)

theorem akamai_reap_spares_active_witness:
  "let w' = fst (akamai_reap_orphans (account_env account_machines) account_manager [account_compute] account_world) in
     list_all (\<lambda>(_, ef). akamai_reap_effect (account_env account_machines) account_manager [account_compute] ef)
       (new_effects account_world w')
   \<and> map snd (new_effects account_world w') = [ProviderInstanceDeleted None 6]"
proof -
  let ?e = "account_env account_machines"
  obtain w' r where run: "akamai_reap_orphans ?e account_manager [account_compute] account_world = (w', r)" by fastforce
  have "map snd (new_effects account_world
      (fst (akamai_reap_orphans ?e account_manager [account_compute] account_world))) = [ProviderInstanceDeleted None 6]"
    by code_simp
  then show ?thesis
    using akamai_reap_spares_active [OF account_env_ok run] by (simp add: run)
qed

section \<open>Listings\<close>

lemma fetch_tick: "fetch e request decode w = (w', r) \<Longrightarrow> w_tick w' = Suc (w_tick w)"
  by (auto simp: fetch_def checked_call_def call_api_def abind_def alift_def ask_def split: sum.splits)

text \<open>No response to a listing names more than the given number of pages.\<close>

definition pages_at_most :: "nat \<Rightarrow> environment \<Rightarrow> list_filter \<Rightarrow> bool" where
  "pages_at_most P e flt \<longleftrightarrow> (\<forall>n page r items ps. env_api e n (ListInstances flt page) = Inr r
     \<longrightarrow> body r = BodyInstances items (Some ps) \<longrightarrow> unat ps \<le> P)"

lemma fetch_pages:
  assumes "pages_at_most P e flt" "fetch e (ListInstances flt page) body_instances w = (w', Inr (items, pages))"
  shows "unat (max pages 1) \<le> max P 1"
proof -
  obtain n r where "env_api e n (ListInstances flt page) = Inr r" "body_instances (body r) = Inr (items, pages)"
    using fetch_Inr [OF assms(2)] by blast
  then have "unat pages \<le> max P 1"
    using assms(1) by (cases "body r") (fastforce simp: pages_at_most_def le_max_iff_disj split: option.splits)+
  then show ?thesis by (auto simp: max_def split: if_splits)
qed

lemma list_pages_requests:
  assumes "pages_at_most P e flt" "unat page \<le> max P 1" "list_pages e flt keep page acc w = (w', r)"
  shows "w_tick w' + unat page \<le> w_tick w + Suc (max P 1)"
  using assms
proof (induction e flt keep page acc arbitrary: w rule: list_pages.induct)
  case (1 e flt keep page acc)
  obtain w1 r1 where f: "fetch e (ListInstances flt page) body_instances w = (w1, r1)" by fastforce
  note tick = fetch_tick [OF f]
  show ?case
  proof (cases r1)
    case (Inl x)
    then have "w' = w1" using "1.prems"(3) f by (subst (asm) list_pages.simps) (simp add: abind_def)
    then show ?thesis using tick "1.prems"(2) by simp
  next
    case (Inr a)
    obtain items pages where a: "a = (items, pages)" by fastforce
    have rest: "(if max pages 1 \<le> page then areturn (acc @ filter keep items)
        else list_pages e flt keep (page + 1) (acc @ filter keep items)) w1 = (w', r)"
      using "1.prems"(3) f Inr a by (subst (asm) list_pages.simps) (simp add: abind_def Let_def split: if_splits)
    show ?thesis
    proof (cases "max pages 1 \<le> page")
      case True
      then show ?thesis using rest tick "1.prems"(2) by (simp add: areturn_def)
    next
      case more: False
      then have r: "list_pages e flt keep (page + 1) (acc @ filter keep items) w1 = (w', r)"
        using rest by (simp only: if_False)
      have next_page: "unat (page + 1) = Suc (unat page)" by (rule next_page_less [OF more])
      have "unat page < unat (max pages 1)"
        using more by (simp only: not_le word_less_nat_alt)
      then have "unat (page + 1) \<le> max P 1"
        using next_page fetch_pages [OF "1.prems"(1) f [unfolded Inr a]] by simp
      then show ?thesis using "1.IH" [OF refl more "1.prems"(1) _ r] next_page tick by simp
    qed
  qed
qed

text \<open>
  C34. A listing ends: whatever the provider answers, it takes at most as many
  requests as the greatest number of pages any response names, and one when
  none does.
\<close>

theorem listing_requests_bounded:
  assumes "pages_at_most P e (FilterTagContains MANAGED_TAG)" "list_managed_instances e scope w = (w', r)"
  shows "w_tick w' \<le> w_tick w + max P 1"
  using list_pages_requests [OF assms(1) _ assms(2) [unfolded list_managed_instances_def]] by simp

theorem listing_requests_bounded_witness:
  "w_tick (fst (list_managed_instances (account_env account_machines) ''s'' example_world)) \<le> 2"
proof -
  have "pages_at_most 2 (account_env account_machines) (FilterTagContains MANAGED_TAG)"
    by (auto simp: pages_at_most_def account_env_def)
  then show ?thesis
    using listing_requests_bounded [of 2 "account_env account_machines" "''s''" example_world]
    by (cases "list_managed_instances (account_env account_machines) ''s'' example_world")
       (simp add: example_world_def)
qed

end
