(* ===== verification/Node_Files.thy ===== *)
theory Node_Files
  imports World "HOL-Library.AList"
begin

text \<open>
  The node an agent runs on, as its executor sees it: the tree below the
  agent's state directory, which the start of the agent created, and the
  commands it runs. File operations follow \<open>tokio::fs\<close>; each of them, and
  each command, asks the environment of the node for its outcome, and any of
  them may fail. Symbolic links and permission bits are not represented.
\<close>

datatype entry = File string | Directory "(string \<times> entry) list"

type_synonym directory = "(string \<times> entry) list"

text \<open>A path below the state directory, as its components.\<close>

type_synonym path = "string list"

fun find_entry :: "path \<Rightarrow> directory \<Rightarrow> entry option" where
  "find_entry [] d = None"
| "find_entry [n] d = map_of d n"
| "find_entry (n # p) d = (case map_of d n of Some (Directory es) \<Rightarrow> find_entry p es | _ \<Rightarrow> None)"

fun put_entry :: "path \<Rightarrow> entry option \<Rightarrow> directory \<Rightarrow> directory" where
  "put_entry [] x d = d"
| "put_entry [n] x d = (case x of None \<Rightarrow> AList.delete n d | Some y \<Rightarrow> AList.update n y d)"
| "put_entry (n # p) x d =
     (case map_of d n of Some (Directory es) \<Rightarrow> AList.update n (Directory (put_entry p x es)) d | _ \<Rightarrow> d)"

record command =
  cmd_program :: string
  cmd_arguments :: "string list"
  cmd_environment :: "(string \<times> string) list"
  cmd_directory :: "string option"

record instance_state =
  is_server_instance_id :: uuid
  is_fencing_token :: u64
  is_server_id :: uuid
  is_repository :: string
  is_source_snapshot_id :: "string option"
  is_data_prepared :: bool
  is_last_snapshot_id :: "string option"

record agent_state =
  as_schema_version :: u32
  as_instance :: "instance_state option"

text \<open>
  What the node answers at each moment: the outcome of a command and the tree
  it leaves, whether a file operation fails for another reason than a missing
  or unsuitable entry, and what a failed removal or write leaves behind. Besides, the texts of the JSON library: of a state, of
  a line of the output of a backup, with its \<open>message_type\<close> and
  \<open>snapshot_id\<close>, and of an identifier. The last component is what the
  repositories hold under each snapshot identifier; no operation reads it.
\<close>

record node_env =
  ne_run :: "nat \<Rightarrow> command \<Rightarrow> directory \<Rightarrow> command_outcome \<times> directory"
  ne_fault :: "nat \<Rightarrow> bool"
  ne_remains :: "nat \<Rightarrow> entry option"
  ne_state_text :: "agent_state \<Rightarrow> string"
  ne_state_parse :: "string \<Rightarrow> agent_state option"
  ne_backup_line :: "string \<Rightarrow> (string option \<times> string option) option"
  ne_uuid_text :: "uuid \<Rightarrow> string"
  ne_stored :: "string \<Rightarrow> string \<Rightarrow> entry option"

text \<open>What is done to the node: commands, and changes below the state directory.\<close>

datatype node_effect =
    Ran command
  | Removing path
  | Moving path path
  | Writing path

record node =
  nd_root :: directory
  nd_tick :: nat
  nd_trace :: "node_effect list"

type_synonym ('e, 'a) nio = "(node, 'e, 'a) action"

definition nask :: "(nat \<Rightarrow> 'a) \<Rightarrow> ('e, 'a) nio" where
  "nask answer nd = (nd\<lparr> nd_tick := Suc (nd_tick nd) \<rparr>, Inr (answer (nd_tick nd)))"

definition nemit :: "node_effect \<Rightarrow> ('e, unit) nio" where
  "nemit ef nd = (nd\<lparr> nd_trace := nd_trace nd @ [ef] \<rparr>, Inr ())"

definition nroot :: "('e, directory) nio" where
  "nroot nd = (nd, Inr (nd_root nd))"

definition nput :: "path \<Rightarrow> entry option \<Rightarrow> ('e, unit) nio" where
  "nput p x nd = (nd\<lparr> nd_root := put_entry p x (nd_root nd) \<rparr>, Inr ())"

section \<open>File operations\<close>

definition may_fail :: "node_env \<Rightarrow> (io_failure, unit) nio" where
  "may_fail e = abind (nask (ne_fault e)) (\<lambda>fault. if fault then afail IoOther else areturn ())"

definition metadata :: "node_env \<Rightarrow> path \<Rightarrow> (io_failure, entry) nio" where
  "metadata e p = abind (may_fail e) (\<lambda>_. abind nroot (\<lambda>d. alift (ok_or (find_entry p d) IoNotFound)))"

definition read_file :: "node_env \<Rightarrow> path \<Rightarrow> (io_failure, string) nio" where
  "read_file e p =
     abind (metadata e p) (\<lambda>x. case x of File content \<Rightarrow> areturn content | Directory _ \<Rightarrow> afail IoOther)"

definition create_dir_all :: "node_env \<Rightarrow> path \<Rightarrow> (io_failure, unit) nio" where
  "create_dir_all e p =
     abind (may_fail e) (\<lambda>_. abind nroot (\<lambda>d.
     case find_entry p d of
       None \<Rightarrow> abind (nemit (Writing p)) (\<lambda>_. nput p (Some (Directory [])))
     | Some (Directory _) \<Rightarrow> areturn ()
     | Some (File _) \<Rightarrow> afail IoOther))"

text \<open>Opening a file for writing creates or empties it.\<close>

definition open_for_writing :: "node_env \<Rightarrow> path \<Rightarrow> (io_failure, unit) nio" where
  "open_for_writing e p =
     abind (may_fail e) (\<lambda>_. abind nroot (\<lambda>d.
     case find_entry p d of
       Some (Directory _) \<Rightarrow> afail IoOther
     | _ \<Rightarrow> abind (nemit (Writing p)) (\<lambda>_. nput p (Some (File [])))))"

text \<open>A write that fails leaves what the environment says of the file.\<close>

definition write_all :: "node_env \<Rightarrow> path \<Rightarrow> string \<Rightarrow> (io_failure, unit) nio" where
  "write_all e p content =
     abind (nask (\<lambda>n. (ne_fault e n, ne_remains e n))) (\<lambda>(fault, remains).
     abind (nemit (Writing p)) (\<lambda>_.
     if \<not> fault then nput p (Some (File content))
     else abind (nput p (Some (case remains of Some (File c) \<Rightarrow> File c | _ \<Rightarrow> File []))) (\<lambda>_. afail IoOther)))"

text \<open>\<open>rename\<close> replaces a file by a file and an empty directory by a directory.\<close>

fun replaceable :: "entry \<Rightarrow> entry option \<Rightarrow> bool" where
  "replaceable x None \<longleftrightarrow> True"
| "replaceable (File _) (Some y) \<longleftrightarrow> (case y of File _ \<Rightarrow> True | Directory _ \<Rightarrow> False)"
| "replaceable (Directory _) (Some y) \<longleftrightarrow> y = Directory []"

definition renamed :: "path \<Rightarrow> path \<Rightarrow> directory \<Rightarrow> io_failure + directory" where
  "renamed src dst d =
     (case find_entry src d of
        None \<Rightarrow> Inl IoNotFound
      | Some x \<Rightarrow>
          if replaceable x (find_entry dst d) then Inr (put_entry dst (Some x) (put_entry src None d))
          else Inl IoOther)"

definition rename :: "node_env \<Rightarrow> path \<Rightarrow> path \<Rightarrow> (io_failure, unit) nio" where
  "rename e src dst =
     abind (may_fail e) (\<lambda>_. abind nroot (\<lambda>d.
     abind (alift (renamed src dst d)) (\<lambda>d'.
     abind (nemit (Moving src dst)) (\<lambda>_ nd. (nd\<lparr> nd_root := d' \<rparr>, Inr ())))))"

text \<open>A removal that fails leaves what the environment says of the entry.\<close>

definition remove_entry :: "node_env \<Rightarrow> path \<Rightarrow> (io_failure, unit) nio" where
  "remove_entry e p =
     abind nroot (\<lambda>d.
     abind (nask (\<lambda>n. (ne_fault e n, ne_remains e n))) (\<lambda>(fault, remains).
     case find_entry p d of
       None \<Rightarrow> afail IoNotFound
     | Some _ \<Rightarrow>
         abind (nemit (Removing p)) (\<lambda>_.
         if \<not> fault then nput p None
         else abind (nput p remains) (\<lambda>_. afail IoOther))))"

definition remove_file :: "node_env \<Rightarrow> path \<Rightarrow> (io_failure, unit) nio" where
  "remove_file e p =
     abind nroot (\<lambda>d.
     case find_entry p d of
       Some (Directory _) \<Rightarrow> abind (may_fail e) (\<lambda>_. afail IoOther)
     | _ \<Rightarrow> remove_entry e p)"

section \<open>Commands\<close>

definition run_program :: "node_env \<Rightarrow> command \<Rightarrow> ('e, command_outcome) nio" where
  "run_program e c =
     abind (nemit (Ran c)) (\<lambda>_ nd.
       case ne_run e (nd_tick nd) c (nd_root nd) of
         (outcome, d') \<Rightarrow> (nd\<lparr> nd_root := d', nd_tick := Suc (nd_tick nd) \<rparr>, Inr outcome))"

section \<open>Finding what was put\<close>

lemma find_put_same [simp]: "find_entry [n] (put_entry [n] x d) = x"
  by (cases x) (simp_all add: update_conv' delete_conv')

lemma find_put_other [simp]: "n \<noteq> m \<Longrightarrow> find_entry (n # p) (put_entry (m # q) x d) = find_entry (n # p) d"
proof -
  assume "n \<noteq> m"
  then have "map_of (put_entry (m # q) x d) n = map_of d n"
    by (cases q) (auto simp: update_conv' delete_conv' split: option.split entry.split)
  then show ?thesis by (cases p) simp_all
qed

lemma find_put_below [simp]:
  "find_entry (n # p) (put_entry [n] None d) = None"
  "find_entry (n # m # p) (put_entry [n] (Some (Directory es)) d) = find_entry (m # p) es"
  by (cases p) (simp_all add: update_conv' delete_conv')

end
