(* ===== verification/Node_Executor.thy ===== *)
theory Node_Executor
  imports Node_Files Agent_Protocol
begin

text \<open>
  The executor of the node agent (\<open>mcserver-node-agent/src/executor.rs\<close>): the
  state it keeps of the one instance it serves, the container of the server,
  its data directory, and the backups in a restic repository.
\<close>

datatype executor_error =
    ExIo io_failure
  | ExSerialization
  | UnsupportedStateSchemaVersion u32
  | ExUtf8
  | ExCommandTimeout string
  | ExCommandFailed string "int option" string
  | StaleInstance
  | UnknownInstance
  | DataNotPrepared
  | ProcessStillRunning
  | ImmutableInstanceConfigurationChanged
  | EulaNotAccepted
  | NonUtf8Path string
  | RestoreMissingDataDirectory string
  | MissingSnapshotId
  | UnexpectedPodmanOutput string

type_synonym 'a executor_io = "(executor_error, 'a) nio"

datatype data_access_mode = PodmanUserNamespace | Host

record node_config =
  nc_control_plane_address :: string
  nc_tls :: "(string \<times> string) option"
  nc_compute_instance_id :: uuid
  nc_connection_token :: string
  nc_state_directory :: string
  nc_local_scope :: string
  nc_podman_binary :: string
  nc_restic_binary :: string
  nc_openssl_binary :: string
  nc_data_access_mode :: data_access_mode
  nc_max_frame_bytes :: nat
  nc_command_timeout :: duration
  nc_restic_retry_lock :: duration
  nc_reconnect_min :: duration
  nc_reconnect_max :: duration

text \<open>The configuration and the environment variables of the storage, replaced at each registration.\<close>

record agent_executor =
  ex_config :: node_config
  ex_runtime_environment :: "(string \<times> string) list"

definition AGENT_STATE_SCHEMA_VERSION :: u32 where
  "AGENT_STATE_SCHEMA_VERSION = 1"

definition state_path :: path where
  "state_path = [''agent-state.json'']"

definition temporary_state_path :: path where
  "temporary_state_path = [''agent-state.json.tmp'']"

definition data_directory :: path where
  "data_directory = [''data'']"

definition staging_directory :: path where
  "staging_directory = [''restore-staging'']"

definition restored_data :: path where
  "restored_data = [''restore-staging'', ''data'']"

definition previous_directory :: path where
  "previous_directory = [''data-previous'']"

definition path_text :: "node_config \<Rightarrow> path \<Rightarrow> string" where
  "path_text c p = foldl path_join (nc_state_directory c) p"

section \<open>Commands\<close>

definition truncation_mark :: string where
  "truncation_mark = CHR '' '' # map char_of [0xE2 :: nat, 0x80, 0xA6] @ ''[truncated]''"

definition node_diagnostic :: "string \<Rightarrow> string" where
  "node_diagnostic input =
     str_trim (from_utf8_lossy (take 8192 input)) @ (if 8192 < length input then truncation_mark else [])"

definition command_failure :: "string \<Rightarrow> command_output \<Rightarrow> executor_error" where
  "command_failure description output =
     ExCommandFailed description (co_code output) (node_diagnostic (co_stderr output))"

definition run_command_allow_failure :: "node_env \<Rightarrow> command \<Rightarrow> string \<Rightarrow> command_output executor_io" where
  "run_command_allow_failure e c description =
     abind (run_program e c) (\<lambda>outcome.
     case outcome of
       CommandTimedOut \<Rightarrow> afail (ExCommandTimeout description)
     | CommandNotRun x \<Rightarrow> afail (ExIo x)
     | CommandDone output \<Rightarrow> areturn output)"

definition run_node_command :: "node_env \<Rightarrow> command \<Rightarrow> string \<Rightarrow> command_output executor_io" where
  "run_node_command e c description =
     abind (run_command_allow_failure e c description) (\<lambda>output.
     if co_success output then areturn output else afail (command_failure description output))"

definition podman_command :: "agent_executor \<Rightarrow> string list \<Rightarrow> command" where
  "podman_command x arguments =
     \<lparr> cmd_program = nc_podman_binary (ex_config x), cmd_arguments = arguments, cmd_environment = [],
       cmd_directory = None \<rparr>"

definition run_podman_allow_failure :: "node_env \<Rightarrow> agent_executor \<Rightarrow> string list \<Rightarrow> command_output executor_io" where
  "run_podman_allow_failure e x arguments = run_command_allow_failure e (podman_command x arguments) ''podman''"

definition run_podman :: "node_env \<Rightarrow> agent_executor \<Rightarrow> string list \<Rightarrow> command_output executor_io" where
  "run_podman e x arguments =
     abind (run_podman_allow_failure e x arguments) (\<lambda>output.
     if co_success output then areturn output else afail (command_failure ''podman'' output))"

text \<open>
  Restic runs on the host, or inside the user namespace of rootless Podman,
  which owns the files of the containers.
\<close>

definition restic_command :: "agent_executor \<Rightarrow> string \<Rightarrow> string list \<Rightarrow> string option \<Rightarrow> command" where
  "restic_command x repository_url arguments directory = (let c = ex_config x in
     \<lparr> cmd_program = (case nc_data_access_mode c of PodmanUserNamespace \<Rightarrow> nc_podman_binary c | Host \<Rightarrow> nc_restic_binary c),
       cmd_arguments = (case nc_data_access_mode c of PodmanUserNamespace \<Rightarrow> [''unshare'', nc_restic_binary c] | Host \<Rightarrow> [])
         @ [''--insecure-no-password'', ''--retry-lock'', nat_to_string (as_secs (nc_restic_retry_lock c)) @ ''s'']
         @ arguments,
       cmd_environment = AList.update ''RESTIC_REPOSITORY'' repository_url (ex_runtime_environment x),
       cmd_directory = directory \<rparr>)"

definition restic_description :: "agent_executor \<Rightarrow> string" where
  "restic_description x =
     (case nc_data_access_mode (ex_config x) of
        PodmanUserNamespace \<Rightarrow> ''restic in Podman user namespace'' | Host \<Rightarrow> ''restic'')"

definition run_restic_allow_failure ::
    "node_env \<Rightarrow> agent_executor \<Rightarrow> string \<Rightarrow> string list \<Rightarrow> string option \<Rightarrow> command_output executor_io" where
  "run_restic_allow_failure e x repository_url arguments directory =
     run_command_allow_failure e (restic_command x repository_url arguments directory) (restic_description x)"

definition run_restic ::
    "node_env \<Rightarrow> agent_executor \<Rightarrow> string \<Rightarrow> string list \<Rightarrow> string option \<Rightarrow> command_output executor_io" where
  "run_restic e x repository_url arguments directory =
     abind (run_restic_allow_failure e x repository_url arguments directory) (\<lambda>output.
     if co_success output then areturn output else afail (command_failure ''restic'' output))"

section \<open>Files\<close>

definition ex_io :: "(io_failure, 'a) nio \<Rightarrow> 'a executor_io" where
  "ex_io m = amap_err ExIo m"

definition path_exists :: "node_env \<Rightarrow> path \<Rightarrow> bool executor_io" where
  "path_exists e p =
     abind (attempt (metadata e p)) (\<lambda>r.
     case r of Inr _ \<Rightarrow> areturn True | Inl IoNotFound \<Rightarrow> areturn False | Inl f \<Rightarrow> afail (ExIo f))"

definition remove_path :: "node_env \<Rightarrow> path \<Rightarrow> unit executor_io" where
  "remove_path e p =
     abind (attempt (metadata e p)) (\<lambda>r.
     case r of
       Inl IoNotFound \<Rightarrow> areturn ()
     | Inl f \<Rightarrow> afail (ExIo f)
     | Inr _ \<Rightarrow> ex_io (remove_entry e p))"

primrec remove_each :: "node_env \<Rightarrow> path list \<Rightarrow> unit executor_io" where
  "remove_each e [] = areturn ()"
| "remove_each e (p # ps) = abind (remove_path e p) (\<lambda>_. remove_each e ps)"

definition remove_command :: "agent_executor \<Rightarrow> path list \<Rightarrow> command" where
  "remove_command x paths =
     podman_command x ([''unshare'', ''rm'', ''-rf'', ''--''] @ map (path_text (ex_config x)) paths)"

definition remove_paths :: "node_env \<Rightarrow> agent_executor \<Rightarrow> path list \<Rightarrow> unit executor_io" where
  "remove_paths e x paths =
     (case nc_data_access_mode (ex_config x) of
        PodmanUserNamespace \<Rightarrow>
          abind (run_node_command e (remove_command x paths) ''podman unshare cleanup'') (\<lambda>_. areturn ())
      | Host \<Rightarrow> remove_each e paths)"

definition move_command :: "agent_executor \<Rightarrow> path \<Rightarrow> path \<Rightarrow> command" where
  "move_command x src dst =
     podman_command x [''unshare'', ''mv'', ''--'', path_text (ex_config x) src, path_text (ex_config x) dst]"

definition move_path :: "node_env \<Rightarrow> agent_executor \<Rightarrow> path \<Rightarrow> path \<Rightarrow> unit executor_io" where
  "move_path e x src dst =
     (case nc_data_access_mode (ex_config x) of
        PodmanUserNamespace \<Rightarrow>
          abind (run_node_command e (move_command x src dst) ''podman unshare move'') (\<lambda>_. areturn ())
      | Host \<Rightarrow> ex_io (rename e src dst))"

definition path_to_string :: "agent_executor \<Rightarrow> path \<Rightarrow> executor_error + string" where
  "path_to_string x p = (let s = path_text (ex_config x) p in
     if utf8_valid (map code s) then Inr s else Inl (NonUtf8Path s))"

text \<open>Creating the state directory, which exists, and setting its permissions.\<close>

definition ensure_private_directory :: "node_env \<Rightarrow> unit executor_io" where
  "ensure_private_directory e = abind (ex_io (may_fail e)) (\<lambda>_. ex_io (may_fail e))"

section \<open>The state of the agent\<close>

definition initial_state :: agent_state where
  "initial_state = \<lparr> as_schema_version = AGENT_STATE_SCHEMA_VERSION, as_instance = None \<rparr>"

definition load_state :: "node_env \<Rightarrow> agent_state executor_io" where
  "load_state e =
     abind (attempt (read_file e state_path)) (\<lambda>r.
     case r of
       Inl IoNotFound \<Rightarrow> areturn initial_state
     | Inl f \<Rightarrow> afail (ExIo f)
     | Inr content \<Rightarrow>
         (case ne_state_parse e content of
            None \<Rightarrow> afail ExSerialization
          | Some state \<Rightarrow>
              if as_schema_version state \<noteq> AGENT_STATE_SCHEMA_VERSION
              then afail (UnsupportedStateSchemaVersion (as_schema_version state))
              else areturn state))"

text \<open>
  The state is written to a temporary file, which then replaces the state
  file; the synchronisations may fail.
\<close>

definition store_state :: "node_env \<Rightarrow> agent_state \<Rightarrow> unit executor_io" where
  "store_state e state =
     abind (ensure_private_directory e) (\<lambda>_.
     ex_io (abind (open_for_writing e temporary_state_path) (\<lambda>_.
     abind (write_all e temporary_state_path (ne_state_text e state)) (\<lambda>_.
     abind (may_fail e) (\<lambda>_.
     abind (rename e temporary_state_path state_path) (\<lambda>_.
     abind (may_fail e) (\<lambda>_.
     may_fail e)))))))"

definition validate_identity :: "instance_state \<Rightarrow> instance_identity \<Rightarrow> executor_error + unit" where
  "validate_identity s i =
     ensure (is_server_instance_id s = server_instance_id i \<and> is_fencing_token s = fencing_token i) StaleInstance"

definition ensure_instance_state ::
    "agent_state \<Rightarrow> instance_identity \<Rightarrow> uuid \<Rightarrow> string \<Rightarrow> string option \<Rightarrow> executor_error + agent_state" where
  "ensure_instance_state state i server_id repository_url source_snapshot_id =
     (let s = (case as_instance state of
          Some s \<Rightarrow> s
        | None \<Rightarrow> \<lparr> is_server_instance_id = server_instance_id i, is_fencing_token = fencing_token i,
            is_server_id = server_id, is_repository = repository_url,
            is_source_snapshot_id = source_snapshot_id, is_data_prepared = False,
            is_last_snapshot_id = None \<rparr>) in
      rbind (validate_identity s i) (\<lambda>_.
      rbind (ensure (is_server_id s = server_id \<and> is_repository s = repository_url
         \<and> is_source_snapshot_id s = source_snapshot_id) ImmutableInstanceConfigurationChanged) (\<lambda>_.
      Inr (state\<lparr> as_instance := Some s \<rparr>))))"

section \<open>Containers\<close>

definition node_container_name :: "node_env \<Rightarrow> uuid \<Rightarrow> string" where
  "node_container_name e ident = ''mcserver-'' @ ne_uuid_text e ident"

definition container_exists :: "node_env \<Rightarrow> agent_executor \<Rightarrow> uuid \<Rightarrow> bool executor_io" where
  "container_exists e x ident =
     abind (run_podman_allow_failure e x [''container'', ''exists'', node_container_name e ident]) (\<lambda>output.
     if co_code output = Some 0 then areturn True
     else if co_code output = Some 1 then areturn False
     else afail (command_failure ''podman container exists'' output))"

definition container_running :: "node_env \<Rightarrow> agent_executor \<Rightarrow> uuid \<Rightarrow> bool executor_io" where
  "container_running e x ident =
     abind (container_exists e x ident) (\<lambda>found.
     if \<not> found then areturn False
     else
       abind (run_podman e x [''container'', ''inspect'', ''--format'', ''{{.State.Running}}'', node_container_name e ident]) (\<lambda>output.
       if \<not> utf8_valid (map code (co_stdout output)) then afail ExUtf8
       else
         let answer = str_trim (co_stdout output) in
         if answer = ''true'' then areturn True
         else if answer = ''false'' then areturn False
         else afail (UnexpectedPodmanOutput answer)))"

definition remove_container :: "node_env \<Rightarrow> agent_executor \<Rightarrow> uuid \<Rightarrow> unit executor_io" where
  "remove_container e x ident =
     abind (run_podman e x [''rm'', ''--force'', ''--ignore'', node_container_name e ident]) (\<lambda>_. areturn ())"

definition create_arguments ::
    "node_env \<Rightarrow> agent_executor \<Rightarrow> uuid \<Rightarrow> uuid \<Rightarrow> agent_process_spec \<Rightarrow> string \<Rightarrow> string list" where
  "create_arguments e x ident server_id spec volume =
     [''create'', ''--replace'', ''--name'', node_container_name e ident,
      ''--label'', ''io.mcserver.managed=true'',
      ''--label'', ''io.mcserver.local-scope='' @ nc_local_scope (ex_config x),
      ''--label'', ''io.mcserver.server-id='' @ ne_uuid_text e server_id,
      ''--label'', ''io.mcserver.server-instance-id='' @ ne_uuid_text e ident,
      ''--label'', ''io.mcserver.compute-instance-id='' @ ne_uuid_text e (nc_compute_instance_id (ex_config x)),
      ''--publish'', nat_to_string (unat (ap_host_port spec)) @ '':25565/tcp'',
      ''--volume'', volume @ '':/data:Z'',
      ''--env'', ''EULA=TRUE'', ''--env'', ''TYPE='' @ ap_server_type spec,
      ''--env'', ''VERSION='' @ ap_version spec, ''--env'', ''SKIP_SERVER_PROPERTIES=TRUE'',
      ''--restart'', ''no'']
     @ concat (map (\<lambda>(key, value). [''--env'', key @ ''='' @ value]) (ap_environment spec))
     @ [''--'', ap_container_image spec]"

definition create_container ::
    "node_env \<Rightarrow> agent_executor \<Rightarrow> uuid \<Rightarrow> uuid \<Rightarrow> agent_process_spec \<Rightarrow> unit executor_io" where
  "create_container e x ident server_id spec =
     (if \<not> ap_accept_eula spec then afail EulaNotAccepted
      else
        abind (alift (path_to_string x data_directory)) (\<lambda>volume.
        abind (run_node_command e (podman_command x (create_arguments e x ident server_id spec volume)) ''podman create'') (\<lambda>_.
        areturn ())))"

section \<open>Repositories\<close>

definition ensure_restic_repository :: "node_env \<Rightarrow> agent_executor \<Rightarrow> string \<Rightarrow> unit executor_io" where
  "ensure_restic_repository e x repository_url =
     abind (run_restic_allow_failure e x repository_url [''cat'', ''config''] None) (\<lambda>check.
     if co_success check then areturn ()
     else
       abind (run_restic_allow_failure e x repository_url [''init''] None) (\<lambda>initialization.
       if co_success initialization then areturn ()
       else
         abind (run_restic_allow_failure e x repository_url [''cat'', ''config''] None) (\<lambda>second_check.
         if co_success second_check then areturn ()
         else afail (command_failure ''restic init'' initialization))))"

definition restore_arguments :: "string \<Rightarrow> string \<Rightarrow> string list" where
  "restore_arguments snapshot_id target = [''restore'', snapshot_id, ''--target'', target, ''--json'', ''--quiet'']"

text \<open>
  The data directory is replaced by the restored one: an interrupted
  replacement is undone first, the snapshot is restored beside the data, and
  the two are swapped, with the old data put back when the last move fails.
\<close>

definition recover_swap :: "node_env \<Rightarrow> agent_executor \<Rightarrow> unit executor_io" where
  "recover_swap e x =
     abind (path_exists e data_directory) (\<lambda>data.
     if data then areturn ()
     else
       abind (path_exists e previous_directory) (\<lambda>previous.
       if previous then move_path e x previous_directory data_directory else areturn ()))"

definition stage_snapshot :: "node_env \<Rightarrow> agent_executor \<Rightarrow> string \<Rightarrow> string \<Rightarrow> unit executor_io" where
  "stage_snapshot e x repository_url snapshot_id =
     abind (remove_paths e x [staging_directory, previous_directory]) (\<lambda>_.
     abind (ex_io (create_dir_all e staging_directory)) (\<lambda>_.
     abind (alift (path_to_string x staging_directory)) (\<lambda>staging.
     abind (run_restic e x repository_url (restore_arguments snapshot_id staging) None) (\<lambda>_.
     abind (attempt (metadata e restored_data)) (\<lambda>r.
     case r of
       Inl IoNotFound \<Rightarrow> afail (RestoreMissingDataDirectory (path_text (ex_config x) restored_data))
     | Inl f \<Rightarrow> afail (ExIo f)
     | Inr (File _) \<Rightarrow> afail (RestoreMissingDataDirectory (path_text (ex_config x) restored_data))
     | Inr (Directory _) \<Rightarrow> areturn ())))))"

text \<open>An unreadable path counts as absent for the first question and as present for the second.\<close>

definition put_back :: "node_env \<Rightarrow> agent_executor \<Rightarrow> unit executor_io" where
  "put_back e x =
     abind (attempt (path_exists e previous_directory)) (\<lambda>previous.
     if previous \<noteq> Inr True then areturn ()
     else
       abind (attempt (path_exists e data_directory)) (\<lambda>data.
       if data \<noteq> Inr False then areturn ()
       else
         abind (attempt (move_path e x previous_directory data_directory)) (\<lambda>_. areturn ())))"

definition install_data :: "node_env \<Rightarrow> agent_executor \<Rightarrow> unit executor_io" where
  "install_data e x =
     abind (path_exists e data_directory) (\<lambda>data.
     abind (if data then move_path e x data_directory previous_directory else areturn ()) (\<lambda>_.
     abind (attempt (move_path e x restored_data data_directory)) (\<lambda>moved.
     case moved of
       Inl failure \<Rightarrow> abind (put_back e x) (\<lambda>_. afail failure)
     | Inr _ \<Rightarrow> remove_paths e x [previous_directory, staging_directory])))"

definition restore_snapshot :: "node_env \<Rightarrow> agent_executor \<Rightarrow> string \<Rightarrow> string \<Rightarrow> unit executor_io" where
  "restore_snapshot e x repository_url snapshot_id =
     abind (recover_swap e x) (\<lambda>_.
     abind (stage_snapshot e x repository_url snapshot_id) (\<lambda>_.
     install_data e x))"

fun backup_snapshot_id :: "node_env \<Rightarrow> string list \<Rightarrow> executor_error + string" where
  "backup_snapshot_id e [] = Inl MissingSnapshotId"
| "backup_snapshot_id e (line # rest) =
     (if line = [] then backup_snapshot_id e rest
      else
        case ne_backup_line e line of
          None \<Rightarrow> Inl ExSerialization
        | Some (Some message_type, Some snapshot_id) \<Rightarrow>
            if message_type = ''summary'' \<and> \<not> is_blank snapshot_id \<and> char_count snapshot_id \<le> 256
               \<and> \<not> contains_nul snapshot_id
            then Inr snapshot_id
            else backup_snapshot_id e rest
        | Some _ \<Rightarrow> backup_snapshot_id e rest)"

definition parse_backup_snapshot_id :: "node_env \<Rightarrow> string \<Rightarrow> executor_error + string" where
  "parse_backup_snapshot_id e output = backup_snapshot_id e (split_on (CHR 0x0A) output)"

section \<open>The operations\<close>

definition node_inspect :: "node_env \<Rightarrow> agent_executor \<Rightarrow> instance_identity \<Rightarrow> agent_inspect_result executor_io" where
  "node_inspect e x i =
     abind (load_state e) (\<lambda>state.
     abind (alift (case as_instance state of None \<Rightarrow> Inr () | Some s \<Rightarrow> validate_identity s i)) (\<lambda>_.
     abind (container_running e x (server_instance_id i)) (\<lambda>running.
     areturn \<lparr> ir_data_prepared = is_some_and (as_instance state) is_data_prepared,
       ir_process_running = running,
       ir_last_snapshot_id = Option.bind (as_instance state) is_last_snapshot_id \<rparr>)))"

definition prepare_data :: "node_env \<Rightarrow> agent_executor \<Rightarrow> restore_data_params \<Rightarrow> unit executor_io" where
  "prepare_data e x p =
     (case rd_source_snapshot_id p of
        Some snapshot_id \<Rightarrow> restore_snapshot e x (rd_repository p) snapshot_id
      | None \<Rightarrow>
          abind (remove_paths e x [data_directory]) (\<lambda>_.
          ex_io (create_dir_all e data_directory)))"

definition restore_data :: "node_env \<Rightarrow> agent_executor \<Rightarrow> restore_data_params \<Rightarrow> bool executor_io" where
  "restore_data e x p =
     abind (load_state e) (\<lambda>state.
     abind (alift (ensure_instance_state state (rd_instance p) (rd_server_id p) (rd_repository p)
        (rd_source_snapshot_id p))) (\<lambda>state.
     if is_some_and (as_instance state) is_data_prepared then areturn False
     else
       abind (ensure_private_directory e) (\<lambda>_.
       abind (ensure_restic_repository e x (rd_repository p)) (\<lambda>_.
       abind (prepare_data e x p) (\<lambda>_.
       abind (alift (ok_or (as_instance state) UnknownInstance)) (\<lambda>s.
       abind (alift (validate_identity s (rd_instance p))) (\<lambda>_.
       abind (store_state e (state\<lparr> as_instance := Some (s\<lparr> is_data_prepared := True \<rparr>) \<rparr>)) (\<lambda>_.
       areturn True))))))))"

definition start_server :: "node_env \<Rightarrow> agent_executor \<Rightarrow> start_server_params \<Rightarrow> bool executor_io" where
  "start_server e x p = (let ident = server_instance_id (ss_instance p) in
     abind (load_state e) (\<lambda>state.
     abind (alift (ok_or (as_instance state) DataNotPrepared)) (\<lambda>s.
     abind (alift (validate_identity s (ss_instance p))) (\<lambda>_.
     if \<not> is_data_prepared s then afail DataNotPrepared
     else
       abind (container_running e x ident) (\<lambda>running.
       if running then areturn False
       else
         abind (remove_container e x ident) (\<lambda>_.
         abind (create_container e x ident (is_server_id s) (ss_process p)) (\<lambda>_.
         abind (run_podman e x [''start'', node_container_name e ident]) (\<lambda>_.
         areturn True))))))))"

definition stop_server :: "node_env \<Rightarrow> agent_executor \<Rightarrow> stop_server_params \<Rightarrow> bool executor_io" where
  "stop_server e x p = (let ident = server_instance_id (sp_instance p) in
     abind (load_state e) (\<lambda>state.
     abind (alift (ok_or (as_instance state) UnknownInstance)) (\<lambda>s.
     abind (alift (validate_identity s (sp_instance p))) (\<lambda>_.
     abind (container_running e x ident) (\<lambda>running.
     if \<not> running then areturn False
     else
       abind (run_podman e x [''stop'', ''--time'', u64_to_string (sp_stop_timeout_seconds p), node_container_name e ident]) (\<lambda>_.
       areturn True))))))"

definition backup_arguments :: "node_env \<Rightarrow> snapshot_data_params \<Rightarrow> string list" where
  "backup_arguments e p =
     [''backup'', ''data'', ''--json'', ''--quiet'', ''--tag'', ''mcserver-server:'' @ ne_uuid_text e (sd_server_id p),
      ''--tag'', ''mcserver-instance:'' @ ne_uuid_text e (server_instance_id (sd_instance p))]"

definition snapshot_data :: "node_env \<Rightarrow> agent_executor \<Rightarrow> snapshot_data_params \<Rightarrow> string executor_io" where
  "snapshot_data e x p =
     abind (load_state e) (\<lambda>state.
     abind (alift (ok_or (as_instance state) UnknownInstance)) (\<lambda>s.
     abind (alift (validate_identity s (sd_instance p))) (\<lambda>_.
     if is_server_id s \<noteq> sd_server_id p \<or> is_repository s \<noteq> sd_repository p
     then afail ImmutableInstanceConfigurationChanged
     else
       abind (container_running e x (server_instance_id (sd_instance p))) (\<lambda>running.
       if running then afail ProcessStillRunning
       else
         abind (ensure_restic_repository e x (sd_repository p)) (\<lambda>_.
         abind (run_restic e x (sd_repository p) (backup_arguments e p) (Some (nc_state_directory (ex_config x)))) (\<lambda>output.
         abind (alift (parse_backup_snapshot_id e (co_stdout output))) (\<lambda>snapshot_id.
         abind (alift (validate_identity s (sd_instance p))) (\<lambda>_.
         abind (store_state e (state\<lparr> as_instance := Some (s\<lparr> is_last_snapshot_id := Some snapshot_id \<rparr>) \<rparr>)) (\<lambda>_.
         areturn snapshot_id)))))))))"

definition storage_paths :: "path list" where
  "storage_paths = [data_directory, staging_directory, previous_directory]"

primrec any_exists :: "node_env \<Rightarrow> path list \<Rightarrow> bool executor_io" where
  "any_exists e [] = areturn False"
| "any_exists e (p # ps) = abind (path_exists e p) (\<lambda>found. if found then areturn True else any_exists e ps)"

definition instance_storage_exists :: "node_env \<Rightarrow> bool executor_io" where
  "instance_storage_exists e = any_exists e (storage_paths @ [state_path])"

definition remove_instance_storage :: "node_env \<Rightarrow> agent_executor \<Rightarrow> unit executor_io" where
  "remove_instance_storage e x =
     abind (remove_paths e x storage_paths) (\<lambda>_.
     abind (attempt (remove_file e state_path)) (\<lambda>r.
     case r of Inr _ \<Rightarrow> areturn () | Inl IoNotFound \<Rightarrow> areturn () | Inl f \<Rightarrow> afail (ExIo f)))"

definition cleanup_instance :: "node_env \<Rightarrow> agent_executor \<Rightarrow> instance_identity \<Rightarrow> bool executor_io" where
  "cleanup_instance e x i =
     abind (load_state e) (\<lambda>state.
     abind (alift (case as_instance state of None \<Rightarrow> Inr () | Some s \<Rightarrow> validate_identity s i)) (\<lambda>_.
     abind (container_exists e x (server_instance_id i)) (\<lambda>container_existed.
     abind (remove_container e x (server_instance_id i)) (\<lambda>_.
     abind (instance_storage_exists e) (\<lambda>storage_existed.
     abind (remove_instance_storage e x) (\<lambda>_.
     areturn (container_existed \<or> storage_existed)))))))"

section \<open>Requests\<close>

text \<open>The operation for each request of the control plane, with its reply.\<close>

definition reply_with :: "('a \<Rightarrow> agent_reply) \<Rightarrow> 'a executor_io \<Rightarrow> agent_reply executor_io" where
  "reply_with f m = abind m (\<lambda>a. areturn (f a))"

fun execute_request :: "node_env \<Rightarrow> agent_executor \<Rightarrow> agent_request \<Rightarrow> agent_reply executor_io" where
  "execute_request e x (AgentInspect i) = reply_with InspectReply (node_inspect e x i)"
| "execute_request e x (DataRestore p) = reply_with ChangedReply (restore_data e x p)"
| "execute_request e x (ServerStart p) = reply_with ChangedReply (start_server e x p)"
| "execute_request e x (ServerStop p) = reply_with ChangedReply (stop_server e x p)"
| "execute_request e x (DataSnapshot p) = reply_with SnapshotReply (snapshot_data e x p)"
| "execute_request e x (InstanceCleanup i) = reply_with ChangedReply (cleanup_instance e x i)"
| "execute_request e x NodeShutdown = areturn (ShutdownReply True)"

end
