(* ===== verification/Node_Programs.thy ===== *)
theory Node_Programs
  imports Node_Executor
begin

text \<open>
  The programs the agent runs, with what it relies on of them, and what each
  operation of the executor may change below the state directory, whatever
  its outcome.
\<close>

section \<open>The programs the agent runs\<close>

text \<open>The trees agree below every other name.\<close>

definition same_except :: "string list \<Rightarrow> directory \<Rightarrow> directory \<Rightarrow> bool" where
  "same_except names d d' \<longleftrightarrow> (\<forall>n p. n \<notin> set names \<longrightarrow> find_entry (n # p) d' = find_entry (n # p) d)"

definition succeeded :: "command_outcome \<Rightarrow> bool" where
  "succeeded outcome \<longleftrightarrow> (case outcome of CommandDone out \<Rightarrow> co_success out | _ \<Rightarrow> False)"

definition is_directory :: "path \<Rightarrow> directory \<Rightarrow> bool" where
  "is_directory p d \<longleftrightarrow> (\<exists>es. find_entry p d = Some (Directory es))"

definition container_command :: "agent_executor \<Rightarrow> command \<Rightarrow> bool" where
  "container_command x c \<longleftrightarrow>
     (\<exists>verb arguments. c = podman_command x (verb # arguments)
        \<and> verb \<in> {''container'', ''rm'', ''create'', ''start'', ''stop''})"

definition repository_command :: "agent_executor \<Rightarrow> command \<Rightarrow> bool" where
  "repository_command x c \<longleftrightarrow>
     (\<exists>url verb arguments. c = restic_command x url (verb # arguments) None \<and> verb \<in> {''cat'', ''init''})"

text \<open>
  What the agent relies on. The JSON library reads back the states it wrote.
  \<open>rm -rf\<close> changes nothing but its arguments and, when it succeeds, removes
  them; \<open>mv\<close> changes nothing but its arguments, and to a free name it renames or
  changes nothing. Restic restores below
  its target what the repository holds, backs up without changing the data,
  and reports the identifier under which the repository then holds them; its
  other commands change nothing on the node. Commands about containers change
  at most what is in the data directory, which a container uses.
\<close>

definition codec_law :: "node_env \<Rightarrow> bool" where
  "codec_law e \<longleftrightarrow> (\<forall>s. ne_state_parse e (ne_state_text e s) = Some s)"

definition remove_law :: "node_env \<Rightarrow> agent_executor \<Rightarrow> bool" where
  "remove_law e x \<longleftrightarrow> (\<forall>n names d out d'.
     ne_run e n (remove_command x (map (\<lambda>a. [a]) names)) d = (out, d') \<longrightarrow>
     same_except names d d' \<and> (succeeded out \<longrightarrow> (\<forall>a \<in> set names. find_entry [a] d' = None)))"

definition move_law :: "node_env \<Rightarrow> agent_executor \<Rightarrow> bool" where
  "move_law e x \<longleftrightarrow> (\<forall>n src dst d out d'.
     ne_run e n (move_command x src dst) d = (out, d') \<longrightarrow>
     same_except [hd src, hd dst] d d'
   \<and> (find_entry dst d = None \<longrightarrow>
      (if succeeded out
       then \<exists>y. find_entry src d = Some y \<and> same_except [] (put_entry dst (Some y) (put_entry src None d)) d'
       else same_except [] d d')))"

definition restore_law :: "node_env \<Rightarrow> agent_executor \<Rightarrow> bool" where
  "restore_law e x \<longleftrightarrow> (\<forall>n url sid d out d'.
     ne_run e n (restic_command x url (restore_arguments sid (path_text (ex_config x) staging_directory)) None) d =
       (out, d') \<longrightarrow>
     same_except [''restore-staging''] d d'
   \<and> (succeeded out \<longrightarrow> find_entry staging_directory d = Some (Directory []) \<longrightarrow>
        find_entry restored_data d' = ne_stored e url sid))"

definition backup_law :: "node_env \<Rightarrow> agent_executor \<Rightarrow> bool" where
  "backup_law e x \<longleftrightarrow> (\<forall>n url p d out d'.
     ne_run e n (restic_command x url (backup_arguments e p) (Some (nc_state_directory (ex_config x)))) d =
       (out, d') \<longrightarrow>
     same_except [] d d'
   \<and> (\<forall>c sid. out = CommandDone c \<longrightarrow> co_success c \<longrightarrow> parse_backup_snapshot_id e (co_stdout c) = Inr sid \<longrightarrow>
        ne_stored e url sid = find_entry data_directory d))"

definition container_law :: "node_env \<Rightarrow> agent_executor \<Rightarrow> bool" where
  "container_law e x \<longleftrightarrow> (\<forall>n c d out d'.
     container_command x c \<longrightarrow> ne_run e n c d = (out, d') \<longrightarrow>
     same_except [''data''] d d' \<and> (is_directory data_directory d \<longrightarrow> is_directory data_directory d'))"

definition repository_law :: "node_env \<Rightarrow> agent_executor \<Rightarrow> bool" where
  "repository_law e x \<longleftrightarrow> (\<forall>n c d out d'.
     repository_command x c \<longrightarrow> ne_run e n c d = (out, d') \<longrightarrow> same_except [] d d')"

definition node_laws :: "node_env \<Rightarrow> agent_executor \<Rightarrow> bool" where
  "node_laws e x \<longleftrightarrow> codec_law e \<and> remove_law e x \<and> move_law e x \<and> restore_law e x \<and> backup_law e x
     \<and> container_law e x \<and> repository_law e x"

lemma node_lawsD:
  assumes "node_laws e x"
  shows "codec_law e" "remove_law e x" "move_law e x" "restore_law e x" "backup_law e x" "container_law e x"
    "repository_law e x"
  using assms by (simp_all add: node_laws_def)

lemma same_exceptD: "same_except names d d' \<Longrightarrow> n \<notin> set names \<Longrightarrow> find_entry (n # p) d' = find_entry (n # p) d"
  by (simp add: same_except_def)

lemma same_except_refl [simp]: "same_except names d d"
  by (simp add: same_except_def)

lemma same_except_trans:
  "same_except names d d1 \<Longrightarrow> same_except names d1 d2 \<Longrightarrow> same_except names d d2"
  by (simp add: same_except_def)

lemma same_except_mono: "same_except names d d' \<Longrightarrow> set names \<subseteq> set others \<Longrightarrow> same_except others d d'"
  by (auto simp: same_except_def)

lemma same_except_put: "same_except [n] d (put_entry (n # p) x d)"
  by (auto simp: same_except_def)

section \<open>What each operation changes\<close>

text \<open>An operation that changes the tree only below the given names, whatever its outcome.\<close>

definition touches :: "string list \<Rightarrow> ('e, 'a) nio \<Rightarrow> bool" where
  "touches names m \<longleftrightarrow> (\<forall>nd. same_except names (nd_root nd) (nd_root (fst (m nd))))"

named_theorems touches_intros \<open>what operations change\<close>

lemma touchesD: "touches names m \<Longrightarrow> m nd = (nd', r) \<Longrightarrow> same_except names (nd_root nd) (nd_root nd')"
  unfolding touches_def by (metis fst_conv)

lemma touches_mono: "touches names m \<Longrightarrow> set names \<subseteq> set others \<Longrightarrow> touches others m"
  unfolding touches_def by (blast intro: same_except_mono)

lemma touches_abind [touches_intros]:
  "touches names m \<Longrightarrow> (\<And>a. touches names (k a)) \<Longrightarrow> touches names (abind m k)"
  unfolding touches_def abind_def
  by (auto split: prod.splits sum.splits) (metis fst_conv same_except_trans)+

lemma touches_pure [touches_intros]:
  "touches names (areturn a)" "touches names (afail x)" "touches names (alift r)" "touches names (nask f)"
  "touches names nroot" "touches names (nemit ef)"
  by (simp_all add: touches_def action_defs nask_def nroot_def nemit_def)

lemma touches_wrap [touches_intros]:
  "touches names m \<Longrightarrow> touches names (attempt m)" "touches names m \<Longrightarrow> touches names (amap_err f m)"
  by (simp_all add: touches_def attempt_def amap_err_def case_prod_unfold)

lemma touches_if [touches_intros]:
  "(b \<Longrightarrow> touches names m) \<Longrightarrow> (\<not> b \<Longrightarrow> touches names n) \<Longrightarrow> touches names (if b then m else n)"
  by simp

lemma touches_case_option [touches_intros]:
  "(a = None \<Longrightarrow> touches names m) \<Longrightarrow> (\<And>b. a = Some b \<Longrightarrow> touches names (k b))
   \<Longrightarrow> touches names (case a of None \<Rightarrow> m | Some b \<Rightarrow> k b)"
  by (cases a) simp_all

lemma touches_case_sum [touches_intros]:
  "(\<And>b. a = Inl b \<Longrightarrow> touches names (m b)) \<Longrightarrow> (\<And>b. a = Inr b \<Longrightarrow> touches names (k b))
   \<Longrightarrow> touches names (case a of Inl b \<Rightarrow> m b | Inr b \<Rightarrow> k b)"
  by (cases a) simp_all

lemma touches_case_entry [touches_intros]:
  "(\<And>b. a = File b \<Longrightarrow> touches names (m b)) \<Longrightarrow> (\<And>b. a = Directory b \<Longrightarrow> touches names (k b))
   \<Longrightarrow> touches names (case a of File b \<Rightarrow> m b | Directory b \<Rightarrow> k b)"
  by (cases a) simp_all

lemma touches_case_failure [touches_intros]:
  "touches names m \<Longrightarrow> touches names k \<Longrightarrow> touches names (case a of IoNotFound \<Rightarrow> m | IoOther \<Rightarrow> k)"
  by (cases a) simp_all

lemma touches_case_outcome [touches_intros]:
  "touches names m \<Longrightarrow> (\<And>b. touches names (k b)) \<Longrightarrow> (\<And>b. touches names (l b))
   \<Longrightarrow> touches names (case a of CommandTimedOut \<Rightarrow> m | CommandNotRun b \<Rightarrow> k b | CommandDone b \<Rightarrow> l b)"
  by (cases a) simp_all

lemma touches_case_prod [touches_intros]:
  "(\<And>b c. touches names (k b c)) \<Longrightarrow> touches names (case a of (b, c) \<Rightarrow> k b c)"
  by (cases a) simp

lemma touches_nput: "n \<in> set names \<Longrightarrow> touches names (nput (n # p) x)"
  unfolding touches_def nput_def by (auto intro!: same_except_mono [OF same_except_put])

lemma touches_reads [touches_intros]:
  "touches names (may_fail e)" "touches names (metadata e p)" "touches names (read_file e p)"
  "touches names (path_exists e p)" "touches names (load_state e)" "touches names (any_exists e ps)"
  "touches names (ensure_private_directory e)"
proof -
  show may: "touches names (may_fail e)" for names :: "string list" unfolding may_fail_def by (intro touches_intros)
  show meta: "touches names (metadata e p)" for names p unfolding metadata_def by (intro touches_intros may)
  show read: "touches names (read_file e p)" for names p unfolding read_file_def by (intro touches_intros meta)
  show exists: "touches names (path_exists e p)" for names p
    unfolding path_exists_def by (intro touches_intros meta)
  show "touches names (load_state e)" unfolding load_state_def by (intro touches_intros read)
  show "touches names (any_exists e ps)" by (induction ps) (simp_all, (intro touches_intros exists)+)
  show "touches names (ensure_private_directory e)"
    unfolding ensure_private_directory_def ex_io_def by (intro touches_intros may)
qed

lemma touches_writes:
  assumes "n \<in> set names"
  shows "touches names (create_dir_all e [n])" "touches names (open_for_writing e [n])"
    "touches names (write_all e [n] content)" "touches names (remove_entry e [n])" "touches names (remove_file e [n])"
    "touches names (remove_path e [n])"
proof -
  note put = touches_nput [OF assms]
  show "touches names (create_dir_all e [n])" "touches names (open_for_writing e [n])"
    "touches names (write_all e [n] content)"
    unfolding create_dir_all_def open_for_writing_def write_all_def by (intro touches_intros put)+
  show entry: "touches names (remove_entry e [n])" unfolding remove_entry_def by (intro touches_intros put)
  show "touches names (remove_file e [n])" unfolding remove_file_def by (intro touches_intros entry)
  show "touches names (remove_path e [n])"
    unfolding remove_path_def ex_io_def by (intro touches_intros entry)
qed

subsection \<open>Commands\<close>

lemma touches_run_program:
  assumes "\<And>n d out d'. ne_run e n c d = (out, d') \<Longrightarrow> same_except names d d'"
  shows "touches names (run_program e c)"
proof -
  have "same_except names d (snd (ne_run e n c d))" for n d
    using assms [of n d "fst (ne_run e n c d)"] by simp
  then show ?thesis by (simp add: touches_def run_program_def abind_def nemit_def case_prod_unfold)
qed

lemma touches_run_command:
  assumes "\<And>n d out d'. ne_run e n c d = (out, d') \<Longrightarrow> same_except names d d'"
  shows "touches names (run_command_allow_failure e c description)" "touches names (run_node_command e c description)"
  unfolding run_node_command_def run_command_allow_failure_def
  by (intro touches_intros touches_run_program assms; assumption)+

lemma touches_container_command:
  assumes "node_laws e x" "container_command x c"
  shows "touches [''data''] (run_command_allow_failure e c description)" "touches [''data''] (run_node_command e c description)"
  using node_lawsD(6) [OF assms(1)] assms(2) by (intro touches_run_command; simp add: container_law_def)+

lemma touches_podman:
  assumes "node_laws e x" "verb \<in> {''container'', ''rm'', ''create'', ''start'', ''stop''}"
  shows "touches [''data''] (run_podman_allow_failure e x (verb # arguments))"
    "touches [''data''] (run_podman e x (verb # arguments))"
proof -
  have "container_command x (podman_command x (verb # arguments))"
    using assms(2) unfolding container_command_def by blast
  note run = touches_container_command [OF assms(1) this]
  show allow: "touches [''data''] (run_podman_allow_failure e x (verb # arguments))"
    unfolding run_podman_allow_failure_def by (rule run)
  show "touches [''data''] (run_podman e x (verb # arguments))"
    unfolding run_podman_def by (intro touches_intros allow)
qed

lemma touches_containers:
  assumes "node_laws e x"
  shows "touches [''data''] (container_exists e x i)" "touches [''data''] (container_running e x i)"
    "touches [''data''] (remove_container e x i)" "touches [''data''] (create_container e x i sid spec)"
proof -
  show ex: "touches [''data''] (container_exists e x i)"
    unfolding container_exists_def by (intro touches_intros touches_podman assms) simp
  show "touches [''data''] (container_running e x i)"
    unfolding container_running_def Let_def by (intro touches_intros ex touches_podman assms) simp
  show "touches [''data''] (remove_container e x i)"
    unfolding remove_container_def by (intro touches_intros touches_podman assms) simp
  have "container_command x (podman_command x (create_arguments e x i sid spec volume))" for volume
    unfolding container_command_def create_arguments_def append_Cons by blast
  then show "touches [''data''] (create_container e x i sid spec)"
    unfolding create_container_def using assms by (intro touches_intros touches_container_command)
qed

lemma touches_ensure_repository:
  assumes "node_laws e x"
  shows "touches names (ensure_restic_repository e x url)"
proof -
  have law: "ne_run e n c d = (out, d') \<Longrightarrow> same_except [] d d'" if "repository_command x c" for c n d out d'
    using node_lawsD(7) [OF assms] that unfolding repository_law_def by blast
  have "repository_command x (restic_command x url [''cat'', ''config''] None)"
    "repository_command x (restic_command x url [''init''] None)"
    unfolding repository_command_def by blast+
  then have "touches [] (ensure_restic_repository e x url)"
    unfolding ensure_restic_repository_def run_restic_allow_failure_def
    by (intro touches_intros touches_run_command(1) law)
  then show ?thesis by (rule touches_mono) simp
qed

lemma touches_remove_paths:
  assumes "node_laws e x" "paths = map (\<lambda>a. [a]) names"
  shows "touches names (remove_paths e x paths)"
proof -
  have each: "touches names (remove_each e (map (\<lambda>a. [a]) ns))" if "set ns \<subseteq> set names" for ns
    using that by (induction ns) (auto intro!: touches_intros touches_writes)
  have "touches names (run_node_command e (remove_command x paths) description)" for description
    using node_lawsD(2) [OF assms(1)] by (intro touches_run_command) (auto simp: remove_law_def assms(2))
  then show ?thesis
    using each [of names] unfolding remove_paths_def assms(2)
    by (cases "nc_data_access_mode (ex_config x)") (auto intro!: touches_intros)
qed

lemma touches_rename: "{n, m} \<subseteq> set names \<Longrightarrow> touches names (rename e (n # p) (m # q))"
proof -
  assume sub: "{n, m} \<subseteq> set names"
  have "same_except names d (put_entry (m # q) y (put_entry (n # p) z d))" for y z d
    using sub by (auto simp: same_except_def) (metis find_put_other)
  then show ?thesis
    by (auto simp: touches_def rename_def may_fail_def renamed_def action_defs nask_def nemit_def nroot_def
        split: option.split sum.split if_splits)
qed

lemma touches_move_path:
  assumes "node_laws e x" "{n, m} \<subseteq> set names"
  shows "touches names (move_path e x (n # p) (m # q))"
proof -
  have "touches names (run_node_command e (move_command x (n # p) (m # q)) description)" for description
  proof (intro touches_run_command)
    fix k d out d'
    assume "ne_run e k (move_command x (n # p) (m # q)) d = (out, d')"
    then have "same_except [n, m] d d'" using node_lawsD(3) [OF assms(1)] unfolding move_law_def by (metis list.sel(1))
    then show "same_except names d d'" by (rule same_except_mono) (use assms(2) in simp)
  qed
  then show ?thesis
    using touches_rename [OF assms(2)] unfolding move_path_def ex_io_def
    by (cases "nc_data_access_mode (ex_config x)") (auto intro!: touches_intros)
qed

subsection \<open>Restoring\<close>

lemmas path_defs = state_path_def temporary_state_path_def data_directory_def staging_directory_def
  restored_data_def previous_directory_def

abbreviation storage_names :: "string list" where
  "storage_names \<equiv> [''data'', ''restore-staging'', ''data-previous'']"

lemma touches_stage_snapshot:
  assumes "node_laws e x"
  shows "touches [''restore-staging'', ''data-previous''] (stage_snapshot e x url sid)"
proof -
  have "touches [''restore-staging'']
      (run_restic e x url (restore_arguments sid (path_text (ex_config x) staging_directory)) None)"
    unfolding run_restic_def run_restic_allow_failure_def
    using node_lawsD(4) [OF assms] by (intro touches_intros touches_run_command) (auto simp: restore_law_def)
  then have restic: "touches [''restore-staging'', ''data-previous'']
      (run_restic e x url (restore_arguments sid (path_text (ex_config x) staging_directory)) None)"
    by (rule touches_mono) simp
  have rm: "touches [''restore-staging'', ''data-previous''] (remove_paths e x [staging_directory, previous_directory])"
    by (rule touches_remove_paths [OF assms]) (simp add: path_defs)
  have mk: "touches [''restore-staging'', ''data-previous''] (ex_io (create_dir_all e staging_directory))"
    unfolding ex_io_def staging_directory_def by (intro touches_intros touches_writes) simp
  have target: "touches [''restore-staging'', ''data-previous''] (abind (alift (path_to_string x staging_directory)) k)"
    if "touches [''restore-staging'', ''data-previous''] (k (path_text (ex_config x) staging_directory))"
    for k :: "string \<Rightarrow> 'a executor_io"
    using that by (auto simp: path_to_string_def Let_def touches_def abind_def alift_def)
  show ?thesis
    unfolding stage_snapshot_def
    by (rule touches_abind [OF rm], rule touches_abind [OF mk], rule target, intro touches_intros restic)
qed

lemma touches_restore_snapshot:
  assumes "node_laws e x"
  shows "touches storage_names (restore_snapshot e x url sid)"
proof -
  note moves = touches_move_path [OF assms, of _ _ storage_names]
  have removed: "touches storage_names (remove_paths e x [previous_directory, staging_directory])"
    by (rule touches_mono [OF touches_remove_paths [OF assms, where names = "[''data-previous'', ''restore-staging'']"]])
       (auto simp: path_defs)
  have "touches storage_names (recover_swap e x)"
    unfolding recover_swap_def path_defs by (intro touches_intros moves) simp
  moreover have "touches storage_names (stage_snapshot e x url sid)"
    by (rule touches_mono [OF touches_stage_snapshot [OF assms]]) auto
  moreover have "touches storage_names (put_back e x)"
    unfolding put_back_def path_defs by (intro touches_intros moves) simp
  then have "touches storage_names (install_data e x)"
    unfolding install_data_def using removed by (auto intro!: touches_intros moves simp: path_defs)
  ultimately show ?thesis unfolding restore_snapshot_def by (intro touches_intros)
qed

subsection \<open>Storing the state\<close>

lemma touches_store_state: "touches [''agent-state.json'', ''agent-state.json.tmp''] (store_state e state)"
  unfolding store_state_def ex_io_def state_path_def temporary_state_path_def
  by (intro touches_intros touches_writes touches_rename) simp_all

end
