(* ===== verification/Node_Restore.thy ===== *)
theory Node_Restore
  imports Node_Programs
begin

text \<open>
  The replacement of the data directory by a restored snapshot
  (\<open>restore_snapshot\<close> in \<open>executor.rs\<close>): whatever fails on the way, the node
  keeps the data it held or has the restored data in place.
\<close>

section \<open>Outcomes of the file operations\<close>

text \<open>Facts about the tree, as pre- and postconditions.\<close>

abbreviation at :: "(directory \<Rightarrow> bool) \<Rightarrow> node \<Rightarrow> bool" where
  "at P \<equiv> \<lambda>nd. P (nd_root nd)"

lemma triple_touches:
  assumes "touches names m" "\<And>d d'. same_except names d d' \<Longrightarrow> P d \<Longrightarrow> P d'"
  shows "triple (at P) m (\<lambda>_. at P) (\<lambda>_. at P)"
  by (rule tripleI) (blast intro: assms(2) dest: touchesD [OF assms(1)])+

lemma same_except_other: "same_except names d d' \<Longrightarrow> n \<notin> set names \<Longrightarrow> find_entry (n # p) d' = find_entry (n # p) d"
  by (simp add: same_except_def)

lemma may_fail_same: "may_fail e nd = (nd', r) \<Longrightarrow> nd_root nd' = nd_root nd \<and> nd_trace nd' = nd_trace nd
    \<and> (r = Inr () \<or> r = Inl IoOther)"
  by (auto simp: may_fail_def action_defs nask_def split: if_splits)

lemma metadata_same:
  "metadata e p nd = (nd', r) \<Longrightarrow> nd_root nd' = nd_root nd \<and> nd_trace nd' = nd_trace nd
    \<and> (r = Inl IoOther \<or> r = ok_or (find_entry p (nd_root nd)) IoNotFound)"
  by (auto simp: metadata_def may_fail_def action_defs nask_def nroot_def split: if_splits)

lemma path_exists_same:
  assumes "path_exists e p nd = (nd', r)"
  shows "nd_root nd' = nd_root nd \<and> nd_trace nd' = nd_trace nd
    \<and> (r = Inl (ExIo IoOther) \<or> r = Inr (find_entry p (nd_root nd) \<noteq> None))"
proof -
  obtain nd1 r1 where m: "metadata e p nd = (nd1, r1)" by fastforce
  show ?thesis
    using assms metadata_same [OF m]
    by (cases "find_entry p (nd_root nd)")
       (auto simp: path_exists_def abind_def attempt_def m areturn_def afail_def)
qed

lemma triple_bind_exists:
  assumes "\<And>b. triple (at (\<lambda>d. P d \<and> b = (find_entry p d \<noteq> None))) (k b) N E" "\<And>x nd. P (nd_root nd) \<Longrightarrow> E x nd"
  shows "triple (at P) (abind (path_exists e p) k) N E"
proof (rule triple_abind)
  show "triple (at P) (path_exists e p) (\<lambda>b. at (\<lambda>d. P d \<and> b = (find_entry p d \<noteq> None))) E"
    by (rule tripleI) (use assms(2) path_exists_same in fastforce)+
qed (rule assms(1))

lemma move_outcome:
  assumes "node_laws e x" "find_entry dst (nd_root nd) = None" "move_path e x src dst nd = (nd', r)"
  shows "if is_ok r
    then \<exists>y. find_entry src (nd_root nd) = Some y
      \<and> same_except [] (put_entry dst (Some y) (put_entry src None (nd_root nd))) (nd_root nd')
    else same_except [] (nd_root nd) (nd_root nd')"
proof (cases "nc_data_access_mode (ex_config x)")
  case Host
  then show ?thesis
    using assms(2,3)
    by (auto simp: move_path_def ex_io_def rename_def renamed_def may_fail_def action_defs nask_def nroot_def nemit_def
        split: if_splits option.splits)
next
  case PodmanUserNamespace
  obtain out d' where run: "ne_run e (nd_tick nd) (move_command x src dst) (nd_root nd) = (out, d')" by fastforce
  have "nd_root nd' = d' \<and> (is_ok r \<longleftrightarrow> succeeded out)"
    using assms(3) PodmanUserNamespace run
    by (auto simp: move_path_def run_node_command_def run_command_allow_failure_def run_program_def action_defs nemit_def
        succeeded_def split: command_outcome.splits if_splits)
  then show ?thesis
    using node_lawsD(3) [OF assms(1)] run assms(2) unfolding move_law_def by metis
qed

lemma remove_path_outcome:
  "remove_path e [n] nd = (nd', Inr u) \<Longrightarrow> find_entry [n] (nd_root nd') = None"
proof -
  assume r: "remove_path e [n] nd = (nd', Inr u)"
  obtain nd1 r1 where m: "metadata e [n] nd = (nd1, r1)" by fastforce
  show ?thesis
    using r metadata_same [OF m]
    by (cases "map_of (nd_root nd) n")
       (auto simp: remove_path_def abind_def attempt_def m areturn_def afail_def ex_io_def amap_err_def remove_entry_def
        nroot_def nask_def nemit_def nput_def delete_conv' split: if_splits)
qed

lemma remove_each_outcome:
  assumes "remove_each e (map (\<lambda>a. [a]) names) nd = (nd', Inr u)"
  shows "\<forall>a \<in> set names. find_entry [a] (nd_root nd') = None"
  using assms
proof (induction names arbitrary: nd)
  case (Cons n names)
  obtain nd1 where 1: "remove_path e [n] nd = (nd1, Inr ())" "remove_each e (map (\<lambda>a. [a]) names) nd1 = (nd', Inr u)"
    using Cons.prems by (auto simp: abind_def split: prod.splits sum.splits)
  have "touches names (remove_each e (map (\<lambda>a. [a]) ns))" if "set ns \<subseteq> set names" for ns
    using that by (induction ns) (auto intro!: touches_intros touches_writes)
  then have "same_except names (nd_root nd1) (nd_root nd')" using touchesD 1(2) by blast
  then have "find_entry [n] (nd_root nd') = None" if "n \<notin> set names"
    using remove_path_outcome [OF 1(1)] that same_except_other by metis
  then show ?case using Cons.IH [OF 1(2)] by auto
qed simp

lemma remove_paths_outcome:
  assumes "node_laws e x" "remove_paths e x (map (\<lambda>a. [a]) names) nd = (nd', Inr u)"
  shows "\<forall>a \<in> set names. find_entry [a] (nd_root nd') = None"
proof (cases "nc_data_access_mode (ex_config x)")
  case Host
  then show ?thesis using assms(2) remove_each_outcome by (simp add: remove_paths_def)
next
  case PodmanUserNamespace
  let ?c = "remove_command x (map (\<lambda>a. [a]) names)"
  obtain out d' where run: "ne_run e (nd_tick nd) ?c (nd_root nd) = (out, d')" by fastforce
  then have "nd_root nd' = d' \<and> succeeded out"
    using assms(2) PodmanUserNamespace
    by (auto simp: remove_paths_def run_node_command_def run_command_allow_failure_def run_program_def action_defs
        nemit_def succeeded_def split: command_outcome.splits if_splits)
  then show ?thesis
    using node_lawsD(2) [OF assms(1)] run unfolding remove_law_def by metis
qed

section \<open>Restoring a snapshot\<close>

text \<open>The data a node holds: the data directory or, in the middle of a replacement, what was put aside.\<close>

definition held :: "directory \<Rightarrow> entry option" where
  "held d = (case find_entry data_directory d of None \<Rightarrow> find_entry previous_directory d | Some y \<Rightarrow> Some y)"

lemma same_paths:
  assumes "same_except [] d d'"
  shows "find_entry data_directory d' = find_entry data_directory d"
    "find_entry previous_directory d' = find_entry previous_directory d"
    "find_entry staging_directory d' = find_entry staging_directory d"
    "find_entry restored_data d' = find_entry restored_data d" "held d' = held d"
proof -
  show *: "find_entry data_directory d' = find_entry data_directory d"
    "find_entry previous_directory d' = find_entry previous_directory d"
    "find_entry staging_directory d' = find_entry staging_directory d"
    "find_entry restored_data d' = find_entry restored_data d"
    using same_except_other [OF assms] unfolding path_defs by simp_all
  show "held d' = held d" by (simp only: held_def *)
qed

lemma triple_move:
  assumes "node_laws e x" "\<And>d. P d \<Longrightarrow> find_entry dst d = None" "\<And>d d'. same_except [] d d' \<Longrightarrow> P d \<Longrightarrow> P d'"
    and "\<And>d d' y. P d \<Longrightarrow> find_entry src d = Some y
      \<Longrightarrow> same_except [] (put_entry dst (Some y) (put_entry src None d)) d' \<Longrightarrow> Q d'"
  shows "triple (at P) (move_path e x src dst) (\<lambda>_. at Q) (\<lambda>_. at P)"
proof (rule tripleI)
  fix nd nd' a
  assume p: "P (nd_root nd)" and run: "move_path e x src dst nd = (nd', Inr a)"
  show "Q (nd_root nd')" using move_outcome [OF assms(1) assms(2) [OF p] run] assms(4) [OF p] by auto
next
  fix nd nd' a
  assume p: "P (nd_root nd)" and run: "move_path e x src dst nd = (nd', Inl a)"
  show "P (nd_root nd')" using move_outcome [OF assms(1) assms(2) [OF p] run] assms(3) [OF _ p] by simp
qed

lemma put_aside_and_back:
  "find_entry data_directory (put_entry data_directory y (put_entry previous_directory None d)) = y"
  "find_entry data_directory (put_entry previous_directory y (put_entry data_directory None d)) = None"
  "find_entry previous_directory (put_entry previous_directory y (put_entry data_directory None d)) = y"
  "find_entry restored_data (put_entry previous_directory y (put_entry data_directory None d)) = find_entry restored_data d"
  "find_entry data_directory (put_entry data_directory y (put_entry restored_data None d)) = y"
  "find_entry previous_directory (put_entry data_directory y (put_entry restored_data None d)) =
     find_entry previous_directory d"
  unfolding path_defs by (simp_all del: find_entry.simps put_entry.simps)

lemma recover_swap_triple:
  assumes "node_laws e x"
  shows "triple (at (\<lambda>d. held d = v)) (recover_swap e x) (\<lambda>_. at (\<lambda>d. find_entry data_directory d = v))
    (\<lambda>_. at (\<lambda>d. held d = v))"
proof -
  have move: "triple (at (\<lambda>d. held d = v \<and> find_entry data_directory d = None))
      (move_path e x previous_directory data_directory) (\<lambda>_. at (\<lambda>d. find_entry data_directory d = v))
      (\<lambda>_. at (\<lambda>d. held d = v \<and> find_entry data_directory d = None))"
  proof (rule triple_move [OF assms], goal_cases)
    case (3 d d' y)
    then show ?case using same_paths(1) [OF 3(3)] by (auto simp: put_aside_and_back held_def)
  qed (auto simp: same_paths)
  show ?thesis
    unfolding recover_swap_def
    by (intro triple_bind_exists triple_if triple_weaken [OF move] triple_areturn)
       (auto simp: held_def split: option.splits)
qed

text \<open>After staging, the snapshot waits beside the untouched data, and nothing is put aside.\<close>

definition staged :: "entry option \<Rightarrow> entry option \<Rightarrow> directory \<Rightarrow> bool" where
  "staged v snapshot d \<longleftrightarrow> find_entry data_directory d = v \<and> find_entry previous_directory d = None
     \<and> find_entry restored_data d = snapshot \<and> is_directory restored_data d"

lemma triple_remove_paths:
  assumes "node_laws e x" "\<And>d d'. same_except names d d' \<Longrightarrow> P d \<Longrightarrow> P d'" "paths = map (\<lambda>a. [a]) names"
  shows "triple (at P) (remove_paths e x paths)
    (\<lambda>_. at (\<lambda>d. P d \<and> (\<forall>a \<in> set names. find_entry [a] d = None))) (\<lambda>_. at P)"
proof (rule tripleI)
  note kept = touchesD [OF touches_remove_paths [OF assms(1,3)]]
  fix nd nd' :: node and u
  assume p: "P (nd_root nd)"
  show "P (nd_root nd') \<and> (\<forall>a \<in> set names. find_entry [a] (nd_root nd') = None)"
    if "remove_paths e x paths nd = (nd', Inr u)"
    using kept [OF that] assms(2) [OF _ p] remove_paths_outcome [OF assms(1) that [unfolded assms(3)]] by blast
  show "P (nd_root nd')" if "remove_paths e x paths nd = (nd', Inl y)" for y
    using kept [OF that] assms(2) [OF _ p] by blast
qed

lemma keep_data: "same_except names d d' \<Longrightarrow> ''data'' \<notin> set names \<Longrightarrow> find_entry data_directory d' = find_entry data_directory d"
  unfolding data_directory_def by (rule same_except_other)

lemma keep_previous:
  "same_except names d d' \<Longrightarrow> ''data-previous'' \<notin> set names
   \<Longrightarrow> find_entry previous_directory d' = find_entry previous_directory d"
  unfolding previous_directory_def by (rule same_except_other)

lemma create_staging:
  "triple (at (\<lambda>d. find_entry data_directory d = v \<and> find_entry previous_directory d = None \<and> find_entry staging_directory d = None))
     (ex_io (create_dir_all e staging_directory))
     (\<lambda>_. at (\<lambda>d. find_entry data_directory d = v \<and> find_entry previous_directory d = None
        \<and> find_entry staging_directory d = Some (Directory [])))
     (\<lambda>_. at (\<lambda>d. find_entry data_directory d = v))"
  by (rule tripleI)
     (auto simp: ex_io_def create_dir_all_def may_fail_def action_defs nask_def nroot_def nemit_def nput_def path_defs
       update_conv' split: if_splits)

lemma restore_into_staging:
  assumes "node_laws e x"
  shows "triple (at (\<lambda>d. find_entry data_directory d = v \<and> find_entry previous_directory d = None
        \<and> find_entry staging_directory d = Some (Directory [])))
     (run_restic e x url (restore_arguments sid (path_text (ex_config x) staging_directory)) None)
     (\<lambda>_. at (\<lambda>d. find_entry data_directory d = v \<and> find_entry previous_directory d = None
        \<and> find_entry restored_data d = ne_stored e url sid))
     (\<lambda>_. at (\<lambda>d. find_entry data_directory d = v))"
proof -
  let ?c = "restic_command x url (restore_arguments sid (path_text (ex_config x) staging_directory)) None"
  have law: "same_except [''restore-staging''] d d'
      \<and> (succeeded out \<longrightarrow> find_entry staging_directory d = Some (Directory [])
           \<longrightarrow> find_entry restored_data d' = ne_stored e url sid)"
    if "ne_run e n ?c d = (out, d')" for n d out d'
    using node_lawsD(4) [OF assms] that unfolding restore_law_def by blast
  note keep = keep_data [of "[''restore-staging'']"] keep_previous [of "[''restore-staging'']"]
  show ?thesis
    by (rule tripleI)
       (auto simp: run_restic_def run_restic_allow_failure_def run_command_allow_failure_def run_program_def action_defs
         nemit_def keep split: command_outcome.splits if_splits prod.splits dest!: law simp: succeeded_def)
qed

lemma check_restored:
  "triple (at (\<lambda>d. find_entry data_directory d = v \<and> find_entry previous_directory d = None \<and> find_entry restored_data d = snapshot))
     (abind (attempt (metadata e restored_data)) (\<lambda>r.
      case r of
        Inl IoNotFound \<Rightarrow> afail (RestoreMissingDataDirectory t)
      | Inl f \<Rightarrow> afail (ExIo f)
      | Inr (File _) \<Rightarrow> afail (RestoreMissingDataDirectory t)
      | Inr (Directory _) \<Rightarrow> areturn ()))
     (\<lambda>_. at (staged v snapshot)) (\<lambda>_. at (\<lambda>d. find_entry data_directory d = v))"
proof (rule triple_abind)
  show "triple (at (\<lambda>d. find_entry data_directory d = v \<and> find_entry previous_directory d = None \<and> find_entry restored_data d = snapshot))
      (attempt (metadata e restored_data))
      (\<lambda>r. at (\<lambda>d. find_entry data_directory d = v \<and> find_entry previous_directory d = None \<and> find_entry restored_data d = snapshot
         \<and> (\<forall>y. r = Inr y \<longrightarrow> snapshot = Some y)))
      (\<lambda>_. at (\<lambda>d. find_entry data_directory d = v))"
    by (rule tripleI) (auto simp: attempt_def ok_or_def split: prod.splits option.splits dest!: metadata_same)
qed (auto intro!: triple_afail triple_areturn simp: staged_def is_directory_def split: sum.split io_failure.split entry.split)

lemma stage_snapshot_triple:
  assumes "node_laws e x"
  shows "triple (at (\<lambda>d. find_entry data_directory d = v)) (stage_snapshot e x url sid)
    (\<lambda>_. at (staged v (ne_stored e url sid))) (\<lambda>_. at (\<lambda>d. find_entry data_directory d = v))"
proof -
  have rm: "triple (at (\<lambda>d. find_entry data_directory d = v)) (remove_paths e x [staging_directory, previous_directory])
      (\<lambda>_. at (\<lambda>d. find_entry data_directory d = v \<and> find_entry previous_directory d = None \<and> find_entry staging_directory d = None))
      (\<lambda>_. at (\<lambda>d. find_entry data_directory d = v))"
    by (rule triple_weaken [OF triple_remove_paths [OF assms, where names = "[''restore-staging'', ''data-previous'']"
          and P = "\<lambda>d. find_entry data_directory d = v"]])
       (auto simp: keep_data [of "[''restore-staging'', ''data-previous'']"] staging_directory_def previous_directory_def)
  have target: "r = path_text (ex_config x) staging_directory" if "path_to_string x staging_directory = Inr r" for r
    using that by (simp add: path_to_string_def Let_def split: if_splits)
  show ?thesis
    unfolding stage_snapshot_def
    by (rule triple_abind [OF rm], rule triple_abind [OF create_staging], rule triple_bind_alift, drule target, hypsubst,
        rule triple_abind [OF restore_into_staging [OF assms]], rule check_restored) simp
qed

lemma triple_attempt:
  assumes "triple P m N E" "\<And>a nd. N a nd \<Longrightarrow> R (Inr a) nd" "\<And>x nd. E x nd \<Longrightarrow> R (Inl x) nd"
  shows "triple P (attempt m) R E'"
proof (rule tripleI)
  fix s s' r
  assume p: "P s" and "attempt m s = (s', Inr r)"
  then have m: "m s = (s', r)" by (simp add: attempt_def split: prod.splits)
  show "R r s'"
  proof (cases r)
    case (Inl x)
    show ?thesis using triple_InlD [OF assms(1) p] m assms(3) unfolding Inl by blast
  next
    case (Inr a)
    show ?thesis using triple_InrD [OF assms(1) p] m assms(2) unfolding Inr by blast
  qed
qed (simp add: attempt_def split: prod.splits)

lemma triple_attempt_exists:
  "triple (at P) (attempt (path_exists e p)) (\<lambda>r. at (\<lambda>d. P d \<and> (\<forall>b. r = Inr b \<longrightarrow> b = (find_entry p d \<noteq> None)))) E"
  by (rule tripleI) (auto simp: attempt_def split: prod.splits dest: path_exists_same)

lemma put_back_triple:
  assumes "node_laws e x"
  shows "triple (at (\<lambda>d. held d = v)) (put_back e x) (\<lambda>_. at (\<lambda>d. held d = v)) (\<lambda>_. at (\<lambda>d. held d = v))"
proof -
  have "triple (at (\<lambda>d. held d = v \<and> find_entry data_directory d = None))
      (move_path e x previous_directory data_directory) (\<lambda>_. at (\<lambda>d. held d = v))
      (\<lambda>_. at (\<lambda>d. held d = v \<and> find_entry data_directory d = None))"
  proof (rule triple_move [OF assms], goal_cases)
    case (3 d d' y)
    then show ?case using same_paths(1) [OF 3(3)] by (auto simp: put_aside_and_back held_def)
  qed (auto simp: same_paths)
  then have move: "triple (at (\<lambda>d. held d = v \<and> find_entry data_directory d = None))
      (attempt (move_path e x previous_directory data_directory)) (\<lambda>_. at (\<lambda>d. held d = v)) E"
    for E :: "executor_error \<Rightarrow> node \<Rightarrow> bool"
    by (rule triple_attempt) auto
  have moved: "triple (at (\<lambda>d. held d = v \<and> find_entry data_directory d = None))
      (abind (attempt (move_path e x previous_directory data_directory)) (\<lambda>_. areturn ()))
      (\<lambda>_. at (\<lambda>d. held d = v)) (\<lambda>_ :: executor_error. at (\<lambda>d. held d = v))"
    by (rule triple_abind [OF move], rule triple_areturn) assumption
  have inner: "triple (at (\<lambda>d. held d = v))
      (abind (attempt (path_exists e data_directory)) (\<lambda>data.
       if data \<noteq> Inr False then areturn ()
       else abind (attempt (move_path e x previous_directory data_directory)) (\<lambda>_. areturn ())))
      (\<lambda>_. at (\<lambda>d. held d = v)) (\<lambda>_ :: executor_error. at (\<lambda>d. held d = v))"
  proof (rule triple_abind [OF triple_attempt_exists], rule triple_if, goal_cases)
    case (2 r)
    then show ?case by (rule_tac triple_weaken [OF moved]) auto
  qed (auto intro: triple_areturn)
  show ?thesis
    unfolding put_back_def
  proof (rule triple_abind [OF triple_attempt_exists], rule triple_if, goal_cases)
    case (2 r)
    then show ?case by (rule_tac triple_weaken [OF inner]) auto
  qed (auto intro: triple_areturn)
qed

lemma install_data_triple:
  assumes "node_laws e x"
  shows "triple (at (staged v snapshot)) (install_data e x) (\<lambda>_. at (\<lambda>d. find_entry data_directory d = snapshot))
    (\<lambda>_. at (\<lambda>d. held d \<in> {v, snapshot}))"
proof -
  let ?aside = "\<lambda>d. find_entry data_directory d = None \<and> find_entry previous_directory d = v
    \<and> find_entry restored_data d = snapshot \<and> snapshot \<noteq> None"
  have aside: "triple (at (staged v snapshot)) (move_path e x data_directory previous_directory) (\<lambda>_. at ?aside)
      (\<lambda>_. at (staged v snapshot))"
  proof (rule triple_move [OF assms], goal_cases)
    case (3 d d' y)
    then have "snapshot \<noteq> None" by (auto simp: staged_def is_directory_def)
    then show ?case using 3 same_paths(1,2,4) [OF 3(3)] by (simp add: put_aside_and_back staged_def)
  qed (auto simp: same_paths staged_def is_directory_def)
  have "triple (at ?aside) (move_path e x restored_data data_directory)
      (\<lambda>_. at (\<lambda>d. find_entry data_directory d = snapshot \<and> snapshot \<noteq> None))
      (\<lambda>_. at ?aside)"
  proof (rule triple_move [OF assms], goal_cases)
    case (3 d d' y)
    then show ?case using same_paths(1) [OF 3(3)] by (auto simp: put_aside_and_back)
  qed (auto simp: same_paths)
  then have install: "triple (at ?aside) (attempt (move_path e x restored_data data_directory))
      (\<lambda>r. at (\<lambda>d. if is_ok r then find_entry data_directory d = snapshot \<and> snapshot \<noteq> None else held d = v))
      (\<lambda>_. at (\<lambda>d. held d \<in> {v, snapshot}))"
    by (rule triple_attempt) (auto simp: held_def)
  have removed: "triple (at (\<lambda>d. find_entry data_directory d = snapshot)) (remove_paths e x [previous_directory, staging_directory])
      (\<lambda>_. at (\<lambda>d. find_entry data_directory d = snapshot)) (\<lambda>_. at (\<lambda>d. find_entry data_directory d = snapshot))"
    by (rule triple_weaken [OF triple_remove_paths [OF assms, where names = "[''data-previous'', ''restore-staging'']"
          and P = "\<lambda>d. find_entry data_directory d = snapshot"]])
       (auto simp: keep_data [of "[''data-previous'', ''restore-staging'']"] staging_directory_def previous_directory_def)
  show ?thesis
    unfolding install_data_def
  proof (rule triple_bind_exists, rule triple_abind)
    show "triple (at (\<lambda>d. staged v snapshot d \<and> b = (find_entry data_directory d \<noteq> None)))
        (if b then move_path e x data_directory previous_directory else areturn ()) (\<lambda>_. at ?aside)
        (\<lambda>_. at (\<lambda>d. held d \<in> {v, snapshot}))" for b
      by (rule triple_if, rule triple_weaken [OF aside], simp, simp, force simp: staged_def held_def split: option.splits,
          rule triple_areturn, auto simp: staged_def is_directory_def)
    show "triple (at ?aside) (abind (attempt (move_path e x restored_data data_directory)) (\<lambda>moved.
        case moved of
          Inl failure \<Rightarrow> abind (put_back e x) (\<lambda>_. afail failure)
        | Inr _ \<Rightarrow> remove_paths e x [previous_directory, staging_directory]))
        (\<lambda>_. at (\<lambda>d. find_entry data_directory d = snapshot)) (\<lambda>_. at (\<lambda>d. held d \<in> {v, snapshot}))"
    proof (rule triple_abind [OF install])
      fix r :: "executor_error + unit"
      show "triple (at (\<lambda>d. if is_ok r then find_entry data_directory d = snapshot \<and> snapshot \<noteq> None else held d = v))
          (case r of
             Inl failure \<Rightarrow> abind (put_back e x) (\<lambda>_. afail failure)
           | Inr _ \<Rightarrow> remove_paths e x [previous_directory, staging_directory])
          (\<lambda>_. at (\<lambda>d. find_entry data_directory d = snapshot)) (\<lambda>_. at (\<lambda>d. held d \<in> {v, snapshot}))"
      proof (cases r)
        case (Inl failure)
        have "triple (at (\<lambda>d. held d = v)) (abind (put_back e x) (\<lambda>_. afail failure))
            (\<lambda>_. at (\<lambda>d. find_entry data_directory d = snapshot)) (\<lambda>_. at (\<lambda>d. held d = v))"
          by (rule triple_abind [OF put_back_triple [OF assms] triple_afail])
        then show ?thesis using Inl by (auto elim!: triple_weaken)
      next
        case (Inr u)
        show ?thesis
        proof (cases snapshot)
          case None
          then show ?thesis using Inr by (simp add: triple_def)
        next
          case (Some y)
          have "triple (at (\<lambda>d. find_entry data_directory d = snapshot)) (remove_paths e x [previous_directory, staging_directory])
              (\<lambda>_. at (\<lambda>d. find_entry data_directory d = snapshot)) (\<lambda>_. at (\<lambda>d. held d \<in> {v, snapshot}))"
            using Some by (intro triple_weaken [OF removed]) (auto simp: held_def)
          then show ?thesis using Inr Some by simp
        qed
      qed
    qed
  qed (auto simp: staged_def held_def split: option.splits)
qed

text \<open>
  Whatever goes wrong, the node still holds the data it held before or the
  restored data; when the operation succeeds the data directory is what the
  repository holds under the snapshot.
\<close>

lemma restore_snapshot_triple:
  assumes "node_laws e x"
  shows "triple (at (\<lambda>d. held d = v)) (restore_snapshot e x url sid)
    (\<lambda>_. at (\<lambda>d. find_entry data_directory d = ne_stored e url sid \<and> is_directory data_directory d))
    (\<lambda>_. at (\<lambda>d. v \<noteq> None \<longrightarrow> held d \<in> {v, ne_stored e url sid}))" (is "triple _ _ ?N ?E")
  unfolding restore_snapshot_def
proof (rule triple_abind)
  show "triple (at (\<lambda>d. held d = v)) (recover_swap e x) (\<lambda>_. at (\<lambda>d. find_entry data_directory d = v)) ?E"
    by (rule triple_weaken [OF recover_swap_triple [OF assms]]) auto
next
  fix u
  show "triple (at (\<lambda>d. find_entry data_directory d = v)) (abind (stage_snapshot e x url sid) (\<lambda>_. install_data e x)) ?N ?E"
  proof (rule triple_abind)
    show "triple (at (\<lambda>d. find_entry data_directory d = v)) (stage_snapshot e x url sid)
        (\<lambda>_. at (staged v (ne_stored e url sid))) ?E"
      by (rule triple_weaken [OF stage_snapshot_triple [OF assms]]) (auto simp: held_def)
    show "triple (at (staged v (ne_stored e url sid))) (install_data e x) ?N ?E"
    proof (cases "\<exists>es. ne_stored e url sid = Some (Directory es)")
      case True
      show ?thesis
        by (rule triple_weaken [OF install_data_triple [OF assms]]) (use True in \<open>auto simp: is_directory_def\<close>)
    next
      case False
      then have "\<not> staged v (ne_stored e url sid) d" for d unfolding staged_def is_directory_def by metis
      then show ?thesis by (simp add: triple_def)
    qed
  qed
qed

end
