(* ===== verification/Example_Node.thy ===== *)
theory Example_Node
  imports Node_Programs
begin

text \<open>
  A concrete node on which the laws of the programs hold: a codec for the
  state, a Podman that knows no containers, and a restic whose repositories
  hold one snapshot.
\<close>

section \<open>Evaluation\<close>

text \<open>An operation is unfolded only when it runs on a node.\<close>

lemmas node_operations_code [code] =
  may_fail_def [THEN fun_cong] metadata_def [THEN fun_cong] read_file_def [THEN fun_cong] create_dir_all_def
  [THEN fun_cong] open_for_writing_def [THEN fun_cong] write_all_def [THEN fun_cong] rename_def [THEN fun_cong]
  remove_entry_def [THEN fun_cong] remove_file_def [THEN fun_cong] run_command_allow_failure_def [THEN fun_cong]
  run_node_command_def [THEN fun_cong] run_podman_allow_failure_def [THEN fun_cong] run_podman_def [THEN
  fun_cong] run_restic_allow_failure_def [THEN fun_cong] run_restic_def [THEN fun_cong] path_exists_def [THEN
  fun_cong] remove_path_def [THEN fun_cong] remove_paths_def [THEN fun_cong] move_path_def [THEN fun_cong]
  ensure_private_directory_def [THEN fun_cong] load_state_def [THEN fun_cong] store_state_def [THEN fun_cong]
  container_exists_def [THEN fun_cong] container_running_def [THEN fun_cong] remove_container_def [THEN
  fun_cong] create_container_def [THEN fun_cong] ensure_restic_repository_def [THEN fun_cong] recover_swap_def
  [THEN fun_cong] stage_snapshot_def [THEN fun_cong] put_back_def [THEN fun_cong] install_data_def [THEN
  fun_cong] restore_snapshot_def [THEN fun_cong] node_inspect_def [THEN fun_cong] prepare_data_def [THEN
  fun_cong] restore_data_def [THEN fun_cong] snapshot_data_def [THEN fun_cong] instance_storage_exists_def [THEN
  fun_cong] remove_instance_storage_def [THEN fun_cong] cleanup_instance_def [THEN fun_cong]

lemma as_secs_code [code]: "as_secs d = nat (int d div 1000000000)"
  by (simp add: as_secs_def nat_div_distrib)

section \<open>A codec for the state\<close>

definition put_text :: "string \<Rightarrow> string" where
  "put_text s = concat (map (\<lambda>c. [CHR ''.'', c]) s) @ '';''"

fun take_text :: "string \<Rightarrow> (string \<times> string) option" where
  "take_text (m # c # r) =
     (if m = CHR ''.'' then map_option (\<lambda>(s, r). (c # s, r)) (take_text r)
      else if m = CHR '';'' then Some ([], c # r) else None)"
| "take_text [m] = (if m = CHR '';'' then Some ([], []) else None)"
| "take_text [] = None"

lemma take_put_text [simp]: "take_text (put_text s @ r) = Some (s, r)"
proof (induction s)
  case Nil
  show ?case by (cases r) (simp_all add: put_text_def)
qed (simp add: put_text_def)

definition put_word :: "'a :: len word \<Rightarrow> string" where
  "put_word w = put_text (nat_to_string (unat w))"

definition take_word :: "string \<Rightarrow> ('a :: len word \<times> string) option" where
  "take_word s = map_option (\<lambda>(t, r). (word_of_nat (digits_value 0 t), r)) (take_text s)"

lemma take_put_word [simp]: "take_word (put_word w @ r) = Some (w, r)"
  by (simp add: take_word_def put_word_def digits_value_nat_to_string)

definition put_option :: "string option \<Rightarrow> string" where
  "put_option x = (case x of None \<Rightarrow> ''-'' | Some s \<Rightarrow> ''+'' @ put_text s)"

definition take_option :: "string \<Rightarrow> (string option \<times> string) option" where
  "take_option s = (if hd s = CHR ''+'' then map_option (\<lambda>(t, r). (Some t, r)) (take_text (tl s)) else Some (None, tl s))"

lemma take_put_option [simp]: "take_option (put_option x @ r) = Some (x, r)"
  by (cases x) (simp_all add: take_option_def put_option_def)

definition put_instance :: "instance_state \<Rightarrow> string" where
  "put_instance s =
     put_word (is_server_instance_id s) @ put_word (is_fencing_token s) @ put_word (is_server_id s)
     @ put_text (is_repository s) @ put_option (is_source_snapshot_id s)
     @ put_text (if is_data_prepared s then ''true'' else ''false'') @ put_option (is_last_snapshot_id s)"

definition take_instance :: "string \<Rightarrow> (instance_state \<times> string) option" where
  "take_instance t =
     Option.bind (take_word t) (\<lambda>(ident, t).
     Option.bind (take_word t) (\<lambda>(fencing, t).
     Option.bind (take_word t) (\<lambda>(server, t).
     Option.bind (take_text t) (\<lambda>(repository, t).
     Option.bind (take_option t) (\<lambda>(source, t).
     Option.bind (take_text t) (\<lambda>(prepared, t).
     map_option (\<lambda>(last_snapshot, t).
       (\<lparr> is_server_instance_id = ident, is_fencing_token = fencing, is_server_id = server, is_repository = repository,
          is_source_snapshot_id = source, is_data_prepared = (prepared = ''true''), is_last_snapshot_id = last_snapshot \<rparr>, t))
       (take_option t)))))))"

lemma take_put_instance [simp]: "take_instance (put_instance s @ r) = Some (s, r)"
  by (simp add: take_instance_def put_instance_def)

definition state_text :: "agent_state \<Rightarrow> string" where
  "state_text state = put_word (as_schema_version state)
     @ (case as_instance state of None \<Rightarrow> ''-'' | Some s \<Rightarrow> ''+'' @ put_instance s)"

definition parse_state :: "string \<Rightarrow> agent_state option" where
  "parse_state t =
     Option.bind (take_word t) (\<lambda>(version, t).
     if hd t = CHR ''+''
     then map_option (\<lambda>(s, _). \<lparr> as_schema_version = version, as_instance = Some s \<rparr>) (take_instance (tl t))
     else Some \<lparr> as_schema_version = version, as_instance = None \<rparr>)"

lemma parse_state_text: "parse_state (state_text state) = Some state"
  using take_put_instance [of _ "[]"] by (cases state; cases "as_instance state") (auto simp: parse_state_def state_text_def)

section \<open>The programs\<close>

definition sample_data :: entry where
  "sample_data = Directory [(''world'', Directory [(''level.dat'', File ''level'')]), (''ops.json'', File ''[]'')]"

definition sample_stored :: "string \<Rightarrow> string \<Rightarrow> entry option" where
  "sample_stored url sid = (if sid = ''abc'' then Some sample_data else None)"

definition answered :: "bool \<Rightarrow> int \<Rightarrow> string \<Rightarrow> command_outcome" where
  "answered success exit_code output =
     CommandDone \<lparr> co_success = success, co_code = Some exit_code, co_stdout = output, co_stderr = [] \<rparr>"

definition sample_podman :: "string list \<Rightarrow> command_outcome" where
  "sample_podman arguments =
     (if hd arguments = ''unshare'' then CommandNotRun IoOther
      else if take 2 arguments = [''container'', ''exists''] then answered False 1 []
      else answered True 0 [])"

definition sample_restic :: "string list \<Rightarrow> directory \<Rightarrow> command_outcome \<times> directory" where
  "sample_restic arguments d =
     (if hd arguments = ''restore''
      then (answered True 0 [], put_entry restored_data (sample_stored [] (hd (tl arguments))) d)
      else if hd arguments = ''backup''
      then (if find_entry data_directory d = Some sample_data then answered True 0 ''abc'' else answered False 1 [], d)
      else (answered True 0 [], d))"

definition sample_run :: "nat \<Rightarrow> command \<Rightarrow> directory \<Rightarrow> command_outcome \<times> directory" where
  "sample_run n c d =
     (if cmd_program c = ''podman'' then (sample_podman (cmd_arguments c), d) else sample_restic (drop 3 (cmd_arguments c)) d)"

text \<open>A node whose file operations fail from a given moment on.\<close>

definition sample_env :: "nat option \<Rightarrow> node_env" where
  "sample_env fault =
     \<lparr> ne_run = sample_run, ne_fault = (\<lambda>n. case fault of None \<Rightarrow> False | Some m \<Rightarrow> m \<le> n), ne_remains = (\<lambda>_. None),
       ne_state_text = state_text, ne_state_parse = parse_state, ne_backup_line = (\<lambda>line. Some (Some ''summary'', Some line)),
       ne_uuid_text = (\<lambda>u. nat_to_string (unat u)), ne_stored = sample_stored \<rparr>"

definition sample_config :: node_config where
  "sample_config =
     \<lparr> nc_control_plane_address = ''127.0.0.1:7443'', nc_tls = None, nc_compute_instance_id = 9, nc_connection_token = ''token'',
       nc_state_directory = ''/var/lib/mcserver'', nc_local_scope = ''node'', nc_podman_binary = ''podman'',
       nc_restic_binary = ''restic'', nc_openssl_binary = ''openssl'', nc_data_access_mode = Host,
       nc_max_frame_bytes = 64, nc_command_timeout = 60, nc_restic_retry_lock = 30,
       nc_reconnect_min = 1, nc_reconnect_max = 30 \<rparr>"

definition sample_executor :: agent_executor where
  "sample_executor = \<lparr> ex_config = sample_config, ex_runtime_environment = [] \<rparr>"

lemma sample_config_simps:
  "nc_podman_binary sample_config = ''podman''" "nc_restic_binary sample_config = ''restic''"
  "nc_data_access_mode sample_config = Host" "ex_config sample_executor = sample_config"
  by (simp_all add: sample_config_def sample_executor_def)

lemma sample_podman_runs:
  "sample_run n (podman_command sample_executor arguments) d = (sample_podman arguments, d)"
  by (simp add: sample_run_def podman_command_def sample_config_simps)

lemma sample_restic_runs:
  "sample_run n (restic_command sample_executor url arguments directory) d = sample_restic arguments d"
  by (simp add: sample_run_def restic_command_def sample_config_simps Let_def)

lemma find_restored:
  "find_entry staging_directory d = Some (Directory []) \<Longrightarrow> find_entry restored_data (put_entry restored_data x d) = x"
  by (cases x) (simp_all add: staging_directory_def restored_data_def update_conv')

lemma sample_laws: "node_laws (sample_env fault) sample_executor"
proof -
  have run [simp]: "ne_run (sample_env fault) = sample_run" "ne_stored (sample_env fault) = sample_stored"
    "ne_state_text (sample_env fault) = state_text" "ne_state_parse (sample_env fault) = parse_state"
    by (simp_all add: sample_env_def)
  have "codec_law (sample_env fault)" by (simp add: codec_law_def parse_state_text)
  moreover have "remove_law (sample_env fault) sample_executor"
    by (simp add: remove_law_def remove_command_def sample_podman_runs sample_podman_def succeeded_def)
  moreover have "move_law (sample_env fault) sample_executor"
    by (simp add: move_law_def move_command_def sample_podman_runs sample_podman_def succeeded_def)
  moreover have "restore_law (sample_env fault) sample_executor"
    by (auto simp: restore_law_def sample_restic_runs sample_restic_def restore_arguments_def find_restored sample_stored_def
        simp del: put_entry.simps find_entry.simps
        intro: same_except_put [where n = "''restore-staging''" and p = "[''data'']", folded restored_data_def])
  moreover have "backup_law (sample_env fault) sample_executor"
    by (auto simp: backup_law_def sample_restic_runs sample_restic_def backup_arguments_def answered_def sample_stored_def
        parse_backup_snapshot_id_def sample_env_def split: if_splits)
  moreover have "container_law (sample_env fault) sample_executor"
    by (auto simp: container_law_def container_command_def sample_podman_runs)
  moreover have "repository_law (sample_env fault) sample_executor"
    by (auto simp: repository_law_def repository_command_def sample_restic_runs sample_restic_def)
  ultimately show ?thesis by (simp add: node_laws_def)
qed

text \<open>A node that serves an instance with prepared data, and one that holds older data only.\<close>

definition sample_identity :: "u64 \<Rightarrow> instance_identity" where
  "sample_identity token = \<lparr> server_instance_id = 1, fencing_token = token \<rparr>"

definition sample_instance :: instance_state where
  "sample_instance = \<lparr> is_server_instance_id = 1, is_fencing_token = 2, is_server_id = 3, is_repository = ''s3:repo'',
     is_source_snapshot_id = None, is_data_prepared = True, is_last_snapshot_id = None \<rparr>"

definition sample_state :: agent_state where
  "sample_state = \<lparr> as_schema_version = AGENT_STATE_SCHEMA_VERSION, as_instance = Some sample_instance \<rparr>"

definition serving_node :: node where
  "serving_node = \<lparr> nd_root = [(''agent-state.json'', File (state_text sample_state)), (''data'', sample_data)],
     nd_tick = 0, nd_trace = [] \<rparr>"

definition older_data :: entry where
  "older_data = Directory [(''ops.json'', File ''older'')]"

definition older_node :: node where
  "older_node = \<lparr> nd_root = [(''data'', older_data)], nd_tick = 0, nd_trace = [] \<rparr>"

definition sample_restore :: restore_data_params where
  "sample_restore = \<lparr> rd_instance = sample_identity 2, rd_server_id = 3, rd_repository = ''s3:repo'',
     rd_source_snapshot_id = Some ''abc'' \<rparr>"

definition sample_snapshot :: snapshot_data_params where
  "sample_snapshot = \<lparr> sd_instance = sample_identity 2, sd_server_id = 3, sd_repository = ''s3:repo'' \<rparr>"

end
