(* ===== verification/Executor_Properties.thy ===== *)
theory Executor_Properties
  imports Node_Restore Example_Node
begin

text \<open>
  What the executor of the node agent guarantees: requests of another or an
  older instance change nothing, the state file never claims data that was
  not prepared, and data that was backed up on one node is what a restore
  puts in place on the next.
\<close>

section \<open>The state file\<close>

text \<open>The state file reads as the given state.\<close>

definition records :: "node_env \<Rightarrow> agent_state \<Rightarrow> directory \<Rightarrow> bool" where
  "records e state d \<longleftrightarrow> (\<exists>content. find_entry state_path d = Some (File content)
     \<and> ne_state_parse e content = Some state \<and> as_schema_version state = AGENT_STATE_SCHEMA_VERSION)"

lemma read_file_same:
  assumes "read_file e p nd = (nd', r)"
  shows "nd_root nd' = nd_root nd \<and> nd_trace nd' = nd_trace nd
    \<and> (r = Inl IoOther \<or> r = Inl IoNotFound \<and> find_entry p (nd_root nd) = None
       \<or> (\<exists>content. r = Inr content \<and> find_entry p (nd_root nd) = Some (File content)))"
proof -
  obtain nd1 r1 where m: "metadata e p nd = (nd1, r1)" by fastforce
  show ?thesis
    using assms metadata_same [OF m]
    by (cases "find_entry p (nd_root nd)")
       (auto simp: read_file_def abind_def m areturn_def afail_def split: entry.splits)
qed

lemma load_state_same:
  assumes "load_state e nd = (nd', r)"
  shows "nd_root nd' = nd_root nd \<and> nd_trace nd' = nd_trace nd
    \<and> (\<forall>state. r = Inr state \<longrightarrow>
         records e state (nd_root nd) \<or> state = initial_state \<and> find_entry state_path (nd_root nd) = None)"
proof -
  obtain nd1 r1 where m: "read_file e state_path nd = (nd1, r1)" by fastforce
  show ?thesis
    using assms read_file_same [OF m]
    by (auto simp: load_state_def abind_def attempt_def m areturn_def afail_def records_def
        split: option.splits if_splits)
qed

lemma load_recorded:
  assumes "records e state (nd_root nd)" "load_state e nd = (nd', r)"
  shows "nd_root nd' = nd_root nd \<and> nd_trace nd' = nd_trace nd \<and> (r = Inr state \<or> r = Inl (ExIo IoOther))"
proof -
  obtain nd1 r1 where m: "read_file e state_path nd = (nd1, r1)" by fastforce
  show ?thesis
    using assms read_file_same [OF m]
    by (auto simp: load_state_def abind_def attempt_def m areturn_def afail_def records_def)
qed

lemma triple_ex_io: "triple P m N (\<lambda>_. E) \<Longrightarrow> triple P (ex_io m) N (\<lambda>_. E)"
  by (fastforce simp: triple_def ex_io_def amap_err_def map_err_def split: prod.splits sum.splits)

lemma triple_may_fail: "(\<And>d. P d \<Longrightarrow> Q d) \<Longrightarrow> triple (at P) (may_fail e) (\<lambda>_. at P) (\<lambda>_. at Q)"
  by (rule tripleI) (auto dest!: may_fail_same)

lemma triple_store_state:
  assumes "node_laws e x" "\<And>d d'. same_except [''agent-state.json'', ''agent-state.json.tmp''] d d' \<Longrightarrow> P d \<Longrightarrow> P d'"
    "as_schema_version state = AGENT_STATE_SCHEMA_VERSION"
  shows "triple (at (\<lambda>d. P d \<and> find_entry state_path d = old)) (store_state e state)
    (\<lambda>_. at (\<lambda>d. P d \<and> records e state d))
    (\<lambda>_. at (\<lambda>d. P d \<and> (find_entry state_path d = old \<or> records e state d)))"
proof -
  let ?A = "\<lambda>d. P d \<and> find_entry state_path d = old"
  let ?B = "\<lambda>d. ?A d \<and> find_entry temporary_state_path d = Some (File (ne_state_text e state))"
  let ?R = "\<lambda>d. P d \<and> records e state d" and ?E = "\<lambda>d. P d \<and> (find_entry state_path d = old \<or> records e state d)"
  have tmp: "?A (put_entry temporary_state_path y d)" if "?A d" for y d
    using that assms(2) [of d "put_entry temporary_state_path y d"]
    by (auto simp: path_defs same_except_def simp del: find_entry.simps put_entry.simps)
  have "ne_state_parse e (ne_state_text e state) = Some state"
    using node_lawsD(1) [OF assms(1)] by (simp add: codec_law_def)
  then have new: "?R (put_entry state_path (Some (File (ne_state_text e state))) (put_entry temporary_state_path None d))"
    if "P d" for d
    using that assms(3) assms(2) [of d "put_entry state_path (Some (File (ne_state_text e state))) (put_entry temporary_state_path None d)"]
    by (auto simp: path_defs same_except_def records_def simp del: find_entry.simps put_entry.simps)
  have open_tmp: "triple (at ?A) (open_for_writing e temporary_state_path) (\<lambda>_. at ?A) (\<lambda>_. at ?E)"
    by (rule tripleI)
       (auto simp: open_for_writing_def may_fail_def action_defs nask_def nroot_def nemit_def nput_def tmp
         split: if_splits option.splits entry.splits)
  have write_tmp: "triple (at ?A) (write_all e temporary_state_path (ne_state_text e state)) (\<lambda>_. at ?B) (\<lambda>_. at ?E)"
  proof (rule tripleI)
    fix nd nd' :: node and u
    assume a: "?A (nd_root nd)"
    show "?B (nd_root nd')" if "write_all e temporary_state_path (ne_state_text e state) nd = (nd', Inr u)"
      using that tmp [OF a]
      by (auto simp: write_all_def action_defs nask_def nemit_def nput_def temporary_state_path_def
          simp del: find_entry.simps put_entry.simps split: if_splits)
    show "?E (nd_root nd')" if "write_all e temporary_state_path (ne_state_text e state) nd = (nd', Inl y)" for y
      using that tmp [OF a] by (auto simp: write_all_def action_defs nask_def nemit_def nput_def split: if_splits)
  qed
  have replace: "triple (at ?B) (rename e temporary_state_path state_path) (\<lambda>_. at ?R) (\<lambda>_. at ?E)"
    by (rule tripleI)
       (auto simp: rename_def renamed_def may_fail_def action_defs nask_def nroot_def nemit_def
         split: if_splits dest: new)
  have dir: "triple (at ?A) (ensure_private_directory e) (\<lambda>_. at ?A) (\<lambda>_. at ?E)"
    unfolding ensure_private_directory_def
    by (rule triple_abind [OF triple_ex_io triple_ex_io]; rule triple_may_fail; blast)
  show ?thesis
    unfolding store_state_def
    by (rule triple_abind [OF dir], rule triple_ex_io, rule triple_abind [OF open_tmp], rule triple_abind [OF write_tmp],
        rule triple_abind [OF triple_may_fail], blast, rule triple_abind [OF replace],
        rule triple_abind [OF triple_may_fail], blast, rule triple_may_fail, blast)
qed

section \<open>Fencing\<close>

fun request_identity :: "agent_request \<Rightarrow> instance_identity option" where
  "request_identity (AgentInspect i) = Some i"
| "request_identity (DataRestore p) = Some (rd_instance p)"
| "request_identity (ServerStart p) = Some (ss_instance p)"
| "request_identity (ServerStop p) = Some (sp_instance p)"
| "request_identity (DataSnapshot p) = Some (sd_instance p)"
| "request_identity (InstanceCleanup i) = Some i"
| "request_identity NodeShutdown = None"

text \<open>
  C7. The agent is fenced: while its state records an instance, a request
  for another instance, or for the same instance with another fencing token,
  is refused before anything is done. No command runs, no file changes, and
  the answer is the error for a stale instance unless the state file could
  not be read.
\<close>

theorem stale_request_refused:
  assumes "records e state (nd_root nd)" "as_instance state = Some s"
    and "request_identity request = Some i"
    and "is_server_instance_id s \<noteq> server_instance_id i \<or> is_fencing_token s \<noteq> fencing_token i"
    and "execute_request e x request nd = (nd', r)"
  shows "nd_root nd' = nd_root nd \<and> nd_trace nd' = nd_trace nd
    \<and> (r = Inl StaleInstance \<or> r = Inl (ExIo IoOther))"
proof -
  have stale: "validate_identity s i = Inl StaleInstance"
    using assms(4) by (auto simp: validate_identity_def ensure_def)
  obtain nd1 r1 where load: "load_state e nd = (nd1, r1)" by fastforce
  note loaded = load_recorded [OF assms(1) load]
  note run = abind_def load areturn_def afail_def alift_def reply_with_def assms(2)
  show ?thesis
    using assms(3,5) loaded stale
    by (cases request)
       (auto simp: run node_inspect_def restore_data_def start_server_def stop_server_def snapshot_data_def
         cleanup_instance_def ensure_instance_state_def Let_def)
qed

lemma sample_recorded: "records (sample_env fault) sample_state (nd_root serving_node)"
  by (simp add: records_def serving_node_def state_path_def sample_env_def parse_state_text sample_state_def)

theorem stale_request_refused_witness:
  "snd (execute_request (sample_env None) sample_executor (InstanceCleanup (sample_identity 1)) serving_node) = Inl StaleInstance
   \<and> nd_root (fst (execute_request (sample_env None) sample_executor (InstanceCleanup (sample_identity 1)) serving_node))
       = nd_root serving_node"
  (is "snd ?run = _ \<and> _")
proof -
  have "snd ?run \<noteq> Inl (ExIo IoOther)" by code_simp
  then show ?thesis
    using stale_request_refused [OF sample_recorded [of None], where s = sample_instance and x = sample_executor
        and request = "InstanceCleanup (sample_identity 1)" and i = "sample_identity 1" and nd' = "fst ?run" and r = "snd ?run"]
    by (simp add: sample_state_def sample_instance_def sample_identity_def del: execute_request.simps)
qed


section \<open>Backups\<close>

lemma keep_data_state:
  "same_except [''agent-state.json'', ''agent-state.json.tmp''] d d' \<Longrightarrow>
   find_entry data_directory d' = find_entry data_directory d"
  by (erule keep_data) simp

lemma triple_top: "triple (\<lambda>_. True) m (\<lambda>_ _. True) (\<lambda>_ _. True)"
  by (simp add: triple_def split: prod.split sum.split)

lemma backup_triple:
  assumes "node_laws e x"
  shows "triple (\<lambda>_. True) (run_restic e x url (backup_arguments e p) (Some (nc_state_directory (ex_config x))))
    (\<lambda>out. at (\<lambda>d. \<forall>sid. parse_backup_snapshot_id e (co_stdout out) = Inr sid \<longrightarrow> ne_stored e url sid = find_entry data_directory d))
    (\<lambda>_ _. True)"
proof (rule tripleI)
  fix nd nd' out
  let ?c = "restic_command x url (backup_arguments e p) (Some (nc_state_directory (ex_config x)))"
  assume run: "run_restic e x url (backup_arguments e p) (Some (nc_state_directory (ex_config x))) nd = (nd', Inr out)"
  obtain outcome d' where c: "ne_run e (nd_tick nd) ?c (nd_root nd) = (outcome, d')" by fastforce
  have "outcome = CommandDone out \<and> co_success out \<and> nd_root nd' = d'"
    using run c
    by (auto simp: run_restic_def run_restic_allow_failure_def run_command_allow_failure_def run_program_def action_defs
        nemit_def split: command_outcome.splits if_splits)
  then show "\<forall>sid. parse_backup_snapshot_id e (co_stdout out) = Inr sid \<longrightarrow>
      ne_stored e url sid = find_entry data_directory (nd_root nd')"
    using node_lawsD(5) [OF assms] c same_paths(1) unfolding backup_law_def by metis
qed simp

lemma store_keeps_data:
  "triple (at (\<lambda>d. v = find_entry data_directory d)) (store_state e state) (\<lambda>_. at (\<lambda>d. v = find_entry data_directory d))
     (\<lambda>_ _. True)"
  by (rule triple_weaken [OF triple_touches [OF touches_store_state]]) (auto simp: keep_data_state)

lemma snapshot_data_triple:
  assumes "node_laws e x"
  shows "triple (\<lambda>_. True) (snapshot_data e x p)
    (\<lambda>sid. at (\<lambda>d. ne_stored e (sd_repository p) sid = find_entry data_directory d)) (\<lambda>_ _. True)"
proof -
  let ?T = "\<lambda>_ :: node. True"
  have finish: "triple (at (\<lambda>d. \<forall>sid. parse_backup_snapshot_id e (co_stdout out) = Inr sid \<longrightarrow>
        ne_stored e (sd_repository p) sid = find_entry data_directory d))
      (abind (alift (parse_backup_snapshot_id e (co_stdout out))) (\<lambda>snapshot_id.
       abind (alift (validate_identity s (sd_instance p))) (\<lambda>_.
       abind (store_state e (state\<lparr> as_instance := Some (s\<lparr> is_last_snapshot_id := Some snapshot_id \<rparr>) \<rparr>)) (\<lambda>_.
       areturn snapshot_id))))
      (\<lambda>sid. at (\<lambda>d. ne_stored e (sd_repository p) sid = find_entry data_directory d)) (\<lambda>_ _. True)" for out s state
    by (rule triple_bind_alift, rule triple_bind_alift,
        rule triple_weaken [OF triple_abind [OF store_keeps_data triple_areturn]]) auto
  show ?thesis
    unfolding snapshot_data_def
    by (intro triple_abind [where R = "\<lambda>_. ?T"] triple_top triple_if triple_afail TrueI
        triple_abind [OF backup_triple [OF assms]] finish)
qed

lemma held_quiet:
  assumes "touches [] m" "\<And>d. held d = v \<Longrightarrow> Q d"
  shows "triple (at (\<lambda>d. held d = v)) m (\<lambda>_. at (\<lambda>d. held d = v)) (\<lambda>_. at Q)"
  by (rule triple_weaken [OF triple_touches [OF assms(1), where P = "\<lambda>d. held d = v"]]) (auto simp: same_paths assms(2))

lemma restore_data_triple:
  assumes "node_laws e x" "rd_source_snapshot_id p = Some sid"
  shows "triple (at (\<lambda>d. held d = v)) (restore_data e x p)
    (\<lambda>changed. at (\<lambda>d. if changed
       then find_entry data_directory d = ne_stored e (rd_repository p) sid \<and> is_directory data_directory d
       else held d = v))
    (\<lambda>_. at (\<lambda>d. v \<noteq> None \<longrightarrow> held d \<in> {v, ne_stored e (rd_repository p) sid}))" (is "triple _ _ ?N ?E")
proof -
  let ?S = "\<lambda>d. find_entry data_directory d = ne_stored e (rd_repository p) sid \<and> is_directory data_directory d"
  have restored: "?E y nd" if "?S (nd_root nd)" for y nd
    using that by (auto simp: held_def is_directory_def split: option.split)
  have prepared: "triple (at (\<lambda>d. held d = v)) (prepare_data e x p) (\<lambda>_. at ?S) ?E"
    unfolding prepare_data_def assms(2) option.case by (rule restore_snapshot_triple [OF assms(1)])
  have stored: "triple (at ?S) (store_state e state) (\<lambda>_. at ?S) ?E" for state
    by (rule triple_weaken [OF triple_touches [OF touches_store_state, where P = ?S]])
       (metis keep_data_state is_directory_def, assumption, assumption, erule restored)
  have finish: "triple (at ?S) (areturn True) ?N ?E" by (rule triple_areturn) simp
  show ?thesis
    unfolding restore_data_def
    by (rule triple_abind [OF held_quiet], rule touches_intros, simp, rule triple_bind_alift, rule triple_if,
        rule triple_areturn, simp, rule triple_abind [OF held_quiet], rule touches_intros, simp,
        rule triple_abind [OF held_quiet], rule touches_ensure_repository [OF assms(1)], simp,
        rule triple_abind [OF prepared], rule triple_bind_alift, rule triple_bind_alift,
        rule triple_abind [OF stored finish], erule restored, erule restored, simp)
qed




text \<open>
  C9. A restore never loses the data a node holds: whatever command or file
  operation fails on the way, afterwards the node holds, in place or put
  aside for the next attempt, the data it held before or the data of the
  snapshot.
\<close>

theorem restore_keeps_data:
  assumes "node_laws e x" "rd_source_snapshot_id p = Some sid"
    and "restore_data e x p nd = (nd', r)" "held (nd_root nd) = Some y"
  shows "held (nd_root nd') = Some y \<or> held (nd_root nd') = ne_stored e (rd_repository p) sid"
proof (cases r)
  case (Inl failure)
  show ?thesis
    using triple_InlD [OF restore_data_triple [OF assms(1,2)] assms(4) assms(3) [unfolded Inl]] by auto
next
  case (Inr changed)
  show ?thesis
    using triple_InrD [OF restore_data_triple [OF assms(1,2)] assms(4) assms(3) [unfolded Inr]]
    by (auto simp: held_def is_directory_def split: if_splits option.split)
qed

theorem restore_keeps_data_witness:
  "snd (restore_data (sample_env (Some 16)) sample_executor sample_restore older_node) = Inl (ExIo IoOther)
   \<and> held (nd_root (fst (restore_data (sample_env (Some 16)) sample_executor sample_restore older_node)))
       \<in> {Some older_data, Some sample_data}"
  (is "snd ?run = _ \<and> _")
proof -
  have fails: "snd ?run = Inl (ExIo IoOther)" by code_simp
  have start: "held (nd_root older_node) = Some older_data" by code_simp
  have stored: "ne_stored (sample_env (Some 16)) (rd_repository sample_restore) ''abc'' = Some sample_data" by code_simp
  show ?thesis
    using restore_keeps_data [OF sample_laws [of "Some 16"] _ _ start, where p = sample_restore and sid = "''abc''"
        and nd' = "fst ?run" and r = "snd ?run"] fails stored
    by (simp add: sample_restore_def)
qed


section \<open>Cleaning up\<close>

lemma remove_file_gone:
  assumes "remove_file e [n] nd = (nd', r)" "r = Inr u \<or> r = Inl IoNotFound"
  shows "find_entry [n] (nd_root nd') = None"
  using assms
  by (auto simp: remove_file_def remove_entry_def may_fail_def action_defs nask_def nroot_def nemit_def nput_def
      delete_conv' split: option.splits entry.splits if_splits)

lemma remove_instance_storage_outcome:
  assumes "node_laws e x" "remove_instance_storage e x nd = (nd', Inr u)"
  shows "list_all (\<lambda>p. find_entry p (nd_root nd') = None) (storage_paths @ [state_path])"
proof -
  obtain nd1 r where 1: "remove_paths e x (map (\<lambda>a. [a]) storage_names) nd = (nd1, Inr ())"
    and 2: "remove_file e [''agent-state.json''] nd1 = (nd', r)" "r = Inr () \<or> r = Inl IoNotFound"
    using assms(2)
    by (auto simp: remove_instance_storage_def abind_def attempt_def areturn_def afail_def storage_paths_def path_defs
        split: prod.splits sum.splits io_failure.splits)
  have "touches [''agent-state.json''] (remove_file e [''agent-state.json''])" by (rule touches_writes) simp
  then have "same_except [''agent-state.json''] (nd_root nd1) (nd_root nd')" using touchesD 2(1) by blast
  then have "find_entry [n] (nd_root nd') = None" if "n \<in> set storage_names" for n
    using remove_paths_outcome [OF assms(1) 1] that same_except_other [of "[''agent-state.json'']" "nd_root nd1" "nd_root nd'" n "[]"]
    by auto
  then show ?thesis
    using remove_file_gone [OF 2] by (simp add: storage_paths_def path_defs del: find_entry.simps)
qed

text \<open>
  C27. A successful clean-up leaves nothing of the instance: no data, no
  staged or put aside directory and no state file, so that the next instance
  starts from nothing; and it is idempotent, in that a later clean-up finds
  no storage to report.
\<close>

theorem cleanup_leaves_nothing:
  assumes "node_laws e x" "cleanup_instance e x i nd = (nd', Inr changed)"
  shows "list_all (\<lambda>p. find_entry p (nd_root nd') = None) (storage_paths @ [state_path])
    \<and> snd (instance_storage_exists e nd') \<in> {Inr False, Inl (ExIo IoOther)}"
proof -
  obtain nd1 u where 1: "remove_instance_storage e x nd1 = (nd', Inr u)"
    using assms(2) by (auto simp: cleanup_instance_def abind_def areturn_def split: prod.splits sum.splits)
  note gone = remove_instance_storage_outcome [OF assms(1) 1]
  have "snd (any_exists e ps n) \<in> {Inr False, Inl (ExIo IoOther)}"
    if "list_all (\<lambda>p. find_entry p (nd_root n) = None) ps" for ps n
    using that
  proof (induction ps arbitrary: n)
    case (Cons p ps)
    obtain n1 r where e: "path_exists e p n = (n1, r)" by fastforce
    show ?case using path_exists_same [OF e] Cons.prems Cons.IH [of n1] by (auto simp: abind_def e)
  qed (simp add: areturn_def)
  then show ?thesis using gone unfolding instance_storage_exists_def by blast
qed

theorem cleanup_leaves_nothing_witness:
  "snd (cleanup_instance (sample_env None) sample_executor (sample_identity 2) serving_node) = Inr True
   \<and> list_all (\<lambda>p. find_entry p (nd_root (fst (cleanup_instance (sample_env None) sample_executor (sample_identity 2) serving_node)))
       = None) (storage_paths @ [state_path])"
  (is "snd ?run = _ \<and> _")
proof -
  have cleaned: "snd ?run = Inr True" by code_simp
  have "?run = (fst ?run, Inr True)" by (simp add: cleaned [symmetric])
  then show ?thesis using cleanup_leaves_nothing [OF sample_laws] cleaned by blast
qed


section \<open>The state of the agent\<close>

text \<open>A state that claims prepared data is backed by a data directory.\<close>

definition prepared_ok :: "node_env \<Rightarrow> directory \<Rightarrow> bool" where
  "prepared_ok e d \<longleftrightarrow> (\<forall>state s. records e state d \<longrightarrow> as_instance state = Some s \<longrightarrow> is_data_prepared s
     \<longrightarrow> is_directory data_directory d)"

text \<open>The same instance, later: only the progress of its data changes, and only forwards.\<close>

definition same_instance :: "instance_state \<Rightarrow> instance_state \<Rightarrow> bool" where
  "same_instance s s' \<longleftrightarrow>
     is_server_instance_id s' = is_server_instance_id s \<and> is_fencing_token s' = is_fencing_token s
   \<and> is_server_id s' = is_server_id s \<and> is_repository s' = is_repository s
   \<and> is_source_snapshot_id s' = is_source_snapshot_id s \<and> (is_data_prepared s \<longrightarrow> is_data_prepared s')
   \<and> (is_last_snapshot_id s \<noteq> None \<longrightarrow> is_last_snapshot_id s' \<noteq> None)"

definition serves :: "node_env \<Rightarrow> instance_state \<Rightarrow> directory \<Rightarrow> bool" where
  "serves e s d \<longleftrightarrow> (\<exists>state s'. records e state d \<and> as_instance state = Some s' \<and> same_instance s s')"

text \<open>
  While the state file is untouched: it is as it was, and the data directory
  is still there if it was.
\<close>

definition untouched :: "entry option \<Rightarrow> bool \<Rightarrow> directory \<Rightarrow> bool" where
  "untouched old present d \<longleftrightarrow> find_entry state_path d = old \<and> (present \<longrightarrow> is_directory data_directory d)"

lemma records_cong: "find_entry state_path d' = find_entry state_path d \<Longrightarrow> records e state d' = records e state d"
  by (simp add: records_def)

lemma keeps_quietly:
  assumes "touches names m" "''data'' \<notin> set names" "''agent-state.json'' \<notin> set names"
  shows "keeps (at (untouched old present)) m"
proof -
  have "untouched old present d'" if "same_except names d d'" "untouched old present d" for d d'
    using that keep_data [OF that(1) assms(2)] same_except_other [OF that(1) assms(3), of "[]"]
    by (simp add: untouched_def is_directory_def state_path_def)
  then show ?thesis using touchesD [OF assms(1)] by (auto simp: keeps_def) (metis prod.collapse)
qed

lemma keeps_container_command:
  assumes "node_laws e x" "container_command x c"
  shows "keeps (at (untouched old present)) (run_command_allow_failure e c description)"
proof -
  have "untouched old present d'" if "ne_run e n c d = (out, d')" "untouched old present d" for n d out d'
  proof -
    have "same_except [''data''] d d' \<and> (is_directory data_directory d \<longrightarrow> is_directory data_directory d')"
      using node_lawsD(6) [OF assms(1)] assms(2) that(1) unfolding container_law_def by blast
    then show ?thesis
      using that(2) same_except_other [of "[''data'']" d d' "''agent-state.json''" "[]"]
      by (auto simp: untouched_def state_path_def)
  qed
  then have "keeps (at (untouched old present)) (run_program e c :: (executor_error, command_outcome) nio)"
    by (auto simp: keeps_def run_program_def abind_def nemit_def split: prod.split)
  then show ?thesis
    unfolding run_command_allow_failure_def
    by (intro keeps_intros) (auto split: command_outcome.split intro: keeps_intros)
qed

lemma keeps_podman:
  assumes "node_laws e x" "verb \<in> {''container'', ''rm'', ''create'', ''start'', ''stop''}"
  shows "keeps (at (untouched old present)) (run_podman_allow_failure e x (verb # arguments))"
    "keeps (at (untouched old present)) (run_podman e x (verb # arguments))"
proof -
  have "container_command x (podman_command x (verb # arguments))"
    using assms(2) unfolding container_command_def by blast
  then show allow: "keeps (at (untouched old present)) (run_podman_allow_failure e x (verb # arguments))"
    unfolding run_podman_allow_failure_def by (rule keeps_container_command [OF assms(1)])
  show "keeps (at (untouched old present)) (run_podman e x (verb # arguments))"
    unfolding run_podman_def by (intro keeps_intros allow)
qed

lemma keeps_containers:
  assumes "node_laws e x"
  shows "keeps (at (untouched old present)) (container_running e x i)"
    "keeps (at (untouched old present)) (remove_container e x i)"
    "keeps (at (untouched old present)) (create_container e x i sid spec)"
proof -
  have ex: "keeps (at (untouched old present)) (container_exists e x i)"
    unfolding container_exists_def by (intro keeps_intros keeps_podman assms) simp
  show "keeps (at (untouched old present)) (container_running e x i)"
    unfolding container_running_def Let_def by (intro keeps_intros ex keeps_podman assms) simp
  show "keeps (at (untouched old present)) (remove_container e x i)"
    unfolding remove_container_def by (intro keeps_intros keeps_podman assms) simp
  have "container_command x (podman_command x (create_arguments e x i sid spec volume))" for volume
    unfolding container_command_def create_arguments_def append_Cons by blast
  then show "keeps (at (untouched old present)) (create_container e x i sid spec)"
    unfolding create_container_def run_node_command_def using assms by (intro keeps_intros keeps_container_command)
qed

lemma keeps_load: "keeps (at (untouched old present)) (load_state e)"
  by (rule keeps_quietly [where names = "[]"]) (simp_all add: touches_intros)

lemma keeps_repository: "node_laws e x \<Longrightarrow> keeps (at (untouched old present)) (ensure_restic_repository e x url)"
  by (rule keeps_quietly [where names = "[]"]) (simp_all add: touches_ensure_repository)

lemma keeps_simple_requests:
  assumes "node_laws e x"
  shows "keeps (at (untouched old present)) (node_inspect e x i)" "keeps (at (untouched old present)) (start_server e x sp)"
    "keeps (at (untouched old present)) (stop_server e x tp)"
  unfolding node_inspect_def start_server_def stop_server_def Let_def
  by ((intro keeps_intros keeps_load keeps_containers keeps_podman assms; simp)+)

lemma records_unique: "records e a d \<Longrightarrow> records e b d \<Longrightarrow> a = b"
  by (auto simp: records_def)

lemma same_instance_refl [simp]: "same_instance s s"
  by (simp add: same_instance_def)

lemma ensure_instance_state_Inr:
  assumes "ensure_instance_state state i server url source = Inr state'"
  shows "\<exists>s. state' = state\<lparr> as_instance := Some s \<rparr> \<and> (\<forall>t. as_instance state = Some t \<longrightarrow> s = t)
    \<and> (as_instance state = None \<longrightarrow> \<not> is_data_prepared s)"
  using assms by (auto simp: ensure_instance_state_def Let_def result_simps split: option.splits)

lemma keep_state:
  "same_except names d d' \<Longrightarrow> ''agent-state.json'' \<notin> set names \<Longrightarrow> find_entry state_path d' = find_entry state_path d"
  unfolding state_path_def by (rule same_except_other)

lemma create_dir_directory: "create_dir_all e [n] nd = (nd', Inr u) \<Longrightarrow> is_directory [n] (nd_root nd')"
  by (auto simp: create_dir_all_def may_fail_def action_defs nask_def nroot_def nemit_def nput_def is_directory_def
      update_conv' split: if_splits option.splits entry.splits)

lemma touches_prepare_data:
  assumes "node_laws e x"
  shows "touches storage_names (prepare_data e x p)"
proof -
  have rm: "touches storage_names (remove_paths e x [data_directory])"
    by (rule touches_mono [OF touches_remove_paths [OF assms, where names = "[''data'']"]]) (simp_all add: data_directory_def)
  have mk: "touches storage_names (create_dir_all e data_directory)"
    unfolding data_directory_def by (rule touches_writes) simp
  show ?thesis
    unfolding prepare_data_def ex_io_def
    by (intro touches_intros touches_restore_snapshot [OF assms] rm mk)
qed

lemma prepare_data_directory:
  assumes "node_laws e x" "prepare_data e x p nd = (nd', Inr u)"
  shows "is_directory data_directory (nd_root nd')"
proof (cases "rd_source_snapshot_id p")
  case (Some sid)
  then have "restore_snapshot e x (rd_repository p) sid nd = (nd', Inr u)" using assms(2) by (simp add: prepare_data_def)
  then show ?thesis using triple_InrD [OF restore_snapshot_triple [OF assms(1)] refl] by blast
next
  case None
  then obtain nd1 where "create_dir_all e data_directory nd1 = (nd', Inr ())"
    using assms(2)
    by (auto simp: prepare_data_def abind_def ex_io_def amap_err_def map_err_def split: prod.splits sum.splits)
  then show ?thesis unfolding data_directory_def by (rule create_dir_directory)
qed

lemma prepare_data_triple:
  assumes "node_laws e x"
  shows "triple (at (\<lambda>d. find_entry state_path d = old)) (prepare_data e x p)
    (\<lambda>_. at (\<lambda>d. is_directory data_directory d \<and> find_entry state_path d = old)) (\<lambda>_. at (\<lambda>d. find_entry state_path d = old))"
proof -
  have "find_entry state_path (nd_root nd') = find_entry state_path (nd_root nd)" if "prepare_data e x p nd = (nd', r)" for nd nd' r
    using keep_state [OF touchesD [OF touches_prepare_data [OF assms] that]] by simp
  then show ?thesis by (intro tripleI) (auto dest: prepare_data_directory [OF assms])
qed

text \<open>The rest of a restore, once the state is loaded and its data are not prepared.\<close>

lemma state_quiet:
  assumes "touches [] m" "\<And>d. find_entry state_path d = old \<Longrightarrow> Q d"
  shows "triple (at (\<lambda>d. find_entry state_path d = old)) m (\<lambda>_. at (\<lambda>d. find_entry state_path d = old)) (\<lambda>_. at Q)"
  by (rule triple_weaken [OF triple_touches [OF assms(1), where P = "\<lambda>d. find_entry state_path d = old"]])
     (auto simp: keep_state [of "[]"] assms(2))

abbreviation restore_rest ::
    "node_env \<Rightarrow> agent_executor \<Rightarrow> restore_data_params \<Rightarrow> agent_state \<Rightarrow> instance_state \<Rightarrow> bool executor_io" where
  "restore_rest e x p state s \<equiv>
     abind (ensure_private_directory e) (\<lambda>_.
     abind (ensure_restic_repository e x (rd_repository p)) (\<lambda>_.
     abind (prepare_data e x p) (\<lambda>_.
     abind (alift (Inr s)) (\<lambda>s.
     abind (alift (validate_identity s (rd_instance p))) (\<lambda>_.
     abind (store_state e (state\<lparr> as_instance := Some (s\<lparr> is_data_prepared := True \<rparr>) \<rparr>)) (\<lambda>_.
     areturn True))))))"

lemma restore_rest_triple:
  assumes "node_laws e x" "as_schema_version state = AGENT_STATE_SCHEMA_VERSION"
  shows "triple (at (\<lambda>d. find_entry state_path d = old))
     (restore_rest e x p state s)
    (\<lambda>_. at (\<lambda>d. is_directory data_directory d \<and> records e (state\<lparr> as_instance := Some (s\<lparr> is_data_prepared := True \<rparr>) \<rparr>) d))
    (\<lambda>_. at (\<lambda>d. find_entry state_path d = old
       \<or> is_directory data_directory d \<and> records e (state\<lparr> as_instance := Some (s\<lparr> is_data_prepared := True \<rparr>) \<rparr>) d))"
    (is "triple _ _ ?N ?E")
proof -
  let ?new = "state\<lparr> as_instance := Some (s\<lparr> is_data_prepared := True \<rparr>) \<rparr>"
  have store: "triple (at (\<lambda>d. is_directory data_directory d \<and> find_entry state_path d = old)) (store_state e ?new)
      (\<lambda>_. at (\<lambda>d. is_directory data_directory d \<and> records e ?new d)) ?E"
    by (rule triple_weaken [OF triple_store_state [OF assms(1), where P = "is_directory data_directory" and old = old]])
       (auto simp: assms(2) is_directory_def keep_data_state)
  have prepare: "triple (at (\<lambda>d. find_entry state_path d = old)) (prepare_data e x p)
      (\<lambda>_. at (\<lambda>d. is_directory data_directory d \<and> find_entry state_path d = old)) ?E"
    by (rule triple_weaken [OF prepare_data_triple [OF assms(1)]]) auto
  show ?thesis
    by (rule triple_abind [OF state_quiet], rule touches_intros, simp,
        rule triple_abind [OF state_quiet], rule touches_ensure_repository [OF assms(1)], simp,
        rule triple_abind [OF prepare], rule triple_bind_alift, simp, rule triple_bind_alift,
        rule triple_abind [OF store], rule triple_areturn) auto
qed

text \<open>One request takes the node from one directory to the next.\<close>

definition advances :: "node_env \<Rightarrow> directory \<Rightarrow> directory \<Rightarrow> bool" where
  "advances e d d' \<longleftrightarrow> prepared_ok e d'
     \<and> (\<forall>state s. records e state d \<longrightarrow> as_instance state = Some s \<longrightarrow> serves e s d')"

lemma advances_same:
  assumes "find_entry state_path d' = find_entry state_path d" "prepared_ok e d'"
  shows "advances e d d'"
  using assms(2) records_cong [OF assms(1)] same_instance_refl unfolding advances_def serves_def by blast

lemma advances_untouched:
  assumes "prepared_ok e d" "untouched (find_entry state_path d) (is_directory data_directory d) d'"
  shows "advances e d d'"
  using assms records_cong [of d' d]
  by (intro advances_same) (auto simp: untouched_def prepared_ok_def)

lemma advances_recorded:
  assumes "records e new d'" "as_instance new = Some s'" "is_data_prepared s' \<longrightarrow> is_directory data_directory d'"
    and "\<And>state s. records e state d \<Longrightarrow> as_instance state = Some s \<Longrightarrow> same_instance s s'"
  shows "advances e d d'"
  using assms by (auto simp: advances_def serves_def prepared_ok_def dest: records_unique)

lemma loaded_states:
  assumes "load_state e nd = (nd1, Inr state)"
  shows "records e other (nd_root nd) \<Longrightarrow> other = state" "as_schema_version state = AGENT_STATE_SCHEMA_VERSION"
    "as_instance state = Some s \<Longrightarrow> records e state (nd_root nd)"
  using load_state_same [OF assms] by (auto simp: records_def initial_state_def)

lemma keeps_advances:
  assumes "keeps (at (untouched (find_entry state_path (nd_root nd)) (is_directory data_directory (nd_root nd)))) m"
    and "prepared_ok e (nd_root nd)" "m nd = (nd', r)"
  shows "advances e (nd_root nd) (nd_root nd')"
proof -
  let ?U = "untouched (find_entry state_path (nd_root nd)) (is_directory data_directory (nd_root nd))"
  have "?U (nd_root nd)" by (simp add: untouched_def)
  then have "?U (nd_root nd')" using assms(1) unfolding keeps_def by (metis assms(3) fst_conv)
  then show ?thesis by (rule advances_untouched [OF assms(2)])
qed

lemma abind_done: "m nd = (nd', Inr a) \<Longrightarrow> abind m k nd = k a nd'" "m nd = (nd', Inl f) \<Longrightarrow> abind m k nd = (nd', Inl f)"
  by (simp_all add: abind_def)

lemma bind_alift: "abind (alift (Inr a)) k = k a" "abind (alift (Inl f)) k = afail f"
  by (simp_all add: abind_def alift_def afail_def fun_eq_iff)

lemma restore_data_split:
  assumes "load_state e nd = (nd1, r1)" "restore_data e x p nd = (nd', r)"
  shows "nd' = nd1 \<or> (\<exists>state state' s. r1 = Inr state
    \<and> ensure_instance_state state (rd_instance p) (rd_server_id p) (rd_repository p) (rd_source_snapshot_id p) = Inr state'
    \<and> as_instance state' = Some s \<and> \<not> is_data_prepared s \<and> restore_rest e x p state' s nd1 = (nd', r))"
proof (cases r1)
  case (Inl f)
  then show ?thesis using assms by (simp add: restore_data_def abind_done)
next
  case (Inr state)
  let ?ensured = "ensure_instance_state state (rd_instance p) (rd_server_id p) (rd_repository p) (rd_source_snapshot_id p)"
  show ?thesis
  proof (cases ?ensured)
    case (Inl f)
    then show ?thesis using assms Inr by (simp add: restore_data_def abind_done alift_def)
  next
    case (Inr state')
    then obtain s where "as_instance state' = Some s" using ensure_instance_state_Inr [OF Inr] by auto
    then show ?thesis
      using assms \<open>r1 = Inr state\<close> Inr
      by (cases "is_data_prepared s")
         (simp_all add: restore_data_def abind_done(1) [of "load_state e"] bind_alift is_some_and_def areturn_def)
  qed
qed

lemma restore_data_state:
  assumes "node_laws e x" "prepared_ok e (nd_root nd)" "restore_data e x p nd = (nd', r)"
  shows "advances e (nd_root nd) (nd_root nd')"
proof -
  obtain nd1 r1 where load: "load_state e nd = (nd1, r1)" by fastforce
  note same = load_state_same [OF load]
  from restore_data_split [OF load assms(3)] show ?thesis
  proof (elim disjE exE conjE)
    assume "nd' = nd1"
    then show ?thesis using advances_same assms(2) same by simp
  next
    fix state state' s
    assume r1: "r1 = Inr state" and state': "as_instance state' = Some s" "\<not> is_data_prepared s"
      and ensured: "ensure_instance_state state (rd_instance p) (rd_server_id p) (rd_repository p)
        (rd_source_snapshot_id p) = Inr state'"
      and rest: "restore_rest e x p state' s nd1 = (nd', r)"
    let ?new = "state'\<lparr> as_instance := Some (s\<lparr> is_data_prepared := True \<rparr>) \<rparr>"
    note loaded = loaded_states [OF load [unfolded r1]]
    have old: "t = s" if "records e other (nd_root nd)" "as_instance other = Some t" for other t
      using loaded(1) [OF that(1)] that ensure_instance_state_Inr [OF ensured] state' by auto
    have version: "as_schema_version state' = AGENT_STATE_SCHEMA_VERSION"
      using loaded(2) ensure_instance_state_Inr [OF ensured] by auto
    note rests = restore_rest_triple [OF assms(1) version, where old = "find_entry state_path (nd_root nd)" and s = s and p = p]
    have start: "find_entry state_path (nd_root nd1) = find_entry state_path (nd_root nd)" using same by simp
    have "find_entry state_path (nd_root nd') = find_entry state_path (nd_root nd)
        \<or> is_directory data_directory (nd_root nd') \<and> records e ?new (nd_root nd')"
    proof (cases r)
      case (Inl f)
      then show ?thesis using triple_InlD [OF rests start rest [unfolded Inl]] by simp
    next
      case (Inr changed)
      then show ?thesis using triple_InrD [OF rests start rest [unfolded Inr]] by simp
    qed
    then show ?thesis
    proof
      assume same_state: "find_entry state_path (nd_root nd') = find_entry state_path (nd_root nd)"
      then have "prepared_ok e (nd_root nd')"
        using old state'(2) records_cong [OF same_state] by (auto simp: prepared_ok_def)
      then show ?thesis by (rule advances_same [OF same_state])
    next
      assume "is_directory data_directory (nd_root nd') \<and> records e ?new (nd_root nd')"
      then show ?thesis
        using old state'(2) by (intro advances_recorded [where new = ?new]) (auto simp: same_instance_def)
    qed
  qed
qed

text \<open>A snapshot leaves the data alone and then records the identifier.\<close>

lemma touches_backup:
  assumes "node_laws e x"
  shows "touches [] (run_restic e x url (backup_arguments e p) (Some (nc_state_directory (ex_config x))))"
proof -
  have "same_except [] d d'"
    if "ne_run e n (restic_command x url (backup_arguments e p) (Some (nc_state_directory (ex_config x)))) d = (out, d')" for n d out d'
    using node_lawsD(5) [OF assms] that unfolding backup_law_def by blast
  then show ?thesis
    unfolding run_restic_def run_restic_allow_failure_def by (intro touches_intros touches_run_command(1)) blast
qed

abbreviation snapshot_rest ::
    "node_env \<Rightarrow> agent_executor \<Rightarrow> snapshot_data_params \<Rightarrow> agent_state \<Rightarrow> instance_state \<Rightarrow> string executor_io" where
  "snapshot_rest e x p state s \<equiv>
     abind (container_running e x (server_instance_id (sd_instance p))) (\<lambda>running.
     if running then afail ProcessStillRunning
     else
       abind (ensure_restic_repository e x (sd_repository p)) (\<lambda>_.
       abind (run_restic e x (sd_repository p) (backup_arguments e p) (Some (nc_state_directory (ex_config x)))) (\<lambda>output.
       abind (alift (parse_backup_snapshot_id e (co_stdout output))) (\<lambda>snapshot_id.
       abind (alift (validate_identity s (sd_instance p))) (\<lambda>_.
       abind (store_state e (state\<lparr> as_instance := Some (s\<lparr> is_last_snapshot_id := Some snapshot_id \<rparr>) \<rparr>)) (\<lambda>_.
       areturn snapshot_id))))))"

lemma triple_keeps: "keeps P m \<Longrightarrow> (\<And>s. P s \<Longrightarrow> Q s) \<Longrightarrow> triple P m (\<lambda>_. P) (\<lambda>_. Q)"
  by (rule tripleI) (auto dest: keepsD)

lemma snapshot_rest_triple:
  assumes "node_laws e x" "as_schema_version state = AGENT_STATE_SCHEMA_VERSION"
  shows "triple (at (untouched old present)) (snapshot_rest e x p state s)
    (\<lambda>sid. at (\<lambda>d. (present \<longrightarrow> is_directory data_directory d)
       \<and> records e (state\<lparr> as_instance := Some (s\<lparr> is_last_snapshot_id := Some sid \<rparr>) \<rparr>) d))
    (\<lambda>_. at (\<lambda>d. untouched old present d \<or> (present \<longrightarrow> is_directory data_directory d)
       \<and> (\<exists>sid. records e (state\<lparr> as_instance := Some (s\<lparr> is_last_snapshot_id := Some sid \<rparr>) \<rparr>) d)))"
    (is "triple _ _ ?N ?E")
proof -
  let ?new = "\<lambda>sid. state\<lparr> as_instance := Some (s\<lparr> is_last_snapshot_id := Some sid \<rparr>) \<rparr>"
  have store: "triple (at (untouched old present)) (store_state e (?new sid))
      (\<lambda>_. at (\<lambda>d. (present \<longrightarrow> is_directory data_directory d) \<and> records e (?new sid) d)) ?E" for sid
    by (rule triple_weaken [OF triple_store_state [OF assms(1),
          where P = "\<lambda>d. present \<longrightarrow> is_directory data_directory d" and old = old]])
       (auto simp: assms(2) is_directory_def keep_data_state untouched_def)
  have backup: "keeps (at (untouched old present))
      (run_restic e x (sd_repository p) (backup_arguments e p) (Some (nc_state_directory (ex_config x))))"
    by (rule keeps_quietly [OF touches_backup [OF assms(1)]]) simp_all
  show ?thesis
    by (rule triple_abind [OF triple_keeps [OF keeps_containers(1) [OF assms(1)]]], blast, rule triple_if, rule triple_afail, blast,
        rule triple_abind [OF triple_keeps [OF keeps_repository [OF assms(1)]]], blast,
        rule triple_abind [OF triple_keeps [OF backup]], blast, rule triple_bind_alift, rule triple_bind_alift,
        rule triple_abind [OF store], rule triple_areturn, blast, blast, blast)
qed

lemma snapshot_data_split:
  assumes "load_state e nd = (nd1, r1)" "snapshot_data e x p nd = (nd', r)"
  shows "nd' = nd1 \<or> (\<exists>state s. r1 = Inr state \<and> as_instance state = Some s \<and> snapshot_rest e x p state s nd1 = (nd', r))"
proof (cases r1)
  case (Inl f)
  then show ?thesis using assms by (simp add: snapshot_data_def abind_done)
next
  case (Inr state)
  show ?thesis
  proof (cases "as_instance state")
    case None
    then show ?thesis using assms Inr by (simp add: snapshot_data_def abind_done alift_def)
  next
    case (Some s)
    note run = snapshot_data_def abind_done(1) [of "load_state e"] Some bind_alift afail_def
    show ?thesis
    proof (cases "validate_identity s (sd_instance p)")
      case (Inl f)
      then show ?thesis using assms \<open>r1 = Inr state\<close> by (simp add: run)
    next
      case (Inr u)
      then show ?thesis
        using assms \<open>r1 = Inr state\<close> Some by (cases "is_server_id s \<noteq> sd_server_id p \<or> is_repository s \<noteq> sd_repository p") (simp_all add: run)
    qed
  qed
qed

lemma snapshot_data_state:
  assumes "node_laws e x" "prepared_ok e (nd_root nd)" "snapshot_data e x p nd = (nd', r)"
  shows "advances e (nd_root nd) (nd_root nd')"
proof -
  obtain nd1 r1 where load: "load_state e nd = (nd1, r1)" by fastforce
  note same = load_state_same [OF load]
  from snapshot_data_split [OF load assms(3)] show ?thesis
  proof (elim disjE exE conjE)
    assume "nd' = nd1"
    then show ?thesis using advances_same assms(2) same by simp
  next
    fix state s
    assume r1: "r1 = Inr state" and state: "as_instance state = Some s" and rest: "snapshot_rest e x p state s nd1 = (nd', r)"
    let ?new = "\<lambda>sid. state\<lparr> as_instance := Some (s\<lparr> is_last_snapshot_id := Some sid \<rparr>) \<rparr>"
    let ?old = "find_entry state_path (nd_root nd)" and ?present = "is_directory data_directory (nd_root nd)"
    note loaded = loaded_states [OF load [unfolded r1]]
    note rests = snapshot_rest_triple [OF assms(1) loaded(2), where old = ?old and present = ?present and s = s and p = p]
    have start: "untouched ?old ?present (nd_root nd1)" using same by (simp add: untouched_def)
    have "untouched ?old ?present (nd_root nd')
        \<or> (?present \<longrightarrow> is_directory data_directory (nd_root nd')) \<and> (\<exists>sid. records e (?new sid) (nd_root nd'))"
    proof (cases r)
      case (Inl f)
      then show ?thesis using triple_InlD [OF rests start rest [unfolded Inl]] by simp
    next
      case (Inr sid)
      then show ?thesis using triple_InrD [OF rests start rest [unfolded Inr]] by blast
    qed
    then show ?thesis
    proof (elim disjE conjE exE)
      assume "untouched ?old ?present (nd_root nd')"
      then show ?thesis by (rule advances_untouched [OF assms(2)])
    next
      fix sid
      assume "?present \<longrightarrow> is_directory data_directory (nd_root nd')" "records e (?new sid) (nd_root nd')"
      moreover have "is_data_prepared s \<longrightarrow> ?present"
        using assms(2) loaded(3) [OF state] state by (auto simp: prepared_ok_def)
      moreover have "same_instance t (s\<lparr> is_last_snapshot_id := Some sid \<rparr>)"
        if "records e other (nd_root nd)" "as_instance other = Some t" for other t
        using loaded(1) [OF that(1)] that(2) state by (simp add: same_instance_def)
      ultimately show ?thesis by (intro advances_recorded [where new = "?new sid"]) auto
    qed
  qed
qed

text \<open>
  C10. The state of the agent stays true, whatever fails: after any request
  but a clean-up, a state file that claims prepared data is backed by a data
  directory, and an instance the agent served before is still recorded with
  its identity, fencing token, server, repository and source, its data still
  prepared if they were and its last snapshot not forgotten.
\<close>

theorem agent_state_stays_true:
  assumes "node_laws e x" "prepared_ok e (nd_root nd)" "\<forall>i. request \<noteq> InstanceCleanup i"
    and "execute_request e x request nd = (nd', r)"
  shows "prepared_ok e (nd_root nd')
    \<and> (\<forall>state s. records e state (nd_root nd) \<longrightarrow> as_instance state = Some s \<longrightarrow> serves e s (nd_root nd'))"
proof -
  have reply: "\<exists>r'. m nd = (nd', r')" if "reply_with f m nd = (nd', r)" for f and m :: "'b executor_io"
    using that by (cases "m nd") (auto simp: reply_with_def abind_def areturn_def split: sum.splits)
  have "advances e (nd_root nd) (nd_root nd')"
  proof (cases request)
    case NodeShutdown
    then show ?thesis using assms(2,4) advances_same by (simp add: areturn_def)
  qed (use assms in \<open>auto dest!: reply intro: restore_data_state snapshot_data_state keeps_advances keeps_simple_requests\<close>)
  then show ?thesis by (simp add: advances_def)
qed

theorem agent_state_stays_true_witness:
  "serves (sample_env None) sample_instance
     (nd_root (fst (execute_request (sample_env None) sample_executor (DataSnapshot sample_snapshot) serving_node)))
   \<and> snd (execute_request (sample_env None) sample_executor (DataSnapshot sample_snapshot) serving_node) = Inr (SnapshotReply ''abc'')"
  (is "serves _ _ (nd_root (fst ?run)) \<and> _")
proof -
  have data: "is_directory data_directory (nd_root serving_node)"
    by (simp add: is_directory_def serving_node_def data_directory_def sample_data_def)
  have "snd ?run = Inr (SnapshotReply ''abc'')" by code_simp
  moreover have ok: "prepared_ok (sample_env None) (nd_root serving_node)" using data by (simp add: prepared_ok_def)
  moreover have "as_instance sample_state = Some sample_instance" by (simp add: sample_state_def)
  ultimately show ?thesis
    using agent_state_stays_true [OF sample_laws ok _ prod.collapse [symmetric], where request = "DataSnapshot sample_snapshot"]
      sample_recorded [of None] by blast
qed


end
