(* ===== verification/Json_Rpc.thy ===== *)
theory Json_Rpc
  imports World Agent_Protocol
begin

text \<open>
  JSON-RPC as both protocols use it (\<open>mcserver-protocol/src/json_rpc.rs\<close>), the
  handshake of a node agent (\<open>node_agent.rs\<close>), and the newline-delimited frames
  that carry it. The JSON library is an argument: its parser and printer and
  the conversions it derives for the types of the protocol.
\<close>

section \<open>Messages\<close>

text \<open>\<open>serde_json::Value\<close>; a number that is no integer is kept as its text.\<close>

datatype json =
    JNull
  | JBool bool
  | JNumber int
  | JFloat string
  | JString string
  | JArray "json list"
  | JObject "(string \<times> json) list"

definition JSON_RPC_VERSION :: string where
  "JSON_RPC_VERSION = ''2.0''"

datatype request_id = Missing | Present json

record rpc_request =
  rq_jsonrpc :: string
  rq_method :: string
  rq_params :: json
  rq_id :: request_id

fun is_notification :: "request_id \<Rightarrow> bool" where
  "is_notification Missing \<longleftrightarrow> True"
| "is_notification (Present _) \<longleftrightarrow> False"

fun response_id :: "request_id \<Rightarrow> json option" where
  "response_id Missing = None"
| "response_id (Present value) = Some value"

fun request_id_valid :: "request_id \<Rightarrow> bool" where
  "request_id_valid Missing \<longleftrightarrow> True"
| "request_id_valid (Present value) \<longleftrightarrow>
     (case value of JNull \<Rightarrow> True | JNumber _ \<Rightarrow> True | JFloat _ \<Rightarrow> True | JString _ \<Rightarrow> True | _ \<Rightarrow> False)"

record error_object =
  eo_code :: int
  eo_message :: string
  eo_data :: "json option"

record rpc_response =
  rs_jsonrpc :: string
  rs_result :: "json option"
  rs_error :: "error_object option"
  rs_id :: json

definition response_success :: "json \<Rightarrow> json \<Rightarrow> rpc_response" where
  "response_success ident result =
     \<lparr> rs_jsonrpc = JSON_RPC_VERSION, rs_result = Some result, rs_error = None, rs_id = ident \<rparr>"

definition response_error :: "json \<Rightarrow> error_object \<Rightarrow> rpc_response" where
  "response_error ident error =
     \<lparr> rs_jsonrpc = JSON_RPC_VERSION, rs_result = None, rs_error = Some error, rs_id = ident \<rparr>"

definition new_error :: "int \<Rightarrow> string \<Rightarrow> error_object" where
  "new_error number message = \<lparr> eo_code = number, eo_message = message, eo_data = None \<rparr>"

definition with_data :: "error_object \<Rightarrow> json \<Rightarrow> error_object" where
  "with_data error value = error\<lparr> eo_data := Some value \<rparr>"

definition PARSE_ERROR :: int where "PARSE_ERROR = - 32700"

definition INVALID_REQUEST :: int where "INVALID_REQUEST = - 32600"

definition METHOD_NOT_FOUND :: int where "METHOD_NOT_FOUND = - 32601"

definition INVALID_PARAMS :: int where "INVALID_PARAMS = - 32602"

definition INTERNAL_ERROR :: int where "INTERNAL_ERROR = - 32603"

definition CONFLICT :: int where "CONFLICT = - 32001"

definition NOT_FOUND :: int where "NOT_FOUND = - 32004"

text \<open>\<open>json!({"detail": text})\<close>\<close>

definition detail :: "string \<Rightarrow> json" where
  "detail s = JObject [(''detail'', JString s)]"

section \<open>The handshake of an agent\<close>

record enroll_params =
  ep_protocol_version :: u32
  ep_compute_instance_id :: uuid
  ep_enrollment_token :: string
  ep_certificate_signing_request_pem :: string

record enroll_result =
  er_client_certificate_chain_pem :: string
  er_connection_token :: string

record register_params =
  gp_protocol_version :: u32
  gp_compute_instance_id :: uuid
  gp_connection_token :: string

record register_result =
  gr_accepted :: bool
  gr_runtime_environment :: "(string \<times> string) list"

section \<open>The JSON library\<close>

text \<open>
  Texts of values, and the conversions between values and the types of the
  protocol. Those from a value fail with a text.
\<close>

record json_codec =
  jc_parse :: "string \<Rightarrow> json option"
  jc_text :: "json \<Rightarrow> string"
  jc_request :: "json \<Rightarrow> rpc_request option"
  jc_response :: "rpc_response \<Rightarrow> json"
  jc_wire_response :: "json \<Rightarrow> rpc_response option"
  jc_inspect_params :: "json \<Rightarrow> string + instance_identity"
  jc_restore_params :: "json \<Rightarrow> string + restore_data_params"
  jc_start_params :: "json \<Rightarrow> string + start_server_params"
  jc_stop_params :: "json \<Rightarrow> string + stop_server_params"
  jc_snapshot_params :: "json \<Rightarrow> string + snapshot_data_params"
  jc_cleanup_params :: "json \<Rightarrow> string + instance_identity"
  jc_reply :: "agent_reply \<Rightarrow> string + json"
  jc_enroll_params :: "enroll_params \<Rightarrow> json"
  jc_read_enroll_params :: "json \<Rightarrow> string + enroll_params"
  jc_enroll_result :: "enroll_result \<Rightarrow> string + json"
  jc_read_enroll_result :: "json \<Rightarrow> string + enroll_result"
  jc_register_params :: "register_params \<Rightarrow> json"
  jc_read_register_params :: "json \<Rightarrow> string + register_params"
  jc_register_result :: "register_result \<Rightarrow> string + json"
  jc_read_register_result :: "json \<Rightarrow> string + register_result"

text \<open>The object \<open>json!\<close> builds for a request.\<close>

definition request_json :: "string \<Rightarrow> json \<Rightarrow> json \<Rightarrow> json" where
  "request_json name params ident =
     JObject [(''jsonrpc'', JString JSON_RPC_VERSION), (''method'', JString name), (''params'', params), (''id'', ident)]"

text \<open>A library that reads nothing, for the examples to build on.\<close>

definition silent_codec :: json_codec where
  "silent_codec =
     \<lparr> jc_parse = (\<lambda>_. None), jc_text = (\<lambda>_. []), jc_request = (\<lambda>_. None), jc_response = (\<lambda>_. JNull),
       jc_wire_response = (\<lambda>_. None), jc_inspect_params = (\<lambda>_. Inl []), jc_restore_params = (\<lambda>_. Inl []),
       jc_start_params = (\<lambda>_. Inl []), jc_stop_params = (\<lambda>_. Inl []), jc_snapshot_params = (\<lambda>_. Inl []),
       jc_cleanup_params = (\<lambda>_. Inl []), jc_reply = (\<lambda>_. Inr JNull), jc_enroll_params = (\<lambda>_. JNull),
       jc_read_enroll_params = (\<lambda>_. Inl []), jc_enroll_result = (\<lambda>_. Inr JNull), jc_read_enroll_result = (\<lambda>_. Inl []),
       jc_register_params = (\<lambda>_. JNull), jc_read_register_params = (\<lambda>_. Inl []), jc_register_result = (\<lambda>_. Inr JNull),
       jc_read_register_result = (\<lambda>_. Inl []) \<rparr>"

section \<open>Frames\<close>

text \<open>
  A buffered reader: the bytes it holds, and what further reads of the
  connection will give; an empty read, and the end of the list, is the end of
  the stream.
\<close>

record reader =
  rd_buffer :: string
  rd_chunks :: "(io_failure + string) list"

fun fill_buf :: "reader \<Rightarrow> reader \<times> (io_failure + string)" where
  "fill_buf r =
     (if rd_buffer r \<noteq> [] then (r, Inr (rd_buffer r))
      else
        case rd_chunks r of
          [] \<Rightarrow> (r, Inr [])
        | Inl f # cs \<Rightarrow> (r\<lparr> rd_chunks := cs \<rparr>, Inl f)
        | Inr bytes # cs \<Rightarrow> (\<lparr> rd_buffer = bytes, rd_chunks = cs \<rparr>, Inr bytes))"

definition reader_consume :: "nat \<Rightarrow> reader \<Rightarrow> reader" where
  "reader_consume n r = r\<lparr> rd_buffer := drop n (rd_buffer r) \<rparr>"

definition reader_size :: "reader \<Rightarrow> nat" where
  "reader_size r = length (rd_buffer r) + sum_list (map (case_sum (\<lambda>_. 1) (\<lambda>b. Suc (length b))) (rd_chunks r))"

fun position :: "char \<Rightarrow> string \<Rightarrow> nat option" where
  "position c [] = None"
| "position c (b # bs) = (if b = c then Some 0 else map_option Suc (position c bs))"

definition newline :: char where
  "newline = CHR 0x0A"

lemma fill_buf_size:
  assumes "fill_buf r = (r', Inr bytes)" "bytes \<noteq> []"
  shows "reader_size r' \<le> reader_size r \<and> rd_buffer r' = bytes"
  using assms by (auto simp: reader_size_def split: if_splits list.splits sum.splits)

declare fill_buf.simps [simp del]

lemma reader_consume_size: "0 < n \<Longrightarrow> rd_buffer r \<noteq> [] \<Longrightarrow> reader_size (reader_consume n r) < reader_size r"
  by (cases "rd_buffer r") (auto simp: reader_size_def reader_consume_def)

text \<open>
  Reads up to and including the next line feed, or to the end of the stream,
  one filled buffer at a time. The servers and the agent each have this loop,
  with their own errors.
\<close>

function read_frame_from ::
    "(io_failure \<Rightarrow> 'e) \<Rightarrow> (nat \<Rightarrow> nat \<Rightarrow> 'e) \<Rightarrow> nat \<Rightarrow> string \<Rightarrow> reader \<Rightarrow> reader \<times> ('e + string)" where
  "read_frame_from io too_large maximum frame r =
     (case fill_buf r of
        (r1, Inl f) \<Rightarrow> (r1, Inl (io f))
      | (r1, Inr available) \<Rightarrow>
          if available = [] then (r1, Inr frame)
          else
            let found = position newline available;
                consumed = (case found of None \<Rightarrow> length available | Some index \<Rightarrow> index + 1);
                actual = length frame + consumed in
            if maximum < actual then (r1, Inl (too_large actual maximum))
            else if found \<noteq> None
            then (reader_consume consumed r1, Inr (frame @ take consumed available))
            else read_frame_from io too_large maximum (frame @ take consumed available) (reader_consume consumed r1))"
  by pat_completeness auto
termination
  by (relation "measure (\<lambda>(_, _, _, _, r). reader_size r)")
     (auto dest!: fill_buf_size [OF sym] intro!: less_le_trans [OF reader_consume_size])

declare read_frame_from.simps [simp del]

definition strip_suffix_char :: "char \<Rightarrow> string \<Rightarrow> string" where
  "strip_suffix_char c s = (if s \<noteq> [] \<and> last s = c then butlast s else s)"

definition trim_line_ending :: "string \<Rightarrow> string" where
  "trim_line_ending frame = strip_suffix_char (CHR 0x0D) (strip_suffix_char newline frame)"

section \<open>Frames do not depend on how the bytes arrive\<close>

text \<open>The bytes a reader will give, for a connection that does not fail.\<close>

definition clean :: "reader \<Rightarrow> bool" where
  "clean r \<longleftrightarrow> list_all (\<lambda>c. \<exists>bytes. c = Inr bytes \<and> bytes \<noteq> []) (rd_chunks r)"

definition stream_bytes :: "reader \<Rightarrow> string" where
  "stream_bytes r = rd_buffer r @ concat (map (case_sum (\<lambda>_. []) id) (rd_chunks r))"

definition line_of :: "string \<Rightarrow> string" where
  "line_of s = takeWhile (\<lambda>c. c \<noteq> newline) s @ (if newline \<in> set s then [newline] else [])"

lemma fill_buf_clean:
  assumes "clean r" "fill_buf r = (r1, x)"
  shows "x = Inr (rd_buffer r1) \<and> clean r1 \<and> stream_bytes r1 = stream_bytes r \<and> (rd_buffer r1 = [] \<longrightarrow> stream_bytes r = [])"
  using assms by (auto simp: fill_buf.simps clean_def stream_bytes_def split: if_splits list.splits sum.splits)

lemma position_None: "position c s = None \<longleftrightarrow> c \<notin> set s"
  by (induction s) auto

lemma position_Some: "position c s = Some i \<Longrightarrow> c \<in> set s \<and> i < length s \<and> takeWhile (\<lambda>b. b \<noteq> c) s = take i s \<and> s ! i = c"
  by (induction s arbitrary: i) (auto split: if_splits)

lemma line_of_append: "newline \<notin> set s \<Longrightarrow> line_of (s @ t) = s @ line_of t"
  by (induction s) (auto simp: line_of_def)

lemma line_of_found: "position newline s = Some i \<Longrightarrow> line_of (s @ t) = take (Suc i) s"
  using position_Some [of newline s i] takeWhile_append1 [of newline s "\<lambda>c. c \<noteq> newline" t]
  by (simp add: line_of_def take_Suc_conv_app_nth)

lemma line_of_length: "length (line_of s) \<le> length s"
proof -
  have "length (takeWhile (\<lambda>c. c \<noteq> newline) s) < length s" if "newline \<in> set s"
    using that length_takeWhile_le [of "\<lambda>c. c \<noteq> newline" s] takeWhile_eq_all_conv [of "\<lambda>c. c \<noteq> newline" s]
      takeWhile_dropWhile_id [of "\<lambda>c. c \<noteq> newline" s]
    by (metis append_self_conv le_neq_implies_less append_eq_append_conv)
  then show ?thesis by (auto simp: line_of_def length_takeWhile_le Suc_le_eq)
qed

lemma read_frame_from_clean:
  assumes "clean r" "length frame \<le> maximum"
  shows "if length frame + length (line_of (stream_bytes r)) \<le> maximum
    then \<exists>r'. read_frame_from io too_large maximum frame r = (r', Inr (frame @ line_of (stream_bytes r)))
       \<and> clean r' \<and> stream_bytes r' = drop (length (line_of (stream_bytes r))) (stream_bytes r)
    else \<exists>r' actual. maximum < actual \<and> read_frame_from io too_large maximum frame r = (r', Inl (too_large actual maximum))"
  using assms
proof (induction io too_large maximum frame r rule: read_frame_from.induct)
  case (1 io too_large maximum frame r)
  obtain r1 x where fill: "fill_buf r = (r1, x)" by fastforce
  note filled = fill_buf_clean [OF "1.prems"(1) fill]
  let ?a = "rd_buffer r1" and ?rest = "concat (map (case_sum (\<lambda>_. []) id) (rd_chunks r1))"
  have bytes: "stream_bytes r = ?a @ ?rest" using filled by (simp add: stream_bytes_def)
  note unfold = read_frame_from.simps [of io too_large maximum frame r] fill
  show ?case
  proof (cases "?a = []")
    case True
    then show ?thesis using filled "1.prems"(2) by (auto simp: unfold line_of_def)
  next
    case False
    show ?thesis
    proof (cases "position newline ?a")
      case (Some i)
      then have i: "Suc i \<le> length ?a" "line_of (stream_bytes r) = take (Suc i) ?a"
        using position_Some [OF Some] line_of_found [OF Some] bytes by auto
      have step: "read_frame_from io too_large maximum frame r =
          (if maximum < length frame + Suc i then (r1, Inl (too_large (length frame + Suc i) maximum))
           else (reader_consume (Suc i) r1, Inr (frame @ take (Suc i) ?a)))"
        using False Some filled by (simp add: unfold Let_def)
      have "clean (reader_consume (Suc i) r1)" using filled by (simp add: reader_consume_def clean_def)
      moreover have "stream_bytes (reader_consume (Suc i) r1) = drop (Suc i) (?a @ ?rest)"
        using i(1) by (simp add: reader_consume_def stream_bytes_def)
      ultimately show ?thesis
        unfolding step bytes i(2) [unfolded bytes] using i(1) by (cases "maximum < length frame + Suc i") (auto simp: min_absorb2)
    next
      case None
      then have line: "line_of (stream_bytes r) = ?a @ line_of ?rest"
        using line_of_append bytes by (simp add: position_None)
      let ?r2 = "reader_consume (length ?a) r1"
      have r2: "clean ?r2" "stream_bytes ?r2 = ?rest"
        using filled by (auto simp: reader_consume_def clean_def stream_bytes_def)
      show ?thesis
      proof (cases "maximum < length frame + length ?a")
        case True
        then show ?thesis using False None filled line by (auto simp: unfold Let_def)
      next
        case fits: False
        have next_step: "read_frame_from io too_large maximum frame r = read_frame_from io too_large maximum (frame @ ?a) ?r2"
          using False None filled fits by (simp add: unfold Let_def)
        have "if length (frame @ ?a) + length (line_of (stream_bytes ?r2)) \<le> maximum
          then \<exists>r'. read_frame_from io too_large maximum (frame @ ?a) ?r2 = (r', Inr ((frame @ ?a) @ line_of (stream_bytes ?r2)))
             \<and> clean r' \<and> stream_bytes r' = drop (length (line_of (stream_bytes ?r2))) (stream_bytes ?r2)
          else \<exists>r' actual. maximum < actual
             \<and> read_frame_from io too_large maximum (frame @ ?a) ?r2 = (r', Inl (too_large actual maximum))"
          using "1.IH" [of r1 x ?a None "length ?a" "length frame + length ?a"] fill filled False None fits r2(1)
          by (simp cong: if_cong)
        then show ?thesis unfolding next_step r2(2) line using bytes by (simp add: add.assoc split: if_splits)
      qed
    qed
  qed
qed

end
