(* ===== verification/Node_Transport.thy ===== *)
theory Node_Transport
  imports Node_Executor Json_Rpc
begin

text \<open>
  The connection of the node agent to the control plane
  (\<open>mcserver-node-agent/src/transport.rs\<close>): its credentials, the connection,
  the registration, the requests it serves, and the loop that reconnects.
\<close>

datatype transport_error =
    TIo io_failure
  | TSerialization
  | CredentialIo string io_failure
  | InvalidConnectionToken
  | InvalidCertificateSigningRequest
  | TDisconnected
  | TFrameTooLarge nat nat
  | TProtocol string
  | RegistrationRejected
  | TRemote int string
  | TlsConfiguration string
  | InvalidRuntimeEnvironment
  | OpenSslTimeout string
  | OpenSslFailed string "int option" string

datatype session_outcome = SessionDisconnected | Shutdown

text \<open>
  Besides the node and the JSON library: texts of I/O errors, the moments at
  which a cancellation is noticed, and the answers of the network and of the
  TLS library, which reads the certificates and keys of a PEM file, rejects a
  root certificate, a client identity or a server name with a text, and
  performs the handshake. A connection answers with what can be read from it.
\<close>

record transport_env =
  te_node :: node_env
  te_json :: json_codec
  te_io_text :: "io_failure \<Rightarrow> string"
  te_cancelled :: "nat \<Rightarrow> bool"
  te_tcp :: "nat \<Rightarrow> io_failure + reader"
  te_read_ca :: "nat \<Rightarrow> io_failure + string"
  te_pem_certs :: "string \<Rightarrow> io_failure + string list"
  te_pem_key :: "string \<Rightarrow> io_failure + string option"
  te_add_root :: "string \<Rightarrow> string option"
  te_client_auth :: "string list \<Rightarrow> string \<Rightarrow> string option"
  te_server_name :: "string \<Rightarrow> string option"
  te_handshake :: "nat \<Rightarrow> io_failure + reader"

text \<open>
  The node, the connection, what was written to it, the environment variables
  of the storage, and the waits between connections.
\<close>

record link =
  lk_node :: node
  lk_reader :: reader
  lk_sent :: string
  lk_environment :: "(string \<times> string) list"
  lk_waits :: "duration list"

type_synonym 'a link_io = "(link, transport_error, 'a) action"

definition on_node :: "('e, 'a) nio \<Rightarrow> (link, 'e, 'a) action" where
  "on_node m l = (case m (lk_node l) of (nd, r) \<Rightarrow> (l\<lparr> lk_node := nd \<rparr>, r))"

definition on_reader :: "(reader \<Rightarrow> reader \<times> ('e + 'a)) \<Rightarrow> (link, 'e, 'a) action" where
  "on_reader m l = (case m (lk_reader l) of (rd, r) \<Rightarrow> (l\<lparr> lk_reader := rd \<rparr>, r))"

definition use_reader :: "reader \<Rightarrow> (link, 'e, unit) action" where
  "use_reader rd l = (l\<lparr> lk_reader := rd \<rparr>, Inr ())"

section \<open>Frames\<close>

definition agent_read_frame :: "nat \<Rightarrow> reader \<Rightarrow> reader \<times> (transport_error + string)" where
  "agent_read_frame maximum = read_frame_from TIo TFrameTooLarge maximum []"

definition agent_read_value :: "transport_env \<Rightarrow> nat \<Rightarrow> json link_io" where
  "agent_read_value te maximum =
     abind (on_reader (agent_read_frame maximum)) (\<lambda>frame.
     if frame = [] then afail TDisconnected
     else alift (ok_or (jc_parse (te_json te) (trim_line_ending frame)) TSerialization))"

definition agent_read_request :: "transport_env \<Rightarrow> nat \<Rightarrow> rpc_request link_io" where
  "agent_read_request te maximum =
     abind (agent_read_value te maximum) (\<lambda>value. alift (ok_or (jc_request (te_json te) value) TSerialization))"

definition agent_read_response :: "transport_env \<Rightarrow> nat \<Rightarrow> rpc_response link_io" where
  "agent_read_response te maximum =
     abind (agent_read_value te maximum) (\<lambda>value. alift (ok_or (jc_wire_response (te_json te) value) TSerialization))"

text \<open>A write that fails ends the connection; what it sent is not recorded.\<close>

definition agent_write_value :: "transport_env \<Rightarrow> json \<Rightarrow> unit link_io" where
  "agent_write_value te value =
     abind (on_node (amap_err TIo (may_fail (te_node te)))) (\<lambda>_ l.
       (l\<lparr> lk_sent := lk_sent l @ jc_text (te_json te) value @ [newline] \<rparr>, Inr ()))"

definition response_result :: "(json \<Rightarrow> string + 'a) \<Rightarrow> rpc_response \<Rightarrow> transport_error + 'a" where
  "response_result read response =
     (if rs_jsonrpc response \<noteq> JSON_RPC_VERSION
      then Inl (TProtocol ''control-plane response JSON-RPC version mismatch'')
      else
        case (rs_result response, rs_error response) of
          (Some value, None) \<Rightarrow> map_err (\<lambda>_. TSerialization) (read value)
        | (None, Some error) \<Rightarrow> Inl (TRemote (eo_code error) (eo_message error))
        | _ \<Rightarrow> Inl (TProtocol ''response must contain exactly one of result or error''))"

section \<open>Credentials\<close>

definition MAX_CONNECTION_TOKEN_CHARS :: nat where
  "MAX_CONNECTION_TOKEN_CHARS = 256"

definition connection_token_path :: path where
  "connection_token_path = [''connection-token'']"

definition client_private_key_path :: path where
  "client_private_key_path = [''client-private-key.pem'']"

definition client_csr_path :: path where
  "client_csr_path = [''client-request.pem'']"

definition client_certificate_path :: path where
  "client_certificate_path = [''client-certificate-chain.pem'']"

definition validate_connection_token :: "string \<Rightarrow> transport_error + unit" where
  "validate_connection_token token =
     ensure (\<not> (is_blank token \<or> contains_nul token \<or> MAX_CONNECTION_TOKEN_CHARS < char_count token))
       InvalidConnectionToken"

definition credential_io :: "node_config \<Rightarrow> path \<Rightarrow> (io_failure, 'a) nio \<Rightarrow> (transport_error, 'a) nio" where
  "credential_io c p m = amap_err (CredentialIo (path_text c p)) m"

definition ensure_credential_directory :: "node_env \<Rightarrow> node_config \<Rightarrow> (transport_error, unit) nio" where
  "ensure_credential_directory e c =
     abind (credential_io c [] (may_fail e)) (\<lambda>_. credential_io c [] (may_fail e))"

text \<open>Permissions, synchronisation and the move that makes a file visible under its name.\<close>

definition finalize_private_file :: "node_env \<Rightarrow> node_config \<Rightarrow> path \<Rightarrow> path \<Rightarrow> (transport_error, unit) nio" where
  "finalize_private_file e c temporary destination =
     abind (credential_io c temporary (metadata e temporary)) (\<lambda>_.
     abind (credential_io c temporary (metadata e temporary)) (\<lambda>_.
     abind (credential_io c temporary (may_fail e)) (\<lambda>_.
     abind (credential_io c destination (rename e temporary destination)) (\<lambda>_.
     abind (credential_io c [] (may_fail e)) (\<lambda>_.
     credential_io c [] (may_fail e))))))"

definition persist_private_file :: "node_env \<Rightarrow> node_config \<Rightarrow> path \<Rightarrow> path \<Rightarrow> string \<Rightarrow> (transport_error, unit) nio" where
  "persist_private_file e c destination temporary value =
     abind (ensure_credential_directory e c) (\<lambda>_.
     abind (credential_io c temporary (open_for_writing e temporary)) (\<lambda>_.
     abind (credential_io c temporary (write_all e temporary value)) (\<lambda>_.
     finalize_private_file e c temporary destination)))"

text \<open>\<open>read_to_string\<close> fails on a file that is not UTF-8.\<close>

definition read_to_string :: "node_env \<Rightarrow> path \<Rightarrow> (io_failure, string) nio" where
  "read_to_string e p =
     abind (read_file e p) (\<lambda>content. if utf8_valid (map code content) then areturn content else afail IoOther)"

definition load_persisted_connection_token :: "node_env \<Rightarrow> node_config \<Rightarrow> (transport_error, string) nio" where
  "load_persisted_connection_token e c =
     abind (credential_io c connection_token_path (read_to_string e connection_token_path)) (\<lambda>content.
     let token = trim_end_chars [CHR 0x0D, newline] content in
     abind (alift (validate_connection_token token)) (\<lambda>_.
     areturn token))"

definition persist_connection_token :: "node_env \<Rightarrow> node_config \<Rightarrow> string \<Rightarrow> (transport_error, unit) nio" where
  "persist_connection_token e c token =
     abind (alift (validate_connection_token token)) (\<lambda>_.
     persist_private_file e c connection_token_path [''connection-token.tmp''] token)"

definition persist_client_certificate :: "node_env \<Rightarrow> node_config \<Rightarrow> string \<Rightarrow> (transport_error, unit) nio" where
  "persist_client_certificate e c certificate =
     (if contains_nul certificate \<or> \<not> str_contains ''-----BEGIN CERTIFICATE-----'' certificate
         \<or> 64 * 1024 < length certificate
      then afail (TlsConfiguration ''issued client certificate chain is invalid'')
      else persist_private_file e c client_certificate_path [''client-certificate-chain.tmp''] certificate)"

definition path_is_file :: "node_env \<Rightarrow> node_config \<Rightarrow> path \<Rightarrow> (transport_error, bool) nio" where
  "path_is_file e c p =
     abind (attempt (metadata e p)) (\<lambda>r.
     case r of
       Inr (File _) \<Rightarrow> areturn True
     | Inr (Directory _) \<Rightarrow> areturn False
     | Inl IoNotFound \<Rightarrow> areturn False
     | Inl f \<Rightarrow> afail (CredentialIo (path_text c p) f))"

definition stable_client_credentials_exist :: "node_env \<Rightarrow> node_config \<Rightarrow> (transport_error, bool) nio" where
  "stable_client_credentials_exist e c =
     abind (path_is_file e c connection_token_path) (\<lambda>token. if \<not> token then areturn False else
     abind (path_is_file e c client_private_key_path) (\<lambda>key. if \<not> key then areturn False else
     path_is_file e c client_certificate_path))"

definition run_openssl :: "node_env \<Rightarrow> node_config \<Rightarrow> string list \<Rightarrow> string \<Rightarrow> (transport_error, command_output) nio" where
  "run_openssl e c arguments description =
     abind (run_program e \<lparr> cmd_program = nc_openssl_binary c, cmd_arguments = arguments, cmd_environment = [],
         cmd_directory = None \<rparr>) (\<lambda>outcome.
     case outcome of
       CommandTimedOut \<Rightarrow> afail (OpenSslTimeout description)
     | CommandNotRun f \<Rightarrow> afail (TIo f)
     | CommandDone output \<Rightarrow>
         if co_success output then areturn output
         else afail (OpenSslFailed description (co_code output) (node_diagnostic (co_stderr output))))"

definition create_private_key :: "node_env \<Rightarrow> node_config \<Rightarrow> (transport_error, unit) nio" where
  "create_private_key e c =
     abind (run_openssl e c [''genpkey'', ''-algorithm'', ''EC'', ''-pkeyopt'', ''ec_paramgen_curve:P-256'', ''-out'',
         path_text c [''client-private-key.tmp'']] ''generate agent client private key'') (\<lambda>_.
     finalize_private_file e c [''client-private-key.tmp''] client_private_key_path)"

definition create_csr :: "node_env \<Rightarrow> node_config \<Rightarrow> (transport_error, unit) nio" where
  "create_csr e c =
     abind (run_openssl e c [''req'', ''-new'', ''-key'', path_text c client_private_key_path, ''-subj'',
         ''/CN='' @ ne_uuid_text e (nc_compute_instance_id c), ''-out'', path_text c [''client-request.tmp'']]
         ''generate agent certificate signing request'') (\<lambda>_.
     finalize_private_file e c [''client-request.tmp''] client_csr_path)"

definition load_or_create_csr :: "node_env \<Rightarrow> node_config \<Rightarrow> (transport_error, string) nio" where
  "load_or_create_csr e c =
     abind (ensure_credential_directory e c) (\<lambda>_.
     abind (path_is_file e c client_private_key_path) (\<lambda>key.
     abind (if key then areturn () else create_private_key e c) (\<lambda>_.
     abind (path_is_file e c client_csr_path) (\<lambda>request.
     abind (if request then areturn () else create_csr e c) (\<lambda>_.
     abind (amap_err TIo (read_to_string e client_csr_path)) (\<lambda>csr.
     if 32 * 1024 < length csr \<or> \<not> str_contains ''-----BEGIN CERTIFICATE REQUEST-----'' csr
        \<or> \<not> str_contains ''-----END CERTIFICATE REQUEST-----'' csr
     then afail InvalidCertificateSigningRequest
     else areturn csr))))))"

section \<open>Connections\<close>

definition REQUIRED_REMOTE_RUNTIME_ENVIRONMENT_KEYS :: "string list" where
  "REQUIRED_REMOTE_RUNTIME_ENVIRONMENT_KEYS =
     [''AWS_ACCESS_KEY_ID'', ''AWS_SECRET_ACCESS_KEY'', ''AWS_SESSION_TOKEN'', ''AWS_DEFAULT_REGION'']"

text \<open>The environment is a map in the code: its keys are distinct.\<close>

definition validate_runtime_environment :: "(string \<times> string) list \<Rightarrow> bool \<Rightarrow> transport_error + unit" where
  "validate_runtime_environment values required =
     rbind (ensure (length values \<le> 64) InvalidRuntimeEnvironment) (\<lambda>_.
     rbind (ensure (list_all (\<lambda>(key, value). key \<in> {''AWS_ACCESS_KEY_ID'', ''AWS_SECRET_ACCESS_KEY'', ''AWS_SESSION_TOKEN'',
         ''AWS_DEFAULT_REGION''} \<and> \<not> contains_nul value \<and> char_count value \<le> 16 * 1024) values)
       InvalidRuntimeEnvironment) (\<lambda>_.
     ensure (\<not> (required \<and> list_ex (\<lambda>key. case map_of values key of None \<Rightarrow> True | Some value \<Rightarrow> is_blank value)
         REQUIRED_REMOTE_RUNTIME_ENVIRONMENT_KEYS)) InvalidRuntimeEnvironment))"

definition tls_error :: "string option \<Rightarrow> transport_error + unit" where
  "tls_error x = (case x of None \<Rightarrow> Inr () | Some message \<Rightarrow> Inl (TlsConfiguration message))"

definition client_identity :: "transport_env \<Rightarrow> unit link_io" where
  "client_identity te =
     abind (on_node (amap_err TIo (read_file (te_node te) client_certificate_path))) (\<lambda>certificate_pem.
     abind (alift (map_err TIo (te_pem_certs te certificate_pem))) (\<lambda>certificates.
     if certificates = [] then afail (TlsConfiguration ''client certificate file contains no certificates'')
     else
       abind (on_node (amap_err TIo (read_file (te_node te) client_private_key_path))) (\<lambda>key_pem.
       abind (alift (map_err TIo (te_pem_key te key_pem))) (\<lambda>key.
       abind (alift (ok_or key (TlsConfiguration ''client private key file contains no supported private key''))) (\<lambda>key.
       alift (tls_error (te_client_auth te certificates key)))))))"

definition connect :: "transport_env \<Rightarrow> node_config \<Rightarrow> bool \<Rightarrow> unit link_io" where
  "connect te c use_client_identity =
     abind (on_node (nask (te_tcp te))) (\<lambda>tcp.
     abind (alift (map_err TIo tcp)) (\<lambda>stream.
     abind (on_node (amap_err TIo (may_fail (te_node te)))) (\<lambda>_.
     case nc_tls c of
       None \<Rightarrow> use_reader stream
     | Some (_, server_name) \<Rightarrow>
         abind (on_node (nask (te_read_ca te))) (\<lambda>ca.
         abind (alift (map_err TIo ca)) (\<lambda>ca_pem.
         abind (alift (map_err TIo (te_pem_certs te ca_pem))) (\<lambda>certificates.
         if certificates = [] then afail (TlsConfiguration ''CA certificate file contains no certificates'')
         else
           abind (alift (try_each (\<lambda>certificate. tls_error (te_add_root te certificate)) certificates)) (\<lambda>_.
           abind (if use_client_identity then client_identity te else areturn ()) (\<lambda>_.
           abind (alift (tls_error (te_server_name te server_name))) (\<lambda>_.
           abind (on_node (nask (te_handshake te))) (\<lambda>handshake.
           abind (alift (map_err TIo handshake)) use_reader))))))))))"

text \<open>\<open>select!\<close> between the cancellation and an operation: the environment says which it takes.\<close>

definition unless_cancelled :: "transport_env \<Rightarrow> 'a link_io \<Rightarrow> 'a link_io \<Rightarrow> 'a link_io" where
  "unless_cancelled te cancelled m =
     abind (on_node (nask (te_cancelled te))) (\<lambda>stop. if stop then cancelled else m)"

definition first_request_id :: json where
  "first_request_id = JNumber 1"

definition enroll :: "transport_env \<Rightarrow> node_config \<Rightarrow> string \<Rightarrow> enroll_result link_io" where
  "enroll te c enrollment_token =
     abind (alift (validate_connection_token enrollment_token)) (\<lambda>_.
     abind (on_node (load_or_create_csr (te_node te) c)) (\<lambda>csr.
     abind (unless_cancelled te (afail TDisconnected) (connect te c False)) (\<lambda>_.
     abind (agent_write_value te (request_json ''agent.enroll''
         (jc_enroll_params (te_json te) \<lparr> ep_protocol_version = PROTOCOL_VERSION,
            ep_compute_instance_id = nc_compute_instance_id c, ep_enrollment_token = enrollment_token,
            ep_certificate_signing_request_pem = csr \<rparr>) first_request_id)) (\<lambda>_.
     abind (agent_read_response te (nc_max_frame_bytes c)) (\<lambda>response.
     if rs_id response \<noteq> first_request_id then afail (TProtocol ''enrollment response id mismatch'')
     else alift (response_result (jc_read_enroll_result (te_json te)) response))))))"

section \<open>Requests\<close>

datatype dispatch_error =
    MethodNotFound
  | InvalidParams string
  | Execution executor_error
  | DSerialization string

definition status_text :: "int option \<Rightarrow> string" where
  "status_text exit_status =
     (case exit_status of
        None \<Rightarrow> ''None''
      | Some n \<Rightarrow> ''Some('' @ (if n < 0 then ''-'' else []) @ nat_to_string (nat \<bar>n\<bar>) @ '')'')"

fun executor_error_text :: "(io_failure \<Rightarrow> string) \<Rightarrow> executor_error \<Rightarrow> string" where
  "executor_error_text io (ExIo f) = ''node operation I/O failed: '' @ io f"
| "executor_error_text io ExSerialization = ''node state serialization failed''"
| "executor_error_text io (UnsupportedStateSchemaVersion v) =
     ''node state schema version '' @ nat_to_string (unat v) @ '' is not supported''"
| "executor_error_text io ExUtf8 = ''node command output was not UTF-8''"
| "executor_error_text io (ExCommandTimeout d) = ''node command '' @ d @ '' timed out''"
| "executor_error_text io (ExCommandFailed d exit_status stderr) =
     ''node command '' @ d @ '' failed with status '' @ status_text exit_status @ '': '' @ stderr"
| "executor_error_text io StaleInstance = ''node-agent command refers to another or stale server instance''"
| "executor_error_text io UnknownInstance = ''node-agent has not been assigned a server instance''"
| "executor_error_text io DataNotPrepared = ''server data has not been prepared''"
| "executor_error_text io ProcessStillRunning = ''Minecraft process is still running''"
| "executor_error_text io ImmutableInstanceConfigurationChanged = ''immutable server instance configuration changed''"
| "executor_error_text io EulaNotAccepted = ''Minecraft EULA acceptance was not provided''"
| "executor_error_text io (NonUtf8Path p) = ''path is not valid UTF-8: '' @ from_utf8_lossy p"
| "executor_error_text io (RestoreMissingDataDirectory p) =
     ''restic restore did not produce the expected data directory: '' @ from_utf8_lossy p"
| "executor_error_text io MissingSnapshotId = ''restic backup output did not contain a snapshot id''"
| "executor_error_text io (UnexpectedPodmanOutput s) = ''unexpected Podman output: '' @ s"

fun into_error_object :: "(io_failure \<Rightarrow> string) \<Rightarrow> dispatch_error \<Rightarrow> error_object" where
  "into_error_object io MethodNotFound = new_error METHOD_NOT_FOUND ''Method not found''"
| "into_error_object io (InvalidParams text) = with_data (new_error INVALID_PARAMS ''Invalid params'') (detail text)"
| "into_error_object io (Execution x) =
     with_data (new_error INTERNAL_ERROR ''Execution failed'') (detail (executor_error_text io x))"
| "into_error_object io (DSerialization text) =
     with_data (new_error INTERNAL_ERROR ''Serialization failed'') (detail text)"

fun require_no_params :: "json \<Rightarrow> dispatch_error + unit" where
  "require_no_params JNull = Inr ()"
| "require_no_params (JArray []) = Inr ()"
| "require_no_params (JObject []) = Inr ()"
| "require_no_params _ = Inl (InvalidParams ''this method does not accept params'')"

definition current_executor :: "node_config \<Rightarrow> (link, 'e, agent_executor) action" where
  "current_executor c l = (l, Inr \<lparr> ex_config = c, ex_runtime_environment = lk_environment l \<rparr>)"

definition perform :: "transport_env \<Rightarrow> node_config \<Rightarrow> agent_request \<Rightarrow> (link, dispatch_error, json) action" where
  "perform te c request =
     abind (current_executor c) (\<lambda>x.
     abind (on_node (amap_err Execution (execute_request (te_node te) x request))) (\<lambda>reply.
     alift (map_err DSerialization (jc_reply (te_json te) reply))))"

definition with_params :: "(string + 'p) \<Rightarrow> ('p \<Rightarrow> (link, dispatch_error, json) action) \<Rightarrow> (link, dispatch_error, json) action" where
  "with_params parsed m = abind (alift (map_err InvalidParams parsed)) m"

definition dispatch_method ::
    "transport_env \<Rightarrow> node_config \<Rightarrow> string \<Rightarrow> json \<Rightarrow> (link, dispatch_error, json) action" where
  "dispatch_method te c name params = (let j = te_json te in
     if name = ''agent.inspect'' then with_params (jc_inspect_params j params) (\<lambda>i. perform te c (AgentInspect i))
     else if name = ''data.restore'' then with_params (jc_restore_params j params) (\<lambda>p. perform te c (DataRestore p))
     else if name = ''server.start'' then with_params (jc_start_params j params) (\<lambda>p. perform te c (ServerStart p))
     else if name = ''server.stop'' then with_params (jc_stop_params j params) (\<lambda>p. perform te c (ServerStop p))
     else if name = ''data.snapshot'' then with_params (jc_snapshot_params j params) (\<lambda>p. perform te c (DataSnapshot p))
     else if name = ''instance.cleanup'' then with_params (jc_cleanup_params j params) (\<lambda>i. perform te c (InstanceCleanup i))
     else if name = ''node.shutdown'' then abind (alift (require_no_params params)) (\<lambda>_. perform te c NodeShutdown)
     else afail MethodNotFound)"

definition params_structured :: "json \<Rightarrow> bool" where
  "params_structured params \<longleftrightarrow> (case params of JNull \<Rightarrow> True | JArray _ \<Rightarrow> True | JObject _ \<Rightarrow> True | _ \<Rightarrow> False)"

definition dispatch ::
    "transport_env \<Rightarrow> node_config \<Rightarrow> rpc_request \<Rightarrow> json \<Rightarrow> (link, 'e, rpc_response \<times> bool) action" where
  "dispatch te c request ident =
     (if rq_jsonrpc request \<noteq> JSON_RPC_VERSION \<or> rq_method request = [] \<or> \<not> request_id_valid (rq_id request)
         \<or> \<not> params_structured (rq_params request)
      then areturn (response_error ident (new_error INVALID_REQUEST ''Invalid request''), False)
      else
        abind (attempt (dispatch_method te c (rq_method request) (rq_params request))) (\<lambda>r.
        case r of
          Inr value \<Rightarrow> areturn (response_success ident value, rq_method request = ''node.shutdown'')
        | Inl x \<Rightarrow> areturn (response_error ident (into_error_object (te_io_text te) x), False)))"

section \<open>Sessions\<close>

text \<open>Serving requests only reads from the connection where a frame is read.\<close>

definition same_reader :: "(link, 'e, 'a) action \<Rightarrow> bool" where
  "same_reader m \<longleftrightarrow> (\<forall>l. lk_reader (fst (m l)) = lk_reader l)"

named_theorems same_reader_intros \<open>operations that do not read from the connection\<close>

lemma same_reader_simple [same_reader_intros]:
  "same_reader (areturn a)" "same_reader (afail x)" "same_reader (alift r)" "same_reader (on_node m)"
  "same_reader (current_executor c)"
  by (simp_all add: same_reader_def action_defs on_node_def current_executor_def split: prod.split sum.split)

lemma same_reader_abind [same_reader_intros]:
  "same_reader m \<Longrightarrow> (\<And>a. same_reader (k a)) \<Longrightarrow> same_reader (abind m k)"
  unfolding same_reader_def abind_def by (auto split: prod.splits sum.splits) (metis fst_conv)+

lemma same_reader_attempt [same_reader_intros]: "same_reader m \<Longrightarrow> same_reader (attempt m)"
  by (simp add: same_reader_def attempt_def case_prod_unfold)

lemma same_reader_case_sum [same_reader_intros]:
  "(\<And>a. same_reader (f a)) \<Longrightarrow> (\<And>b. same_reader (g b)) \<Longrightarrow> same_reader (case_sum f g x)"
  by (cases x) simp_all

lemma same_reader_if [same_reader_intros]: "same_reader m \<Longrightarrow> same_reader n \<Longrightarrow> same_reader (if b then m else n)"
  by simp

lemma same_reader_dispatch [same_reader_intros]: "same_reader (dispatch te c request ident)"
  unfolding dispatch_def dispatch_method_def with_params_def perform_def Let_def by (intro same_reader_intros)

lemma same_reader_write [same_reader_intros]: "same_reader (agent_write_value te value)"
proof -
  have "same_reader (\<lambda>l. (l\<lparr> lk_sent := f l \<rparr>, Inr ()))" for f :: "link \<Rightarrow> string" by (simp add: same_reader_def)
  then show ?thesis unfolding agent_write_value_def by (intro same_reader_intros)
qed

lemma fill_buf_shrinks: "fill_buf r = (r', x) \<Longrightarrow> reader_size r' \<le> reader_size r"
  by (auto simp: fill_buf.simps reader_size_def split: if_splits list.splits sum.splits)

lemma read_frame_from_shrinks:
  assumes "read_frame_from io too_large maximum frame r = (r', Inr line)"
  shows "reader_size r' \<le> reader_size r \<and> (line \<noteq> frame \<longrightarrow> reader_size r' < reader_size r)"
  using assms
proof (induction io too_large maximum frame r arbitrary: r' line rule: read_frame_from.induct)
  case (1 io too_large maximum frame r)
  obtain r1 x where fill: "fill_buf r = (r1, x)" by fastforce
  note unfold = read_frame_from.simps [of io too_large maximum frame r] fill
  show ?case
  proof (cases "\<exists>available. x = Inr available \<and> available \<noteq> []")
    case False
    then show ?thesis using "1.prems" fill_buf_shrinks [OF fill] by (auto simp: unfold split: sum.splits)
  next
    case True
    then obtain available where x: "x = Inr available" "available \<noteq> []" by blast
    let ?n = "case position newline available of None \<Rightarrow> length available | Some index \<Rightarrow> index + 1"
    have "0 < ?n" using x(2) by (simp split: option.split)
    then have less: "reader_size (reader_consume ?n r1) < reader_size r"
      using fill_buf_size [of r r1 available] fill x reader_consume_size [of ?n r1] by fastforce
    show ?thesis
    proof (cases "position newline available")
      case None
      then have "read_frame_from io too_large maximum (frame @ available) (reader_consume (length available) r1) = (r', Inr line)"
        using "1.prems" x by (auto simp: unfold Let_def split: if_splits)
      then have "reader_size r' \<le> reader_size (reader_consume (length available) r1)"
        using "1.IH" [of r1 x available None "length available" "length frame + length available" r' line] fill x None "1.prems"
        by (auto simp: unfold Let_def split: if_splits)
      then show ?thesis using less None by auto
    next
      case (Some i)
      then show ?thesis using "1.prems" x less by (auto simp: unfold Let_def split: if_splits)
    qed
  qed
qed

lemma agent_read_request_shrinks:
  assumes "agent_read_request te maximum l = (l', Inr request)"
  shows "reader_size (lk_reader l') < reader_size (lk_reader l)"
  using assms read_frame_from_shrinks [of TIo TFrameTooLarge maximum "[]" "lk_reader l"]
  by (fastforce simp: agent_read_request_def agent_read_value_def agent_read_frame_def action_defs on_reader_def
      split: prod.splits sum.splits if_splits)

lemma same_readerD: "same_reader m \<Longrightarrow> m l = (l', r) \<Longrightarrow> lk_reader l' = lk_reader l"
  by (metis same_reader_def fst_conv)

function serve_requests :: "transport_env \<Rightarrow> node_config \<Rightarrow> session_outcome link_io" where
  "serve_requests te c l =
     (case on_node (nask (te_cancelled te)) l :: link \<times> (transport_error + bool) of
        (l, Inr True) \<Rightarrow> (l, Inr SessionDisconnected)
      | (l, _) \<Rightarrow>
          (case agent_read_request te (nc_max_frame_bytes c) l of
             (l, Inl TDisconnected) \<Rightarrow> (l, Inr SessionDisconnected)
           | (l, Inl x) \<Rightarrow> (l, Inl x)
           | (l, Inr request) \<Rightarrow>
               (case response_id (rq_id request) of
                  None \<Rightarrow> serve_requests te c l
                | Some ident \<Rightarrow>
                    (case dispatch te c request ident l :: link \<times> (transport_error + rpc_response \<times> bool) of
                       (l, Inl x) \<Rightarrow> (l, Inl x)
                     | (l, Inr (response, shutdown)) \<Rightarrow>
                         (case agent_write_value te (jc_response (te_json te) response) l of
                            (l, Inl x) \<Rightarrow> (l, Inl x)
                          | (l, Inr _) \<Rightarrow> if shutdown then (l, Inr Shutdown) else serve_requests te c l)))))"
  by pat_completeness auto
termination
  by (relation "measure (\<lambda>(_, _, l). reader_size (lk_reader l))")
     (auto dest!: agent_read_request_shrinks [OF sym] same_readerD [OF same_reader_simple(4) sym]
        same_readerD [OF same_reader_dispatch sym] same_readerD [OF same_reader_write sym])

declare serve_requests.simps [simp del]

definition use_environment :: "(string \<times> string) list \<Rightarrow> (link, 'e, unit) action" where
  "use_environment values l = (l\<lparr> lk_environment := values \<rparr>, Inr ())"

definition register_agent :: "transport_env \<Rightarrow> node_config \<Rightarrow> string \<Rightarrow> unit link_io" where
  "register_agent te c token =
     abind (agent_write_value te (request_json ''agent.register''
         (jc_register_params (te_json te) \<lparr> gp_protocol_version = PROTOCOL_VERSION,
            gp_compute_instance_id = nc_compute_instance_id c, gp_connection_token = token \<rparr>) first_request_id)) (\<lambda>_.
     abind (agent_read_response te (nc_max_frame_bytes c)) (\<lambda>registration.
     if rs_id registration \<noteq> first_request_id then afail (TProtocol ''registration response id mismatch'')
     else
       abind (alift (response_result (jc_read_register_result (te_json te)) registration)) (\<lambda>result.
       if \<not> gr_accepted result then afail RegistrationRejected
       else
         abind (alift (validate_runtime_environment (gr_runtime_environment result) (nc_tls c \<noteq> None))) (\<lambda>_.
         use_environment (gr_runtime_environment result)))))"

definition agent_session :: "transport_env \<Rightarrow> node_config \<Rightarrow> string \<Rightarrow> session_outcome link_io" where
  "agent_session te c token =
     abind (on_node (nask (te_cancelled te))) (\<lambda>stop.
     if stop then areturn SessionDisconnected
     else
       abind (connect te c (nc_tls c \<noteq> None)) (\<lambda>_.
       abind (register_agent te c token) (\<lambda>_.
       serve_requests te c)))"

section \<open>The loop\<close>

definition next_backoff :: "node_config \<Rightarrow> duration \<Rightarrow> duration" where
  "next_backoff c backoff =
     min (case duration_checked_mul backoff 2 of None \<Rightarrow> nc_reconnect_max c | Some d \<Rightarrow> d) (nc_reconnect_max c)"

text \<open>
  The first \<open>n\<close> rounds of the loop: a round ends it, or is followed by a wait.
  The second component says whether the loop returned.
\<close>

fun session_rounds :: "nat \<Rightarrow> transport_env \<Rightarrow> node_config \<Rightarrow> string \<Rightarrow> duration \<Rightarrow> link \<Rightarrow> link \<times> bool" where
  "session_rounds 0 te c token backoff l = (l, False)"
| "session_rounds (Suc n) te c token backoff l =
     (case on_node (nask (te_cancelled te)) l :: link \<times> (transport_error + bool) of
        (l, Inr True) \<Rightarrow> (l, True)
      | (l, _) \<Rightarrow>
          (case agent_session te c token l of
             (l, Inr Shutdown) \<Rightarrow> (l, True)
           | (l, outcome) \<Rightarrow>
               let backoff = (if outcome = Inr SessionDisconnected then nc_reconnect_min c else backoff) in
               (case on_node (nask (te_cancelled te)) l :: link \<times> (transport_error + bool) of
                  (l, Inr True) \<Rightarrow> (l, True)
                | (l, _) \<Rightarrow>
                    session_rounds n te c token (next_backoff c backoff) (l\<lparr> lk_waits := lk_waits l @ [backoff] \<rparr>))))"

definition connection_credential :: "transport_env \<Rightarrow> node_config \<Rightarrow> string link_io" where
  "connection_credential te c = (let e = te_node te in
     abind (if nc_tls c \<noteq> None then on_node (stable_client_credentials_exist e c) else areturn False) (\<lambda>stable.
     if stable then on_node (load_persisted_connection_token e c)
     else
       abind (alift (validate_connection_token (nc_connection_token c))) (\<lambda>_.
       if nc_tls c = None then areturn (nc_connection_token c)
       else
         abind (enroll te c (nc_connection_token c)) (\<lambda>result.
         abind (alift (validate_connection_token (er_connection_token result))) (\<lambda>_.
         abind (on_node (persist_client_certificate e c (er_client_certificate_chain_pem result))) (\<lambda>_.
         abind (on_node (persist_connection_token e c (er_connection_token result))) (\<lambda>_.
         areturn (er_connection_token result))))))))"

definition agent_run :: "nat \<Rightarrow> transport_env \<Rightarrow> node_config \<Rightarrow> link \<Rightarrow> link \<times> (transport_error + bool)" where
  "agent_run n te c =
     abind (connection_credential te c) (\<lambda>token l.
       case session_rounds n te c token (nc_reconnect_min c) l of (l, returned) \<Rightarrow> (l, Inr returned))"

end
