(* ===== verification/Spec2Isabelle.thy ===== *)
theory Spec2Isabelle
  imports Server_Service Reconcile_Lifecycle Retry_Properties Akamai_Properties Executor_Properties Transport_Properties
begin

text \<open>
  A verification of a control plane for Minecraft servers and of the agents
  on its nodes. The sources are under \<open>src/crates\<close>: the control plane
  (\<open>mcserver-control-plane\<close>), the node agent (\<open>mcserver-node-agent\<close>), the
  protocol they share (\<open>mcserver-protocol\<close>), and the schema of the database
  (\<open>src/migrations\<close>).

  \<^bold>\<open>The program.\<close> Clients ask for servers to be created, changed, started,
  stopped and archived; the application services write the wish to the
  database. The reconciliation worker compares wish and state of each server
  and makes one step at a time: it creates an instance with a fresh fencing
  token, has a machine allocated for it (a local process or a rented
  machine), and sends the agent there the commands to restore the data, start
  the server, stop it and take a snapshot. It publishes the snapshot and
  only then discards the machine with its data. The agent keeps the state of
  the one instance it serves in a file, and uses Podman and restic.

  \<^bold>\<open>The theories.\<close>
  \<^item> \<open>Prelude\<close>: machine types, results with the propagation of \<open>?\<close>, actions
    that pass a state and may fail, what it means that an action keeps an
    invariant, and triples with a normal and an exceptional postcondition.
    \<open>Text\<close> and \<open>Net\<close> are what the program uses of the standard library:
    decimals, trimming, UTF-8, durations, paths, addresses.
  \<^item> \<open>Server_Domain\<close>, \<open>Instance_Domain\<close>, \<open>Compute_Domain\<close>: \<open>domain/*.rs\<close>, the
    aggregates with their validation and rehydration.
  \<^item> \<open>Database\<close>: the tables as lists of rows with the constraints of the
    schema, and transactions. \<open>Server_Repository\<close>, \<open>Instance_Repository\<close>,
    \<open>Compute_Repository\<close>, \<open>Snapshot_Repository\<close>: \<open>infrastructure/*_repository.rs\<close>,
    every statement with its \<open>WHERE\<close> and \<open>SET\<close>. \<open>Ledger\<close> and
    \<open>Database_Invariant\<close>: the history the tables record, and that every write
    keeps it; \<open>Repository_Properties\<close> draws the consequences.
  \<^item> \<open>Scheduler\<close>, \<open>Server_Service\<close>: the queue of the worker and
    \<open>application/*.rs\<close>, whose bounded retries run against any interleaving of
    other writes.
  \<^item> \<open>Config\<close>: \<open>config.rs\<close>, every setting, its default and its checks.
  \<^item> \<open>World\<close>: the control plane with an environment that answers its questions
    about the outside; every effect is recorded in a trace. \<open>Compute_Support\<close>,
    \<open>Local_Compute\<close>, \<open>Akamai_Bootstrap\<close>, \<open>Provider_Api\<close>, \<open>Akamai_Compute\<close>,
    \<open>Compute_Manager\<close>: \<open>infrastructure/*compute*.rs\<close> and the bootstrap script.
  \<^item> \<open>Reconciler\<close>, \<open>Reconcile_Worker\<close>: \<open>reconciliation.rs\<close>, one
    reconciliation of a server and the loop of the worker.
    \<open>Reconcile_Safety\<close> carries the safety invariant through the operations;
    \<open>Reconcile_Properties\<close>, \<open>Reconcile_Lifecycle\<close> and \<open>Retry_Properties\<close> state
    what a whole run guarantees.
  \<^item> \<open>Agent_Protocol\<close>, \<open>Json_Rpc\<close>: \<open>node_agent.rs\<close>, \<open>json_rpc.rs\<close> and the frames
    on a connection.
  \<^item> \<open>Node_Files\<close>: the directory of an agent as a tree, with file operations
    that may fail at any moment. \<open>Node_Executor\<close>: \<open>executor.rs\<close>.
    \<open>Node_Programs\<close>: what the agent relies on of the programs it runs, and
    what each operation may change. \<open>Node_Restore\<close>, \<open>Executor_Properties\<close>:
    that data are never lost and that the state stays true.
    \<open>Node_Transport\<close>, \<open>Transport_Properties\<close>: \<open>transport.rs\<close>, credentials,
    sessions and the reconnecting loop.
  \<^item> \<open>Example_Run\<close>, \<open>Example_Worker\<close>, \<open>Example_Node\<close>: concrete runs, which show
    that the hypotheses of the theorems are met.

  \<^bold>\<open>How state and effects are represented.\<close> A Rust \<open>struct\<close> is a record and an
  \<open>enum\<close> a datatype; \<open>Result\<close> is a sum whose left side is the error; an
  operation that reads or writes the database, the node or the outside is an
  action on a record of that state. The outside is an environment: each
  question advances a counter, and the answer is any function of it, so that
  every failure, delay and answer at every moment is covered. Other tasks
  appear as writes of theirs before each repository call. Unsigned integers
  have their width; sums that the code checks are checked.

  \<^bold>\<open>Bounds.\<close> Retries of the services and steps of a reconciliation are bounded
  in the code, and the bounds are the code's. The loops of the worker and of
  the agent may run forever: they are functions of the list of events, or of
  the number of rounds, and the theorems hold for each. Reading frames and
  serving requests recurse on what is left to read from the connection.

  \<^bold>\<open>What the theorems show.\<close> Data are not lost: a machine in which a server ran
  is discarded only after its snapshot was published under its fencing
  token; a restore starts from the newest published snapshot; an agent holds
  its old data or the restored ones, whatever fails. There is one writer: a
  live instance excludes every other, publication is fenced, and an agent
  refuses stale requests. Configuration writes are not lost; every row that
  was written can be read; the worker returns from every sequence of events,
  with delays within their bounds; machines are created within the configured
  limits, and only this installation's machines are deleted.

  \<^bold>\<open>Not modelled.\<close> The TLS, HTTP, SQL and JSON libraries are arguments or
  answers of the environment. The servers for agents and clients
  (\<open>agent/server.rs\<close>, \<open>interface\<close>), the certificate authority, the issue of
  storage credentials and the command line clients are not modelled; the
  worker sees agents through the answers of the environment. Of \<open>main.rs\<close>
  and \<open>shutdown.rs\<close>, which start and stop tasks, and of log output there is
  no model. Migration 0002 rewrites existing rows once and is left out.
  Symbolic links and permission bits of files are not represented.
\<close>

end
